(* ===== verification/Prelude.thy ===== *)
theory Prelude
  imports Main "HOL-Library.Word" "HOL-Library.List_Lexorder" "HOL-Library.Char_ord"
begin

text \<open>
  What every component shares: the types of the model, the collections of facts that the
  component proofs add to their simplifier calls, 64-bit wrap-around, generic lemmas on lists
  updated by index, and the interface of a state machine driven by a list of events.
\<close>

section \<open>Types\<close>

text \<open>
  A Go \<open>string\<close> and a \<open>[]byte\<close> are lists of bytes. A \<open>time.Duration\<close> is an int64 number
  of nanoseconds, kept here as an int with the wrap-around written out (\<open>wrap64\<close>). A
  \<open>time.Time\<close> is the number of nanoseconds since Go's zero time (year 1), which has a wider
  range than int64 in Go, so it is an unbounded int here and the zero time is 0.
\<close>

type_synonym bytes = string
type_synonym duration = int
type_synonym time = int
type_synonym uint64 = "64 word"

section \<open>Collections\<close>

named_theorems go_defs \<open>definitions of the Go library functions, for evaluation\<close>
named_theorems breaker_defs \<open>the operations of the two circuit breakers\<close>
named_theorems pool_defs \<open>the operations of the key pool\<close>
named_theorems pool_wf_intros \<open>preservation of the key pool's well-formedness\<close>
named_theorems range_simps \<open>facts about values inside the int64 range\<close>

section \<open>64-bit integers\<close>

definition wrap64 :: "int \<Rightarrow> int" where
  "wrap64 x = (x + 2 ^ 63) mod 2 ^ 64 - 2 ^ 63"

definition in_int64 :: "int \<Rightarrow> bool" where
  "in_int64 x \<longleftrightarrow> - (2 ^ 63) \<le> x \<and> x < 2 ^ 63"

lemma wrap64_id [range_simps]: "in_int64 x \<Longrightarrow> wrap64 x = x"
  by (simp add: wrap64_def in_int64_def)

lemma wrap64_in_int64 [simp, range_simps]: "in_int64 (wrap64 x)"
proof -
  have "0 \<le> (x + 2 ^ 63) mod 2 ^ 64" and "(x + 2 ^ 63) mod 2 ^ 64 < 2 ^ 64"
    by (rule pos_mod_sign, simp) (rule pos_mod_bound, simp)
  then show ?thesis
    by (simp add: wrap64_def in_int64_def)
qed

lemma in_int64I: "- (2 ^ 63) \<le> x \<Longrightarrow> x < 2 ^ 63 \<Longrightarrow> in_int64 x"
  by (simp add: in_int64_def)

text \<open>The model's \<open>wrap64\<close> is the signed reading of the 64-bit word.\<close>

lemma wrap64_word: "wrap64 x = sint (word_of_int x :: 64 word)"
  by (simp add: wrap64_def sint_sbintrunc' signed_take_bit_eq_take_bit_shift take_bit_eq_mod)

section \<open>Go's truncating integer division\<close>

definition go_div :: "int \<Rightarrow> int \<Rightarrow> int" where
  "go_div a b = sgn a * sgn b * (\<bar>a\<bar> div \<bar>b\<bar>)"

lemma go_div_pos [simp]: "0 \<le> a \<Longrightarrow> 0 < b \<Longrightarrow> go_div a b = a div b"
  by (cases "a = 0") (simp_all add: go_div_def)

section \<open>Lists read and written by an index\<close>

text \<open>An index expression of the source panics outside the slice; \<open>idx\<close> makes that \<open>None\<close>.\<close>

definition nth_opt :: "'a list \<Rightarrow> int \<Rightarrow> 'a option" where
  "nth_opt xs i = (if 0 \<le> i \<and> i < int (length xs) then Some (xs ! nat i) else None)"

lemma nth_opt_Some [simp]: "0 \<le> i \<Longrightarrow> i < int (length xs) \<Longrightarrow> nth_opt xs i = Some (xs ! nat i)"
  by (simp add: nth_opt_def)

text \<open>\<open>append(xs[:i], xs[i+1:]...)\<close>.\<close>

definition remove_at :: "nat \<Rightarrow> 'a list \<Rightarrow> 'a list" where
  "remove_at i xs = take i xs @ drop (Suc i) xs"

lemma length_remove_at [simp]:
  "i < length xs \<Longrightarrow> length (remove_at i xs) = length xs - 1"
  by (simp add: remove_at_def)

lemma nth_remove_at:
  "i < length xs \<Longrightarrow> j < length xs - 1 \<Longrightarrow>
     remove_at i xs ! j = (if j < i then xs ! j else xs ! Suc j)"
  by (auto simp: remove_at_def nth_append min_def)

text \<open>The indexes of a list whose elements satisfy a predicate, in increasing order.\<close>

definition find_indices :: "('a \<Rightarrow> bool) \<Rightarrow> 'a list \<Rightarrow> nat list" where
  "find_indices P xs = filter (\<lambda>i. P (xs ! i)) [0..<length xs]"

lemma set_find_indices [simp]: "set (find_indices P xs) = {i. i < length xs \<and> P (xs ! i)}"
  by (auto simp: find_indices_def)

lemma sorted_find_indices: "sorted (find_indices P xs)"
  by (simp add: find_indices_def sorted_wrt_filter)

lemma distinct_find_indices: "distinct (find_indices P xs)"
  by (simp add: find_indices_def)

lemma length_find_indices: "length (find_indices P xs) = length (filter P xs)"
proof -
  have "map ((!) xs) (filter (\<lambda>i. P (xs ! i)) [0..<length xs]) = filter P (map ((!) xs) [0..<length xs])"
    by (simp add: filter_map comp_def)
  then show ?thesis
    by (metis find_indices_def length_map map_nth)
qed

section \<open>State machines driven by a list of events\<close>

text \<open>
  A component whose operations are events: if the initial state satisfies the invariant and
  every event keeps it, every run does. The components interpret this interface on their own
  step function.
\<close>

locale event_machine =
  fixes step :: "'e \<Rightarrow> 's \<Rightarrow> 's"
    and inv :: "'s \<Rightarrow> bool"
  assumes step_inv: "inv s \<Longrightarrow> inv (step e s)"
begin

lemma run_inv: "inv s \<Longrightarrow> inv (fold step es s)"
  by (induction es arbitrary: s) (auto intro: step_inv)

lemma run_append_inv: "inv s \<Longrightarrow> inv (fold step (es @ fs) s)"
  by (rule run_inv)

end

end
