(* ===== verification/GoStrings.thy ===== *)
theory GoStrings
  imports Prelude
begin

text \<open>
  The functions of Go's \<open>strings\<close> and \<open>strconv\<close> packages that the program calls, on byte
  strings. \<open>ToLower\<close> and \<open>TrimSpace\<close> are exact on ASCII data; bytes from 128 up are left as
  they are, where Go would look at the Unicode code points they encode.
\<close>

section \<open>Prefixes, suffixes and search\<close>

definition HasPrefix :: "string \<Rightarrow> string \<Rightarrow> bool" where
  "HasPrefix s p \<longleftrightarrow> take (length p) s = p"

definition HasSuffix :: "string \<Rightarrow> string \<Rightarrow> bool" where
  "HasSuffix s p \<longleftrightarrow> length p \<le> length s \<and> drop (length s - length p) s = p"

definition TrimPrefix :: "string \<Rightarrow> string \<Rightarrow> string" where
  "TrimPrefix s p = (if HasPrefix s p then drop (length p) s else s)"

text \<open>\<open>strings.Index\<close>: \<open>None\<close> stands for -1.\<close>

fun Index :: "string \<Rightarrow> string \<Rightarrow> nat option" where
  "Index [] p = (if p = [] then Some 0 else None)"
| "Index (c # s) p = (if HasPrefix (c # s) p then Some 0 else map_option Suc (Index s p))"

definition Contains :: "string \<Rightarrow> string \<Rightarrow> bool" where
  "Contains s p \<longleftrightarrow> Index s p \<noteq> None"

text \<open>\<open>strings.LastIndexByte\<close>: \<open>None\<close> stands for -1.\<close>

fun LastIndexByte :: "string \<Rightarrow> char \<Rightarrow> nat option" where
  "LastIndexByte [] c = None"
| "LastIndexByte (x # s) c =
     (case LastIndexByte s c of
        Some i \<Rightarrow> Some (Suc i)
      | None \<Rightarrow> if x = c then Some 0 else None)"

lemmas [go_defs] = HasPrefix_def HasSuffix_def TrimPrefix_def Contains_def

lemma HasPrefix_append [simp]: "HasPrefix (p @ s) p"
  by (simp add: HasPrefix_def)

lemma HasPrefix_length: "HasPrefix s p \<Longrightarrow> length p \<le> length s"
  unfolding HasPrefix_def by (metis length_take min.cobounded1)

lemma HasPrefix_iff: "HasPrefix s p \<longleftrightarrow> (\<exists>t. s = p @ t)"
  unfolding HasPrefix_def by (metis append_eq_conv_conj append_take_drop_id)

lemma HasPrefix_nth: "HasPrefix (drop j s) q \<Longrightarrow> j \<le> length s \<Longrightarrow> i < length q \<Longrightarrow> q ! i = s ! (j + i)"
  by (auto simp: HasPrefix_iff nth_append dest!: arg_cong [where f = "\<lambda>xs. xs ! i"])

lemma HasPrefix_drop_take: "HasPrefix (drop j (take i s)) q \<Longrightarrow> HasPrefix (drop j s) q"
proof -
  assume "HasPrefix (drop j (take i s)) q"
  then obtain t where t: "drop j (take i s) = q @ t" by (auto simp: HasPrefix_iff)
  have "drop j s = drop j (take i s) @ drop (j - length (take i s)) (drop i s)"
    by (metis append_take_drop_id drop_append)
  with t show ?thesis by (auto simp: HasPrefix_iff)
qed

lemma HasSuffix_iff: "HasSuffix s p \<longleftrightarrow> (\<exists>t. s = t @ p)"
proof
  assume "HasSuffix s p"
  then have "s = take (length s - length p) s @ p"
    unfolding HasSuffix_def by (metis append_take_drop_id)
  then show "\<exists>t. s = t @ p" by blast
qed (auto simp: HasSuffix_def)

lemma TrimPrefix_append [simp]: "TrimPrefix (p @ s) p = s"
  by (simp add: TrimPrefix_def)

lemma Index_Some_HasPrefix:
  "Index s p = Some i \<Longrightarrow> i \<le> length s \<and> HasPrefix (drop i s) p"
  by (induction s arbitrary: i) (auto simp: HasPrefix_def split: if_splits)

lemma Index_bound: "Index s p = Some i \<Longrightarrow> i + length p \<le> length s"
proof -
  assume a: "Index s p = Some i"
  then have "i \<le> length s" and "length p \<le> length (drop i s)"
    using Index_Some_HasPrefix HasPrefix_length by blast+
  then show ?thesis by simp
qed

lemma Index_None_no_prefix: "Index s p = None \<Longrightarrow> \<not> HasPrefix (drop i s) p"
proof (induction s arbitrary: i)
  case Nil
  then show ?case by (auto simp: HasPrefix_def split: if_splits)
next
  case (Cons c s)
  then show ?case by (cases i) (auto split: if_splits)
qed

lemma Index_least: "Index s p = Some i \<Longrightarrow> j < i \<Longrightarrow> \<not> HasPrefix (drop j s) p"
proof (induction s arbitrary: i j)
  case Nil
  then show ?case by (auto split: if_splits)
next
  case (Cons c s)
  then show ?case by (cases j) (auto split: if_splits)
qed

lemma LastIndexByte_Some:
  "LastIndexByte s c = Some i \<Longrightarrow> i < length s \<and> s ! i = c \<and> c \<notin> set (drop (Suc i) s)"
proof (induction s arbitrary: i)
  case Nil
  then show ?case by simp
next
  case (Cons x s)
  have none: "LastIndexByte s c = None \<Longrightarrow> c \<notin> set s" for s
    by (induction s) (auto split: option.splits if_splits)
  show ?case
    using Cons by (auto split: option.splits if_splits dest: none)
qed

section \<open>Splitting and trimming\<close>

text \<open>\<open>strings.Split\<close> on a one-byte separator.\<close>

fun split_on :: "char \<Rightarrow> string \<Rightarrow> string list" where
  "split_on c [] = [[]]"
| "split_on c (x # s) =
     (if x = c then [] # split_on c s
      else (case split_on c s of [] \<Rightarrow> [[x]] | w # ws \<Rightarrow> (x # w) # ws))"

text \<open>\<open>strings.SplitN(s, sep, 2)\<close> on a one-byte separator: the part before it and the rest.\<close>

fun split2 :: "char \<Rightarrow> string \<Rightarrow> string \<times> string option" where
  "split2 c [] = ([], None)"
| "split2 c (x # s) = (if x = c then ([], Some s) else map_prod ((#) x) id (split2 c s))"

lemma split_on_nonempty [simp]: "split_on c s \<noteq> []"
  by (induction s) (auto split: list.splits)

lemma split_on_no_sep: "c \<notin> set s \<Longrightarrow> split_on c s = [s]"
  by (induction s) auto

lemma split_on_append_sep: "c \<notin> set a \<Longrightarrow> split_on c (a @ c # b) = a # split_on c b"
  by (induction a) auto

lemma split2_no_sep: "c \<notin> set s \<Longrightarrow> split2 c s = (s, None)"
  by (induction s) auto

lemma split2_append_sep [simp]: "c \<notin> set a \<Longrightarrow> split2 c (a @ c # b) = (a, Some b)"
  by (induction a) auto

lemma split2_fst_no_sep: "c \<notin> set (fst (split2 c s))"
  by (induction s) auto

text \<open>\<open>strings.TrimLeft\<close>, \<open>TrimRight\<close> and \<open>Trim\<close> with a cutset given as a predicate.\<close>

definition TrimLeft :: "(char \<Rightarrow> bool) \<Rightarrow> string \<Rightarrow> string" where
  "TrimLeft P s = dropWhile P s"

definition TrimRight :: "(char \<Rightarrow> bool) \<Rightarrow> string \<Rightarrow> string" where
  "TrimRight P s = rev (dropWhile P (rev s))"

definition Trim :: "(char \<Rightarrow> bool) \<Rightarrow> string \<Rightarrow> string" where
  "Trim P s = TrimRight P (TrimLeft P s)"

definition is_space :: "char \<Rightarrow> bool" where
  "is_space c \<longleftrightarrow> (let n = of_char c :: nat in n = 32 \<or> (9 \<le> n \<and> n \<le> 13))"

definition TrimSpace :: "string \<Rightarrow> string" where
  "TrimSpace s = Trim is_space s"

lemmas [go_defs] = TrimLeft_def TrimRight_def Trim_def is_space_def TrimSpace_def

lemma set_TrimLeft: "set (TrimLeft P s) \<subseteq> set s"
  unfolding TrimLeft_def by (meson set_dropWhileD subsetI)

lemma set_TrimRight: "set (TrimRight P s) \<subseteq> set s"
proof
  fix x assume "x \<in> set (TrimRight P s)"
  then have "x \<in> set (dropWhile P (rev s))" by (simp add: TrimRight_def)
  then show "x \<in> set s" using set_dropWhileD [of x P "rev s"] by simp
qed

lemma set_Trim: "set (Trim P s) \<subseteq> set s"
  unfolding Trim_def using set_TrimRight set_TrimLeft by blast

lemma TrimRight_last: "TrimRight P s = [] \<or> \<not> P (last (TrimRight P s))"
  by (cases "dropWhile P (rev s) = []") (simp_all add: TrimRight_def last_rev hd_dropWhile)

lemma TrimRight_idem [simp]: "TrimRight P (TrimRight P s) = TrimRight P s"
  by (simp add: TrimRight_def)

section \<open>Case folding\<close>

definition lower_char :: "char \<Rightarrow> char" where
  "lower_char c =
     (let n = of_char c :: nat in if 65 \<le> n \<and> n \<le> 90 then char_of (n + 32) else c)"

definition ToLower :: "string \<Rightarrow> string" where
  "ToLower s = map lower_char s"

lemmas [go_defs] = lower_char_def ToLower_def

lemma length_ToLower [simp]: "length (ToLower s) = length s"
  by (simp add: ToLower_def)

lemma lower_char_idem [simp]: "lower_char (lower_char c) = lower_char c"
  by (simp add: lower_char_def Let_def)

lemma ToLower_idem [simp]: "ToLower (ToLower s) = ToLower s"
  by (simp add: ToLower_def)

lemma ToLower_append [simp]: "ToLower (s @ t) = ToLower s @ ToLower t"
  by (simp add: ToLower_def)

lemma drop_ToLower: "drop n (ToLower s) = ToLower (drop n s)"
  by (simp add: ToLower_def drop_map)

section \<open>Decimal numbers: strconv.Itoa and strconv.Atoi\<close>

definition digit_char :: "nat \<Rightarrow> char" where
  "digit_char d = char_of (d + 48)"

fun nat_digits :: "nat \<Rightarrow> string" where
  "nat_digits n =
     (if n < 10 then [digit_char n] else nat_digits (n div 10) @ [digit_char (n mod 10)])"

declare nat_digits.simps [simp del]

definition Itoa :: "int \<Rightarrow> string" where
  "Itoa i = (if i < 0 then CHR ''-'' # nat_digits (nat (- i)) else nat_digits (nat i))"

definition digit_val :: "char \<Rightarrow> nat option" where
  "digit_val c = (let n = of_char c :: nat in if 48 \<le> n \<and> n \<le> 57 then Some (n - 48) else None)"

fun digits_val :: "nat \<Rightarrow> string \<Rightarrow> nat option" where
  "digits_val acc [] = Some acc"
| "digits_val acc (c # s) =
     (case digit_val c of None \<Rightarrow> None | Some d \<Rightarrow> digits_val (acc * 10 + d) s)"

text \<open>An optional sign, at least one digit, and a value that fits in an int64.\<close>

definition Atoi :: "string \<Rightarrow> int option" where
  "Atoi s =
     (let (neg, ds) =
        (case s of [] \<Rightarrow> (False, [])
         | c # cs \<Rightarrow> if c = CHR ''-'' then (True, cs)
                     else if c = CHR ''+'' then (False, cs) else (False, s))
      in if ds = [] then None
         else (case digits_val 0 ds of
                 None \<Rightarrow> None
               | Some n \<Rightarrow>
                   (let v = (if neg then - int n else int n)
                    in if in_int64 v then Some v else None)))"

lemma Atoi_in_int64: "Atoi s = Some i \<Longrightarrow> in_int64 i"
  by (auto simp: Atoi_def Let_def split: prod.splits if_splits option.splits)

lemma digit_val_digit_char [simp]: "d < 10 \<Longrightarrow> digit_val (digit_char d) = Some d"
  by (simp add: digit_val_def digit_char_def Let_def)

lemma digits_val_append:
  "digits_val acc (s @ t) = (case digits_val acc s of None \<Rightarrow> None | Some v \<Rightarrow> digits_val v t)"
  by (induction s arbitrary: acc) (auto split: option.splits)

lemma digits_val_nat_digits: "digits_val 0 (nat_digits n) = Some n"
proof (induction n rule: nat_digits.induct)
  case (1 n)
  then show ?case
    by (cases "n < 10") (simp_all add: nat_digits.simps [of n] digits_val_append)
qed

lemma nat_digits_nonempty [simp]: "nat_digits n \<noteq> []"
  by (subst nat_digits.simps) simp

lemma nat_digits_all_digits: "\<forall>c\<in>set (nat_digits n). digit_val c \<noteq> None"
proof (induction n rule: nat_digits.induct)
  case (1 n)
  then show ?case
    by (cases "n < 10") (simp_all add: nat_digits.simps [of n])
qed

lemma hd_nat_digits_not_sign: "hd (nat_digits n) \<noteq> CHR ''-'' \<and> hd (nat_digits n) \<noteq> CHR ''+''"
proof -
  have "digit_val (hd (nat_digits n)) \<noteq> None"
    using nat_digits_all_digits [of n] by simp
  then show ?thesis by (auto simp: digit_val_def)
qed

lemma Atoi_Itoa: "in_int64 i \<Longrightarrow> Atoi (Itoa i) = Some i"
proof (cases "i < 0")
  case True
  assume "in_int64 i"
  with True show ?thesis
    by (simp add: Atoi_def Itoa_def digits_val_nat_digits)
next
  case False
  assume r: "in_int64 i"
  obtain c cs where d: "nat_digits (nat i) = c # cs"
    by (cases "nat_digits (nat i)") auto
  with hd_nat_digits_not_sign [of "nat i"] have "c \<noteq> CHR ''-''" and "c \<noteq> CHR ''+''" by simp_all
  with False r d digits_val_nat_digits [of "nat i"] show ?thesis
    by (simp add: Atoi_def Itoa_def)
qed

end
