(* ===== verification/Masking.thy ===== *)
theory Masking
  imports GoStrings
begin

text \<open>
  Keeping keys out of logs: \<open>MaskKey\<close> (internal/logentry/logentry.go), \<open>MaskSensitiveData\<close>
  (internal/server/server.go) and the file-name prefix of the error dumps
  (internal/server/error_dump.go).
\<close>

section \<open>MaskKey\<close>

definition MaskKey :: "string \<Rightarrow> string" where
  "MaskKey key =
     (if length key \<le> 12 then ''****''
      else take 4 key @ ''...'' @ drop (length key - 4) key)"

lemma length_MaskKey: "length (MaskKey key) = (if length key \<le> 12 then 4 else 11)"
  by (simp add: MaskKey_def)

text \<open>The mask depends on the first four and the last four bytes only.\<close>

lemma MaskKey_hides:
  assumes "length a = 4" and "length b = 4" and "5 \<le> length m" and "5 \<le> length m'"
  shows "MaskKey (a @ m @ b) = MaskKey (a @ m' @ b)"
  using assms by (simp add: MaskKey_def)

lemma MaskKey_short: "length k \<le> 12 \<Longrightarrow> length k' \<le> 12 \<Longrightarrow> MaskKey k = MaskKey k'"
  by (simp add: MaskKey_def)

section \<open>MaskSensitiveData\<close>

definition keyPrefixes :: "string list" where
  "keyPrefixes = [''sk-'', ''nvapi-'']"

definition isAlphaNum :: "char \<Rightarrow> bool" where
  "isAlphaNum c =
     (let n = of_char c :: nat
      in (97 \<le> n \<and> n \<le> 122) \<or> (65 \<le> n \<and> n \<le> 90) \<or> (48 \<le> n \<and> n \<le> 57))"

definition token_char :: "char \<Rightarrow> bool" where
  "token_char c \<longleftrightarrow> isAlphaNum c \<or> c = CHR ''-'' \<or> c = CHR ''_''"

text \<open>The first position from \<open>e\<close> on that holds no token byte.\<close>

definition token_end :: "string \<Rightarrow> nat \<Rightarrow> nat" where
  "token_end s e = e + length (takeWhile token_char (drop e s))"

definition mask_at :: "nat \<Rightarrow> nat \<Rightarrow> string \<Rightarrow> string" where
  "mask_at idx e s = take idx s @ ''***'' @ drop e s"

text \<open>
  The inner loop for one prefix. When the prefix is followed by no token byte the loop body changes
  nothing and the search finds the same position again: the result \<open>None\<close> is a loop that never
  ends.
\<close>

partial_function (option) mask_loop :: "string \<Rightarrow> string \<Rightarrow> string \<Rightarrow> (string \<times> string) option" where
  "mask_loop prefix result lower =
     (case Index lower prefix of
        None \<Rightarrow> Some (result, lower)
      | Some idx \<Rightarrow>
          (if idx + length prefix < token_end result (idx + length prefix)
           then mask_loop prefix (mask_at idx (token_end result (idx + length prefix)) result)
                  (ToLower (mask_at idx (token_end result (idx + length prefix)) result))
           else mask_loop prefix result lower))"

fun mask_prefixes :: "string list \<Rightarrow> string \<Rightarrow> string \<Rightarrow> string option" where
  "mask_prefixes [] result lower = Some result"
| "mask_prefixes (p # ps) result lower =
     (case mask_loop p result lower of
        None \<Rightarrow> None
      | Some (result', lower') \<Rightarrow> mask_prefixes ps result' lower')"

definition MaskSensitiveData :: "string \<Rightarrow> nat \<Rightarrow> string option" where
  "MaskSensitiveData data maxLen =
     (let data' = (if maxLen < length data then take maxLen data else data)
      in mask_prefixes keyPrefixes data' (ToLower data'))"

subsection \<open>The loop can hang\<close>

lemma mask_loop_stuck:
  assumes "Index lower prefix = Some idx"
    and "token_end result (idx + length prefix) \<le> idx + length prefix"
  shows "mask_loop prefix result lower = None"
proof (rule ccontr)
  assume "mask_loop prefix result lower \<noteq> None"
  then obtain r where "mask_loop prefix result lower = Some r" by auto
  then have "\<not> (prefix = prefix \<and> result = result \<and> lower = lower)"
  proof (rule mask_loop.raw_induct [where
        P = "\<lambda>p s l r. \<not> (p = prefix \<and> s = result \<and> l = lower)", rotated])
    fix f p s l r
    assume IH: "\<And>p s l r. f p s l = Some r \<Longrightarrow> \<not> (p = prefix \<and> s = result \<and> l = lower)"
      and eq: "(case Index l p of
        None \<Rightarrow> Some (s, l)
      | Some idx \<Rightarrow>
          (if idx + length p < token_end s (idx + length p)
           then f p (mask_at idx (token_end s (idx + length p)) s)
                  (ToLower (mask_at idx (token_end s (idx + length p)) s))
           else f p s l)) = Some r"
    show "\<not> (p = prefix \<and> s = result \<and> l = lower)"
      using IH eq assms by (auto split: option.splits if_splits)
  qed
  then show False by simp
qed

subsection \<open>What a finished loop guarantees\<close>

definition occurs :: "string \<Rightarrow> string \<Rightarrow> bool" where
  "occurs p s \<longleftrightarrow> (\<exists>i. HasPrefix (drop i (ToLower s)) p)"

lemma Index_None_occurs: "p \<noteq> [] \<Longrightarrow> Index (ToLower s) p = None \<Longrightarrow> \<not> occurs p s"
  using Index_None_no_prefix by (auto simp: occurs_def)

lemma Index_None_iff: "Index s p = None \<longleftrightarrow> (\<forall>i. \<not> HasPrefix (drop i s) p)"
  using Index_None_no_prefix Index_Some_HasPrefix by (metis not_None_eq)

text \<open>An occurrence of a starless prefix lies before or after the inserted stars.\<close>

lemma prefix_around_stars:
  assumes "HasPrefix (drop j (a @ ''***'' @ b)) q" and "q \<noteq> []" and "CHR ''*'' \<notin> set q"
  shows "(j + length q \<le> length a \<and> HasPrefix (drop j a) q) \<or>
         (length a + 3 \<le> j \<and> HasPrefix (drop (j - (length a + 3)) b) q)"
proof -
  let ?s = "a @ ''***'' @ b"
  have len: "j + length q \<le> length ?s"
    using HasPrefix_length [OF assms(1)] assms(2) by (cases q) auto
  have at: "q ! i = ?s ! (j + i)" if "i < length q" for i
    using HasPrefix_nth [OF assms(1) _ that] len by simp
  have star: "?s ! (length a + m) = CHR ''*''" if "m < 3" for m
    using that by (auto simp: nth_append less_Suc_eq numeral_3_eq_3)
  have avoid: "\<not> (j \<le> length a + m \<and> length a + m < j + length q)" if "m < 3" for m
  proof
    assume h: "j \<le> length a + m \<and> length a + m < j + length q"
    then have lt: "length a + m - j < length q" by linarith
    have "q ! (length a + m - j) = ?s ! (length a + m)"
      using at [OF lt] h by (simp only: le_add_diff_inverse)
    then have "q ! (length a + m - j) = CHR ''*''"
      using star [OF that] by (simp only:)
    then show False using assms(3) nth_mem [OF lt] by simp
  qed
  show ?thesis
  proof (cases "j + length q \<le> length a")
    case True
    then have "take (length q) (drop j ?s) = take (length q) (drop j a)" by simp
    with True assms(1) show ?thesis by (simp add: HasPrefix_def)
  next
    case False
    have ne: "0 < length q" using assms(2) by simp
    have "length a < j" using avoid [of 0] False by auto
    moreover have "j \<noteq> length a + 1" using avoid [of 1] ne by auto
    moreover have "j \<noteq> length a + 2" using avoid [of 2] ne by auto
    ultimately have "length a + 3 \<le> j" by linarith
    moreover from this have "drop j ?s = drop (j - (length a + 3)) b"
      by (simp add: drop_Cons' numeral_3_eq_3)
    ultimately show ?thesis using assms(1) by simp
  qed
qed

lemma lower_star [simp]: "lower_char CHR ''*'' = CHR ''*''"
  by (simp add: lower_char_def Let_def)

lemma ToLower_mask_at: "ToLower (mask_at i e s) = take i (ToLower s) @ ''***'' @ drop e (ToLower s)"
  by (simp add: mask_at_def ToLower_def take_map drop_map lower_char_def Let_def)

lemma occurs_mask_at:
  assumes "occurs q (mask_at i e s)" and "q \<noteq> []" and "CHR ''*'' \<notin> set q"
  shows "occurs q s"
proof -
  obtain j where "HasPrefix (drop j (take i (ToLower s) @ ''***'' @ drop e (ToLower s))) q"
    using assms(1) by (auto simp: occurs_def ToLower_mask_at)
  from prefix_around_stars [OF this assms(2,3)]
  show ?thesis
  proof
    assume "j + length q \<le> length (take i (ToLower s)) \<and> HasPrefix (drop j (take i (ToLower s))) q"
    then have "HasPrefix (drop j (ToLower s)) q" using HasPrefix_drop_take by blast
    then show ?thesis by (auto simp: occurs_def)
  next
    assume "length (take i (ToLower s)) + 3 \<le> j
      \<and> HasPrefix (drop (j - (length (take i (ToLower s)) + 3)) (drop e (ToLower s))) q"
    then show ?thesis by (auto simp: occurs_def)
  qed
qed

lemma mask_loop_result:
  assumes "mask_loop prefix result (ToLower result) = Some (r, l)" and "prefix \<noteq> []"
  shows "l = ToLower r \<and> \<not> occurs prefix r \<and>
         (\<forall>q. q \<noteq> [] \<longrightarrow> CHR ''*'' \<notin> set q \<longrightarrow> occurs q r \<longrightarrow> occurs q result)"
proof -
  let ?P = "\<lambda>p s l0 rl. p \<noteq> [] \<longrightarrow> l0 = ToLower s \<longrightarrow> snd rl = ToLower (fst rl) \<and>
    \<not> occurs p (fst rl) \<and>
    (\<forall>q. q \<noteq> [] \<longrightarrow> CHR ''*'' \<notin> set q \<longrightarrow> occurs q (fst rl) \<longrightarrow> occurs q s)"
  have "?P prefix result (ToLower result) (r, l)"
  proof (rule mask_loop.raw_induct [where P = ?P, OF _ assms(1)])
    fix f p s l0 rl
    assume IH: "\<And>p s l0 rl. f p s l0 = Some rl \<Longrightarrow> ?P p s l0 rl"
      and eq: "(case Index l0 p of
        None \<Rightarrow> Some (s, l0)
      | Some idx \<Rightarrow>
          (if idx + length p < token_end s (idx + length p)
           then f p (mask_at idx (token_end s (idx + length p)) s)
                  (ToLower (mask_at idx (token_end s (idx + length p)) s))
           else f p s l0)) = Some rl"
    show "?P p s l0 rl"
    proof (cases "Index l0 p")
      case None
      with eq show ?thesis by (auto dest: Index_None_occurs)
    next
      case (Some idx)
      let ?e = "token_end s (idx + length p)"
      show ?thesis
      proof (cases "idx + length p < ?e")
        case True
        with eq Some have "f p (mask_at idx ?e s) (ToLower (mask_at idx ?e s)) = Some rl" by simp
        from IH [OF this] show ?thesis using occurs_mask_at by blast
      next
        case False
        with eq Some have "f p s l0 = Some rl" by simp
        then show ?thesis by (rule IH)
      qed
    qed
  qed
  with assms(2) show ?thesis by simp
qed

lemma MaskSensitiveData_masks:
  assumes "MaskSensitiveData data maxLen = Some r"
  shows "\<not> occurs ''sk-'' r \<and> \<not> occurs ''nvapi-'' r"
proof -
  let ?d = "if maxLen < length data then take maxLen data else data"
  obtain r1 l1 r2 l2 where 1: "mask_loop ''sk-'' ?d (ToLower ?d) = Some (r1, l1)"
    and 2: "mask_loop ''nvapi-'' r1 l1 = Some (r2, l2)" and r: "r = r2"
    using assms
    by (auto simp: MaskSensitiveData_def keyPrefixes_def Let_def split: option.splits prod.splits)
  from mask_loop_result [OF 1] have a: "l1 = ToLower r1" "\<not> occurs ''sk-'' r1" by simp_all
  from mask_loop_result [of "''nvapi-''" r1 r2 l2] 2 a(1)
  have "\<not> occurs ''nvapi-'' r2" and "occurs ''sk-'' r2 \<Longrightarrow> occurs ''sk-'' r1" by auto
  with a(2) r show ?thesis by blast
qed

subsection \<open>When the loop ends\<close>

text \<open>A prefix is bare at a position when no token byte follows it there.\<close>

definition bare :: "string \<Rightarrow> string \<Rightarrow> bool" where
  "bare p s \<longleftrightarrow> (\<exists>i. HasPrefix (drop i (ToLower s)) p \<and>
                     takeWhile token_char (drop (i + length p) s) = [])"

lemma token_end_gt: "e < token_end s e \<longleftrightarrow> takeWhile token_char (drop e s) \<noteq> []"
  by (simp add: token_end_def)

lemma token_end_le: "e \<le> length s \<Longrightarrow> token_end s e \<le> length s"
  using length_takeWhile_le [of token_char "drop e s"] by (simp add: token_end_def)

lemma bare_mask_at:
  assumes "\<not> bare p s" and "p \<noteq> []" and "CHR ''*'' \<notin> set p" and "Index (ToLower s) p = Some i"
    and "i + length p < e" and "e \<le> length s"
  shows "\<not> bare p (mask_at i e s)"
proof
  assume "bare p (mask_at i e s)"
  then obtain j where
    j: "HasPrefix (drop j (take i (ToLower s) @ ''***'' @ drop e (ToLower s))) p"
    and empty: "takeWhile token_char (drop (j + length p) (mask_at i e s)) = []"
    by (auto simp: bare_def ToLower_mask_at)
  have i: "i \<le> length s" using Index_bound [OF assms(4)] by simp
  from prefix_around_stars [OF j assms(2,3)]
  show False
  proof
    assume h: "j + length p \<le> length (take i (ToLower s)) \<and> HasPrefix (drop j (take i (ToLower s))) p"
    then have "HasPrefix (drop j (ToLower s)) p" using HasPrefix_drop_take by blast
    moreover have "j < i" using h i assms(2) by (cases p) (auto simp: min_def split: if_splits)
    ultimately show False using Index_least [OF assms(4)] by blast
  next
    assume h: "length (take i (ToLower s)) + 3 \<le> j
      \<and> HasPrefix (drop (j - (length (take i (ToLower s)) + 3)) (drop e (ToLower s))) p"
    then have "i + 3 \<le> j" using i by simp
    then obtain d where d: "j = i + 3 + d" using le_Suc_ex by blast
    have "HasPrefix (drop (e + d) (ToLower s)) p" using h i d by (simp add: add.commute)
    moreover have "drop (j + length p) (mask_at i e s) = drop (e + d + length p) s"
      using i d by (simp add: mask_at_def numeral_3_eq_3 add_ac)
    ultimately show False using empty assms(1) by (auto simp: bare_def)
  qed
qed

lemma mask_loop_returns:
  assumes "\<not> bare p s" and "p \<noteq> []" and "3 \<le> length p" and "CHR ''*'' \<notin> set p"
  shows "\<exists>r. mask_loop p s (ToLower s) = Some r"
  using assms
proof (induction "length s" arbitrary: s rule: less_induct)
  case less
  show ?case
  proof (cases "Index (ToLower s) p")
    case None
    then show ?thesis by (subst mask_loop.simps) simp
  next
    case (Some i)
    let ?e = "token_end s (i + length p)"
    have "HasPrefix (drop i (ToLower s)) p" using Index_Some_HasPrefix [OF Some] by simp
    then have gt: "i + length p < ?e" using less.prems(1) by (auto simp: bare_def token_end_gt)
    have le: "?e \<le> length s" using token_end_le Index_bound [OF Some] by simp
    have "length (mask_at i ?e s) < length s"
      using gt le less.prems(3) by (simp add: mask_at_def)
    moreover have "\<not> bare p (mask_at i ?e s)" by (rule bare_mask_at) (use less.prems Some gt le in auto)
    ultimately have "\<exists>r. mask_loop p (mask_at i ?e s) (ToLower (mask_at i ?e s)) = Some r"
      using less.hyps less.prems by blast
    then show ?thesis using Some gt by (subst mask_loop.simps) simp
  qed
qed

section \<open>sanitizeKeyPrefix\<close>

text \<open>
  Ranging over the runes of the name and keeping ASCII ones keeps exactly the ASCII bytes of the
  set: no byte of a multi-byte rune is below 128.
\<close>

definition sanitizeKeyPrefix :: "string \<Rightarrow> string" where
  "sanitizeKeyPrefix keyName =
     (let b = filter token_char keyName;
          p0 = Trim (\<lambda>c. c = CHR ''-'' \<or> c = CHR ''_'') b;
          p = (if 8 < length p0 then take 8 p0 else p0)
      in if p = [] then ''key'' else p)"

lemma sanitizeKeyPrefix_safe:
  "sanitizeKeyPrefix n \<noteq> [] \<and> length (sanitizeKeyPrefix n) \<le> 8 \<and>
   list_all token_char (sanitizeKeyPrefix n)"
proof -
  define t where "t = Trim (\<lambda>c. c = CHR ''-'' \<or> c = CHR ''_'') (filter token_char n)"
  have "set t \<subseteq> {c. token_char c}" using set_Trim unfolding t_def by fastforce
  then have all: "list_all token_char t" "list_all token_char (take 8 t)"
    by (auto simp: list_all_iff dest: in_set_takeD)
  have key: "list_all token_char ''key''" by (simp add: token_char_def isAlphaNum_def Let_def)
  have "sanitizeKeyPrefix n = (let p = (if 8 < length t then take 8 t else t)
      in if p = [] then ''key'' else p)"
    by (simp add: sanitizeKeyPrefix_def t_def Let_def)
  with all key show ?thesis by (cases "8 < length t"; cases "t = []") (simp_all add: Let_def)
qed

end
