(* ===== verification/CircuitBreaker.thy ===== *)
theory CircuitBreaker
  imports Prelude
begin

text \<open>
  The state type the two circuit breakers share (internal/circuitbreaker/circuitbreaker.go) and the
  contract they both keep towards their callers.
\<close>

datatype State = Closed | Open | HalfOpen | Permanent

text \<open>The \<open>iota\<close> code of a state, which the Prometheus gauge exports.\<close>

fun state_code :: "State \<Rightarrow> int" where
  "state_code Closed = 0"
| "state_code Open = 1"
| "state_code HalfOpen = 2"
| "state_code Permanent = 3"

lemma state_code_inj [simp]: "state_code a = state_code b \<longleftrightarrow> a = b"
  by (cases a; cases b) simp_all

instantiation State :: linorder
begin

definition less_eq_State :: "State \<Rightarrow> State \<Rightarrow> bool" where
  "less_eq_State a b \<longleftrightarrow> state_code a \<le> state_code b"

definition less_State :: "State \<Rightarrow> State \<Rightarrow> bool" where
  "less_State a b \<longleftrightarrow> state_code a < state_code b"

instance
proof
  fix x y z :: State
  show "x < y \<longleftrightarrow> x \<le> y \<and> \<not> y \<le> x"
    by (auto simp: less_eq_State_def less_State_def)
  show "x \<le> x" by (simp add: less_eq_State_def)
  show "x \<le> y \<Longrightarrow> y \<le> z \<Longrightarrow> x \<le> z" by (simp add: less_eq_State_def)
  show "x \<le> y \<Longrightarrow> y \<le> x \<Longrightarrow> x = y" by (simp add: less_eq_State_def)
  show "x \<le> y \<or> y \<le> x" by (auto simp: less_eq_State_def)
qed

end

text \<open>
  What a caller may rely on, whichever breaker it holds: a closed breaker lets requests through, a
  reset breaker is closed, a recorded success never closes the door, and a permanent breaker
  refuses. \<open>allow\<close> returns the breaker as well, since the upstream breaker changes state when it
  is asked.
\<close>

locale breaker =
  fixes get_state :: "'b \<Rightarrow> State"
    and allow :: "time \<Rightarrow> 'b \<Rightarrow> bool \<times> 'b"
    and success :: "'b \<Rightarrow> 'b"
    and reset :: "'b \<Rightarrow> 'b"
  assumes closed_allows: "get_state b = Closed \<Longrightarrow> fst (allow now b)"
    and closed_keeps: "get_state b = Closed \<Longrightarrow> snd (allow now b) = b"
    and permanent_refuses: "get_state b = Permanent \<Longrightarrow> \<not> fst (allow now b)"
    and reset_closed: "get_state (reset b) = Closed"
    and success_closed: "get_state b \<noteq> Permanent \<Longrightarrow> get_state (success b) = Closed"
begin

lemma reset_allows: "fst (allow now (reset b))"
  by (simp add: closed_allows reset_closed)

lemma success_allows: "get_state b \<noteq> Permanent \<Longrightarrow> fst (allow now (success b))"
  by (simp add: closed_allows success_closed)

text \<open>Once closed, asking any number of times neither refuses nor changes the breaker.\<close>

lemma closed_allows_forever:
  "get_state b = Closed \<Longrightarrow>
     fold (\<lambda>t c. snd (allow t c)) ts b = b \<and> fst (allow now (fold (\<lambda>t c. snd (allow t c)) ts b))"
  by (induction ts) (simp_all add: closed_allows closed_keeps)

end

end
