(* ===== verification/GoFloat.thy ===== *)
theory GoFloat
  imports Prelude "HOL-Library.Log_Nat"
begin

text \<open>
  IEEE 754 binary64, as Go's \<open>float64\<close> uses it: a finite value is the rational it denotes
  (the two zeros are one), and every operation rounds its exact result to 53 significant bits,
  ties to even, with gradual underflow and overflow to infinity. \<open>math.Pow\<close> is translated
  from Go's portable implementation, for the non-negative integer exponents the program uses.
\<close>

section \<open>Rounding\<close>

datatype float64 = Fin rat | PosInf | NegInf | NaN

definition pow2 :: "int \<Rightarrow> rat" where
  "pow2 k = (if 0 \<le> k then 2 ^ nat k else 1 / 2 ^ nat (- k))"

definition round_half_even :: "rat \<Rightarrow> int" where
  "round_half_even x =
     (let f = \<lfloor>x\<rfloor>; d = x - of_int f
      in if d < 1 / 2 then f else if 1 / 2 < d then f + 1 else if even f then f else f + 1)"

text \<open>The binary exponent of a positive rational.\<close>

definition floor_log2 :: "rat \<Rightarrow> int" where
  "floor_log2 x =
     (let (p, q) = quotient_of x; k = bitlen p - bitlen q
      in if pow2 k \<le> x then k else k - 1)"

definition rnd53 :: "rat \<Rightarrow> rat" where
  "rnd53 x =
     (if x = 0 then 0
      else (let e = max (floor_log2 \<bar>x\<bar> - 52) (- 1074)
            in of_int (round_half_even (x / pow2 e)) * pow2 e))"

definition to_float :: "rat \<Rightarrow> float64" where
  "to_float x =
     (let r = rnd53 x
      in if 2 ^ 1024 \<le> r then PosInf else if r \<le> - (2 ^ 1024) then NegInf else Fin r)"

section \<open>Operations\<close>

definition float_of_int :: "int \<Rightarrow> float64" where
  "float_of_int i = to_float (of_int i)"

fun float_lt :: "float64 \<Rightarrow> float64 \<Rightarrow> bool" where
  "float_lt NaN _ = False"
| "float_lt _ NaN = False"
| "float_lt (Fin x) (Fin y) = (x < y)"
| "float_lt (Fin _) PosInf = True"
| "float_lt NegInf (Fin _) = True"
| "float_lt NegInf PosInf = True"
| "float_lt _ _ = False"

fun float_eq :: "float64 \<Rightarrow> float64 \<Rightarrow> bool" where
  "float_eq NaN _ = False"
| "float_eq _ NaN = False"
| "float_eq x y = (x = y)"

text \<open>
  The product and the quotient of two finite values; the program multiplies and divides no others
  once its configuration holds finite numbers. A finite value divided by zero is an infinity,
  0/0 is NaN.
\<close>

fun float_mul :: "float64 \<Rightarrow> float64 \<Rightarrow> float64" where
  "float_mul (Fin x) (Fin y) = to_float (x * y)"
| "float_mul NaN _ = NaN"
| "float_mul _ NaN = NaN"
| "float_mul (Fin x) PosInf = (if x = 0 then NaN else if 0 < x then PosInf else NegInf)"
| "float_mul (Fin x) NegInf = (if x = 0 then NaN else if 0 < x then NegInf else PosInf)"
| "float_mul PosInf (Fin x) = (if x = 0 then NaN else if 0 < x then PosInf else NegInf)"
| "float_mul NegInf (Fin x) = (if x = 0 then NaN else if 0 < x then NegInf else PosInf)"
| "float_mul PosInf PosInf = PosInf"
| "float_mul NegInf NegInf = PosInf"
| "float_mul _ _ = NegInf"

definition float_div_ints :: "int \<Rightarrow> int \<Rightarrow> float64" where
  \<comment> \<open>\<open>float64(a) / float64(b)\<close> for \<open>b\<close> other than 0\<close>
  "float_div_ints a b =
     (case (float_of_int a, float_of_int b) of
        (Fin x, Fin y) \<Rightarrow> to_float (x / y)
      | _ \<Rightarrow> NaN)"

text \<open>
  \<open>int64(f)\<close> truncates towards zero. A value outside the int64 range (or no number) has an
  implementation-defined result: the amd64 instruction gives \<open>-2^63\<close>, which the model takes.
\<close>

definition trunc_rat :: "rat \<Rightarrow> int" where
  "trunc_rat x = (if 0 \<le> x then \<lfloor>x\<rfloor> else \<lceil>x\<rceil>)"

fun float_to_int64 :: "float64 \<Rightarrow> int" where
  "float_to_int64 (Fin x) = (if in_int64 (trunc_rat x) then trunc_rat x else - (2 ^ 63))"
| "float_to_int64 _ = - (2 ^ 63)"

text \<open>\<open>math.Round\<close>: half away from zero.\<close>

fun math_Round :: "float64 \<Rightarrow> float64" where
  "math_Round (Fin x) = Fin (if 0 \<le> x then of_int \<lfloor>x + 1 / 2\<rfloor> else of_int \<lceil>x - 1 / 2\<rceil>)"
| "math_Round f = f"

section \<open>math.Pow with a non-negative integer exponent\<close>

text \<open>\<open>math.Frexp\<close>: \<open>x = m * 2^e\<close> with \<open>1/2 \<le> |m| < 1\<close>.\<close>

definition frexp :: "rat \<Rightarrow> rat \<times> int" where
  "frexp x = (if x = 0 then (0, 0) else (let e = floor_log2 \<bar>x\<bar> + 1 in (x / pow2 e, e)))"

fun pow_loop :: "nat \<Rightarrow> rat \<Rightarrow> int \<Rightarrow> rat \<Rightarrow> int \<Rightarrow> rat \<times> int" where
  "pow_loop i a1 ae x1 xe =
     (if i = 0 then (a1, ae)
      else if xe < - 4096 \<or> 4096 < xe then (a1, ae + xe)
      else
        (let a1' = (if odd i then rnd53 (a1 * x1) else a1);
             ae' = (if odd i then ae + xe else ae);
             x2 = rnd53 (x1 * x1);
             x1' = (if x2 < 1 / 2 then x2 + x2 else x2);
             xe' = (if x2 < 1 / 2 then 2 * xe - 1 else 2 * xe)
         in pow_loop (i div 2) a1' ae' x1' xe'))"

declare pow_loop.simps [simp del]

fun math_Pow :: "float64 \<Rightarrow> nat \<Rightarrow> float64" where
  "math_Pow x 0 = Fin 1"
| "math_Pow (Fin x) n =
     (if x = 1 then Fin 1
      else if n = 1 then Fin x
      else if x = 0 then Fin 0
      else (let (m, e) = frexp x; (a1, ae) = pow_loop n 1 0 m e in to_float (a1 * pow2 ae)))"
| "math_Pow PosInf n = PosInf"
| "math_Pow NegInf n = (if odd n then NegInf else PosInf)"
| "math_Pow NaN n = NaN"

section \<open>Exact cases\<close>

lemma pow2_pos [simp]: "0 < pow2 k"
  by (simp add: pow2_def)

lemma pow2_nonzero [simp]: "pow2 k \<noteq> 0"
  using pow2_pos [of k] by (metis less_irrefl)

lemma abs_pow2 [simp]: "\<bar>pow2 k\<bar> = pow2 k"
  by (simp add: less_imp_le)

lemma pow2_add: "pow2 (a + b) = pow2 a * pow2 b"
proof -
  have eq: "pow2 k = (2::rat) powi k" for k
    by (simp add: pow2_def power_int_def inverse_eq_divide power_one_over)
  show ?thesis by (simp add: eq power_int_add)
qed

lemma pow2_of_nat: "pow2 (int n) = 2 ^ n"
  by (simp add: pow2_def)

lemma pow2_minus: "pow2 (- a) = 1 / pow2 a"
  using pow2_add [of a "- a"] pow2_nonzero [of a] by (simp add: pow2_def field_simps)

lemma pow2_diff: "pow2 (a - b) = pow2 a / pow2 b"
  using pow2_add [of a "- b"] by (simp add: pow2_minus)

lemma pow2_strict_mono: "a < b \<Longrightarrow> pow2 a < pow2 b"
proof -
  assume "a < b"
  then have "(1::rat) < pow2 (b - a)" by (simp add: pow2_def)
  then have "pow2 a * 1 < pow2 a * pow2 (b - a)" by (intro mult_strict_left_mono) auto
  then show ?thesis by (simp add: pow2_add [symmetric])
qed

lemma pow2_mono: "a \<le> b \<Longrightarrow> pow2 a \<le> pow2 b"
  using pow2_strict_mono [of a b] by (cases "a = b") auto

lemma round_half_even_of_int [simp]: "round_half_even (of_int i) = i"
  by (simp add: round_half_even_def)

lemma quotient_of_pow2: "quotient_of (pow2 k) = (if 0 \<le> k then (2 ^ nat k, 1) else (1, 2 ^ nat (- k)))"
proof (cases "0 \<le> k")
  case True
  have "pow2 k = Fract (2 ^ nat k) 1" using True by (simp add: pow2_def of_int_rat [symmetric])
  then show ?thesis using True by (simp add: quotient_of_Fract normalize_stable)
next
  case False
  have "quotient_of (Fract 1 (2 ^ nat (- k))) = Rat.normalize (1, 2 ^ nat (- k))"
    by (simp add: quotient_of_Fract)
  also have "\<dots> = (1, 2 ^ nat (- k))" by (simp add: normalize_stable)
  finally show ?thesis using False by (simp add: pow2_def Fract_of_int_quotient)
qed

lemma bitlen_one [simp]: "bitlen 1 = 1"
  by (simp add: bitlen_alt_def)

lemma bitlen_two_power [simp]: "bitlen (2 ^ n) = int n + 1"
  using bitlen_pow2 [of 1 n] by simp

lemma floor_log2_pow2 [simp]: "floor_log2 (pow2 k) = k"
  by (simp add: floor_log2_def quotient_of_pow2 Let_def)

lemma rnd53_pow2: "- 1022 \<le> k \<Longrightarrow> rnd53 (pow2 k) = pow2 k"
proof -
  assume k: "- 1022 \<le> k"
  have "pow2 k / pow2 (k - 52) = of_int (2 ^ 52)"
    by (simp add: pow2_diff) (simp add: pow2_def)
  then have "round_half_even (pow2 k / pow2 (k - 52)) = 2 ^ 52"
    by (metis round_half_even_of_int)
  moreover have "of_int (2 ^ 52) * pow2 (k - 52) = pow2 k"
    by (simp add: pow2_diff) (simp add: pow2_def)
  ultimately show ?thesis using k by (simp add: rnd53_def Let_def)
qed

lemma to_float_pow2: "- 1022 \<le> k \<Longrightarrow> k < 1024 \<Longrightarrow> to_float (pow2 k) = Fin (pow2 k)"
proof -
  assume k: "- 1022 \<le> k" "k < 1024"
  have "pow2 k < pow2 1024" using k by (intro pow2_strict_mono)
  then have "pow2 k < 2 ^ 1024" by (simp add: pow2_def)
  moreover have "- (2 ^ 1024) < pow2 k"
    by (rule less_trans [OF _ pow2_pos]) simp
  ultimately show ?thesis
    using k by (simp add: to_float_def rnd53_pow2 Let_def not_le [symmetric])
qed

text \<open>
  A power of two is computed exactly: the loop keeps the mantissa at 1/2, and every product of
  mantissas is a power of two within the exponent range.
\<close>

lemma pow_loop_two:
  assumes "(xe - 1) * int i \<le> 1023" and "1 \<le> xe - 1" and "0 \<le> c" and "c + int i \<le> 1022"
    and "pow_loop i (pow2 (- c)) ae (pow2 (- 1)) xe = (a, e)"
  shows "a * pow2 e = pow2 (- c) * pow2 ae * pow2 ((xe - 1) * int i)"
  using assms
proof (induction i arbitrary: c ae xe rule: less_induct)
  case (less i)
  show ?case
  proof (cases "i = 0")
    case True
    with less.prems show ?thesis by (simp add: pow_loop.simps pow2_def [of 0])
  next
    case False
    define c' where "c' = (if odd i then c + 1 else c)"
    define ae' where "ae' = (if odd i then ae + xe else ae)"
    have le: "xe - 1 \<le> (xe - 1) * int i"
      using False less.prems(2) mult_left_mono [of 1 "int i" "xe - 1"] by simp
    have bnd: "\<not> (xe < - 4096 \<or> 4096 < xe)" using le less.prems(1,2) by linarith
    have sq: "rnd53 (pow2 (- 1) * pow2 (- 1)) = pow2 (- 2)"
      by (simp add: pow2_add [symmetric] rnd53_pow2)
    have quarter: "pow2 (- 2) < 1 / 2" "pow2 (- 2) + pow2 (- 2) = pow2 (- 1)"
      by (simp_all add: pow2_def)
    have mant: "(if odd i then rnd53 (pow2 (- c) * pow2 (- 1)) else pow2 (- c)) = pow2 (- c')"
      using less.prems(3,4) False by (auto simp: c'_def pow2_add [symmetric] rnd53_pow2)
    have step: "pow_loop i (pow2 (- c)) ae (pow2 (- 1)) xe
        = pow_loop (i div 2) (pow2 (- c')) ae' (pow2 (- 1)) (2 * xe - 1)"
      using False bnd
      by (subst pow_loop.simps) (simp only: sq mant quarter if_True if_False Let_def ae'_def)
    have half: "(2 * xe - 1 - 1) * int (i div 2) \<le> (xe - 1) * int i"
    proof -
      have "(xe - 1) * (2 * int (i div 2)) \<le> (xe - 1) * int i"
        using less.prems(2) by (intro mult_left_mono) auto
      then show ?thesis by (simp add: algebra_simps)
    qed
    have i2: "2 * int (i div 2) = int i - (if odd i then 1 else 0)"
      by (auto elim!: oddE evenE)
    have IH: "a * pow2 e = pow2 (- c') * pow2 ae' * pow2 ((2 * xe - 1 - 1) * int (i div 2))"
    proof (rule less.IH)
      show "i div 2 < i" using False by simp
      show "(2 * xe - 1 - 1) * int (i div 2) \<le> 1023" using half less.prems(1) by linarith
      show "c' + int (i div 2) \<le> 1022"
        using less.prems(4) False i2 by (auto simp: c'_def split: if_splits)
      show "pow_loop (i div 2) (pow2 (- c')) ae' (pow2 (- 1)) (2 * xe - 1) = (a, e)"
        using less.prems(5) step by simp
    qed (use less.prems in \<open>auto simp: c'_def\<close>)
    have "(2 * xe - 1 - 1) * int (i div 2) = (xe - 1) * (2 * int (i div 2))"
      by (simp add: algebra_simps)
    also have "\<dots> = (xe - 1) * (int i - (if odd i then 1 else 0))"
      by (simp only: i2)
    finally have "(2 * xe - 1 - 1) * int (i div 2) = (xe - 1) * (int i - (if odd i then 1 else 0))" .
    then have "- c' + ae' + (2 * xe - 1 - 1) * int (i div 2) = - c + ae + (xe - 1) * int i"
      by (auto simp: c'_def ae'_def algebra_simps split: if_splits)
    then show ?thesis using IH by (simp add: pow2_add [symmetric])
  qed
qed

lemma math_Pow_two: "n \<le> 1022 \<Longrightarrow> math_Pow (Fin 2) n = Fin (2 ^ n)"
proof -
  assume n: "n \<le> 1022"
  have fr: "frexp 2 = (pow2 (- 1), 2)"
  proof -
    have "floor_log2 2 = 1" using floor_log2_pow2 [of 1] by (simp add: pow2_def)
    then show ?thesis by (simp add: frexp_def Let_def pow2_def)
  qed
  obtain a e where ae: "pow_loop n (pow2 (- 0)) 0 (pow2 (- 1)) 2 = (a, e)" by force
  have "a * pow2 e = pow2 (- 0) * pow2 0 * pow2 ((2 - 1) * int n)"
    by (rule pow_loop_two [OF _ _ _ _ ae]) (use n in auto)
  then have val: "a * pow2 e = 2 ^ n"
    using pow2_of_nat [of n] by (simp add: pow2_def [of 0])
  have fl: "to_float (2 ^ n) = Fin (2 ^ n)"
    using n to_float_pow2 [of "int n"] by (simp add: pow2_of_nat)
  have "pow_loop n 1 0 (pow2 (- 1)) 2 = (a, e)"
    using ae by (simp add: pow2_def [of 0])
  then show ?thesis
    using val fl by (cases n) (auto simp: fr simp del: power_Suc)
qed

lemma math_Pow_one [simp]: "math_Pow (Fin 1) n = Fin 1"
  by (cases n) simp_all

lemma float_to_int64_of_int: "in_int64 i \<Longrightarrow> float_to_int64 (Fin (of_int i)) = i"
  by (simp add: trunc_rat_def)

lemma float_to_int64_in_int64 [simp]: "in_int64 (float_to_int64 f)"
  by (cases f) (auto simp: in_int64_def)

end
