(* ===== verification/KeyBreaker.thy ===== *)
theory KeyBreaker
  imports CircuitBreaker GoFloat
begin

text \<open>
  The per-key breaker (internal/circuitbreaker/key.go): exponential backoff on 429, permanent
  disabling on auth failures or when the backoff reaches its cap. Each operation runs under the
  breaker's mutex, so it is one atomic step; the reading of \<open>time.Now()\<close> and the draw of
  \<open>rand.Int63n\<close> are arguments.
\<close>

record KeyCircuitBreaker =
  k_state :: State
  k_attempt :: int
  k_cooldownUntil :: time
  k_trippedReason :: string
  k_base :: duration
  k_multiplier :: float64
  k_backoffCap :: duration
  k_jitterFn :: "(int \<Rightarrow> duration) option"
  k_authFailCount :: int
  k_permaThreshold :: int

section \<open>Operations\<close>

definition NewKeyCircuitBreaker ::
    "duration \<Rightarrow> duration \<Rightarrow> float64 \<Rightarrow> int list \<Rightarrow> KeyCircuitBreaker" where
  "NewKeyCircuitBreaker b cap mult permaThreshold =
     (let threshold = (case permaThreshold of [] \<Rightarrow> 0 | t # _ \<Rightarrow> if 0 < t then t else 0)
      in \<lparr>k_state = Closed, k_attempt = 0, k_cooldownUntil = 0, k_trippedReason = '''',
          k_base = b, k_multiplier = mult, k_backoffCap = cap, k_jitterFn = None,
          k_authFailCount = 0, k_permaThreshold = threshold\<rparr>)"

text \<open>A uniform draw below half of the raw cooldown; \<open>draw\<close> is the generator's output.\<close>

definition defaultJitter :: "nat \<Rightarrow> duration \<Rightarrow> duration" where
  "defaultJitter draw raw =
     (if raw \<le> 0 then 0
      else (let maxJitter = go_div raw 2 in if maxJitter \<le> 0 then 0 else int draw mod maxJitter))"

definition raw_cooldown :: "KeyCircuitBreaker \<Rightarrow> duration" where
  "raw_cooldown k =
     wrap64 (k_base k * float_to_int64 (math_Pow (k_multiplier k) (nat (k_attempt k))))"

definition RecordFailure :: "time \<Rightarrow> nat \<Rightarrow> KeyCircuitBreaker \<Rightarrow> duration \<times> KeyCircuitBreaker" where
  "RecordFailure now draw k =
     (if k_state k = Permanent then (0, k)
      else
        (let raw = raw_cooldown k
         in if k_backoffCap k \<le> raw
            then (k_backoffCap k, k\<lparr>k_state := Permanent, k_trippedReason := ''quota_exhausted''\<rparr>)
            else
              (let jitter = (case k_jitterFn k of Some f \<Rightarrow> f (k_attempt k)
                             | None \<Rightarrow> defaultJitter draw raw);
                   cooldown0 = wrap64 (raw + jitter);
                   cooldown = (if k_backoffCap k < cooldown0 then k_backoffCap k else cooldown0)
               in (cooldown, k\<lparr>k_state := Open, k_cooldownUntil := now + cooldown,
                               k_attempt := k_attempt k + 1\<rparr>))))"

definition RecordAuthFailure :: "time \<Rightarrow> KeyCircuitBreaker \<Rightarrow> bool \<times> KeyCircuitBreaker" where
  "RecordAuthFailure now k =
     (if k_state k = Permanent then (False, k)
      else
        (let k' = k\<lparr>k_authFailCount := k_authFailCount k + 1\<rparr>
         in if k_permaThreshold k' \<le> 0 \<or> k_permaThreshold k' \<le> k_authFailCount k' then (True, k')
            else (False, k'\<lparr>k_state := Open, k_cooldownUntil := now + 10 * 1000000000\<rparr>)))"

definition RecordPerma :: "string \<Rightarrow> KeyCircuitBreaker \<Rightarrow> KeyCircuitBreaker" where
  "RecordPerma reason k = k\<lparr>k_state := Permanent, k_trippedReason := reason\<rparr>"

definition ForceCooldown :: "time \<Rightarrow> duration \<Rightarrow> KeyCircuitBreaker \<Rightarrow> KeyCircuitBreaker" where
  "ForceCooldown now d k =
     (if k_state k = Permanent then k
      else
        (let until = now + d;
             k' = (if k_cooldownUntil k < until then k\<lparr>k_cooldownUntil := until\<rparr> else k)
         in k'\<lparr>k_state := Open\<rparr>))"

definition RecordSuccess :: "KeyCircuitBreaker \<Rightarrow> KeyCircuitBreaker" where
  "RecordSuccess k =
     (if k_state k = Permanent then k
      else k\<lparr>k_state := Closed, k_attempt := 0, k_authFailCount := 0, k_cooldownUntil := 0\<rparr>)"

definition Reset :: "KeyCircuitBreaker \<Rightarrow> KeyCircuitBreaker" where
  "Reset k = k\<lparr>k_state := Closed, k_attempt := 0, k_authFailCount := 0, k_cooldownUntil := 0,
               k_trippedReason := ''''\<rparr>"

definition Allow :: "time \<Rightarrow> KeyCircuitBreaker \<Rightarrow> bool" where
  "Allow now k =
     (case k_state k of
        Permanent \<Rightarrow> False
      | Closed \<Rightarrow> True
      | Open \<Rightarrow> k_cooldownUntil k < now
      | HalfOpen \<Rightarrow> False)"

text \<open>\<open>time.Until\<close> saturates at the bounds of a Duration.\<close>

definition time_Until :: "time \<Rightarrow> time \<Rightarrow> duration" where
  "time_Until now t = max (- (2 ^ 63)) (min (2 ^ 63 - 1) (t - now))"

definition CooldownRemaining :: "time \<Rightarrow> KeyCircuitBreaker \<Rightarrow> duration" where
  "CooldownRemaining now k =
     (if k_state k = Permanent then - 1
      else if k_state k = Closed then 0
      else (let remaining = time_Until now (k_cooldownUntil k)
            in if remaining < 0 then 0 else remaining))"

lemmas [breaker_defs] = NewKeyCircuitBreaker_def RecordFailure_def RecordAuthFailure_def
  RecordPerma_def ForceCooldown_def RecordSuccess_def Reset_def Allow_def CooldownRemaining_def

section \<open>The operations as events\<close>

datatype key_event =
    EFailure time nat
  | EAuthFailure time
  | EPerma string
  | EForceCooldown time duration
  | ESuccess
  | EReset

fun key_step :: "key_event \<Rightarrow> KeyCircuitBreaker \<Rightarrow> KeyCircuitBreaker" where
  "key_step (EFailure now draw) k = snd (RecordFailure now draw k)"
| "key_step (EAuthFailure now) k = snd (RecordAuthFailure now k)"
| "key_step (EPerma r) k = RecordPerma r k"
| "key_step (EForceCooldown now d) k = ForceCooldown now d k"
| "key_step ESuccess k = RecordSuccess k"
| "key_step EReset k = Reset k"

text \<open>
  The invariant: counters are not negative, a key breaker is never half-open, a closed breaker has
  no pending cooldown and no backoff attempt.
\<close>

definition key_inv :: "KeyCircuitBreaker \<Rightarrow> bool" where
  "key_inv k \<longleftrightarrow>
     0 \<le> k_attempt k \<and> 0 \<le> k_authFailCount k \<and> 0 \<le> k_permaThreshold k \<and> k_state k \<noteq> HalfOpen \<and>
     (k_state k = Closed \<longrightarrow> k_attempt k = 0 \<and> k_cooldownUntil k = 0)"

lemma key_inv_new [simp]: "key_inv (NewKeyCircuitBreaker b cap mult ts)"
  by (cases ts) (simp_all add: key_inv_def NewKeyCircuitBreaker_def Let_def)

lemma key_step_inv: "key_inv k \<Longrightarrow> key_inv (key_step e k)"
  by (cases e) (auto simp: key_inv_def breaker_defs Let_def)

interpretation key_machine: event_machine key_step key_inv
  by unfold_locales (rule key_step_inv)

interpretation key_breaker: breaker k_state "\<lambda>now k. (Allow now k, k)" RecordSuccess Reset
  by unfold_locales (simp_all add: breaker_defs)

text \<open>Configuration fields are never written.\<close>

lemma key_step_config [simp]:
  "k_base (key_step e k) = k_base k" "k_multiplier (key_step e k) = k_multiplier k"
  "k_backoffCap (key_step e k) = k_backoffCap k" "k_jitterFn (key_step e k) = k_jitterFn k"
  "k_permaThreshold (key_step e k) = k_permaThreshold k"
  by (cases e; simp add: breaker_defs Let_def)+

section \<open>A permanently disabled key\<close>

lemma key_step_permanent: "k_state k = Permanent \<Longrightarrow> e \<noteq> EReset \<Longrightarrow> k_state (key_step e k) = Permanent"
  by (cases e) (auto simp: breaker_defs)

lemma key_run_permanent:
  "k_state k = Permanent \<Longrightarrow> EReset \<notin> set es \<Longrightarrow> k_state (fold key_step es k) = Permanent"
proof (induction es arbitrary: k)
  case (Cons e es)
  then have "k_state (key_step e k) = Permanent" by (intro key_step_permanent) auto
  with Cons show ?case by simp
qed simp

section \<open>Backoff\<close>

text \<open>The multiplier 2 gives exact powers of two.\<close>

lemma raw_cooldown_two:
  assumes "k_multiplier k = Fin 2" and "0 \<le> k_base k" and "k_attempt k = int n" and "n \<le> 62"
    and "k_base k * 2 ^ n < 2 ^ 63"
  shows "raw_cooldown k = k_base k * 2 ^ n"
proof -
  have "(2::int) ^ n \<le> 2 ^ 62" using assms(4) by (intro power_increasing) auto
  then have "in_int64 (2 ^ n)" by (intro in_int64I) (auto intro: order_trans [of _ 0])
  then have "float_to_int64 (Fin (2 ^ n)) = 2 ^ n"
    using float_to_int64_of_int [of "2 ^ n"] by simp
  moreover have "in_int64 (k_base k * 2 ^ n)"
    using assms(2,5) by (intro in_int64I) (auto intro: order_trans [of _ 0])
  ultimately show ?thesis
    using assms math_Pow_two [of n] by (simp add: raw_cooldown_def range_simps)
qed

lemma raw_cooldown_one:
  "k_multiplier k = Fin 1 \<Longrightarrow> in_int64 (k_base k) \<Longrightarrow> raw_cooldown k = k_base k"
  by (simp add: raw_cooldown_def range_simps trunc_rat_def in_int64_def [of 1])

lemma defaultJitter_bounds: "0 \<le> defaultJitter draw raw \<and> defaultJitter draw raw \<le> max 0 (raw div 2)"
  by (auto simp: defaultJitter_def Let_def intro: order_trans [OF less_imp_le [OF pos_mod_bound]])

lemma RecordFailure_trips:
  "k_state k \<noteq> Permanent \<Longrightarrow> k_backoffCap k \<le> raw_cooldown k \<Longrightarrow>
     RecordFailure now draw k =
       (k_backoffCap k, k\<lparr>k_state := Permanent, k_trippedReason := ''quota_exhausted''\<rparr>)"
  by (simp add: RecordFailure_def)

lemma RecordFailure_cools:
  assumes "k_state k \<noteq> Permanent" and "raw_cooldown k < k_backoffCap k" and "k_jitterFn k = None"
    and "0 \<le> raw_cooldown k" and "k_backoffCap k \<le> 2 ^ 62"
  obtains c where "RecordFailure now draw k =
      (c, k\<lparr>k_state := Open, k_cooldownUntil := now + c, k_attempt := k_attempt k + 1\<rparr>)"
    and "raw_cooldown k \<le> c" and "c \<le> k_backoffCap k" and "2 * c \<le> 3 * raw_cooldown k"
proof -
  let ?raw = "raw_cooldown k" and ?j = "defaultJitter draw (raw_cooldown k)"
  have j: "0 \<le> ?j" "2 * ?j \<le> ?raw" using defaultJitter_bounds [of draw ?raw] assms(4) by auto
  then have "in_int64 (?raw + ?j)" using assms by (intro in_int64I) auto
  then have w: "wrap64 (?raw + ?j) = ?raw + ?j" by (rule wrap64_id)
  show ?thesis
    by (rule that [of "if k_backoffCap k < ?raw + ?j then k_backoffCap k else ?raw + ?j"])
       (use assms j w in \<open>auto simp: RecordFailure_def Let_def\<close>)
qed

text \<open>Consecutive failures, each with its own clock reading and random draw.\<close>

definition fail_run :: "(time \<times> nat) list \<Rightarrow> KeyCircuitBreaker \<Rightarrow> KeyCircuitBreaker" where
  "fail_run fs k = fold (\<lambda>(now, draw). key_step (EFailure now draw)) fs k"

lemma fail_run_permanent: "k_state k = Permanent \<Longrightarrow> k_state (fail_run fs k) = Permanent"
  unfolding fail_run_def
  by (induction fs arbitrary: k) (auto simp: RecordFailure_def split: prod.splits)

lemma two_power_in_range:
  assumes "1 \<le> (b::int)" "b < 2 ^ 63" "cap \<le> 2 ^ 62" "\<forall>i<n. b * 2 ^ i < cap"
  shows "n \<le> 62" and "b * 2 ^ n < 2 ^ 63"
proof -
  show "n \<le> 62"
  proof (rule ccontr)
    assume "\<not> n \<le> 62"
    with assms(4) have "b * 2 ^ 62 < cap" by (simp only: not_le)
    moreover have "(2::int) ^ 62 \<le> b * 2 ^ 62" using assms(1) by simp
    ultimately show False using assms(3) by linarith
  qed
  show "b * 2 ^ n < 2 ^ 63"
  proof (cases n)
    case (Suc m)
    then have "b * 2 ^ m < 2 ^ 62" using assms(3,4) by (auto intro: less_le_trans)
    then show ?thesis using Suc by simp
  qed (use assms(2) in simp)
qed

lemma fail_run_two:
  assumes "k_multiplier k = Fin 2" "1 \<le> k_base k" "k_base k < 2 ^ 63" "k_backoffCap k \<le> 2 ^ 62"
    "k_jitterFn k = None" "k_state k \<noteq> Permanent" "k_attempt k = int n"
    and "\<forall>i<n. k_base k * 2 ^ i < k_backoffCap k"
  shows "k_state (fail_run fs k) = Permanent \<longleftrightarrow>
           (\<exists>i<n + length fs. k_backoffCap k \<le> k_base k * 2 ^ i)"
  using assms
proof (induction fs arbitrary: k n)
  case Nil
  then show ?case by (auto simp: fail_run_def not_le)
next
  case (Cons f fs)
  obtain now draw where f: "f = (now, draw)" by force
  have raw: "raw_cooldown k = k_base k * 2 ^ n"
    using Cons.prems two_power_in_range [OF Cons.prems(2-4,8)] by (intro raw_cooldown_two) auto
  show ?case
  proof (cases "k_backoffCap k \<le> k_base k * 2 ^ n")
    case True
    then have "k_state (key_step (EFailure now draw) k) = Permanent"
      using Cons.prems(6) raw by (simp add: RecordFailure_trips)
    then have "k_state (fail_run (f # fs) k) = Permanent"
      using fail_run_permanent by (simp add: fail_run_def f)
    with True show ?thesis by (auto intro!: exI [of _ n])
  next
    case False
    then have le: "raw_cooldown k < k_backoffCap k" "0 \<le> raw_cooldown k"
      using raw Cons.prems(2) by auto
    obtain c where c: "key_step (EFailure now draw) k
        = k\<lparr>k_state := Open, k_cooldownUntil := now + c, k_attempt := k_attempt k + 1\<rparr>"
      using RecordFailure_cools [OF Cons.prems(6) le(1) Cons.prems(5) le(2) Cons.prems(4)]
      by (metis key_step.simps(1) snd_conv)
    have below: "\<forall>i<Suc n. k_base k * 2 ^ i < k_backoffCap k"
      using Cons.prems(8) False by (metis less_Suc_eq not_le)
    have "k_state (fail_run fs (key_step (EFailure now draw) k)) = Permanent \<longleftrightarrow>
        (\<exists>i<Suc n + length fs. k_backoffCap k \<le> k_base k * 2 ^ i)"
      using Cons.IH [of "key_step (EFailure now draw) k" "Suc n"] Cons.prems(1-7) below
      by (simp only: c) simp
    then show ?thesis by (simp add: fail_run_def f)
  qed
qed

text \<open>The multiplier 1 never escalates.\<close>

lemma fail_run_one:
  assumes "k_multiplier k = Fin 1" "0 \<le> k_base k" "k_base k < k_backoffCap k"
    "k_backoffCap k \<le> 2 ^ 62" "k_jitterFn k = None" "k_state k \<noteq> Permanent"
  shows "k_state (fail_run fs k) \<noteq> Permanent"
  using assms
proof (induction fs arbitrary: k)
  case (Cons f fs)
  obtain now draw where f: "f = (now, draw)" by force
  have raw: "raw_cooldown k = k_base k"
    using Cons.prems by (intro raw_cooldown_one in_int64I) auto
  obtain c where c: "key_step (EFailure now draw) k
      = k\<lparr>k_state := Open, k_cooldownUntil := now + c, k_attempt := k_attempt k + 1\<rparr>"
    using RecordFailure_cools [of k now draw] Cons.prems raw
    by (metis key_step.simps(1) snd_conv)
  have "k_state (fail_run fs (key_step (EFailure now draw) k)) \<noteq> Permanent"
    by (rule Cons.IH) (use Cons.prems c in simp_all)
  then show ?case by (simp add: fail_run_def f)
qed (simp add: fail_run_def)

section \<open>Cooldowns\<close>

lemma ForceCooldown_extends:
  "k_state k \<noteq> Permanent \<Longrightarrow>
     k_cooldownUntil (ForceCooldown now d k) = max (k_cooldownUntil k) (now + d) \<and>
     k_state (ForceCooldown now d k) = Open"
  by (simp add: ForceCooldown_def Let_def max_def)

lemma Allow_mono: "Allow t k \<Longrightarrow> t \<le> t' \<Longrightarrow> Allow t' k"
  by (auto simp: Allow_def split: State.splits)

lemma Allow_CooldownRemaining: "Allow now k \<Longrightarrow> CooldownRemaining now k = 0"
  by (auto simp: Allow_def CooldownRemaining_def time_Until_def split: State.splits)

lemma CooldownRemaining_pos:
  "0 < CooldownRemaining now k \<Longrightarrow> k_state k \<noteq> Permanent \<and> \<not> Allow now k"
  using Allow_CooldownRemaining [of now k] by (auto simp: CooldownRemaining_def)

section \<open>Consecutive auth failures\<close>

fun auth_run :: "time list \<Rightarrow> KeyCircuitBreaker \<Rightarrow> bool list" where
  "auth_run [] k = []"
| "auth_run (t # ts) k = (let (b, k') = RecordAuthFailure t k in b # auth_run ts k')"

lemma auth_run_counts:
  "k_state k \<noteq> Permanent \<Longrightarrow>
     auth_run ts k = map (\<lambda>i. k_permaThreshold k \<le> 0 \<or> k_permaThreshold k \<le> k_authFailCount k + int i + 1)
                       [0..<length ts]"
proof (induction ts arbitrary: k)
  case (Cons t ts)
  then show ?case
    by (auto simp: RecordAuthFailure_def Let_def upt_conv_Cons map_Suc_upt [symmetric] comp_def
        algebra_simps simp del: upt_Suc)
qed simp

end
