(* ===== verification/KeyPool.thy ===== *)
theory KeyPool
  imports KeyBreaker Masking
begin

text \<open>
  The key pool (internal/keypool/keypool.go): parallel slices of keys, names, breakers, request
  history, last use and reservations, two rotation counters and a selection mode. Every exported
  operation runs under the pool's mutex and is one step here, with one clock reading \<open>now\<close>;
  logging is left out. An index that the source does not check is an \<open>option\<close> result, \<open>None\<close>
  being the panic.
\<close>

section \<open>State\<close>

type_synonym KeySelectionMode = string

definition KeySelectionPolling :: KeySelectionMode where
  "KeySelectionPolling = ''polling''"

definition KeySelectionRandom :: KeySelectionMode where
  "KeySelectionRandom = ''random''"

record KeyPool =
  p_counter :: uint64
  p_keys :: "string list"
  p_names :: "string list"
  p_cbs :: "KeyCircuitBreaker list"
  p_requestHistory :: "time list list"
  p_lastUsed :: "time list"
  p_inUse :: "bool list"
  p_selectionMode :: KeySelectionMode
  p_pollingIndex :: uint64

datatype pool_error = OutOfRange int int

definition zeroBreaker :: KeyCircuitBreaker where
  "zeroBreaker = NewKeyCircuitBreaker 0 0 (Fin 0) []"

definition NewKeyPool :: "uint64 \<Rightarrow> string list \<Rightarrow> string list \<Rightarrow> KeyPool" where
  "NewKeyPool rand keys names =
     \<lparr>p_counter = rand, p_keys = keys,
      p_names = map (\<lambda>i. if i < length names then names ! i else '''') [0..<length keys],
      p_cbs = replicate (length keys) zeroBreaker,
      p_requestHistory = replicate (length keys) [],
      p_lastUsed = replicate (length keys) 0,
      p_inUse = replicate (length keys) False,
      p_selectionMode = KeySelectionPolling,
      p_pollingIndex = 0\<rparr>"

definition SetSelectionMode :: "KeySelectionMode \<Rightarrow> KeyPool \<Rightarrow> KeyPool" where
  "SetSelectionMode mode p = p\<lparr>p_selectionMode := mode\<rparr>"

text \<open>All slices have one length and every breaker satisfies its own invariant.\<close>

definition pool_wf :: "KeyPool \<Rightarrow> bool" where
  "pool_wf p \<longleftrightarrow>
     length (p_names p) = length (p_keys p) \<and> length (p_cbs p) = length (p_keys p) \<and>
     length (p_requestHistory p) = length (p_keys p) \<and> length (p_lastUsed p) = length (p_keys p) \<and>
     length (p_inUse p) = length (p_keys p) \<and> list_all key_inv (p_cbs p)"

section \<open>Selection\<close>

text \<open>The indexes of a full turn that starts at \<open>start\<close>.\<close>

definition turn :: "nat \<Rightarrow> nat \<Rightarrow> nat list" where
  "turn start n = map (\<lambda>i. (start + i) mod n) [0..<n]"

definition selectKeyPolling :: "time \<Rightarrow> KeyPool \<Rightarrow> (nat \<times> string) option \<times> KeyPool" where
  "selectKeyPolling now p =
     (let n = length (p_keys p)
      in if n = 0 then (None, p)
         else
           (let start = unat (p_pollingIndex p) mod n
            in case find (\<lambda>idx. Allow now (p_cbs p ! idx)) (turn start n) of
                 Some idx \<Rightarrow>
                   (Some (idx, p_keys p ! idx), p\<lparr>p_pollingIndex := of_nat ((idx + 1) mod n)\<rparr>)
               | None \<Rightarrow> (None, p)))"

text \<open>Requests of one key after \<open>now - 60s\<close>.\<close>

definition requests_at :: "time \<Rightarrow> KeyPool \<Rightarrow> nat \<Rightarrow> nat" where
  "requests_at now p i =
     length (filter (\<lambda>t. now - 60 * 1000000000 < t) (p_requestHistory p ! i))"

definition RequestsInLastMinute :: "time \<Rightarrow> int \<Rightarrow> KeyPool \<Rightarrow> nat option" where
  "RequestsInLastMinute now idx p =
     map_option (\<lambda>_. requests_at now p (nat idx)) (nth_opt (p_requestHistory p) idx)"

text \<open>The scan for the lowest request rate: the first of the smallest.\<close>

fun pick_min :: "(nat \<Rightarrow> nat) \<Rightarrow> nat \<Rightarrow> nat list \<Rightarrow> nat" where
  "pick_min rpm best [] = best"
| "pick_min rpm best (idx # rest) =
     pick_min rpm (if rpm idx < rpm best then idx else best) rest"

definition selectKeyRandom :: "time \<Rightarrow> KeyPool \<Rightarrow> (nat \<times> string) option \<times> KeyPool" where
  "selectKeyRandom now p =
     (case find_indices (Allow now) (p_cbs p) of
        [] \<Rightarrow> (None, p)
      | first # rest \<Rightarrow>
          (let best = pick_min (requests_at now p) first rest
           in (Some (best, p_keys p ! best), p)))"

definition SelectKey :: "time \<Rightarrow> KeyPool \<Rightarrow> (nat \<times> string) option \<times> KeyPool" where
  "SelectKey now p =
     (if p_selectionMode p = KeySelectionPolling then selectKeyPolling now p
      else if p_selectionMode p = KeySelectionRandom then selectKeyRandom now p
      else selectKeyPolling now p)"

definition AdvanceCounter :: "KeyPool \<Rightarrow> KeyPool" where
  "AdvanceCounter p = p\<lparr>p_counter := p_counter p + 1\<rparr>"

definition AvailableKeys :: "time \<Rightarrow> KeyPool \<Rightarrow> nat list" where
  "AvailableKeys now p =
     (let n = length (p_cbs p)
      in if n = 0 then []
         else
           (let avail = find_indices (\<lambda>cb. k_state cb \<noteq> Permanent \<and> Allow now cb) (p_cbs p);
                start = unat (p_counter p - 1) mod n;
                offset = (case find (\<lambda>i. start \<le> avail ! i) [0..<length avail] of
                            Some i \<Rightarrow> i | None \<Rightarrow> 0)
            in if 0 < offset then drop offset avail @ take offset avail else avail))"

definition Next :: "time \<Rightarrow> KeyPool \<Rightarrow> (nat \<times> string) option \<times> KeyPool" where
  "Next now p =
     (let n = length (p_keys p)
      in if n = 0 then (None, p)
         else
           (let p = p\<lparr>p_counter := p_counter p + 1\<rparr>;
                start = unat (p_counter p - 1) mod n;
                candidates = filter (\<lambda>idx. Allow now (p_cbs p ! idx) \<and> \<not> p_inUse p ! idx) (turn start n)
            in case candidates of
                 [] \<Rightarrow> (None, p)
               | [best] \<Rightarrow> (Some (best, p_keys p ! best), p\<lparr>p_inUse := (p_inUse p)[best := True]\<rparr>)
               | first # rest \<Rightarrow>
                   (let best = pick_min (requests_at now p) first rest
                    in (Some (best, p_keys p ! best), p\<lparr>p_inUse := (p_inUse p)[best := True]\<rparr>))))"

definition Release :: "int \<Rightarrow> KeyPool \<Rightarrow> KeyPool" where
  "Release idx p =
     (if 0 \<le> idx \<and> idx < int (length (p_inUse p))
      then p\<lparr>p_inUse := (p_inUse p)[nat idx := False]\<rparr> else p)"

section \<open>Reading\<close>

definition validateIndex :: "KeyPool \<Rightarrow> int \<Rightarrow> pool_error option" where
  "validateIndex p idx =
     (if idx < 0 \<or> int (length (p_keys p)) \<le> idx \<or> int (length (p_names p)) \<le> idx
      then Some (OutOfRange idx (int (length (p_keys p)) - 1)) else None)"

definition Keys :: "KeyPool \<Rightarrow> string list" where
  "Keys p = p_keys p"

definition Len :: "KeyPool \<Rightarrow> int" where
  "Len p = int (length (p_keys p))"

definition Name :: "int \<Rightarrow> KeyPool \<Rightarrow> pool_error + string" where
  "Name idx p =
     (case validateIndex p idx of Some e \<Rightarrow> Inl e | None \<Rightarrow> Inr (p_names p ! nat idx))"

text \<open>The loop of \<open>TimeUntilAvailable\<close>, with the shortest positive remaining time so far.\<close>

fun soonest_loop :: "time \<Rightarrow> KeyCircuitBreaker list \<Rightarrow> duration \<Rightarrow> duration" where
  "soonest_loop now [] soonest = soonest"
| "soonest_loop now (cb # cbs) soonest =
     (if k_state cb = Permanent then soonest_loop now cbs soonest
      else if Allow now cb then 0
      else
        (let rem = CooldownRemaining now cb
         in if 0 < rem \<and> (soonest < 0 \<or> rem < soonest) then soonest_loop now cbs rem
            else soonest_loop now cbs soonest))"

definition TimeUntilAvailable :: "time \<Rightarrow> KeyPool \<Rightarrow> duration" where
  "TimeUntilAvailable now p = soonest_loop now (p_cbs p) (- 1)"

definition IsDisabled :: "int \<Rightarrow> KeyPool \<Rightarrow> bool" where
  "IsDisabled idx p =
     (if idx < 0 \<or> int (length (p_cbs p)) \<le> idx then False
      else k_state (p_cbs p ! nat idx) = Permanent)"

definition ActiveCount :: "KeyPool \<Rightarrow> nat" where
  "ActiveCount p = length (filter (\<lambda>i. k_state (p_cbs p ! i) \<noteq> Permanent) [0..<length (p_keys p)])"

definition AnyActive :: "KeyPool \<Rightarrow> bool" where
  "AnyActive p = list_ex (\<lambda>cb. k_state cb \<noteq> Permanent) (p_cbs p)"

definition DisabledCount :: "KeyPool \<Rightarrow> nat" where
  "DisabledCount p = length (filter (\<lambda>cb. k_state cb = Permanent) (p_cbs p))"

definition CoolingCount :: "time \<Rightarrow> KeyPool \<Rightarrow> nat" where
  "CoolingCount now p =
     length (filter (\<lambda>i. k_state (p_cbs p ! i) = Open \<and> \<not> Allow now (p_cbs p ! i))
       [0..<length (p_keys p)])"

text \<open>The label of a key's status; \<open>Cooling\<close> carries the duration that the source prints in seconds.\<close>

datatype key_label = LDisabled | LReady | LCooling duration | LUnknown

definition KeyStatusLabel :: "time \<Rightarrow> KeyCircuitBreaker \<Rightarrow> key_label" where
  "KeyStatusLabel now cb =
     (case k_state cb of
        Permanent \<Rightarrow> LDisabled
      | Closed \<Rightarrow> LReady
      | Open \<Rightarrow> if Allow now cb then LReady else LCooling (CooldownRemaining now cb)
      | HalfOpen \<Rightarrow> LUnknown)"

definition Status :: "time \<Rightarrow> KeyPool \<Rightarrow> (nat \<times> key_label) list" where
  "Status now p = map (\<lambda>i. (i, KeyStatusLabel now (p_cbs p ! i))) [0..<length (p_keys p)]"

section \<open>Writing\<close>

definition CleanupOldRequests :: "time \<Rightarrow> int \<Rightarrow> KeyPool \<Rightarrow> KeyPool option" where
  "CleanupOldRequests now idx p =
     map_option
       (\<lambda>h. p\<lparr>p_requestHistory := (p_requestHistory p)[nat idx :=
                 filter (\<lambda>t. now - 60 * 1000000000 < t) h]\<rparr>)
       (nth_opt (p_requestHistory p) idx)"

text \<open>Apply an operation to the breaker of one key.\<close>

definition update_cb :: "nat \<Rightarrow> (KeyCircuitBreaker \<Rightarrow> KeyCircuitBreaker) \<Rightarrow> KeyPool \<Rightarrow> KeyPool" where
  "update_cb i f p = p\<lparr>p_cbs := (p_cbs p)[i := f (p_cbs p ! i)]\<rparr>"

definition Cooldown :: "time \<Rightarrow> int \<Rightarrow> duration \<Rightarrow> KeyPool \<Rightarrow> pool_error option \<times> KeyPool" where
  "Cooldown now idx d p =
     (case validateIndex p idx of
        Some e \<Rightarrow> (Some e, p)
      | None \<Rightarrow> (None, update_cb (nat idx) (ForceCooldown now d) p))"

definition Disable :: "int \<Rightarrow> KeyPool \<Rightarrow> pool_error option \<times> KeyPool" where
  "Disable idx p =
     (case validateIndex p idx of
        Some e \<Rightarrow> (Some e, p)
      | None \<Rightarrow> (None, update_cb (nat idx) (RecordPerma ''manual'') p))"

definition Enable :: "int \<Rightarrow> KeyPool \<Rightarrow> pool_error option \<times> KeyPool" where
  "Enable idx p =
     (case validateIndex p idx of
        Some e \<Rightarrow> (Some e, p)
      | None \<Rightarrow> (None, update_cb (nat idx) Reset p))"

definition reconfigured :: "duration \<Rightarrow> duration \<Rightarrow> float64 \<Rightarrow> KeyCircuitBreaker \<Rightarrow> KeyCircuitBreaker" where
  "reconfigured b cap mult old =
     (let fresh = NewKeyCircuitBreaker b cap mult []
      in if k_state old = Permanent
         then RecordPerma (if k_trippedReason old \<noteq> '''' then k_trippedReason old else ''preserved'') fresh
         else fresh)"

definition ConfigureCBs :: "duration \<Rightarrow> duration \<Rightarrow> float64 \<Rightarrow> KeyPool \<Rightarrow> KeyPool" where
  "ConfigureCBs b cap mult p = p\<lparr>p_cbs := map (reconfigured b cap mult) (p_cbs p)\<rparr>"

text \<open>\<open>CB\<close> returns a pointer, nil outside the range; callers use it at once.\<close>

definition CB :: "int \<Rightarrow> KeyPool \<Rightarrow> KeyCircuitBreaker option" where
  "CB idx p = nth_opt (p_cbs p) idx"

definition P_RecordFailure :: "time \<Rightarrow> nat \<Rightarrow> int \<Rightarrow> KeyPool \<Rightarrow> duration \<times> KeyPool" where
  "P_RecordFailure now draw idx p =
     (case CB idx p of
        None \<Rightarrow> (0, p)
      | Some cb \<Rightarrow>
          (fst (RecordFailure now draw cb),
           update_cb (nat idx) (\<lambda>k. snd (RecordFailure now draw k)) p))"

definition P_RecordAuthFailure :: "time \<Rightarrow> int \<Rightarrow> KeyPool \<Rightarrow> bool \<times> KeyPool" where
  "P_RecordAuthFailure now idx p =
     (case CB idx p of
        None \<Rightarrow> (False, p)
      | Some cb \<Rightarrow>
          (fst (RecordAuthFailure now cb),
           update_cb (nat idx) (\<lambda>k. snd (RecordAuthFailure now k)) p))"

definition P_RecordSuccess :: "int \<Rightarrow> KeyPool \<Rightarrow> KeyPool" where
  "P_RecordSuccess idx p =
     (case CB idx p of None \<Rightarrow> p | Some cb \<Rightarrow> update_cb (nat idx) RecordSuccess p)"

definition IncrementRequestCount :: "time \<Rightarrow> int \<Rightarrow> KeyPool \<Rightarrow> KeyPool option" where
  "IncrementRequestCount now idx p =
     (case CleanupOldRequests now idx p of
        None \<Rightarrow> None
      | Some p' \<Rightarrow>
          (if idx < int (length (p_lastUsed p'))
           then Some (p'\<lparr>p_requestHistory := (p_requestHistory p')[nat idx :=
                            p_requestHistory p' ! nat idx @ [now]],
                        p_lastUsed := (p_lastUsed p')[nat idx := now]\<rparr>)
           else None))"

definition AddKey :: "string \<Rightarrow> string \<Rightarrow> KeyPool \<Rightarrow> int \<times> KeyPool" where
  "AddKey key name p =
     (let p' = p\<lparr>p_keys := p_keys p @ [key], p_names := p_names p @ [name],
                 p_cbs := p_cbs p @ [NewKeyCircuitBreaker 0 0 (Fin 0) []],
                 p_requestHistory := p_requestHistory p @ [[]],
                 p_lastUsed := p_lastUsed p @ [0], p_inUse := p_inUse p @ [False]\<rparr>
      in (int (length (p_keys p')) - 1, p'))"

definition RemoveKey :: "int \<Rightarrow> KeyPool \<Rightarrow> pool_error option \<times> KeyPool" where
  "RemoveKey idx p =
     (case validateIndex p idx of
        Some e \<Rightarrow> (Some e, p)
      | None \<Rightarrow>
          (let i = nat idx
           in (None, p\<lparr>p_keys := remove_at i (p_keys p), p_names := remove_at i (p_names p),
                       p_cbs := remove_at i (p_cbs p),
                       p_requestHistory := remove_at i (p_requestHistory p),
                       p_lastUsed := remove_at i (p_lastUsed p),
                       p_inUse := remove_at i (p_inUse p)\<rparr>)))"

record KeyDetail =
  d_Index :: nat
  d_Key :: string
  d_Name :: string
  d_Disabled :: bool
  d_Status :: key_label
  d_RequestsPerMinute :: nat
  d_LastUsed :: time
  d_CooldownRemaining :: duration

text \<open>
  \<open>GetKeyDetails\<close> also drops the stale request times of every key, one index after the other. The
  two printed fields keep the value that is printed.
\<close>

definition cleanup_all :: "time \<Rightarrow> KeyPool \<Rightarrow> KeyPool" where
  "cleanup_all now p =
     p\<lparr>p_requestHistory := map (filter (\<lambda>t. now - 60 * 1000000000 < t)) (p_requestHistory p)\<rparr>"

definition GetKeyDetails :: "time \<Rightarrow> KeyPool \<Rightarrow> KeyDetail list \<times> KeyPool" where
  "GetKeyDetails now p =
     (let p = cleanup_all now p
      in (map (\<lambda>i. \<lparr>d_Index = i, d_Key = MaskKey (p_keys p ! i),
                     d_Name = (if i < length (p_names p) then p_names p ! i else ''''),
                     d_Disabled = (k_state (p_cbs p ! i) = Permanent),
                     d_Status = KeyStatusLabel now (p_cbs p ! i),
                     d_RequestsPerMinute = requests_at now p i,
                     d_LastUsed = p_lastUsed p ! i,
                     d_CooldownRemaining = CooldownRemaining now (p_cbs p ! i)\<rparr>)
            [0..<length (p_keys p)], p))"

lemmas [pool_defs] = SetSelectionMode_def AdvanceCounter_def Release_def update_cb_def Cooldown_def
  Disable_def Enable_def ConfigureCBs_def CB_def P_RecordFailure_def P_RecordAuthFailure_def
  P_RecordSuccess_def AddKey_def RemoveKey_def CleanupOldRequests_def IncrementRequestCount_def
  validateIndex_def cleanup_all_def

end
