(* ===== verification/KeySelection.thy ===== *)
theory KeySelection
  imports KeyPool
begin

text \<open>
  What selection promises to the proxy: the interface \<open>key_selector\<close> and its instances (polling,
  lowest rate, the configured mode, and the reserving \<open>Next\<close>), round-robin order and freedom from
  starvation of the polling mode.
\<close>

section \<open>The interface\<close>

text \<open>
  A selector returns a usable key of the pool whenever there is one and never anything else, and
  leaves the keys alone. \<open>usable\<close> is what the selector looks at.
\<close>

locale key_selector =
  fixes select :: "time \<Rightarrow> 's \<Rightarrow> (nat \<times> 'k) option \<times> 's"
    and usable :: "time \<Rightarrow> 's \<Rightarrow> nat \<Rightarrow> bool"
    and keys :: "'s \<Rightarrow> 'k list"
    and valid :: "'s \<Rightarrow> bool"
  assumes sound: "valid s \<Longrightarrow> fst (select now s) = Some (i, k) \<Longrightarrow>
      i < length (keys s) \<and> k = keys s ! i \<and> usable now s i"
    and complete: "valid s \<Longrightarrow> fst (select now s) = None \<Longrightarrow> i < length (keys s) \<Longrightarrow> \<not> usable now s i"
    and keeps_keys: "valid s \<Longrightarrow> keys (snd (select now s)) = keys s"
    and keeps_valid: "valid s \<Longrightarrow> valid (snd (select now s))"
begin

lemma selects_iff:
  "valid s \<Longrightarrow> fst (select now s) \<noteq> None \<longleftrightarrow> (\<exists>i<length (keys s). usable now s i)"
  using sound [of s now] complete [of s now] by force

text \<open>One selection after the other.\<close>

fun select_all :: "time list \<Rightarrow> 's \<Rightarrow> (nat \<times> 'k) option list" where
  "select_all [] s = []"
| "select_all (t # ts) s = (let (r, s') = select t s in r # select_all ts s')"

lemma select_all_in_keys:
  "valid s \<Longrightarrow> Some (i, k) \<in> set (select_all ts s) \<Longrightarrow> i < length (keys s) \<and> k = keys s ! i"
proof (induction ts arbitrary: s)
  case (Cons t ts)
  show ?case
  proof (cases "fst (select t s) = Some (i, k)")
    case True
    with Cons.prems sound show ?thesis by blast
  next
    case False
    with Cons.prems(2) have "Some (i, k) \<in> set (select_all ts (snd (select t s)))"
      by (auto simp: split_beta)
    with Cons.IH Cons.prems(1) keeps_valid keeps_keys show ?thesis by fastforce
  qed
qed simp

end

text \<open>
  A selector that reserves what it returns: the key is usable by nobody else until it is released.
\<close>

locale reserving_selector = key_selector select usable keys valid
  for select :: "time \<Rightarrow> 's \<Rightarrow> (nat \<times> 'k) option \<times> 's"
    and usable :: "time \<Rightarrow> 's \<Rightarrow> nat \<Rightarrow> bool"
    and keys :: "'s \<Rightarrow> 'k list"
    and valid :: "'s \<Rightarrow> bool" +
  fixes reserved :: "'s \<Rightarrow> nat set"
  assumes usable_free: "usable now s i \<Longrightarrow> i \<notin> reserved s"
    and reserves: "valid s \<Longrightarrow> fst (select now s) = Some (i, k) \<Longrightarrow>
      reserved (snd (select now s)) = insert i (reserved s)"
    and none_reserves: "valid s \<Longrightarrow> fst (select now s) = None \<Longrightarrow>
      reserved (snd (select now s)) = reserved s"
begin

definition reservations :: "(nat \<times> 'k) option list \<Rightarrow> nat list" where
  "reservations rs = map fst (List.map_filter id rs)"

lemma reservations_simps [simp]:
  "reservations [] = []" "reservations (None # rs) = reservations rs"
  "reservations (Some r # rs) = fst r # reservations rs"
  by (simp_all add: reservations_def List.map_filter_simps)

text \<open>Without a release, no two selections return the same key.\<close>

lemma reservations_fresh:
  "valid s \<Longrightarrow> distinct (reservations (select_all ts s)) \<and>
     set (reservations (select_all ts s)) \<inter> reserved s = {}"
proof (induction ts arbitrary: s)
  case (Cons t ts)
  obtain r s' where sel: "select t s = (r, s')" by force
  with Cons.prems keeps_valid [of s t] have v: "valid s'" by simp
  note ih = Cons.IH [OF v]
  show ?case
  proof (cases r)
    case None
    with sel Cons.prems none_reserves [of s t] have "reserved s' = reserved s" by simp
    with ih None sel show ?thesis by simp
  next
    case (Some ik)
    obtain i k where ik: "ik = (i, k)" by force
    have "reserved s' = insert i (reserved s)"
      using reserves [of s t i k] sel Some ik Cons.prems by simp
    moreover have "i \<notin> reserved s"
      using sound [of s t i k] usable_free [of t s i] sel Some ik Cons.prems by simp
    ultimately show ?thesis using ih sel Some ik by auto
  qed
qed simp

end

section \<open>The polling mode\<close>

lemma length_turn [simp]: "length (turn s n) = n"
  by (simp add: turn_def)

lemma nth_turn [simp]: "i < n \<Longrightarrow> turn s n ! i = (s + i) mod n"
  by (simp add: turn_def)

lemma distinct_turn: "distinct (turn s n)"
proof -
  have inj: "i = j" if "i < n" "j < n" "(s + i) mod n = (s + j) mod n" for i j :: nat
  proof -
    have "(int s + int i) mod int n = (int s + int j) mod int n"
      using that(3) by (simp only: of_nat_add [symmetric] of_nat_mod [symmetric])
    then have "int n dvd (int s + int i) - (int s + int j)"
      by (simp only: mod_eq_dvd_iff)
    then have "int n dvd int i - int j" by simp
    moreover have "\<bar>int i - int j\<bar> < int n" using that(1,2) by linarith
    ultimately have "int i - int j = 0"
      using dvd_imp_le_int [of "int i - int j" "int n"] by (cases "int i - int j = 0") simp_all
    then show ?thesis by simp
  qed
  have "inj_on (\<lambda>i. (s + i) mod n) (set [0..<n])"
    by (rule inj_onI, rule inj) (simp_all only: set_upt atLeastLessThan_iff)
  then show ?thesis by (simp only: turn_def distinct_map distinct_upt simp_thms)
qed

lemma set_turn [simp]: "set (turn s n) = {..<n}"
proof (rule card_subset_eq)
  show "set (turn s n) \<subseteq> {..<n}" by (auto simp: turn_def)
  show "card (set (turn s n)) = card {..<n}" by (simp add: distinct_card distinct_turn)
qed simp

lemma find_Some_mem: "find P xs = Some x \<Longrightarrow> P x \<and> x \<in> set xs"
  by (auto simp: find_Some_iff)

lemma selectKeyPolling_Some:
  assumes "fst (selectKeyPolling now p) = Some (i, k)"
  shows "i < length (p_keys p)" and "k = p_keys p ! i" and "Allow now (p_cbs p ! i)"
    and "snd (selectKeyPolling now p) = p\<lparr>p_pollingIndex := of_nat ((i + 1) mod length (p_keys p))\<rparr>"
proof -
  let ?n = "length (p_keys p)"
  let ?turn = "turn (unat (p_pollingIndex p) mod ?n) ?n"
  obtain idx where idx: "find (\<lambda>i. Allow now (p_cbs p ! i)) ?turn = Some idx" "?n \<noteq> 0"
    using assms by (auto simp: selectKeyPolling_def Let_def split: if_splits option.splits)
  moreover have "i = idx" and "k = p_keys p ! idx"
    using assms idx by (auto simp: selectKeyPolling_def Let_def)
  moreover have "Allow now (p_cbs p ! idx)" and "idx \<in> set ?turn"
    using find_Some_mem [OF idx(1)] by simp_all
  ultimately show "i < ?n" "k = p_keys p ! i" "Allow now (p_cbs p ! i)"
    "snd (selectKeyPolling now p) = p\<lparr>p_pollingIndex := of_nat ((i + 1) mod ?n)\<rparr>"
    by (simp_all add: selectKeyPolling_def Let_def)
qed

lemma selectKeyPolling_None:
  assumes "fst (selectKeyPolling now p) = None"
  shows "snd (selectKeyPolling now p) = p" and "i < length (p_keys p) \<Longrightarrow> \<not> Allow now (p_cbs p ! i)"
proof -
  let ?n = "length (p_keys p)"
  have none: "?n = 0 \<or> find (\<lambda>i. Allow now (p_cbs p ! i)) (turn (unat (p_pollingIndex p) mod ?n) ?n) = None"
    using assms by (auto simp: selectKeyPolling_def Let_def split: if_splits option.splits)
  then show "snd (selectKeyPolling now p) = p"
    by (auto simp: selectKeyPolling_def Let_def)
  show "\<not> Allow now (p_cbs p ! i)" if "i < ?n"
    using none that by (auto simp: find_None_iff)
qed

lemma snd_selectKeyPolling:
  obtains x where "snd (selectKeyPolling now p) = p\<lparr>p_pollingIndex := x\<rparr>"
proof (cases "fst (selectKeyPolling now p)")
  case None
  then show ?thesis using that [of "p_pollingIndex p"] by (simp add: selectKeyPolling_None)
next
  case (Some ik)
  then show ?thesis using that selectKeyPolling_Some(4) [of now p "fst ik" "snd ik"] by simp
qed

lemma selectKeyPolling_frame [simp]:
  "p_keys (snd (selectKeyPolling now p)) = p_keys p" "p_cbs (snd (selectKeyPolling now p)) = p_cbs p"
  "p_inUse (snd (selectKeyPolling now p)) = p_inUse p"
  "p_requestHistory (snd (selectKeyPolling now p)) = p_requestHistory p"
  "p_selectionMode (snd (selectKeyPolling now p)) = p_selectionMode p"
  "pool_wf (snd (selectKeyPolling now p)) = pool_wf p"
  by (rule snd_selectKeyPolling [of now p]; simp add: pool_wf_def)+

interpretation polling: key_selector selectKeyPolling "\<lambda>now p i. Allow now (p_cbs p ! i)" p_keys pool_wf
  by unfold_locales (simp_all add: selectKeyPolling_Some selectKeyPolling_None)

section \<open>The lowest request rate\<close>

lemma pick_min_least:
  "pick_min rpm b xs \<in> set (b # xs) \<and> (\<forall>i\<in>set (b # xs). rpm (pick_min rpm b xs) \<le> rpm i)"
proof (induction xs arbitrary: b)
  case (Cons x xs)
  let ?b = "if rpm x < rpm b then x else b"
  have "rpm ?b \<le> rpm b" "rpm ?b \<le> rpm x" "?b \<in> {b, x}" by auto
  with Cons.IH [of ?b] show ?case by fastforce
qed simp

lemma selectKeyRandom_Some:
  assumes "fst (selectKeyRandom now p) = Some (i, k)"
  shows "i < length (p_cbs p)" and "k = p_keys p ! i" and "Allow now (p_cbs p ! i)"
    and "j < length (p_cbs p) \<Longrightarrow> Allow now (p_cbs p ! j) \<Longrightarrow> requests_at now p i \<le> requests_at now p j"
proof -
  obtain f r where fr: "find_indices (Allow now) (p_cbs p) = f # r"
    using assms by (auto simp: selectKeyRandom_def split: list.splits)
  then have "selectKeyRandom now p = (Some (pick_min (requests_at now p) f r,
      p_keys p ! pick_min (requests_at now p) f r), p)"
    by (simp add: selectKeyRandom_def Let_def)
  with assms have "Some (pick_min (requests_at now p) f r, p_keys p ! pick_min (requests_at now p) f r)
      = Some (i, k)"
    by (simp only: fst_conv)
  then have i: "i = pick_min (requests_at now p) f r"
    and k: "k = p_keys p ! pick_min (requests_at now p) f r"
    by blast+
  have avail: "set (f # r) = {i. i < length (p_cbs p) \<and> Allow now (p_cbs p ! i)}"
    by (simp only: fr [symmetric] set_find_indices)
  note least = pick_min_least [of "requests_at now p" f r, folded i, unfolded avail]
  then show "i < length (p_cbs p)" and "Allow now (p_cbs p ! i)" by simp_all
  show "k = p_keys p ! i" by (simp only: i k)
  show "requests_at now p i \<le> requests_at now p j"
    if "j < length (p_cbs p)" "Allow now (p_cbs p ! j)"
    using least that by simp
qed

lemma selectKeyRandom_None:
  "fst (selectKeyRandom now p) = None \<Longrightarrow> i < length (p_cbs p) \<Longrightarrow> \<not> Allow now (p_cbs p ! i)"
  using set_find_indices [of "Allow now" "p_cbs p"]
  by (auto simp: selectKeyRandom_def Let_def simp del: set_find_indices split: list.splits)

lemma snd_selectKeyRandom [simp]: "snd (selectKeyRandom now p) = p"
  by (simp add: selectKeyRandom_def Let_def split: list.splits)

interpretation lowest: key_selector selectKeyRandom "\<lambda>now p i. Allow now (p_cbs p ! i)" p_keys pool_wf
proof
  fix s now i k
  assume "pool_wf s" "fst (selectKeyRandom now s) = Some (i, k)"
  then show "i < length (p_keys s) \<and> k = p_keys s ! i \<and> Allow now (p_cbs s ! i)"
    using selectKeyRandom_Some(1-3) [of now s i k] by (simp add: pool_wf_def)
next
  fix s now i
  assume "pool_wf s" "fst (selectKeyRandom now s) = None" "i < length (p_keys s)"
  then show "\<not> Allow now (p_cbs s ! i)"
    using selectKeyRandom_None [of now s i] by (simp add: pool_wf_def)
qed simp_all

lemma SelectKey_cases:
  obtains "SelectKey now p = selectKeyPolling now p" "p_selectionMode p \<noteq> KeySelectionRandom"
  | "SelectKey now p = selectKeyRandom now p" "p_selectionMode p = KeySelectionRandom"
  by (cases "p_selectionMode p = KeySelectionRandom")
     (auto simp: SelectKey_def KeySelectionPolling_def KeySelectionRandom_def)

interpretation selecting: key_selector SelectKey "\<lambda>now p i. Allow now (p_cbs p ! i)" p_keys pool_wf
proof
  fix s now i k
  assume "pool_wf s" "fst (SelectKey now s) = Some (i, k)"
  then show "i < length (p_keys s) \<and> k = p_keys s ! i \<and> Allow now (p_cbs s ! i)"
    using polling.sound lowest.sound by (cases rule: SelectKey_cases [of now s]) simp_all
next
  fix s now i
  assume "pool_wf s" "fst (SelectKey now s) = None" "i < length (p_keys s)"
  then show "\<not> Allow now (p_cbs s ! i)"
    using polling.complete lowest.complete by (cases rule: SelectKey_cases [of now s]) simp_all
next
  fix s now
  assume "pool_wf s"
  then show "p_keys (snd (SelectKey now s)) = p_keys s" and "pool_wf (snd (SelectKey now s))"
    by (cases rule: SelectKey_cases [of now s]; simp)+
qed

section \<open>Round robin\<close>

text \<open>When every key is usable at every selection, the polling mode returns the keys in turn.\<close>

lemma find_first: "xs \<noteq> [] \<Longrightarrow> P (hd xs) \<Longrightarrow> find P xs = Some (hd xs)"
  by (cases xs) simp_all

lemma hd_turn: "0 < n \<Longrightarrow> hd (turn s n) = s mod n"
  by (simp add: turn_def hd_map upt_conv_Cons)

lemma polling_step:
  assumes "p_keys p \<noteq> []" and "i = unat (p_pollingIndex p) mod length (p_keys p)"
    and "Allow t (p_cbs p ! i)"
  shows "selectKeyPolling t p =
    (Some (i, p_keys p ! i), p\<lparr>p_pollingIndex := of_nat ((i + 1) mod length (p_keys p))\<rparr>)"
proof -
  let ?n = "length (p_keys p)"
  have n: "0 < ?n" using assms(1) by simp
  have "hd (turn i ?n) = i" using n assms(2) by (simp add: hd_turn)
  moreover have "turn i ?n \<noteq> []" using n by (simp add: turn_def)
  ultimately have "find (\<lambda>i. Allow t (p_cbs p ! i)) (turn i ?n) = Some i"
    using find_first [of "turn i ?n" "\<lambda>i. Allow t (p_cbs p ! i)"] assms(3) by simp
  then show ?thesis using n assms(2) by (simp add: selectKeyPolling_def Let_def)
qed

lemma unat_pollingIndex [simp]: "n < 2 ^ 64 \<Longrightarrow> unat (of_nat n :: 64 word) = n"
  by (simp add: unat_of_nat take_bit_nat_eq_self)

lemma polling_round_robin:
  assumes "p_keys p \<noteq> []" and "length (p_keys p) < 2 ^ 63" and "length (p_cbs p) = length (p_keys p)"
    and "list_all (\<lambda>cb. k_state cb = Closed) (p_cbs p)"
    and "s = unat (p_pollingIndex p) mod length (p_keys p)"
  shows "polling.select_all ts p =
    map (\<lambda>j. Some ((s + j) mod length (p_keys p), p_keys p ! ((s + j) mod length (p_keys p))))
      [0..<length ts]"
  using assms
proof (induction ts arbitrary: p s)
  case (Cons t ts)
  let ?n = "length (p_keys p)"
  let ?q = "p\<lparr>p_pollingIndex := of_nat ((s + 1) mod ?n)\<rparr>"
  have n: "0 < ?n" and s: "s < ?n" using Cons.prems(1,5) by simp_all
  then have "Allow t (p_cbs p ! s)"
    using Cons.prems(3,4) by (simp add: list_all_length Allow_def)
  then have step: "selectKeyPolling t p = (Some (s, p_keys p ! s), ?q)"
    using polling_step Cons.prems(1,5) by blast
  have "(s + 1) mod ?n < 2 ^ 64"
    using mod_less_divisor [OF n, of "s + 1"] Cons.prems(2) by (simp add: less_trans)
  then have "(s + 1) mod ?n = unat (p_pollingIndex ?q) mod length (p_keys ?q)"
    by simp
  from Cons.IH [OF _ _ _ _ this] Cons.prems
  have "polling.select_all ts ?q =
    map (\<lambda>j. Some (((s + 1) mod ?n + j) mod ?n, p_keys p ! (((s + 1) mod ?n + j) mod ?n)))
      [0..<length ts]"
    by simp
  then show ?case
    using s step by (simp add: upt_conv_Cons map_Suc_upt [symmetric] comp_def mod_add_left_eq del: upt_Suc)
qed simp

section \<open>No starvation\<close>

text \<open>
  A key that stays usable is returned within one turn, whatever the other keys do: the first hit
  either is the key or moves the start closer to it.
\<close>

lemma find_turn_before:
  assumes "find P (turn s n) = Some x" and "d < n" and "P ((s + d) mod n)"
  obtains i where "i \<le> d" and "x = (s + i) mod n"
proof -
  obtain i where i: "i < n" "x = turn s n ! i" "\<forall>j<i. \<not> P (turn s n ! j)"
    using assms(1) by (auto simp: find_Some_iff)
  have "i \<le> d"
  proof (rule ccontr)
    assume "\<not> i \<le> d"
    with i(3) have "\<not> P (turn s n ! d)" by simp
    with assms(2,3) show False by simp
  qed
  with i(1,2) that show ?thesis by simp
qed

lemma mod_step:
  "x = (s + i) mod n \<Longrightarrow> ((x + 1) mod n + d) mod n = (s + (i + 1 + d)) mod (n::nat)"
  by (simp add: mod_add_left_eq add.assoc del: add_Suc add_Suc_right)

lemma polling_step_towards:
  assumes "0 < length (p_keys p)" and "d < length (p_keys p)"
    and "j = (unat (p_pollingIndex p) mod length (p_keys p) + d) mod length (p_keys p)"
    and "Allow t (p_cbs p ! j)"
  obtains "fst (selectKeyPolling t p) = Some (j, p_keys p ! j)"
  | d' s where "d' < d" and "snd (selectKeyPolling t p) = p\<lparr>p_pollingIndex := of_nat s\<rparr>"
      and "s < length (p_keys p)" and "j = (s + d') mod length (p_keys p)"
proof -
  let ?n = "length (p_keys p)" and ?s = "unat (p_pollingIndex p) mod length (p_keys p)"
  let ?P = "\<lambda>i. Allow t (p_cbs p ! i)"
  have "\<exists>x. find ?P (turn ?s ?n) = Some x"
    using assms by (cases "find ?P (turn ?s ?n)") (auto simp: find_None_iff)
  then obtain x where x: "find ?P (turn ?s ?n) = Some x" by blast
  have "?P ((?s + d) mod ?n)" using assms(3,4) by simp
  then obtain i where i: "i \<le> d" "x = (?s + i) mod ?n"
    using find_turn_before [OF x assms(2)] by blast
  have sel: "selectKeyPolling t p =
      (Some (x, p_keys p ! x), p\<lparr>p_pollingIndex := of_nat ((x + 1) mod ?n)\<rparr>)"
    using x assms(1) by (simp add: selectKeyPolling_def Let_def)
  show ?thesis
  proof (cases "i = d")
    case True
    with i sel assms(3) that(1) show ?thesis by simp
  next
    case False
    with i(1) obtain d' where d': "d = i + 1 + d'" by (metis Suc_eq_plus1 less_imp_Suc_add add_Suc le_neq_implies_less)
    have "j = ((x + 1) mod ?n + d') mod ?n"
      using mod_step [OF i(2), of d'] by (simp only: assms(3) d')
    moreover have "(x + 1) mod ?n < ?n" using assms(1) by simp
    ultimately show ?thesis using that(2) [of d' "(x + 1) mod ?n"] sel d' by simp
  qed
qed

lemma polling_reaches:
  assumes "0 < length (p_keys p)" and "length (p_keys p) < 2 ^ 63"
    and "list_all (\<lambda>t. Allow t (p_cbs p ! j)) ts" and "d < length ts" and "d < length (p_keys p)"
    and "j = (unat (p_pollingIndex p) mod length (p_keys p) + d) mod length (p_keys p)"
  shows "Some (j, p_keys p ! j) \<in> set (polling.select_all ts p)"
  using assms
proof (induction ts arbitrary: p d)
  case (Cons t ts)
  have allow: "Allow t (p_cbs p ! j)" using Cons.prems(3) by simp
  show ?case
  proof (rule polling_step_towards [OF Cons.prems(1,5,6) allow], goal_cases)
    case 1
    then show ?case by (simp add: split_beta)
  next
    case (2 d' s)
    let ?q = "p\<lparr>p_pollingIndex := of_nat s\<rparr>"
    have "unat (of_nat s :: 64 word) mod length (p_keys p) = s"
      using 2(3) Cons.prems(2) by (simp add: less_trans)
    then have "Some (j, p_keys ?q ! j) \<in> set (polling.select_all ts ?q)"
      using 2(1,4) Cons.prems by (intro Cons.IH [of ?q d']) simp_all
    then show ?case using 2(2) by (simp add: split_beta)
  qed
qed simp

section \<open>Next\<close>

lemma requests_at_counter [simp]: "requests_at now (p\<lparr>p_counter := c\<rparr>) = requests_at now p"
  by (simp add: fun_eq_iff requests_at_def)

lemma Next_result:
  "Next now p =
     (let n = length (p_keys p); q = p\<lparr>p_counter := p_counter p + 1\<rparr>;
          candidates = filter (\<lambda>i. Allow now (p_cbs p ! i) \<and> \<not> p_inUse p ! i) (turn (unat (p_counter p) mod n) n)
      in if n = 0 then (None, p)
         else case candidates of [] \<Rightarrow> (None, q)
              | first # rest \<Rightarrow>
                  (let best = pick_min (requests_at now p) first rest
                   in (Some (best, p_keys p ! best), q\<lparr>p_inUse := (p_inUse p)[best := True]\<rparr>)))"
  by (simp add: Next_def Let_def split: list.split)

lemma Next_Some:
  assumes "fst (Next now p) = Some (i, k)"
  shows "i < length (p_keys p)" and "k = p_keys p ! i" and "Allow now (p_cbs p ! i)"
    and "\<not> p_inUse p ! i"
    and "snd (Next now p) =
           p\<lparr>p_counter := p_counter p + 1, p_inUse := (p_inUse p)[i := True]\<rparr>"
    and "j < length (p_keys p) \<Longrightarrow> Allow now (p_cbs p ! j) \<Longrightarrow> \<not> p_inUse p ! j \<Longrightarrow>
           requests_at now p i \<le> requests_at now p j"
proof -
  let ?n = "length (p_keys p)" and ?s = "unat (p_counter p) mod length (p_keys p)"
  let ?P = "\<lambda>i. Allow now (p_cbs p ! i) \<and> \<not> p_inUse p ! i"
  obtain f r where fr: "filter ?P (turn ?s ?n) = f # r" "?n \<noteq> 0"
    using assms by (auto simp: Next_result Let_def split: if_splits list.splits)
  let ?b = "pick_min (requests_at now p) f r"
  have nx: "Next now p = (Some (?b, p_keys p ! ?b),
      p\<lparr>p_counter := p_counter p + 1, p_inUse := (p_inUse p)[?b := True]\<rparr>)"
    using fr by (simp add: Next_result Let_def)
  with assms have "Some (?b, p_keys p ! ?b) = Some (i, k)" by (simp only: fst_conv)
  then have i: "?b = i" and k: "k = p_keys p ! ?b" by blast+
  have cand: "set (f # r) = {i. i < ?n \<and> ?P i}"
    unfolding fr(1) [symmetric] by auto
  note least = pick_min_least [of "requests_at now p" f r, unfolded cand i]
  from least show "i < ?n" "Allow now (p_cbs p ! i)" "\<not> p_inUse p ! i" by simp_all
  show "k = p_keys p ! i" using k i by simp
  show "snd (Next now p) = p\<lparr>p_counter := p_counter p + 1, p_inUse := (p_inUse p)[i := True]\<rparr>"
    using nx i by simp
  show "requests_at now p i \<le> requests_at now p j"
    if "j < ?n" "Allow now (p_cbs p ! j)" "\<not> p_inUse p ! j"
    using least that by simp
qed

lemma Next_None:
  assumes "fst (Next now p) = None"
  shows "p_inUse (snd (Next now p)) = p_inUse p"
    and "i < length (p_keys p) \<Longrightarrow> \<not> (Allow now (p_cbs p ! i) \<and> \<not> p_inUse p ! i)"
proof -
  let ?n = "length (p_keys p)" and ?s = "unat (p_counter p) mod length (p_keys p)"
  let ?P = "\<lambda>i. Allow now (p_cbs p ! i) \<and> \<not> p_inUse p ! i"
  have none: "?n = 0 \<or> filter ?P (turn ?s ?n) = []"
    using assms by (auto simp: Next_result Let_def split: if_splits list.splits)
  then show "p_inUse (snd (Next now p)) = p_inUse p"
    by (auto simp: Next_result Let_def)
  show "\<not> ?P i" if "i < ?n"
    using none that by (auto simp: filter_empty_conv)
qed

lemma Next_frame [simp]:
  "p_keys (snd (Next now p)) = p_keys p" "p_cbs (snd (Next now p)) = p_cbs p"
  "p_requestHistory (snd (Next now p)) = p_requestHistory p"
  "pool_wf (snd (Next now p)) = pool_wf p"
  by (auto simp: Next_result Let_def pool_wf_def split: list.splits)

interpretation reserving: reserving_selector Next
    "\<lambda>now p i. Allow now (p_cbs p ! i) \<and> \<not> p_inUse p ! i" p_keys pool_wf
    "\<lambda>p. {i. i < length (p_inUse p) \<and> p_inUse p ! i}"
proof
  fix s now i k
  assume wf: "pool_wf s" and sel: "fst (Next now s) = Some (i, k)"
  show "i < length (p_keys s) \<and> k = p_keys s ! i \<and> Allow now (p_cbs s ! i) \<and> \<not> p_inUse s ! i"
    using Next_Some [OF sel] by blast
  show "{j. j < length (p_inUse (snd (Next now s))) \<and> p_inUse (snd (Next now s)) ! j} =
      insert i {j. j < length (p_inUse s) \<and> p_inUse s ! j}"
    using Next_Some(1,5) [OF sel] wf by (auto simp: nth_list_update pool_wf_def)
qed (use Next_None in \<open>simp_all\<close>)

end
