(* ===== verification/PoolInvariant.thy ===== *)
theory PoolInvariant
  imports KeySelection
begin

text \<open>
  The key pool as a state machine. Its operations are events, they keep the slices aligned, and
  seen from outside the pool is a plain list of entries (key, name, breaker): an abstract
  specification that the detailed pool refines. Then the readings that the proxy bases its
  decisions on: counts, waiting time, request rates.
\<close>

section \<open>Events\<close>

datatype pool_event =
    PMode KeySelectionMode
  | PSelect time
  | PAdvance
  | PNext time
  | PRelease int
  | PCleanup time int
  | PIncrement time int
  | PDetails time
  | PCooldown time int duration
  | PDisable int
  | PEnable int
  | PFailure time nat int
  | PAuthFailure time int
  | PSuccess int
  | PConfigure duration duration float64
  | PAdd string string
  | PRemove int

text \<open>
  \<open>PCleanup\<close> and \<open>PIncrement\<close> panic on a bad index before they write anything, and the deferred
  unlock runs: the pool is unchanged then.
\<close>

fun pool_step :: "pool_event \<Rightarrow> KeyPool \<Rightarrow> KeyPool" where
  "pool_step (PMode m) p = SetSelectionMode m p"
| "pool_step (PSelect now) p = snd (SelectKey now p)"
| "pool_step PAdvance p = AdvanceCounter p"
| "pool_step (PNext now) p = snd (Next now p)"
| "pool_step (PRelease idx) p = Release idx p"
| "pool_step (PCleanup now idx) p = (case CleanupOldRequests now idx p of None \<Rightarrow> p | Some q \<Rightarrow> q)"
| "pool_step (PIncrement now idx) p = (case IncrementRequestCount now idx p of None \<Rightarrow> p | Some q \<Rightarrow> q)"
| "pool_step (PDetails now) p = snd (GetKeyDetails now p)"
| "pool_step (PCooldown now idx d) p = snd (Cooldown now idx d p)"
| "pool_step (PDisable idx) p = snd (Disable idx p)"
| "pool_step (PEnable idx) p = snd (Enable idx p)"
| "pool_step (PFailure now draw idx) p = snd (P_RecordFailure now draw idx p)"
| "pool_step (PAuthFailure now idx) p = snd (P_RecordAuthFailure now idx p)"
| "pool_step (PSuccess idx) p = P_RecordSuccess idx p"
| "pool_step (PConfigure b cap mult) p = ConfigureCBs b cap mult p"
| "pool_step (PAdd key name) p = snd (AddKey key name p)"
| "pool_step (PRemove idx) p = snd (RemoveKey idx p)"

text \<open>The breaker event that a pool event delivers to one key.\<close>

fun delivered :: "pool_event \<Rightarrow> (int \<times> key_event) option" where
  "delivered (PCooldown now idx d) = Some (idx, EForceCooldown now d)"
| "delivered (PDisable idx) = Some (idx, EPerma ''manual'')"
| "delivered (PEnable idx) = Some (idx, EReset)"
| "delivered (PFailure now draw idx) = Some (idx, EFailure now draw)"
| "delivered (PAuthFailure now idx) = Some (idx, EAuthFailure now)"
| "delivered (PSuccess idx) = Some (idx, ESuccess)"
| "delivered _ = None"

section \<open>The slices stay aligned\<close>

definition in_range :: "int \<Rightarrow> KeyPool \<Rightarrow> bool" where
  "in_range idx p \<longleftrightarrow> 0 \<le> idx \<and> idx < int (length (p_keys p))"

lemma pool_wf_lengths:
  "pool_wf p \<Longrightarrow> length (p_names p) = length (p_keys p)"
  "pool_wf p \<Longrightarrow> length (p_cbs p) = length (p_keys p)"
  "pool_wf p \<Longrightarrow> length (p_requestHistory p) = length (p_keys p)"
  "pool_wf p \<Longrightarrow> length (p_lastUsed p) = length (p_keys p)"
  "pool_wf p \<Longrightarrow> length (p_inUse p) = length (p_keys p)"
  by (simp_all add: pool_wf_def)

lemma pool_wf_breaker: "pool_wf p \<Longrightarrow> i < length (p_keys p) \<Longrightarrow> key_inv (p_cbs p ! i)"
  by (simp add: pool_wf_def list_all_length)

lemma validateIndex_wf:
  "pool_wf p \<Longrightarrow> validateIndex p idx =
     (if in_range idx p then None else Some (OutOfRange idx (int (length (p_keys p)) - 1)))"
  by (auto simp: validateIndex_def in_range_def pool_wf_lengths)

lemma CB_wf: "pool_wf p \<Longrightarrow> CB idx p = (if in_range idx p then Some (p_cbs p ! nat idx) else None)"
  by (auto simp: CB_def nth_opt_def in_range_def pool_wf_lengths)

lemma update_cb_wf [pool_wf_intros]:
  assumes "pool_wf p" "i < length (p_keys p)"
  shows "pool_wf (update_cb i (key_step e) p)"
  using assms key_step_inv [OF pool_wf_breaker [OF assms], of e]
  by (auto simp: pool_wf_def update_cb_def list_all_length nth_list_update)

text \<open>Every event that reaches a breaker is one \<open>key_step\<close> of it, or nothing at all.\<close>

lemma pool_step_delivered:
  assumes "pool_wf p" and "delivered e = Some (idx, ke)"
  shows "pool_step e p = (if in_range idx p then update_cb (nat idx) (key_step ke) p else p)"
proof -
  have keq: "(\<lambda>k. snd (RecordFailure t d k)) = key_step (EFailure t d)"
    "(\<lambda>k. snd (RecordAuthFailure t k)) = key_step (EAuthFailure t)"
    "ForceCooldown t c = key_step (EForceCooldown t c)"
    "RecordPerma r = key_step (EPerma r)" "RecordSuccess = key_step ESuccess" "Reset = key_step EReset"
    for t d c r
    by (simp_all add: fun_eq_iff)
  from assms show ?thesis
    by (cases e; simp only: delivered.simps option.inject option.distinct prod.inject)
       (auto simp: Cooldown_def Disable_def Enable_def P_RecordFailure_def P_RecordAuthFailure_def
          P_RecordSuccess_def validateIndex_wf CB_wf keq simp del: key_step.simps)
qed

lemma list_all_remove_at: "list_all P xs \<Longrightarrow> list_all P (remove_at i xs)"
  by (auto simp: list_all_iff remove_at_def dest: in_set_takeD in_set_dropD)

lemma key_inv_reconfigured [simp]: "key_inv (reconfigured b cap mult old)"
  by (auto simp: reconfigured_def key_inv_def NewKeyCircuitBreaker_def RecordPerma_def Let_def)

lemma IncrementRequestCount_wf:
  "pool_wf p \<Longrightarrow> IncrementRequestCount now idx p =
    (if in_range idx p
     then Some (p\<lparr>p_requestHistory := (p_requestHistory p)[nat idx :=
                    filter (\<lambda>t. now - 60 * 1000000000 < t) (p_requestHistory p ! nat idx) @ [now]],
                  p_lastUsed := (p_lastUsed p)[nat idx := now]\<rparr>)
     else None)"
  by (auto simp: IncrementRequestCount_def CleanupOldRequests_def nth_opt_def in_range_def
      pool_wf_lengths split: option.splits)

lemma CleanupOldRequests_wf:
  "pool_wf p \<Longrightarrow> CleanupOldRequests now idx p =
    (if in_range idx p
     then Some (p\<lparr>p_requestHistory := (p_requestHistory p)[nat idx :=
                    filter (\<lambda>t. now - 60 * 1000000000 < t) (p_requestHistory p ! nat idx)]\<rparr>)
     else None)"
  by (auto simp: CleanupOldRequests_def nth_opt_def in_range_def pool_wf_lengths)

lemma SelectKey_frame [simp]:
  "p_names (snd (SelectKey now p)) = p_names p" "p_keys (snd (SelectKey now p)) = p_keys p"
  "p_cbs (snd (SelectKey now p)) = p_cbs p" "pool_wf (snd (SelectKey now p)) = pool_wf p"
proof -
  have "p_names (snd (selectKeyPolling now p)) = p_names p"
    by (rule snd_selectKeyPolling [of now p]) simp
  then show "p_names (snd (SelectKey now p)) = p_names p" "p_keys (snd (SelectKey now p)) = p_keys p"
    "p_cbs (snd (SelectKey now p)) = p_cbs p" "pool_wf (snd (SelectKey now p)) = pool_wf p"
    by (cases rule: SelectKey_cases [of now p]; simp)+
qed

lemma Next_names [simp]: "p_names (snd (Next now p)) = p_names p"
  by (auto simp: Next_result Let_def split: list.splits)

lemma RemoveKey_wf:
  assumes "pool_wf p"
  shows "pool_wf (snd (RemoveKey idx p))"
proof (cases "in_range idx p")
  case True
  then have "nat idx < length (p_keys p)" by (auto simp: in_range_def)
  with assms True show ?thesis
    by (simp add: RemoveKey_def validateIndex_wf Let_def) (simp add: pool_wf_def list_all_remove_at)
next
  case False
  with assms show ?thesis by (simp add: RemoveKey_def validateIndex_wf)
qed

lemma pool_step_wf: "pool_wf p \<Longrightarrow> pool_wf (pool_step e p)"
proof (cases "delivered e")
  case (Some x)
  then show "pool_wf p \<Longrightarrow> pool_wf (pool_step e p)"
    by (cases x) (auto simp: pool_step_delivered in_range_def intro!: update_cb_wf)
next
  case None
  assume wf: "pool_wf p"
  show ?thesis
  proof (cases e)
    case (PConfigure b cap mult)
    with wf show ?thesis by (auto simp: ConfigureCBs_def pool_wf_def list_all_length)
  next
    case (PRemove idx)
    with wf show ?thesis by (simp add: RemoveKey_wf)
  next
    case (PAdd key name)
    with wf show ?thesis by (simp add: AddKey_def pool_wf_def Let_def)
  qed (use None wf in \<open>simp_all add: SetSelectionMode_def AdvanceCounter_def Release_def
        CleanupOldRequests_wf IncrementRequestCount_wf GetKeyDetails_def cleanup_all_def Let_def\<close>,
      simp_all add: pool_wf_def)
qed

interpretation pool_machine: event_machine pool_step pool_wf
  by unfold_locales (rule pool_step_wf)

lemma NewKeyPool_wf: "pool_wf (NewKeyPool r keys names)"
  by (simp add: NewKeyPool_def pool_wf_def list_all_length zeroBreaker_def)

section \<open>The pool refines a list of entries\<close>

type_synonym entry = "string \<times> string \<times> KeyCircuitBreaker"

definition entries :: "KeyPool \<Rightarrow> entry list" where
  "entries p = zip (p_keys p) (zip (p_names p) (p_cbs p))"

definition on_entry :: "int \<Rightarrow> (entry \<Rightarrow> entry) \<Rightarrow> entry list \<Rightarrow> entry list" where
  "on_entry idx f es = (if 0 \<le> idx \<and> idx < int (length es) then es[nat idx := f (es ! nat idx)] else es)"

definition entry_step :: "pool_event \<Rightarrow> entry list \<Rightarrow> entry list" where
  "entry_step e es =
     (case delivered e of
        Some (idx, ke) \<Rightarrow> on_entry idx (\<lambda>(k, n, cb). (k, n, key_step ke cb)) es
      | None \<Rightarrow>
          (case e of
             PAdd key name \<Rightarrow> es @ [(key, name, zeroBreaker)]
           | PRemove idx \<Rightarrow> if 0 \<le> idx \<and> idx < int (length es) then remove_at (nat idx) es else es
           | PConfigure b cap mult \<Rightarrow> map (\<lambda>(k, n, cb). (k, n, reconfigured b cap mult cb)) es
           | _ \<Rightarrow> es))"

lemma length_entries [simp]: "pool_wf p \<Longrightarrow> length (entries p) = length (p_keys p)"
  by (simp add: entries_def pool_wf_lengths)

lemma nth_entries:
  "pool_wf p \<Longrightarrow> i < length (p_keys p) \<Longrightarrow> entries p ! i = (p_keys p ! i, p_names p ! i, p_cbs p ! i)"
  by (simp add: entries_def pool_wf_lengths)

lemma zip_update_second: "zip xs (ys[i := y]) = (zip xs ys)[i := (xs ! i, y)]"
  using update_zip [of xs ys i "(xs ! i, y)"] by simp

lemma remove_at_zip: "remove_at i (zip xs ys) = zip (remove_at i xs) (remove_at i ys)" if "length xs = length ys"
proof -
  have "length (take i xs) = length (take i ys)" using that by simp
  then show ?thesis by (simp add: remove_at_def take_zip drop_zip zip_append)
qed

lemma entries_update_cb:
  "pool_wf p \<Longrightarrow> i < length (p_keys p) \<Longrightarrow>
     entries (update_cb i f p) = (entries p)[i := (p_keys p ! i, p_names p ! i, f (p_cbs p ! i))]"
  by (simp add: entries_def update_cb_def zip_update_second pool_wf_lengths)

lemma entries_frame:
  "p_keys q = p_keys p \<Longrightarrow> p_names q = p_names p \<Longrightarrow> p_cbs q = p_cbs p \<Longrightarrow> entries q = entries p"
  by (simp add: entries_def)

lemma entries_step:
  assumes "pool_wf p"
  shows "entries (pool_step e p) = entry_step e (entries p)"
proof (cases "delivered e")
  case (Some x)
  obtain idx ke where x: "x = (idx, ke)" by force
  show ?thesis
  proof (cases "in_range idx p")
    case True
    then have "nat idx < length (p_keys p)" by (auto simp: in_range_def)
    with assms Some x True show ?thesis
      by (simp add: pool_step_delivered entry_step_def on_entry_def in_range_def entries_update_cb nth_entries)
  next
    case False
    with assms Some x show ?thesis
      by (auto simp: pool_step_delivered entry_step_def on_entry_def in_range_def)
  qed
next
  case None
  show ?thesis
  proof (cases e)
    case (PAdd key name)
    with assms show ?thesis
      by (simp add: entry_step_def AddKey_def Let_def entries_def pool_wf_lengths zeroBreaker_def)
  next
    case (PRemove idx)
    with assms show ?thesis
      by (simp add: entry_step_def RemoveKey_def validateIndex_wf in_range_def Let_def entries_def
          pool_wf_lengths remove_at_zip)
  next
    case (PConfigure b cap mult)
    have "zip ks (zip ns (map f cs)) = map (\<lambda>(k, n, cb). (k, n, f cb)) (zip ks (zip ns cs))"
      for ks ns :: "string list" and f :: "KeyCircuitBreaker \<Rightarrow> KeyCircuitBreaker" and cs
      by (simp add: zip_map2) (simp add: split_def)
    with PConfigure show ?thesis by (simp add: entry_step_def ConfigureCBs_def entries_def)
  qed (use None assms in \<open>simp_all add: entry_step_def SetSelectionMode_def AdvanceCounter_def
        Release_def CleanupOldRequests_wf IncrementRequestCount_wf GetKeyDetails_def cleanup_all_def Let_def\<close>,
      simp_all add: entries_def)
qed

lemma entries_run: "pool_wf p \<Longrightarrow> entries (fold pool_step es p) = fold entry_step es (entries p)"
  by (induction es arbitrary: p) (simp_all add: entries_step pool_step_wf)

section \<open>A disabled key stays disabled\<close>

text \<open>
  Events that can change the state of key \<open>i\<close> back, or move the key: enabling it, or removing a key
  at or before it.
\<close>

definition spares :: "nat \<Rightarrow> pool_event \<Rightarrow> bool" where
  "spares i e \<longleftrightarrow> (case e of PEnable idx \<Rightarrow> idx \<noteq> int i | PRemove idx \<Rightarrow> int i < idx | _ \<Rightarrow> True)"

text \<open>
  A property of a breaker that lasts: only a reset ends it. Disabling a key writes the reason \<open>manual\<close>,
  the only one that the operations of the pool write.
\<close>

definition entry_at :: "(KeyCircuitBreaker \<Rightarrow> bool) \<Rightarrow> string \<Rightarrow> nat \<Rightarrow> entry list \<Rightarrow> bool" where
  "entry_at Q key i es \<longleftrightarrow> i < length es \<and> fst (es ! i) = key \<and> Q (snd (snd (es ! i)))"

locale lasting =
  fixes Q :: "KeyCircuitBreaker \<Rightarrow> bool"
  assumes Q_permanent: "Q k \<Longrightarrow> k_state k = Permanent"
    and Q_step: "Q k \<Longrightarrow> ke \<noteq> EReset \<Longrightarrow> (\<And>r. ke = EPerma r \<Longrightarrow> r = ''manual'') \<Longrightarrow> Q (key_step ke k)"
    and Q_reconfigured: "Q k \<Longrightarrow> Q (reconfigured b c m k)"
begin

lemma on_entry_lasts:
  assumes "entry_at Q key i es" and "idx = int i \<Longrightarrow> ke \<noteq> EReset" and "\<And>r. ke = EPerma r \<Longrightarrow> r = ''manual''"
  shows "entry_at Q key i (on_entry idx (\<lambda>(k, n, cb). (k, n, key_step ke cb)) es)"
proof (cases "idx = int i")
  case True
  with assms show ?thesis
    by (auto simp: entry_at_def on_entry_def intro!: Q_step split: prod.splits)
next
  case False
  with assms(1) show ?thesis by (auto simp: entry_at_def on_entry_def nth_list_update)
qed

lemma entry_step_lasts:
  assumes "entry_at Q key i es" and "spares i e"
  shows "entry_at Q key i (entry_step e es)"
proof (cases "delivered e")
  case (Some x)
  obtain idx ke where x: "x = (idx, ke)" by force
  have "ke \<noteq> EReset" if "idx = int i"
    using Some x that assms(2) by (cases e) (auto simp: spares_def)
  moreover have "r = ''manual''" if "ke = EPerma r" for r
    using Some x that by (cases e) auto
  ultimately show ?thesis using Some x assms(1) by (simp add: entry_step_def on_entry_lasts)
next
  case None
  have "entry_at Q key i (map (\<lambda>(k, n, cb). (k, n, reconfigured b cap mult cb)) es)" for b cap mult
    using assms(1) by (auto simp: entry_at_def Q_reconfigured split: prod.splits)
  moreover have "entry_at Q key i (es @ [x])" for x
    using assms(1) by (simp add: entry_at_def nth_append)
  moreover have "entry_at Q key i (remove_at (nat idx) es)"
    if "int i < idx" "idx < int (length es)" for idx
    using assms(1) that by (auto simp: entry_at_def nth_remove_at)
  ultimately show ?thesis
    using None assms by (cases e) (simp_all add: entry_step_def spares_def)
qed

lemma entry_run_lasts:
  "entry_at Q key i es \<Longrightarrow> list_all (spares i) evs \<Longrightarrow> entry_at Q key i (fold entry_step evs es)"
  by (induction evs arbitrary: es) (simp_all add: entry_step_lasts)

end

lemma entry_at_pool:
  "pool_wf p \<Longrightarrow> entry_at Q key i (entries p) \<longleftrightarrow>
     i < length (p_keys p) \<and> p_keys p ! i = key \<and> Q (p_cbs p ! i)"
  by (auto simp: entry_at_def nth_entries)

text \<open>Being disabled lasts, and so does being disabled for a reason that the probes leave alone.\<close>

definition permanent :: "KeyCircuitBreaker \<Rightarrow> bool" where
  "permanent k \<longleftrightarrow> k_state k = Permanent"

definition put_aside :: "KeyCircuitBreaker \<Rightarrow> bool" where
  "put_aside k \<longleftrightarrow> k_state k = Permanent \<and> k_trippedReason k \<notin> {'''', ''preserved'', ''quota_exhausted''}"

interpretation disabling: lasting permanent
  by unfold_locales
     (auto simp: permanent_def key_step_permanent reconfigured_def RecordPerma_def Let_def)

interpretation setting_aside: lasting put_aside
proof
  show "put_aside (key_step ke k)"
    if "put_aside k" "ke \<noteq> EReset" "\<And>r. ke = EPerma r \<Longrightarrow> r = ''manual''" for k ke
    using that by (cases ke) (auto simp: put_aside_def breaker_defs)
qed (auto simp: put_aside_def reconfigured_def RecordPerma_def Let_def)

end
