(* ===== verification/PoolReadings.thy ===== *)
theory PoolReadings
  imports PoolInvariant
begin

text \<open>
  What the proxy and the dashboards read off the pool: how many keys are active, disabled or
  cooling, how long to wait for the next key, the sliding one-minute request window, and the
  effect of adding and removing keys at run time.
\<close>

section \<open>Counts\<close>

lemma length_filter_nth: "length (filter (\<lambda>i. P (xs ! i)) [0..<length xs]) = length (filter P xs)"
  using length_find_indices [of P xs] by (simp add: find_indices_def)

lemma ActiveCount_wf: "pool_wf p \<Longrightarrow> ActiveCount p = length (filter (\<lambda>cb. k_state cb \<noteq> Permanent) (p_cbs p))"
  using length_filter_nth [of "\<lambda>cb. k_state cb \<noteq> Permanent" "p_cbs p"]
  by (simp add: ActiveCount_def pool_wf_lengths)

lemma active_and_disabled: "pool_wf p \<Longrightarrow> ActiveCount p + DisabledCount p = length (p_keys p)"
  using sum_length_filter_compl [of "\<lambda>cb. k_state cb = Permanent" "p_cbs p"]
  by (simp add: ActiveCount_wf DisabledCount_def pool_wf_lengths add.commute)

lemma AnyActive_ActiveCount: "pool_wf p \<Longrightarrow> AnyActive p \<longleftrightarrow> 0 < ActiveCount p"
  by (auto simp: ActiveCount_wf AnyActive_def list_ex_iff filter_empty_conv)

definition ReadyCount :: "time \<Rightarrow> KeyPool \<Rightarrow> nat" where
  "ReadyCount now p = length (filter (Allow now) (p_cbs p))"

lemma three_way:
  "list_all key_inv cbs \<Longrightarrow>
     length (filter (Allow now) cbs) + length (filter (\<lambda>cb. k_state cb = Open \<and> \<not> Allow now cb) cbs)
       + length (filter (\<lambda>cb. k_state cb = Permanent) cbs) = length cbs"
proof (induction cbs)
  case (Cons cb cbs)
  have "k_state cb \<noteq> HalfOpen" using Cons.prems by (simp add: key_inv_def)
  with Cons show ?case by (cases "k_state cb") (simp_all add: Allow_def)
qed simp

lemma ready_cooling_disabled:
  "pool_wf p \<Longrightarrow> ReadyCount now p + CoolingCount now p + DisabledCount p = length (p_keys p)"
  using three_way [of "p_cbs p" now]
    length_filter_nth [of "\<lambda>cb. k_state cb = Open \<and> \<not> Allow now cb" "p_cbs p"]
  by (simp add: ReadyCount_def CoolingCount_def DisabledCount_def pool_wf_def)

section \<open>Waiting for a key\<close>

lemma soonest_ready: "list_ex (Allow now) cbs \<Longrightarrow> soonest_loop now cbs s = 0"
proof (induction cbs arbitrary: s)
  case (Cons cb cbs)
  then show ?case
    by (cases "k_state cb = Permanent") (auto simp: Let_def Allow_def [of now cb])
qed simp

lemma soonest_wait:
  assumes "\<not> list_ex (Allow now) cbs" and "s \<noteq> 0" and "r = soonest_loop now cbs s"
  shows "(r = s \<or> 0 < r \<and> (\<exists>cb\<in>set cbs. CooldownRemaining now cb = r)) \<and> (0 < s \<longrightarrow> 0 < r \<and> r \<le> s) \<and>
    (\<forall>cb\<in>set cbs. 0 < CooldownRemaining now cb \<longrightarrow> 0 < r \<and> r \<le> CooldownRemaining now cb)"
  using assms
proof (induction cbs arbitrary: s)
  case (Cons cb cbs)
  let ?rem = "CooldownRemaining now cb"
  define s' where "s' = (if 0 < ?rem \<and> (s < 0 \<or> ?rem < s) then ?rem else s)"
  have "k_state cb = Permanent \<Longrightarrow> ?rem = - 1" by (simp add: CooldownRemaining_def)
  then have r: "r = soonest_loop now cbs s'"
    using Cons.prems by (auto simp: s'_def Let_def)
  have s': "s' \<noteq> 0" "s' = s \<or> s' = ?rem \<and> 0 < ?rem" "0 < s \<Longrightarrow> 0 < s' \<and> s' \<le> s"
      "0 < ?rem \<Longrightarrow> 0 < s' \<and> s' \<le> ?rem"
    using Cons.prems(2) by (auto simp: s'_def)
  note ih = Cons.IH [OF _ s'(1) r]
  have n: "\<not> list_ex (Allow now) cbs" using Cons.prems(1) by simp
  show ?case
    using ih [OF n] s' by auto
qed simp

lemma TimeUntilAvailable_ready:
  assumes "pool_wf p"
  shows "TimeUntilAvailable now p = 0 \<longleftrightarrow> (\<exists>i<length (p_keys p). Allow now (p_cbs p ! i))"
proof -
  have ex: "list_ex (Allow now) (p_cbs p) \<longleftrightarrow> (\<exists>i<length (p_keys p). Allow now (p_cbs p ! i))"
    using assms by (simp add: list_ex_length pool_wf_lengths)
  have "soonest_loop now (p_cbs p) (- 1) \<noteq> 0" if "\<not> list_ex (Allow now) (p_cbs p)"
    using soonest_wait [OF that, of "- 1"] by fastforce
  with ex show ?thesis
    by (auto simp: TimeUntilAvailable_def soonest_ready)
qed

lemma TimeUntilAvailable_waits:
  assumes "pool_wf p" and "0 < TimeUntilAvailable now p"
  obtains i where "i < length (p_keys p)" and "CooldownRemaining now (p_cbs p ! i) = TimeUntilAvailable now p"
    and "\<forall>j<length (p_keys p). 0 < CooldownRemaining now (p_cbs p ! j) \<longrightarrow>
           TimeUntilAvailable now p \<le> CooldownRemaining now (p_cbs p ! j)"
proof -
  have "\<not> list_ex (Allow now) (p_cbs p)"
    using assms(2) soonest_ready by (force simp: TimeUntilAvailable_def)
  from soonest_wait [OF this, of "- 1" "TimeUntilAvailable now p"] assms(2)
  obtain cb where "cb \<in> set (p_cbs p)" "CooldownRemaining now cb = TimeUntilAvailable now p"
    and "\<forall>cb\<in>set (p_cbs p). 0 < CooldownRemaining now cb \<longrightarrow> TimeUntilAvailable now p \<le> CooldownRemaining now cb"
    by (auto simp: TimeUntilAvailable_def)
  with that assms(1) show ?thesis by (metis in_set_conv_nth nth_mem pool_wf_lengths(2))
qed

text \<open>A key that reports a remaining cooldown is usable right after it has elapsed.\<close>

lemma Allow_after_cooldown:
  assumes "key_inv cb" and "0 < CooldownRemaining now cb" and "CooldownRemaining now cb < 2 ^ 63 - 1"
  shows "Allow (now + CooldownRemaining now cb + 1) cb"
  using assms
  by (cases "k_state cb") (auto simp: CooldownRemaining_def Allow_def time_Until_def key_inv_def Let_def
      split: if_splits)

lemma TimeUntilAvailable_sleep:
  assumes "pool_wf p" and "0 < TimeUntilAvailable now p" and "TimeUntilAvailable now p < 2 ^ 63 - 1"
  shows "\<exists>i<length (p_keys p). Allow (now + TimeUntilAvailable now p + 1) (p_cbs p ! i)"
proof -
  obtain i where "i < length (p_keys p)" "CooldownRemaining now (p_cbs p ! i) = TimeUntilAvailable now p"
    using TimeUntilAvailable_waits [OF assms(1,2)] by blast
  with assms Allow_after_cooldown [OF pool_wf_breaker [OF assms(1)], of i now] show ?thesis by auto
qed

lemma TimeUntilAvailable_negative:
  assumes "pool_wf p" and "TimeUntilAvailable now p < 0"
  shows "TimeUntilAvailable now p = - 1 \<and>
    (\<forall>i<length (p_keys p). k_state (p_cbs p ! i) = Permanent \<or> k_cooldownUntil (p_cbs p ! i) = now)"
proof -
  let ?r = "TimeUntilAvailable now p"
  have n: "\<not> list_ex (Allow now) (p_cbs p)"
    using assms(2) soonest_ready by (force simp: TimeUntilAvailable_def)
  note w = soonest_wait [OF n, of "- 1" ?r, unfolded TimeUntilAvailable_def [symmetric]]
  have r: "?r = - 1" and rem: "\<forall>cb\<in>set (p_cbs p). \<not> 0 < CooldownRemaining now cb"
    using w assms(2) by auto
  have "k_state cb = Permanent \<or> k_cooldownUntil cb = now" if "cb \<in> set (p_cbs p)" for cb
  proof -
    have "key_inv cb" "\<not> Allow now cb" "\<not> 0 < CooldownRemaining now cb"
      using that assms(1) n rem by (auto simp: pool_wf_def list_all_iff list_ex_iff)
    then show ?thesis
      by (cases "k_state cb") (auto simp: CooldownRemaining_def Allow_def time_Until_def key_inv_def Let_def
          split: if_splits)
  qed
  with r assms(1) show ?thesis by (simp add: pool_wf_lengths)
qed

section \<open>The one-minute window\<close>

text \<open>
  Every increment drops the request times older than a minute. The rate is nevertheless the number
  of all requests of the last minute, as if nothing had been dropped.
\<close>

definition increments :: "nat \<Rightarrow> time list \<Rightarrow> KeyPool \<Rightarrow> KeyPool" where
  "increments i ts p = fold (\<lambda>t. pool_step (PIncrement t (int i))) ts p"

lemma requests_increments:
  assumes "pool_wf p" and "i < length (p_keys p)" and "list_all (\<lambda>t. t \<le> now) ts"
  shows "requests_at now (increments i ts p) i =
    length (filter (\<lambda>t. now - 60 * 1000000000 < t) (p_requestHistory p ! i @ ts))"
  using assms
proof (induction ts arbitrary: p)
  case (Cons t ts)
  let ?h = "p_requestHistory p ! i"
  let ?q = "pool_step (PIncrement t (int i)) p"
  have q: "p_keys ?q = p_keys p" "p_requestHistory ?q ! i = filter (\<lambda>u. t - 60 * 1000000000 < u) ?h @ [t]"
    using Cons.prems by (simp_all add: IncrementRequestCount_wf in_range_def pool_wf_lengths)
  have "filter (\<lambda>u. now - 60 * 1000000000 < u) (filter (\<lambda>u. t - 60 * 1000000000 < u) ?h)
      = filter (\<lambda>u. now - 60 * 1000000000 < u) ?h"
    using Cons.prems(3) by (auto intro!: filter_cong)
  then have "length (filter (\<lambda>u. now - 60 * 1000000000 < u) (p_requestHistory ?q ! i @ ts))
      = length (filter (\<lambda>u. now - 60 * 1000000000 < u) (?h @ t # ts))"
    by (simp add: q(2) del: filter_filter pool_step.simps)
  moreover have "requests_at now (increments i ts ?q) i
      = length (filter (\<lambda>u. now - 60 * 1000000000 < u) (p_requestHistory ?q ! i @ ts))"
    using Cons.prems q(1) by (intro Cons.IH pool_step_wf) simp_all
  ultimately show ?case by (simp add: increments_def)
qed (simp add: requests_at_def increments_def)

section \<open>Keys added at run time\<close>

lemma AddKey_RemoveKey:
  "pool_wf p \<Longrightarrow> RemoveKey (fst (AddKey key name p)) (snd (AddKey key name p)) = (None, p)"
  by (simp add: AddKey_def RemoveKey_def validateIndex_def Let_def pool_wf_lengths remove_at_def)

text \<open>A key added at run time has base cooldown and cap 0, so its first 429 disables it.\<close>

lemma new_breaker_trips:
  "k_state (snd (RecordFailure now draw zeroBreaker)) = Permanent"
  by (simp add: zeroBreaker_def NewKeyCircuitBreaker_def RecordFailure_def raw_cooldown_def wrap64_def)

lemma AddKey_first_failure:
  assumes "pool_wf p" and "AddKey key name p = (i, q)"
  shows "IsDisabled i (snd (P_RecordFailure now draw i q))"
  using assms new_breaker_trips [of now draw]
  by (auto simp: AddKey_def Let_def IsDisabled_def P_RecordFailure_def CB_def update_cb_def
      nth_append pool_wf_lengths zeroBreaker_def)

text \<open>After a configuration the same failure cools the key.\<close>

lemma configured_failure:
  assumes "pool_wf p" "i < length (p_keys p)" "k_state (p_cbs p ! i) \<noteq> Permanent"
    and "1 \<le> b" "b < cap" "cap \<le> 2 ^ 62"
  shows "\<not> IsDisabled (int i) (snd (P_RecordFailure now draw (int i) (ConfigureCBs b cap (Fin 2) p)))"
proof -
  let ?k = "reconfigured b cap (Fin 2) (p_cbs p ! i)"
  have k: "k_state ?k = Closed" "k_jitterFn ?k = None" "k_backoffCap ?k = cap" "k_base ?k = b"
    "k_multiplier ?k = Fin 2" "k_attempt ?k = 0"
    using assms(3) by (simp_all add: reconfigured_def NewKeyCircuitBreaker_def Let_def)
  then have "raw_cooldown ?k = b"
    using raw_cooldown_two [of ?k 0] assms by simp
  then obtain c where "snd (RecordFailure now draw ?k)
      = ?k\<lparr>k_state := Open, k_cooldownUntil := now + c, k_attempt := k_attempt ?k + 1\<rparr>"
    using RecordFailure_cools [of ?k now draw] k assms by (metis State.distinct(5) order.trans snd_conv zero_le_one)
  with assms(1,2) show ?thesis
    by (simp add: IsDisabled_def P_RecordFailure_def CB_def ConfigureCBs_def update_cb_def pool_wf_lengths)
qed

end
