(* ===== verification/UpstreamBreaker.thy ===== *)
theory UpstreamBreaker
  imports CircuitBreaker
begin

text \<open>
  The per-provider breaker (internal/circuitbreaker/upstream.go): it opens after a number of
  consecutive upstream failures and lets one probe through once the reset timeout has passed. The
  operations are atomic steps under the mutex; the clock reading is an argument.
\<close>

record UpstreamCircuitBreaker =
  u_state :: State
  u_failureCount :: int
  u_threshold :: int
  u_resetTimeout :: duration
  u_openedAt :: time
  u_halfOpenProbed :: bool

section \<open>Operations\<close>

definition NewUpstreamCircuitBreaker :: "int \<Rightarrow> duration \<Rightarrow> UpstreamCircuitBreaker" where
  "NewUpstreamCircuitBreaker threshold resetTimeout =
     \<lparr>u_state = Closed, u_failureCount = 0, u_threshold = threshold, u_resetTimeout = resetTimeout,
      u_openedAt = 0, u_halfOpenProbed = False\<rparr>"

definition U_RecordFailure :: "time \<Rightarrow> UpstreamCircuitBreaker \<Rightarrow> UpstreamCircuitBreaker" where
  "U_RecordFailure now u =
     (case u_state u of
        Closed \<Rightarrow>
          (let u' = u\<lparr>u_failureCount := u_failureCount u + 1\<rparr>
           in if u_threshold u' \<le> u_failureCount u'
              then u'\<lparr>u_state := Open, u_openedAt := now\<rparr> else u')
      | HalfOpen \<Rightarrow> u\<lparr>u_failureCount := 1, u_state := Open, u_openedAt := now\<rparr>
      | _ \<Rightarrow> u)"

definition U_RecordSuccess :: "UpstreamCircuitBreaker \<Rightarrow> UpstreamCircuitBreaker" where
  "U_RecordSuccess u = u\<lparr>u_failureCount := 0, u_state := Closed\<rparr>"

definition U_Allow :: "time \<Rightarrow> UpstreamCircuitBreaker \<Rightarrow> bool \<times> UpstreamCircuitBreaker" where
  "U_Allow now u =
     (case u_state u of
        Closed \<Rightarrow> (True, u)
      | Open \<Rightarrow>
          (if u_openedAt u + u_resetTimeout u < now
           then (True, u\<lparr>u_state := HalfOpen, u_halfOpenProbed := True\<rparr>)
           else (False, u))
      | HalfOpen \<Rightarrow>
          (if \<not> u_halfOpenProbed u then (True, u\<lparr>u_halfOpenProbed := True\<rparr>) else (False, u))
      | Permanent \<Rightarrow> (False, u))"

definition SetThreshold :: "int \<Rightarrow> UpstreamCircuitBreaker \<Rightarrow> UpstreamCircuitBreaker" where
  "SetThreshold t u = u\<lparr>u_threshold := t\<rparr>"

definition SetResetTimeout :: "duration \<Rightarrow> UpstreamCircuitBreaker \<Rightarrow> UpstreamCircuitBreaker" where
  "SetResetTimeout d u = u\<lparr>u_resetTimeout := d\<rparr>"

definition U_Reset :: "UpstreamCircuitBreaker \<Rightarrow> UpstreamCircuitBreaker" where
  "U_Reset u = u\<lparr>u_failureCount := 0, u_state := Closed, u_halfOpenProbed := False\<rparr>"

lemmas [breaker_defs] = NewUpstreamCircuitBreaker_def U_RecordFailure_def U_RecordSuccess_def
  U_Allow_def SetThreshold_def SetResetTimeout_def U_Reset_def

section \<open>The operations as events\<close>

datatype upstream_event =
    UFailure time
  | USuccess
  | UAllow time
  | USetThreshold int
  | USetResetTimeout duration
  | UReset

fun upstream_step :: "upstream_event \<Rightarrow> UpstreamCircuitBreaker \<Rightarrow> UpstreamCircuitBreaker" where
  "upstream_step (UFailure now) u = U_RecordFailure now u"
| "upstream_step USuccess u = U_RecordSuccess u"
| "upstream_step (UAllow now) u = snd (U_Allow now u)"
| "upstream_step (USetThreshold t) u = SetThreshold t u"
| "upstream_step (USetResetTimeout d) u = SetResetTimeout d u"
| "upstream_step UReset u = U_Reset u"

text \<open>
  The breaker is never in the key-only state, and a half-open breaker has always given its probe
  away: the only way into \<open>HalfOpen\<close> marks the probe as used.
\<close>

definition upstream_inv :: "UpstreamCircuitBreaker \<Rightarrow> bool" where
  "upstream_inv u \<longleftrightarrow>
     u_state u \<noteq> Permanent \<and> 0 \<le> u_failureCount u \<and> (u_state u = HalfOpen \<longrightarrow> u_halfOpenProbed u)"

lemma upstream_inv_new [simp]: "upstream_inv (NewUpstreamCircuitBreaker t d)"
  by (simp add: upstream_inv_def breaker_defs)

lemma upstream_step_inv: "upstream_inv u \<Longrightarrow> upstream_inv (upstream_step e u)"
  by (cases e; cases "u_state u") (simp_all add: upstream_inv_def breaker_defs Let_def)

interpretation upstream_machine: event_machine upstream_step upstream_inv
  by unfold_locales (rule upstream_step_inv)

interpretation upstream_breaker: breaker u_state U_Allow U_RecordSuccess U_Reset
  by unfold_locales (simp_all add: breaker_defs)

section \<open>What the breaker promises: an abstract machine\<close>

text \<open>
  The intended behaviour has three phases: counting consecutive failures, refusing since a point in
  time, and waiting for the outcome of the probe.
\<close>

datatype phase = Counting int | Refusing time | Probing

fun phase_step :: "int \<Rightarrow> duration \<Rightarrow> upstream_event \<Rightarrow> phase \<Rightarrow> phase" where
  "phase_step thr tmo (UFailure now) (Counting n) =
     (if thr \<le> n + 1 then Refusing now else Counting (n + 1))"
| "phase_step thr tmo (UFailure now) Probing = Refusing now"
| "phase_step thr tmo (UAllow now) (Refusing t) = (if t + tmo < now then Probing else Refusing t)"
| "phase_step thr tmo USuccess p = Counting 0"
| "phase_step thr tmo UReset p = Counting 0"
| "phase_step thr tmo _ p = p"

fun phase_allows :: "duration \<Rightarrow> time \<Rightarrow> phase \<Rightarrow> bool" where
  "phase_allows tmo now (Counting n) = True"
| "phase_allows tmo now (Refusing t) = (t + tmo < now)"
| "phase_allows tmo now Probing = False"

definition phase_of :: "UpstreamCircuitBreaker \<Rightarrow> phase" where
  "phase_of u =
     (case u_state u of
        Closed \<Rightarrow> Counting (u_failureCount u)
      | Open \<Rightarrow> Refusing (u_openedAt u)
      | _ \<Rightarrow> Probing)"

lemma phase_simulation:
  "upstream_inv u \<Longrightarrow>
     phase_of (upstream_step e u) = phase_step (u_threshold u) (u_resetTimeout u) e (phase_of u)"
  by (cases e; cases "u_state u") (simp_all add: phase_of_def upstream_inv_def breaker_defs Let_def)

lemma phase_allows_simulation:
  "upstream_inv u \<Longrightarrow> fst (U_Allow now u) = phase_allows (u_resetTimeout u) now (phase_of u)"
  by (cases "u_state u") (simp_all add: phase_of_def upstream_inv_def breaker_defs)

definition reconfigures :: "upstream_event \<Rightarrow> bool" where
  "reconfigures e \<longleftrightarrow> (case e of USetThreshold t \<Rightarrow> True | USetResetTimeout d \<Rightarrow> True | _ \<Rightarrow> False)"

lemma upstream_step_config:
  "\<not> reconfigures e \<Longrightarrow>
     u_threshold (upstream_step e u) = u_threshold u \<and>
     u_resetTimeout (upstream_step e u) = u_resetTimeout u"
  by (cases e; cases "u_state u") (simp_all add: reconfigures_def breaker_defs Let_def)

lemma upstream_run_config:
  "\<not> list_ex reconfigures es \<Longrightarrow>
     u_threshold (fold upstream_step es u) = u_threshold u \<and>
     u_resetTimeout (fold upstream_step es u) = u_resetTimeout u"
  by (induction es arbitrary: u) (simp_all add: upstream_step_config)

text \<open>A whole run without reconfiguration is a run of the abstract machine.\<close>

lemma phase_run:
  assumes "upstream_inv u" and "\<not> list_ex reconfigures es"
  shows "phase_of (fold upstream_step es u)
           = fold (phase_step (u_threshold u) (u_resetTimeout u)) es (phase_of u)"
  using assms
proof (induction es arbitrary: u)
  case (Cons e es)
  have "u_threshold (upstream_step e u) = u_threshold u \<and>
      u_resetTimeout (upstream_step e u) = u_resetTimeout u"
    using Cons.prems(2) by (intro upstream_step_config) simp
  with Cons show ?case by (simp add: upstream_step_inv phase_simulation)
qed simp

section \<open>Opening, and the single probe\<close>

lemma phase_failures:
  "fold (phase_step thr tmo) (map UFailure ts) (Refusing t) = Refusing t"
  by (induction ts) simp_all

lemma counting_failures:
  "ts \<noteq> [] \<Longrightarrow>
     fold (phase_step thr tmo) (map UFailure ts) (Counting n) =
       (if thr \<le> n + int (length ts) then Refusing (ts ! nat (max 0 (thr - n - 1)))
        else Counting (n + int (length ts)))"
proof (induction ts arbitrary: n)
  case (Cons t ts)
  show ?case
  proof (cases "thr \<le> n + 1")
    case True
    then have "nat (max 0 (thr - n - 1)) = 0" by simp
    with True show ?thesis by (simp add: phase_failures)
  next
    case False
    then have "nat (max 0 (thr - n - 1)) = Suc (nat (max 0 (thr - (n + 1) - 1)))" by simp
    with False Cons.IH [of "n + 1"] show ?thesis
      by (cases "ts = []") (simp_all add: algebra_simps)
  qed
qed simp

text \<open>
  Once the probe is out, no further request is let through, whatever the clock says and however the
  breaker is reconfigured, until an outcome is recorded or the breaker is reset.
\<close>

definition reports_outcome :: "upstream_event \<Rightarrow> bool" where
  "reports_outcome e \<longleftrightarrow> (case e of UFailure t \<Rightarrow> True | USuccess \<Rightarrow> True | UReset \<Rightarrow> True | _ \<Rightarrow> False)"

lemma half_open_step:
  "upstream_inv u \<Longrightarrow> u_state u = HalfOpen \<Longrightarrow> \<not> reports_outcome e \<Longrightarrow>
     u_state (upstream_step e u) = HalfOpen"
  by (cases e) (simp_all add: reports_outcome_def upstream_inv_def breaker_defs)

lemma half_open_run:
  "upstream_inv u \<Longrightarrow> u_state u = HalfOpen \<Longrightarrow> \<not> list_ex reports_outcome es \<Longrightarrow>
     u_state (fold upstream_step es u) = HalfOpen"
  by (induction es arbitrary: u) (simp_all add: half_open_step upstream_step_inv)

lemma half_open_refuses: "upstream_inv u \<Longrightarrow> u_state u = HalfOpen \<Longrightarrow> \<not> fst (U_Allow now u)"
  by (simp add: upstream_inv_def breaker_defs)

end
