(* ===== verification/Config.thy ===== *)
theory Config
  imports GoStrings GoFloat Masking
begin

text \<open>
  Provider configuration (internal/config/config.go, config_loader.go, config_toml.go): the structs,
  their defaults, validation, the layering of provider, default section and built-in defaults, and
  the loader. Loops that the source writes with reflection over the struct fields are written out
  field by field. A Go map is a list of pairs with distinct keys in the order the runtime happens
  to iterate it. A nil slice and an empty slice are both the empty list.
\<close>

section \<open>The structs\<close>

record ProviderConfig =
  c_TargetBase :: string
  c_CooldownSec :: int
  c_MaxRetries :: int
  c_BackoffCapSec :: int
  c_BackoffMultiplier :: float64
  c_CBResetSec :: int
  c_UpstreamCBThreshold :: int
  c_HTTPTimeoutSec :: int
  c_LogLevel :: string
  c_HealthCheckIntervalSec :: int
  c_AdminToken :: string
  c_ThinkingMode :: string
  c_RectifyThinkingMapTo :: string
  c_GenaiModel :: string
  c_KeysFile :: string
  c_KeySelection :: string
  c_BufferMode :: bool
  c_Port :: int
  c_Host :: string
  c_Keys :: "string list"
  c_KeyNames :: "string list"
  c_HealthCheckPath :: string
  c_HealthCheckTimeoutSec :: int
  c_LogFile :: string
  c_LogMaxSize :: int
  c_LogMaxAge :: int
  c_ErrorDumpMaxAge :: int
  c_CalibrationIntervalSec :: int

record RuntimeConfig =
  r_HTTPTimeoutSec :: int
  r_MaxRetries :: int
  r_CooldownSec :: int
  r_BackoffCapSec :: int
  r_BackoffMultiplier :: float64
  r_CBResetSec :: int
  r_UpstreamCBThreshold :: int
  r_LogLevel :: string

record Config =
  cf_Provider :: ProviderConfig
  cf_Runtime :: RuntimeConfig

definition zeroProviderConfig :: ProviderConfig where
  "zeroProviderConfig =
     \<lparr>c_TargetBase = '''', c_CooldownSec = 0, c_MaxRetries = 0, c_BackoffCapSec = 0,
      c_BackoffMultiplier = Fin 0, c_CBResetSec = 0, c_UpstreamCBThreshold = 0, c_HTTPTimeoutSec = 0,
      c_LogLevel = '''', c_HealthCheckIntervalSec = 0, c_AdminToken = '''', c_ThinkingMode = '''',
      c_RectifyThinkingMapTo = '''', c_GenaiModel = '''', c_KeysFile = '''', c_KeySelection = '''',
      c_BufferMode = False, c_Port = 0, c_Host = '''', c_Keys = [], c_KeyNames = [],
      c_HealthCheckPath = '''', c_HealthCheckTimeoutSec = 0, c_LogFile = '''', c_LogMaxSize = 0,
      c_LogMaxAge = 0, c_ErrorDumpMaxAge = 0, c_CalibrationIntervalSec = 0\<rparr>"

definition zeroRuntimeConfig :: RuntimeConfig where
  "zeroRuntimeConfig =
     \<lparr>r_HTTPTimeoutSec = 0, r_MaxRetries = 0, r_CooldownSec = 0, r_BackoffCapSec = 0,
      r_BackoffMultiplier = Fin 0, r_CBResetSec = 0, r_UpstreamCBThreshold = 0, r_LogLevel = ''''\<rparr>"

definition DefaultProviderConfig :: ProviderConfig where
  "DefaultProviderConfig = zeroProviderConfig
     \<lparr>c_Port := 4000, c_Host := ''127.0.0.1'', c_MaxRetries := 1, c_LogLevel := ''info'',
      c_CooldownSec := 15, c_HTTPTimeoutSec := 30, c_BackoffCapSec := 120,
      c_BackoffMultiplier := Fin 2, c_CBResetSec := 30, c_UpstreamCBThreshold := 5,
      c_HealthCheckIntervalSec := 30, c_HealthCheckPath := ''/health'', c_HealthCheckTimeoutSec := 5,
      c_KeysFile := ''keys.json'', c_LogMaxSize := 100, c_LogMaxAge := 7, c_ErrorDumpMaxAge := 7,
      c_CalibrationIntervalSec := 3600\<rparr>"

definition DefaultRuntimeConfig :: RuntimeConfig where
  "DefaultRuntimeConfig =
     \<lparr>r_HTTPTimeoutSec = 30, r_MaxRetries = 1, r_CooldownSec = 15, r_BackoffCapSec = 120,
      r_BackoffMultiplier = Fin 2, r_CBResetSec = 30, r_UpstreamCBThreshold = 5, r_LogLevel = ''info''\<rparr>"

definition DefaultConfig :: Config where
  "DefaultConfig = \<lparr>cf_Provider = DefaultProviderConfig, cf_Runtime = zeroRuntimeConfig\<rparr>"

section \<open>Validation\<close>

text \<open>One constructor per message of the source, with the values that it prints.\<close>

datatype config_error =
    BadPort int
  | NoTargetBase
  | NoKeys
  | BadBackoffCap int
  | BadMultiplier float64
  | BadCBReset int
  | BadUpstreamThreshold int
  | BadHealthInterval int
  | BadHealthTimeout int
  | BadHTTPTimeout int
  | ReadFailed string
  | ParseFailed
  | NoProviderSection

fun error_category :: "config_error \<Rightarrow> string" where
  "error_category (ReadFailed p) = ''system''"
| "error_category _ = ''config''"

definition validateProvider :: "ProviderConfig \<Rightarrow> config_error option" where
  "validateProvider pc =
     (if c_Port pc < 1 \<or> 65535 < c_Port pc then Some (BadPort (c_Port pc))
      else if c_TargetBase pc = '''' then Some NoTargetBase
      else if c_Keys pc = [] then Some NoKeys
      else if c_BackoffCapSec pc < 30 then Some (BadBackoffCap (c_BackoffCapSec pc))
      else if float_lt (c_BackoffMultiplier pc) (Fin 1) then Some (BadMultiplier (c_BackoffMultiplier pc))
      else if c_CBResetSec pc < 5 then Some (BadCBReset (c_CBResetSec pc))
      else if c_UpstreamCBThreshold pc < 2 then Some (BadUpstreamThreshold (c_UpstreamCBThreshold pc))
      else if c_HealthCheckIntervalSec pc < 5 then Some (BadHealthInterval (c_HealthCheckIntervalSec pc))
      else if c_HealthCheckTimeoutSec pc < 1 then Some (BadHealthTimeout (c_HealthCheckTimeoutSec pc))
      else None)"

definition validateRuntime :: "RuntimeConfig \<Rightarrow> config_error option" where
  "validateRuntime rc =
     (if r_HTTPTimeoutSec rc < 1 then Some (BadHTTPTimeout (r_HTTPTimeoutSec rc)) else None)"

text \<open>The runtime fields take the values of the provider fields of the same name.\<close>

definition syncRuntimeConfig :: "RuntimeConfig \<Rightarrow> ProviderConfig \<Rightarrow> RuntimeConfig" where
  "syncRuntimeConfig rc pc = rc
     \<lparr>r_HTTPTimeoutSec := c_HTTPTimeoutSec pc, r_MaxRetries := c_MaxRetries pc,
      r_CooldownSec := c_CooldownSec pc, r_BackoffCapSec := c_BackoffCapSec pc,
      r_BackoffMultiplier := c_BackoffMultiplier pc, r_CBResetSec := c_CBResetSec pc,
      r_UpstreamCBThreshold := c_UpstreamCBThreshold pc, r_LogLevel := c_LogLevel pc\<rparr>"

definition validateConfig :: "Config \<Rightarrow> config_error option \<times> Config" where
  "validateConfig c =
     (let pc = cf_Provider c
      in if c_HealthCheckTimeoutSec pc < 1 then (Some (BadHealthTimeout (c_HealthCheckTimeoutSec pc)), c)
         else case validateProvider pc of
                Some e \<Rightarrow> (Some e, c)
              | None \<Rightarrow>
                  (let c' = c\<lparr>cf_Runtime := syncRuntimeConfig (cf_Runtime c) pc\<rparr>
                   in (validateRuntime (cf_Runtime c'), c')))"

section \<open>Copies\<close>

definition Sanitized :: "Config \<Rightarrow> Config" where
  "Sanitized c = c\<lparr>cf_Provider := (cf_Provider c)\<lparr>c_Keys := map MaskKey (c_Keys (cf_Provider c))\<rparr>\<rparr>"

text \<open>Values are immutable here, so a deep copy is the value itself.\<close>

definition DeepCopy :: "Config \<Rightarrow> Config" where
  "DeepCopy c = \<lparr>cf_Provider = cf_Provider c, cf_Runtime = cf_Runtime c\<rparr>"

section \<open>Layering\<close>

text \<open>The non-zero override, else the base.\<close>

definition pick :: "'a \<Rightarrow> 'a \<Rightarrow> 'a \<Rightarrow> 'a" where
  "pick zero b over = (if over = zero then b else over)"

text \<open>One iteration per field; the three excluded fields do not inherit.\<close>

definition mergeProvider :: "ProviderConfig \<Rightarrow> ProviderConfig \<Rightarrow> ProviderConfig" where
  "mergeProvider b ov =
     \<lparr>c_TargetBase = pick '''' '''' (c_TargetBase ov),
      c_CooldownSec = pick 0 (c_CooldownSec b) (c_CooldownSec ov),
      c_MaxRetries = pick 0 (c_MaxRetries b) (c_MaxRetries ov),
      c_BackoffCapSec = pick 0 (c_BackoffCapSec b) (c_BackoffCapSec ov),
      c_BackoffMultiplier = pick (Fin 0) (c_BackoffMultiplier b) (c_BackoffMultiplier ov),
      c_CBResetSec = pick 0 (c_CBResetSec b) (c_CBResetSec ov),
      c_UpstreamCBThreshold = pick 0 (c_UpstreamCBThreshold b) (c_UpstreamCBThreshold ov),
      c_HTTPTimeoutSec = pick 0 (c_HTTPTimeoutSec b) (c_HTTPTimeoutSec ov),
      c_LogLevel = pick '''' (c_LogLevel b) (c_LogLevel ov),
      c_HealthCheckIntervalSec = pick 0 (c_HealthCheckIntervalSec b) (c_HealthCheckIntervalSec ov),
      c_AdminToken = pick '''' (c_AdminToken b) (c_AdminToken ov),
      c_ThinkingMode = pick '''' (c_ThinkingMode b) (c_ThinkingMode ov),
      c_RectifyThinkingMapTo = pick '''' (c_RectifyThinkingMapTo b) (c_RectifyThinkingMapTo ov),
      c_GenaiModel = pick '''' (c_GenaiModel b) (c_GenaiModel ov),
      c_KeysFile = pick '''' (c_KeysFile b) (c_KeysFile ov),
      c_KeySelection = pick '''' (c_KeySelection b) (c_KeySelection ov),
      c_BufferMode = pick False (c_BufferMode b) (c_BufferMode ov),
      c_Port = pick 0 (c_Port b) (c_Port ov),
      c_Host = pick '''' (c_Host b) (c_Host ov),
      c_Keys = pick [] [] (c_Keys ov),
      c_KeyNames = pick [] [] (c_KeyNames ov),
      c_HealthCheckPath = pick '''' (c_HealthCheckPath b) (c_HealthCheckPath ov),
      c_HealthCheckTimeoutSec = pick 0 (c_HealthCheckTimeoutSec b) (c_HealthCheckTimeoutSec ov),
      c_LogFile = pick '''' (c_LogFile b) (c_LogFile ov),
      c_LogMaxSize = pick 0 (c_LogMaxSize b) (c_LogMaxSize ov),
      c_LogMaxAge = pick 0 (c_LogMaxAge b) (c_LogMaxAge ov),
      c_ErrorDumpMaxAge = pick 0 (c_ErrorDumpMaxAge b) (c_ErrorDumpMaxAge ov),
      c_CalibrationIntervalSec = pick 0 (c_CalibrationIntervalSec b) (c_CalibrationIntervalSec ov)\<rparr>"

definition mergeWithDefaults :: "Config \<Rightarrow> Config \<Rightarrow> Config" where
  "mergeWithDefaults b ov =
     (let pc = mergeProvider (cf_Provider b) (cf_Provider ov)
      in \<lparr>cf_Provider = pc, cf_Runtime = syncRuntimeConfig (cf_Runtime b) pc\<rparr>)"

text \<open>The \<open>default\<close> struct tags fill the fields that are still zero.\<close>

definition mergeDefaults :: "ProviderConfig \<Rightarrow> ProviderConfig" where
  "mergeDefaults pc = pc
     \<lparr>c_CooldownSec := pick 0 15 (c_CooldownSec pc),
      c_MaxRetries := pick 0 1 (c_MaxRetries pc),
      c_BackoffCapSec := pick 0 120 (c_BackoffCapSec pc),
      c_BackoffMultiplier := pick (Fin 0) (Fin 2) (c_BackoffMultiplier pc),
      c_CBResetSec := pick 0 30 (c_CBResetSec pc),
      c_UpstreamCBThreshold := pick 0 5 (c_UpstreamCBThreshold pc),
      c_HTTPTimeoutSec := pick 0 30 (c_HTTPTimeoutSec pc),
      c_LogLevel := pick '''' ''info'' (c_LogLevel pc),
      c_HealthCheckIntervalSec := pick 0 30 (c_HealthCheckIntervalSec pc),
      c_KeysFile := pick '''' ''keys.json'' (c_KeysFile pc),
      c_KeySelection := pick '''' ''polling'' (c_KeySelection pc),
      c_Port := pick 0 4000 (c_Port pc),
      c_Host := pick '''' ''127.0.0.1'' (c_Host pc),
      c_HealthCheckPath := pick '''' ''/health'' (c_HealthCheckPath pc),
      c_HealthCheckTimeoutSec := pick 0 5 (c_HealthCheckTimeoutSec pc),
      c_LogMaxSize := pick 0 100 (c_LogMaxSize pc),
      c_LogMaxAge := pick 0 7 (c_LogMaxAge pc),
      c_ErrorDumpMaxAge := pick 0 7 (c_ErrorDumpMaxAge pc),
      c_CalibrationIntervalSec := pick 0 3600 (c_CalibrationIntervalSec pc)\<rparr>"

section \<open>The loader\<close>

record TomlConfig =
  t_Port :: int
  t_Host :: string
  t_DefaultProvider :: string
  t_Default :: "Config option"
  t_CredentialsDir :: string
  t_LogFile :: string
  t_LogMaxSize :: int
  t_LogMaxAge :: int
  t_ErrorDumpMaxAge :: int
  t_Provider :: "(string \<times> Config option) list"

definition deprecatedKeys :: "string list" where
  "deprecatedKeys = [''genai'', ''disable_thinking'']"

text \<open>The warnings logged for removed keys: the key and its line number.\<close>

definition line_warnings :: "string \<Rightarrow> string list" where
  "line_warnings line =
     (let trimmed = TrimSpace line
      in if trimmed = '''' \<or> HasPrefix trimmed ''#'' \<or> HasPrefix trimmed ''['' then []
         else filter (\<lambda>key. HasPrefix trimmed key \<and>
                (let rest = drop (length key) trimmed
                 in rest = [] \<or> hd rest = CHR ''='' \<or> hd rest = CHR '' '' \<or> hd rest = CHR 0x09))
              deprecatedKeys)"

definition warnDeprecatedKeys :: "bytes \<Rightarrow> (string \<times> nat) list" where
  "warnDeprecatedKeys data =
     concat (map (\<lambda>(i, line). map (\<lambda>key. (key, i + 1)) (line_warnings line))
       (List.enumerate 0 (split_on (CHR 0x0A) data)))"

text \<open>
  The section whose values every provider inherits: the decoder's \<open>provider.default\<close> value or,
  failing that, the entry named \<open>default\<close>, which then is no provider any more.
\<close>

definition default_section :: "TomlConfig \<Rightarrow> Config option \<times> (string \<times> Config option) list" where
  "default_section tc =
     (case t_Default tc of
        Some d \<Rightarrow> (Some d, t_Provider tc)
      | None \<Rightarrow>
          (case map_of (t_Provider tc) ''default'' of
             Some p \<Rightarrow> (p, filter (\<lambda>(n, c). n \<noteq> ''default'') (t_Provider tc))
           | None \<Rightarrow> (None, t_Provider tc)))"

definition inherited :: "Config option \<Rightarrow> Config option \<Rightarrow> Config" where
  "inherited defaultCfg p =
     (case p of
        None \<Rightarrow> (case defaultCfg of
                   Some d \<Rightarrow> DeepCopy d
                 | None \<Rightarrow> \<lparr>cf_Provider = DefaultProviderConfig, cf_Runtime = zeroRuntimeConfig\<rparr>)
      | Some q \<Rightarrow> (case defaultCfg of Some d \<Rightarrow> mergeWithDefaults d q | None \<Rightarrow> q))"

text \<open>The top-level settings that go into every provider, written in the order of the source.\<close>

definition top_level :: "TomlConfig \<Rightarrow> int \<Rightarrow> string \<Rightarrow> ProviderConfig \<Rightarrow> ProviderConfig" where
  "top_level tc port host pc = pc
     \<lparr>c_Port := port,
      c_Host := (if c_Host pc = '''' then host else c_Host pc),
      c_LogFile := (if t_LogFile tc \<noteq> '''' then t_LogFile tc else c_LogFile pc),
      c_LogMaxSize := (if 0 < t_LogMaxSize tc then t_LogMaxSize tc else c_LogMaxSize pc),
      c_LogMaxAge := (if 0 < t_LogMaxAge tc then t_LogMaxAge tc else c_LogMaxAge pc),
      c_ErrorDumpMaxAge := (if 0 < t_ErrorDumpMaxAge tc then t_ErrorDumpMaxAge tc else c_ErrorDumpMaxAge pc)\<rparr>"

definition load_provider :: "TomlConfig \<Rightarrow> int \<Rightarrow> string \<Rightarrow> Config option \<Rightarrow> Config option \<Rightarrow> Config" where
  "load_provider tc port host defaultCfg p =
     (let c = inherited defaultCfg p
      in c\<lparr>cf_Provider := top_level tc port host (mergeDefaults (cf_Provider c))\<rparr>)"

text \<open>
  The file system and the TOML decoder are arguments. The second result is the new value of the
  package variable \<open>DefaultProviderName\<close>, when it is written.
\<close>

definition LoadAllTomlProviders ::
    "(string \<Rightarrow> bytes option) \<Rightarrow> (bytes \<Rightarrow> TomlConfig option) \<Rightarrow> string \<Rightarrow>
      (config_error + (string \<times> Config) list) \<times> string option" where
  "LoadAllTomlProviders readFile unmarshal path =
     (case readFile path of
        None \<Rightarrow> (Inl (ReadFailed path), None)
      | Some data \<Rightarrow>
          (case unmarshal data of
             None \<Rightarrow> (Inl ParseFailed, None)
           | Some tc \<Rightarrow>
               (if t_Provider tc = [] then (Inl NoProviderSection, Some (t_DefaultProvider tc))
                else
                  (let port = (if t_Port tc = 0 then c_Port DefaultProviderConfig else t_Port tc);
                       host = (if t_Host tc = '''' then c_Host DefaultProviderConfig else t_Host tc);
                       (defaultCfg, providers) = default_section tc
                   in (Inr (map (\<lambda>(name, p). (name, load_provider tc port host defaultCfg p)) providers),
                       Some (t_DefaultProvider tc))))))"

definition FindServerHost ::
    "(string \<Rightarrow> bytes option) \<Rightarrow> (bytes \<Rightarrow> TomlConfig option) \<Rightarrow> string \<Rightarrow> string" where
  "FindServerHost readFile unmarshal path =
     (case fst (LoadAllTomlProviders readFile unmarshal path) of
        Inl e \<Rightarrow> ''''
      | Inr ps \<Rightarrow> (case find (\<lambda>(n, c). c_Host (cf_Provider c) \<noteq> '''') ps of
                     Some (n, c) \<Rightarrow> c_Host (cf_Provider c) | None \<Rightarrow> ''''))"

definition FindServerPort ::
    "(string \<Rightarrow> bytes option) \<Rightarrow> (bytes \<Rightarrow> TomlConfig option) \<Rightarrow> string \<Rightarrow> int" where
  "FindServerPort readFile unmarshal path =
     (case fst (LoadAllTomlProviders readFile unmarshal path) of
        Inl e \<Rightarrow> 0
      | Inr ps \<Rightarrow> (case find (\<lambda>(n, c). 0 < c_Port (cf_Provider c)) ps of
                     Some (n, c) \<Rightarrow> c_Port (cf_Provider c) | None \<Rightarrow> 0))"

definition LoadTomlConfig ::
    "(string \<Rightarrow> bytes option) \<Rightarrow> (bytes \<Rightarrow> TomlConfig option) \<Rightarrow> string \<Rightarrow> (config_error + TomlConfig)" where
  "LoadTomlConfig readFile unmarshal path =
     (case readFile path of
        None \<Rightarrow> Inl (ReadFailed path)
      | Some data \<Rightarrow> (case unmarshal data of None \<Rightarrow> Inl ParseFailed | Some tc \<Rightarrow> Inr tc))"

section \<open>What the loader guarantees\<close>

lemma pick_pick [simp]: "pick z z x = x" "pick z b z = b" "x \<noteq> z \<Longrightarrow> pick z b x = x"
  by (simp_all add: pick_def)

lemma pick_assoc: "pick z a (pick z b x) = pick z (pick z a b) x"
  by (simp add: pick_def)

text \<open>A setting has three layers: the provider's section, the default section, the built-in default.\<close>

definition layered :: "'a \<Rightarrow> 'a \<Rightarrow> (ProviderConfig \<Rightarrow> 'a) \<Rightarrow> Config option \<Rightarrow> Config option \<Rightarrow> 'a" where
  "layered zero builtin f defaultCfg p =
     (let layer = (\<lambda>c. case c of None \<Rightarrow> zero | Some c \<Rightarrow> f (cf_Provider c))
      in if layer p \<noteq> zero then layer p else if layer defaultCfg \<noteq> zero then layer defaultCfg else builtin)"

lemma cf_Provider_load [simp]:
  "cf_Provider (load_provider tc port host d p) =
     top_level tc port host (mergeDefaults (cf_Provider (inherited d p)))"
  by (simp add: load_provider_def Let_def)

lemmas inherited_defs = inherited_def DeepCopy_def mergeWithDefaults_def mergeProvider_def Let_def

text \<open>A field with a built-in default, written by the three steps alike, is layered.\<close>

lemma layered_field:
  assumes "\<And>b ov. f (mergeProvider b ov) = pick zero (f b) (f ov)"
    and "f DefaultProviderConfig = builtin \<or> f DefaultProviderConfig = zero"
  shows "pick zero builtin (f (cf_Provider (inherited d p))) = layered zero builtin f d p"
  using assms
  by (cases p; cases d)
     (auto simp: inherited_def DeepCopy_def mergeWithDefaults_def Let_def layered_def pick_def)

lemma load_provider_layers:
  fixes tc port host d p
  defines "pc \<equiv> cf_Provider (load_provider tc port host d p)"
  shows "c_CooldownSec pc = layered 0 15 c_CooldownSec d p"
    and "c_MaxRetries pc = layered 0 1 c_MaxRetries d p"
    and "c_BackoffCapSec pc = layered 0 120 c_BackoffCapSec d p"
    and "c_BackoffMultiplier pc = layered (Fin 0) (Fin 2) c_BackoffMultiplier d p"
    and "c_CBResetSec pc = layered 0 30 c_CBResetSec d p"
    and "c_UpstreamCBThreshold pc = layered 0 5 c_UpstreamCBThreshold d p"
    and "c_HTTPTimeoutSec pc = layered 0 30 c_HTTPTimeoutSec d p"
    and "c_LogLevel pc = layered '''' ''info'' c_LogLevel d p"
    and "c_HealthCheckIntervalSec pc = layered 0 30 c_HealthCheckIntervalSec d p"
    and "c_KeySelection pc = layered '''' ''polling'' c_KeySelection d p"
    and "c_Host pc = layered '''' ''127.0.0.1'' c_Host d p"
    and "c_Port pc = port"
  unfolding pc_def cf_Provider_load
  by (subst layered_field [symmetric],
      simp add: mergeProvider_def,
      simp add: DefaultProviderConfig_def zeroProviderConfig_def,
      simp add: top_level_def mergeDefaults_def pick_def)+
     (simp add: top_level_def)

lemma load_provider_positive:
  "c_CooldownSec (cf_Provider (load_provider tc port host d p)) \<noteq> 0"
  "c_MaxRetries (cf_Provider (load_provider tc port host d p)) \<noteq> 0"
  "c_BackoffCapSec (cf_Provider (load_provider tc port host d p)) \<noteq> 0"
  "c_UpstreamCBThreshold (cf_Provider (load_provider tc port host d p)) \<noteq> 0"
  "c_Host (cf_Provider (load_provider tc port host d p)) \<noteq> ''''"
  by (simp_all only: load_provider_layers layered_def Let_def) simp_all

text \<open>The top-level host has no effect: the built-in host fills the field before it is consulted.\<close>

lemma load_provider_host: "load_provider tc port host d p = load_provider tc port host' d p"
proof -
  have "c_Host (mergeDefaults pc) \<noteq> ''''" for pc by (simp add: mergeDefaults_def pick_def)
  then show ?thesis by (simp add: load_provider_def Let_def top_level_def)
qed

lemma load_provider_toml_host:
  "load_provider (tc\<lparr>t_Host := h\<rparr>) port host d p = load_provider tc port host d p"
  by (simp add: load_provider_def Let_def top_level_def)

section \<open>What validation guarantees\<close>

lemma validateConfig_ok:
  assumes "validateConfig c = (None, c')"
  shows "cf_Provider c' = cf_Provider c"
    and "cf_Runtime c' = syncRuntimeConfig (cf_Runtime c) (cf_Provider c)"
    and "1 \<le> c_Port (cf_Provider c) \<and> c_Port (cf_Provider c) \<le> 65535"
    and "c_Keys (cf_Provider c) \<noteq> []" and "30 \<le> c_BackoffCapSec (cf_Provider c)"
    and "\<not> float_lt (c_BackoffMultiplier (cf_Provider c)) (Fin 1)"
    and "5 \<le> c_CBResetSec (cf_Provider c)" and "2 \<le> c_UpstreamCBThreshold (cf_Provider c)"
    and "1 \<le> c_HTTPTimeoutSec (cf_Provider c)"
  using assms
  by (auto simp: validateConfig_def validateProvider_def validateRuntime_def syncRuntimeConfig_def Let_def
      split: if_splits)

lemma Sanitized_hides_keys:
  "length (c_Keys (cf_Provider (Sanitized c))) = length (c_Keys (cf_Provider c)) \<and>
   (\<forall>k\<in>set (c_Keys (cf_Provider (Sanitized c))). length k \<le> 11) \<and>
   c_AdminToken (cf_Provider (Sanitized c)) = c_AdminToken (cf_Provider c)"
  by (auto simp: Sanitized_def length_MaskKey)

end
