(* ===== verification/FieldDescriptors.thy ===== *)
theory FieldDescriptors
  imports Config
begin

text \<open>
  The table of configurable fields (internal/config/field_descriptor.go): the struct tags as data,
  the tag parser, the descriptors that reflection builds from them, and parsing, formatting and
  persisting of values. A Go \<open>any\<close> that holds one of the four field types is a \<open>fvalue\<close>.
\<close>

section \<open>strconv.ParseBool and ParseFloat\<close>

definition ParseBool :: "string \<Rightarrow> bool option" where
  "ParseBool s =
     (if s \<in> set [''1'', ''t'', ''T'', ''true'', ''TRUE'', ''True''] then Some True
      else if s \<in> set [''0'', ''f'', ''F'', ''false'', ''FALSE'', ''False''] then Some False
      else None)"

text \<open>The leading digits of a text, their value after \<open>acc\<close> and their number.\<close>

fun scan_digits :: "nat \<Rightarrow> nat \<Rightarrow> string \<Rightarrow> nat \<times> nat \<times> string" where
  "scan_digits acc n [] = (acc, n, [])"
| "scan_digits acc n (c # s) =
     (case digit_val c of None \<Rightarrow> (acc, n, c # s) | Some d \<Rightarrow> scan_digits (acc * 10 + d) (Suc n) s)"

definition take_sign :: "string \<Rightarrow> bool \<times> string" where
  "take_sign s =
     (case s of [] \<Rightarrow> (False, [])
      | c # cs \<Rightarrow> if c = CHR ''-'' then (True, cs) else if c = CHR ''+'' then (False, cs) else (False, s))"

text \<open>The exponent part: absent, or \<open>e\<close>, an optional sign and digits up to the end.\<close>

definition scan_exponent :: "string \<Rightarrow> int option" where
  "scan_exponent s =
     (case s of [] \<Rightarrow> Some 0
      | c # cs \<Rightarrow>
          if c = CHR ''e'' \<or> c = CHR ''E''
          then (let (neg, ds) = take_sign cs; (v, n, rest) = scan_digits 0 0 ds
                in if n = 0 \<or> rest \<noteq> [] then None else Some (if neg then - int v else int v))
          else None)"

definition pow10 :: "int \<Rightarrow> rat" where
  "pow10 k = (if 0 \<le> k then 10 ^ nat k else 1 / 10 ^ nat (- k))"

definition decimal_value :: "string \<Rightarrow> rat option" where
  "decimal_value s =
     (let (v, n, rest) = scan_digits 0 0 s;
          (v', n', rest') = (case rest of [] \<Rightarrow> (v, n, rest)
             | c # cs \<Rightarrow> if c = CHR ''.'' then scan_digits v n cs else (v, n, rest))
      in if n' = 0 then None
         else map_option (\<lambda>e. of_nat v' * pow10 (e - int (n' - n))) (scan_exponent rest'))"

text \<open>
  Decimal literals, infinities and NaN; a value too large for a float64 is an error.
  Hexadecimal literals, which Go accepts as well, are not modelled (\<open>None\<close>).
\<close>

definition ParseFloat :: "string \<Rightarrow> float64 option" where
  "ParseFloat s =
     (let (neg, t) = take_sign s; low = ToLower t
      in if low = ''inf'' \<or> low = ''infinity'' then Some (if neg then NegInf else PosInf)
         else if ToLower s = ''nan'' then Some NaN
         else (case decimal_value t of
                 None \<Rightarrow> None
               | Some q \<Rightarrow>
                   (case to_float (if neg then - q else q) of Fin r \<Rightarrow> Some (Fin r) | _ \<Rightarrow> None)))"

section \<open>Values\<close>

datatype fvalue = VInt int | VStr string | VBool bool | VFloat float64

datatype FieldType = FieldTypeInt | FieldTypeString | FieldTypeBool | FieldTypeFloat64

datatype FieldScope = FieldScopeProvider | FieldScopeGlobal

datatype field_error =
    SyntaxError FieldType string
  | InvalidLogLevel string
  | InvalidThinkingMode string
  | InvalidMapTo string
  | InvalidKeySelection string
  | MustBePositive string
  | MustBeNonNegative string
  | MustBeAtLeastOne string
  | UnknownKey string

definition parseByType :: "FieldType \<Rightarrow> string \<Rightarrow> field_error + fvalue" where
  "parseByType t s =
     (let res = (case t of
                   FieldTypeInt \<Rightarrow> map_option VInt (Atoi s)
                 | FieldTypeFloat64 \<Rightarrow> map_option VFloat (ParseFloat s)
                 | FieldTypeBool \<Rightarrow> map_option VBool (ParseBool s)
                 | FieldTypeString \<Rightarrow> Some (VStr s))
      in case res of None \<Rightarrow> Inl (SyntaxError t s) | Some v \<Rightarrow> Inr v)"

text \<open>\<open>FormatFloat(f, 'f', 1, 64)\<close>: the exact value, rounded to one decimal, ties to even.\<close>

fun FormatFloat1 :: "float64 \<Rightarrow> string" where
  "FormatFloat1 NaN = ''NaN''"
| "FormatFloat1 PosInf = ''+Inf''"
| "FormatFloat1 NegInf = ''-Inf''"
| "FormatFloat1 (Fin q) =
     (let n = nat (round_half_even (\<bar>q\<bar> * 10))
      in (if q < 0 then ''-'' else '''') @ nat_digits (n div 10) @ ''.'' @ [digit_char (n mod 10)])"

text \<open>A type assertion on the wrong type panics: \<open>None\<close>.\<close>

definition formatByType :: "FieldType \<Rightarrow> fvalue \<Rightarrow> string option" where
  "formatByType t v =
     (case (t, v) of
        (FieldTypeInt, VInt i) \<Rightarrow> Some (Itoa i)
      | (FieldTypeFloat64, VFloat f) \<Rightarrow>
          (if float_eq f (float_of_int (float_to_int64 f)) then Some (Itoa (float_to_int64 f))
           else Some (FormatFloat1 f))
      | (FieldTypeBool, VBool b) \<Rightarrow> Some (if b then ''true'' else ''false'')
      | (FieldTypeString, VStr s) \<Rightarrow> Some s
      | _ \<Rightarrow> None)"

definition zeroDefault :: "FieldType \<Rightarrow> string" where
  "zeroDefault t =
     (case t of FieldTypeInt \<Rightarrow> ''0'' | FieldTypeFloat64 \<Rightarrow> ''0'' | FieldTypeBool \<Rightarrow> ''false''
      | FieldTypeString \<Rightarrow> '''')"

definition IsValidLogLevel :: "string \<Rightarrow> bool" where
  "IsValidLogLevel level \<longleftrightarrow> level \<in> set [''debug'', ''info'', ''warn'', ''error'']"

section \<open>Struct tags\<close>

record fieldTag =
  ft_key :: string
  ft_display :: string
  ft_scope :: string
  ft_defaultOverride :: string
  ft_runtime :: bool
  ft_readOnly :: bool
  ft_min :: int

definition emptyTag :: fieldTag where
  "emptyTag = \<lparr>ft_key = '''', ft_display = '''', ft_scope = '''', ft_defaultOverride = '''',
               ft_runtime = False, ft_readOnly = False, ft_min = 0\<rparr>"

definition tag_part :: "string \<Rightarrow> fieldTag \<Rightarrow> fieldTag" where
  "tag_part p ft =
     (let (k, rest) = split2 (CHR '':'') p; v = (case rest of None \<Rightarrow> '''' | Some v \<Rightarrow> v)
      in if k = ''display'' then ft\<lparr>ft_display := v\<rparr>
         else if k = ''scope'' then ft\<lparr>ft_scope := v\<rparr>
         else if k = ''default'' then ft\<lparr>ft_defaultOverride := v\<rparr>
         else if k = ''runtime'' then ft\<lparr>ft_runtime := True\<rparr>
         else if k = ''readonly'' then ft\<lparr>ft_readOnly := True\<rparr>
         else if k = ''min'' then (case Atoi v of None \<Rightarrow> ft | Some n \<Rightarrow> ft\<lparr>ft_min := n\<rparr>)
         else ft)"

definition parseFieldTag :: "string \<Rightarrow> fieldTag option" where
  "parseFieldTag tag =
     (if tag = '''' then None
      else (case split_on (CHR '','') tag of
              [] \<Rightarrow> None
            | k # parts \<Rightarrow>
                if k = '''' then None else Some (fold tag_part parts (emptyTag\<lparr>ft_key := k\<rparr>))))"

text \<open>One struct field: name, type, and the \<open>toml\<close>, \<open>default\<close> and \<open>field\<close> tags.\<close>

type_synonym struct_field = "string \<times> FieldType \<times> string \<times> string \<times> string"

text \<open>The fields of \<open>ProviderConfig\<close> that carry a \<open>field\<close> tag (the scan skips the others).\<close>

definition ProviderConfig_fields :: "struct_field list" where
  "ProviderConfig_fields =
    [(''TargetBase'', FieldTypeString, ''target'', '''', ''target,display:Target URL,scope:provider''),
     (''CooldownSec'', FieldTypeInt, ''cooldown_sec,omitempty'', ''15'',
        ''cooldown_sec,display:Cooldown (sec),scope:provider,default:15,runtime,min:1''),
     (''MaxRetries'', FieldTypeInt, ''max_retries,omitempty'', ''1'',
        ''max_retries,display:Max Retries,scope:provider,default:1,runtime,min:0''),
     (''BackoffCapSec'', FieldTypeInt, ''backoff_cap_sec,omitempty'', ''120'',
        ''backoff_cap_sec,display:Backoff Cap (sec),scope:provider,default:120,runtime,min:1''),
     (''BackoffMultiplier'', FieldTypeFloat64, ''backoff_multiplier,omitempty'', ''2'',
        ''backoff_multiplier,display:Backoff Multiplier,scope:provider,default:2,runtime''),
     (''CBResetSec'', FieldTypeInt, ''cb_reset_sec,omitempty'', ''30'',
        ''cb_reset_sec,display:Circuit Breaker Reset (sec),scope:provider,default:30,runtime,min:1''),
     (''UpstreamCBThreshold'', FieldTypeInt, ''upstream_cb_threshold,omitempty'', ''5'',
        ''upstream_cb_threshold,display:Upstream CB Threshold,scope:provider,default:5,runtime,min:1''),
     (''HTTPTimeoutSec'', FieldTypeInt, ''http_timeout_sec,omitempty'', ''30'',
        ''http_timeout_sec,display:HTTP Timeout (sec),scope:provider,default:30,runtime,min:1''),
     (''LogLevel'', FieldTypeString, ''log_level,omitempty'', ''info'',
        ''log_level,display:Log Level,scope:provider,default:info,runtime''),
     (''HealthCheckIntervalSec'', FieldTypeInt, ''health_check_interval_sec,omitempty'', ''30'',
        ''health_check_interval_sec,display:Health Check Interval (sec),scope:provider,default:30''),
     (''AdminToken'', FieldTypeString, ''admin_token,omitempty'', '''',
        ''admin_token,display:Admin Token,scope:provider,readonly''),
     (''ThinkingMode'', FieldTypeString, ''thinking_mode,omitempty'', '''',
        ''thinking_mode,display:Thinking Mode,scope:provider,default:default,runtime''),
     (''RectifyThinkingMapTo'', FieldTypeString, ''rectify_thinking_map_to,omitempty'', '''',
        ''rectify_thinking_map_to,display:Rectify Thinking Map To,scope:provider,runtime''),
     (''GenaiModel'', FieldTypeString, ''genai_model,omitempty'', '''',
        ''genai_model,display:GenAI Model,scope:provider''),
     (''KeysFile'', FieldTypeString, ''keys_file,omitempty'', ''keys.json'',
        ''keys_file,display:Keys File,scope:provider,default:keys.json,readonly''),
     (''KeySelection'', FieldTypeString, ''key_selection,omitempty'', ''polling'',
        ''key_selection,display:Key Selection Mode,scope:provider,default:polling''),
     (''BufferMode'', FieldTypeBool, ''buffer_mode,omitempty'', '''',
        ''buffer_mode,display:Buffer Mode,scope:provider,default:false'')]"

definition TomlConfig_fields :: "struct_field list" where
  "TomlConfig_fields =
    [(''Port'', FieldTypeInt, ''port'', '''', ''port,display:Port,scope:global,default:4000,readonly''),
     (''LogFile'', FieldTypeString, ''log_file,omitempty'', '''',
        ''log_file,display:Log File,scope:global,readonly'')]"

section \<open>Descriptors\<close>

record ConfigFieldDescriptor =
  fd_Key :: string
  fd_DisplayName :: string
  fd_Scope :: FieldScope
  fd_TomlPath :: string
  fd_Type :: FieldType
  fd_Default :: string
  fd_RuntimeEditable :: bool
  fd_ReadOnly :: bool
  fd_MinInt :: int
  fd_StructField :: string

text \<open>
  The closures \<open>Parse\<close>, \<open>Format\<close> and \<open>Persist\<close> are functions of the descriptor below; \<open>Persist\<close>
  is derived from the struct field name, kept in \<open>fd_StructField\<close>.
\<close>

definition scan_field :: "FieldScope \<Rightarrow> struct_field \<Rightarrow> ConfigFieldDescriptor option" where
  "scan_field defaultScope sf =
     (case sf of (name, fType, toml, deflt, tag) \<Rightarrow>
        (case parseFieldTag tag of
           None \<Rightarrow> None
         | Some ft \<Rightarrow>
             (let scope = (if ft_scope ft = ''provider'' then FieldScopeProvider
                           else if ft_scope ft = ''global'' then FieldScopeGlobal else defaultScope);
                  tomlName = fst (split2 (CHR '','') toml);
                  tomlPath = (if scope = FieldScopeProvider then ''provider.%s.'' @ tomlName else tomlName);
                  d0 = ft_defaultOverride ft;
                  d1 = (if d0 = '''' then deflt else d0);
                  d2 = (if d1 = '''' then zeroDefault fType else d1)
              in Some \<lparr>fd_Key = ft_key ft, fd_DisplayName = ft_display ft, fd_Scope = scope,
                       fd_TomlPath = tomlPath, fd_Type = fType, fd_Default = d2,
                       fd_RuntimeEditable = ft_runtime ft, fd_ReadOnly = ft_readOnly ft,
                       fd_MinInt = ft_min ft, fd_StructField = name\<rparr>)))"

definition scanStruct :: "struct_field list \<Rightarrow> FieldScope \<Rightarrow> ConfigFieldDescriptor list" where
  "scanStruct sfs defaultScope = List.map_filter (scan_field defaultScope) sfs"

definition reflectBuildDescriptors :: "ConfigFieldDescriptor list" where
  "reflectBuildDescriptors =
     scanStruct ProviderConfig_fields FieldScopeProvider @ scanStruct TomlConfig_fields FieldScopeGlobal"

definition FindField :: "string \<Rightarrow> ConfigFieldDescriptor option" where
  "FindField key = find (\<lambda>d. fd_Key d = key) reflectBuildDescriptors"

definition ParseDefault :: "ConfigFieldDescriptor \<Rightarrow> field_error + fvalue" where
  "ParseDefault d = parseByType (fd_Type d) (fd_Default d)"

text \<open>The parsers that replace the derived ones, by field key.\<close>

definition choice :: "string list \<Rightarrow> (string \<Rightarrow> field_error) \<Rightarrow> string \<Rightarrow> field_error + string" where
  "choice allowed err s =
     (let v = TrimSpace (ToLower s) in if v \<in> set allowed then Inr v else Inl (err s))"

definition choose_map_to :: "string \<Rightarrow> field_error + string" where
  "choose_map_to s =
     (case choice [''enabled'', ''auto'', ''disabled''] InvalidMapTo s of
        Inl e \<Rightarrow> Inl e
      | Inr v \<Rightarrow> Inr (if v = ''disabled'' then '''' else v))"

definition customParse :: "string \<Rightarrow> (string \<Rightarrow> field_error + string) option" where
  "customParse key =
     (if key = ''log_level'' then Some (choice [''debug'', ''info'', ''warn'', ''error''] InvalidLogLevel)
      else if key = ''thinking_mode'' then Some (choice [''default'', ''rectify''] InvalidThinkingMode)
      else if key = ''rectify_thinking_map_to'' then Some choose_map_to
      else if key = ''key_selection'' then Some (choice [''polling'', ''random''] InvalidKeySelection)
      else None)"

definition Parse :: "ConfigFieldDescriptor \<Rightarrow> string \<Rightarrow> field_error + fvalue" where
  "Parse d s =
     (case customParse (fd_Key d) of
        Some p \<Rightarrow> (case p s of Inl e \<Rightarrow> Inl e | Inr v \<Rightarrow> Inr (VStr v))
      | None \<Rightarrow> parseByType (fd_Type d) s)"

definition Format :: "ConfigFieldDescriptor \<Rightarrow> fvalue \<Rightarrow> string option" where
  "Format d v =
     (if fd_Key d = ''rectify_thinking_map_to''
      then (case v of VStr s \<Rightarrow> Some (if s = '''' then ''disabled'' else s) | _ \<Rightarrow> None)
      else formatByType (fd_Type d) v)"

section \<open>Persisting a value\<close>

text \<open>
  The derived \<open>Persist\<close> of a provider field writes the struct field by name; a value of the wrong
  type panics (\<open>None\<close>), as does an unknown name.
\<close>

definition set_field :: "string \<Rightarrow> fvalue \<Rightarrow> ProviderConfig \<Rightarrow> ProviderConfig option" where
  "set_field name v pc =
     (case v of
        VInt i \<Rightarrow>
          (if name = ''CooldownSec'' then Some (pc\<lparr>c_CooldownSec := i\<rparr>)
           else if name = ''MaxRetries'' then Some (pc\<lparr>c_MaxRetries := i\<rparr>)
           else if name = ''BackoffCapSec'' then Some (pc\<lparr>c_BackoffCapSec := i\<rparr>)
           else if name = ''CBResetSec'' then Some (pc\<lparr>c_CBResetSec := i\<rparr>)
           else if name = ''UpstreamCBThreshold'' then Some (pc\<lparr>c_UpstreamCBThreshold := i\<rparr>)
           else if name = ''HTTPTimeoutSec'' then Some (pc\<lparr>c_HTTPTimeoutSec := i\<rparr>)
           else if name = ''HealthCheckIntervalSec'' then Some (pc\<lparr>c_HealthCheckIntervalSec := i\<rparr>)
           else None)
      | VFloat f \<Rightarrow> (if name = ''BackoffMultiplier'' then Some (pc\<lparr>c_BackoffMultiplier := f\<rparr>) else None)
      | VBool b \<Rightarrow> (if name = ''BufferMode'' then Some (pc\<lparr>c_BufferMode := b\<rparr>) else None)
      | VStr s \<Rightarrow>
          (if name = ''TargetBase'' then Some (pc\<lparr>c_TargetBase := s\<rparr>)
           else if name = ''LogLevel'' then Some (pc\<lparr>c_LogLevel := s\<rparr>)
           else if name = ''AdminToken'' then Some (pc\<lparr>c_AdminToken := s\<rparr>)
           else if name = ''ThinkingMode'' then Some (pc\<lparr>c_ThinkingMode := s\<rparr>)
           else if name = ''RectifyThinkingMapTo'' then Some (pc\<lparr>c_RectifyThinkingMapTo := s\<rparr>)
           else if name = ''GenaiModel'' then Some (pc\<lparr>c_GenaiModel := s\<rparr>)
           else if name = ''KeysFile'' then Some (pc\<lparr>c_KeysFile := s\<rparr>)
           else if name = ''KeySelection'' then Some (pc\<lparr>c_KeySelection := s\<rparr>)
           else None))"

definition get_field :: "string \<Rightarrow> ProviderConfig \<Rightarrow> fvalue option" where
  "get_field name pc =
     map_of [(''TargetBase'', VStr (c_TargetBase pc)), (''CooldownSec'', VInt (c_CooldownSec pc)),
       (''MaxRetries'', VInt (c_MaxRetries pc)), (''BackoffCapSec'', VInt (c_BackoffCapSec pc)),
       (''BackoffMultiplier'', VFloat (c_BackoffMultiplier pc)), (''CBResetSec'', VInt (c_CBResetSec pc)),
       (''UpstreamCBThreshold'', VInt (c_UpstreamCBThreshold pc)),
       (''HTTPTimeoutSec'', VInt (c_HTTPTimeoutSec pc)), (''LogLevel'', VStr (c_LogLevel pc)),
       (''HealthCheckIntervalSec'', VInt (c_HealthCheckIntervalSec pc)),
       (''AdminToken'', VStr (c_AdminToken pc)), (''ThinkingMode'', VStr (c_ThinkingMode pc)),
       (''RectifyThinkingMapTo'', VStr (c_RectifyThinkingMapTo pc)),
       (''GenaiModel'', VStr (c_GenaiModel pc)), (''KeysFile'', VStr (c_KeysFile pc)),
       (''KeySelection'', VStr (c_KeySelection pc)), (''BufferMode'', VBool (c_BufferMode pc))] name"

definition Persist :: "ConfigFieldDescriptor \<Rightarrow> fvalue \<Rightarrow> TomlConfig option \<Rightarrow> Config option \<Rightarrow>
    (TomlConfig option \<times> Config option) option" where
  "Persist d v tc c =
     (case fd_Scope d of
        FieldScopeProvider \<Rightarrow>
          (case c of
             None \<Rightarrow> Some (tc, None)
           | Some cfg \<Rightarrow> map_option (\<lambda>pc. (tc, Some (cfg\<lparr>cf_Provider := pc\<rparr>)))
                           (set_field (fd_StructField d) v (cf_Provider cfg)))
      | FieldScopeGlobal \<Rightarrow>
          (case (tc, v) of
             (None, _) \<Rightarrow> Some (None, c)
           | (Some t, VInt i) \<Rightarrow>
               (if fd_StructField d = ''Port'' then Some (Some (t\<lparr>t_Port := i\<rparr>), c) else None)
           | (Some t, VStr s) \<Rightarrow>
               (if fd_StructField d = ''LogFile'' then Some (Some (t\<lparr>t_LogFile := s\<rparr>), c) else None)
           | _ \<Rightarrow> None))"

section \<open>The table\<close>

text \<open>What the table holds, computed once by the kernel.\<close>

lemma table_keys:
  "map fd_Key reflectBuildDescriptors =
    [''target'', ''cooldown_sec'', ''max_retries'', ''backoff_cap_sec'', ''backoff_multiplier'',
     ''cb_reset_sec'', ''upstream_cb_threshold'', ''http_timeout_sec'', ''log_level'',
     ''health_check_interval_sec'', ''admin_token'', ''thinking_mode'', ''rectify_thinking_map_to'',
     ''genai_model'', ''keys_file'', ''key_selection'', ''buffer_mode'', ''port'', ''log_file'']"
  by code_simp

lemma table_keys_distinct: "distinct (map fd_Key reflectBuildDescriptors)"
  by (simp add: table_keys)

text \<open>The key is also the name in the file.\<close>

lemma table_paths:
  "list_all (\<lambda>d. fd_TomlPath d = (case fd_Scope d of FieldScopeProvider \<Rightarrow> ''provider.%s.'' @ fd_Key d
      | FieldScopeGlobal \<Rightarrow> fd_Key d)) reflectBuildDescriptors"
  by code_simp

lemma table_runtime:
  "map fd_Key (filter fd_RuntimeEditable reflectBuildDescriptors) =
    [''cooldown_sec'', ''max_retries'', ''backoff_cap_sec'', ''backoff_multiplier'', ''cb_reset_sec'',
     ''upstream_cb_threshold'', ''http_timeout_sec'', ''log_level'', ''thinking_mode'',
     ''rectify_thinking_map_to'']"
  by code_simp


lemma FindField_Some:
  "FindField key = Some d \<longleftrightarrow> d \<in> set reflectBuildDescriptors \<and> fd_Key d = key"
proof
  assume "FindField key = Some d"
  then show "d \<in> set reflectBuildDescriptors \<and> fd_Key d = key"
    by (auto simp: FindField_def find_Some_iff)
next
  assume d: "d \<in> set reflectBuildDescriptors \<and> fd_Key d = key"
  then obtain d' where d': "FindField key = Some d'"
    by (cases "FindField key") (auto simp: FindField_def find_None_iff)
  then have "d' \<in> set reflectBuildDescriptors \<and> fd_Key d' = key"
    by (auto simp: FindField_def find_Some_iff)
  with d d' table_keys_distinct show "FindField key = Some d"
    by (metis distinct_map inj_onD)
qed

section \<open>Types of parsed values\<close>

fun value_type :: "fvalue \<Rightarrow> FieldType" where
  "value_type (VInt i) = FieldTypeInt"
| "value_type (VStr s) = FieldTypeString"
| "value_type (VBool b) = FieldTypeBool"
| "value_type (VFloat f) = FieldTypeFloat64"

lemma parseByType_type: "parseByType t s = Inr v \<Longrightarrow> value_type v = t"
  by (cases t) (auto simp: parseByType_def split: option.splits)

lemma custom_is_string:
  "list_all (\<lambda>d. customParse (fd_Key d) = None \<or> fd_Type d = FieldTypeString) reflectBuildDescriptors"
  by code_simp

lemma Parse_type:
  assumes "d \<in> set reflectBuildDescriptors" and "Parse d s = Inr v"
  shows "value_type v = fd_Type d"
proof (cases "customParse (fd_Key d)")
  case None
  with assms show ?thesis by (auto simp: Parse_def intro: parseByType_type)
next
  case (Some p)
  with assms(1) custom_is_string have "fd_Type d = FieldTypeString" by (auto simp: list_all_iff)
  with Some assms(2) show ?thesis by (auto simp: Parse_def split: sum.splits)
qed

lemma ParseFloat_two: "ParseFloat ''2'' = Some (Fin 2)"
proof -
  have "decimal_value ''2'' = Some (of_nat 2 * pow10 0)" by code_simp
  then have "decimal_value ''2'' = Some 2" by (simp add: pow10_def)
  moreover have "to_float 2 = Fin 2" using to_float_pow2 [of 1] by (simp add: pow2_def)
  moreover have "take_sign ''2'' = (False, ''2'')" "ToLower ''2'' = ''2''" by code_simp+
  ultimately show ?thesis by (simp add: ParseFloat_def)
qed

lemma table_default_plain:
  "list_all (\<lambda>d. case ParseDefault d of Inl e \<Rightarrow> False | Inr v \<Rightarrow> value_type v = fd_Type d)
     (filter (\<lambda>d. fd_Type d \<noteq> FieldTypeFloat64) reflectBuildDescriptors)"
  "map fd_Default (filter (\<lambda>d. fd_Type d = FieldTypeFloat64) reflectBuildDescriptors) = [''2'']"
  by code_simp+

text \<open>Every default parses, and to its field's type.\<close>

lemma table_default_types:
  assumes "d \<in> set reflectBuildDescriptors"
  shows "\<exists>v. ParseDefault d = Inr v \<and> value_type v = fd_Type d"
proof (cases "fd_Type d = FieldTypeFloat64")
  case True
  then have "fd_Default d \<in> set (map fd_Default (filter (\<lambda>d. fd_Type d = FieldTypeFloat64) reflectBuildDescriptors))"
    using assms by simp
  then have "fd_Default d = ''2''" by (simp add: table_default_plain(2) del: set_map)
  with True show ?thesis by (simp add: ParseDefault_def parseByType_def ParseFloat_two)
next
  case False
  then have "case ParseDefault d of Inl e \<Rightarrow> False | Inr v \<Rightarrow> value_type v = fd_Type d"
    using assms table_default_plain(1) by (simp only: list_all_iff set_filter mem_Collect_eq Ball_def simp_thms)
  then show ?thesis by (cases "ParseDefault d") simp_all
qed

lemma provider_fields:
  "map (\<lambda>d. (fd_StructField d, fd_Type d)) (filter (\<lambda>d. fd_Scope d = FieldScopeProvider) reflectBuildDescriptors)
    = map (\<lambda>(name, t, _). (name, t)) ProviderConfig_fields"
  by code_simp

lemma set_get_field:
  assumes "(name, value_type v) \<in> set (map (\<lambda>(name, t, _). (name, t)) ProviderConfig_fields)"
  shows "\<exists>pc'. set_field name v pc = Some pc' \<and> get_field name pc' = Some v"
  using assms
  by (cases v) (auto simp: ProviderConfig_fields_def set_field_def get_field_def)

text \<open>What a provider field parses can be persisted, and is then the field's value.\<close>

lemma Persist_parsed:
  assumes "d \<in> set reflectBuildDescriptors" and "fd_Scope d = FieldScopeProvider" and "Parse d s = Inr v"
  shows "\<exists>c'. Persist d v tc (Some c) = Some (tc, Some c') \<and>
    get_field (fd_StructField d) (cf_Provider c') = Some v \<and> cf_Runtime c' = cf_Runtime c"
proof -
  have "(fd_StructField d, fd_Type d) \<in> set (map (\<lambda>d. (fd_StructField d, fd_Type d))
      (filter (\<lambda>d. fd_Scope d = FieldScopeProvider) reflectBuildDescriptors))"
    using assms(1,2) by force
  then have "(fd_StructField d, value_type v) \<in> set (map (\<lambda>(name, t, _). (name, t)) ProviderConfig_fields)"
    using Parse_type [OF assms(1,3)] by (simp only: provider_fields)
  from set_get_field [OF this, of "cf_Provider c"] assms(2) show ?thesis
    by (auto simp: Persist_def)
qed

section \<open>Printing what was parsed\<close>

lemma choice_fixed:
  "list_all (\<lambda>a. TrimSpace (ToLower a) = a) allowed \<Longrightarrow> v \<in> set allowed \<Longrightarrow> choice allowed err v = Inr v"
  by (simp add: choice_def list_all_iff Let_def)

lemma choice_allowed: "choice allowed err s = Inr v \<Longrightarrow> v \<in> set allowed"
  by (auto simp: choice_def Let_def split: if_splits)

lemma words_fixed:
  "list_all (\<lambda>a. TrimSpace (ToLower a) = a) [''debug'', ''info'', ''warn'', ''error'']"
  "list_all (\<lambda>a. TrimSpace (ToLower a) = a) [''default'', ''rectify'']"
  "list_all (\<lambda>a. TrimSpace (ToLower a) = a) [''enabled'', ''auto'', ''disabled'']"
  "list_all (\<lambda>a. TrimSpace (ToLower a) = a) [''polling'', ''random'']"
  by code_simp+

lemma choose_map_to_again:
  "choose_map_to s = Inr v \<Longrightarrow> choose_map_to (if v = '''' then ''disabled'' else v) = Inr v"
  using choice_allowed [of "[''enabled'', ''auto'', ''disabled'']" InvalidMapTo s]
    choice_fixed [OF words_fixed(3), of _ InvalidMapTo]
  by (auto simp: choose_map_to_def split: sum.splits if_splits)

lemma customParse_again:
  "customParse key = Some p \<Longrightarrow> key \<noteq> ''rectify_thinking_map_to'' \<Longrightarrow> p s = Inr v \<Longrightarrow> p v = Inr v"
  using words_fixed
  by (auto simp: customParse_def split: if_splits dest!: choice_allowed intro!: choice_fixed)

lemma parseByType_again:
  "t \<noteq> FieldTypeFloat64 \<Longrightarrow> parseByType t s = Inr v \<Longrightarrow>
     \<exists>u. formatByType t v = Some u \<and> parseByType t u = Inr v"
proof (cases t)
  case FieldTypeInt
  assume "parseByType t s = Inr v"
  then obtain i where "Atoi s = Some i" "v = VInt i"
    using FieldTypeInt by (auto simp: parseByType_def split: option.splits)
  then show ?thesis
    using FieldTypeInt Atoi_Itoa [OF Atoi_in_int64] by (simp add: parseByType_def formatByType_def)
next
  case FieldTypeBool
  assume "parseByType t s = Inr v"
  then obtain b where "v = VBool b"
    using FieldTypeBool by (auto simp: parseByType_def simp del: set_simps split: option.splits)
  moreover have "ParseBool ''true'' = Some True" "ParseBool ''false'' = Some False" by code_simp+
  ultimately show ?thesis
    using FieldTypeBool by (cases b) (simp_all add: parseByType_def formatByType_def)
next
  case FieldTypeString
  assume "parseByType t s = Inr v"
  then show ?thesis using FieldTypeString by (auto simp: parseByType_def formatByType_def)
qed simp

lemma Format_Parse:
  assumes "d \<in> set reflectBuildDescriptors" and "fd_Type d \<noteq> FieldTypeFloat64" and "Parse d s = Inr v"
  shows "\<exists>u. Format d v = Some u \<and> Parse d u = Inr v"
proof (cases "customParse (fd_Key d)")
  case None
  then have "fd_Key d \<noteq> ''rectify_thinking_map_to''" by (auto simp: customParse_def)
  with None assms(2,3) parseByType_again [of "fd_Type d" s v] show ?thesis
    by (simp add: Parse_def Format_def)
next
  case (Some p)
  with assms(3) obtain w where w: "v = VStr w" "p s = Inr w" by (auto simp: Parse_def split: sum.splits)
  show ?thesis
  proof (cases "fd_Key d = ''rectify_thinking_map_to''")
    case True
    then have "p = choose_map_to" using Some by (simp add: customParse_def)
    with True w Some choose_map_to_again [of s w] show ?thesis by (simp add: Parse_def Format_def)
  next
    case False
    have "fd_Type d = FieldTypeString" using Parse_type [OF assms(1,3)] w by simp
    with False w Some customParse_again [OF Some False w(2)] show ?thesis
      by (simp add: Parse_def Format_def formatByType_def)
  qed
qed

end
