(* ===== verification/Json.thy ===== *)
theory Json
  imports GoStrings
begin

text \<open>
  What the program uses of Go's \<open>encoding/json\<close>: the syntax of JSON texts and decoding into structs.
  A decoder updates a value and reports whether the types fitted; as in Go it goes on after a
  mismatch, and \<open>Unmarshal\<close> fails if there was one. Member names match exactly or, failing that,
  up to ASCII case. A byte of a string that starts no valid UTF-8 encoding is read as U+FFFD.
\<close>

section \<open>UTF-8\<close>

definition utf8 :: "nat \<Rightarrow> string" where
  "utf8 r =
     (if r < 128 then [char_of r]
      else if r < 2048 then [char_of (192 + r div 64), char_of (128 + r mod 64)]
      else if r < 65536
      then [char_of (224 + r div 4096), char_of (128 + r div 64 mod 64), char_of (128 + r mod 64)]
      else [char_of (240 + r div 262144), char_of (128 + r div 4096 mod 64),
            char_of (128 + r div 64 mod 64), char_of (128 + r mod 64)])"

definition byte_in :: "nat \<Rightarrow> nat \<Rightarrow> char \<Rightarrow> bool" where
  "byte_in lo hi c \<longleftrightarrow> lo \<le> of_char c \<and> of_char c \<le> hi"

text \<open>
  What a first byte announces: the number of further bytes and the range of the second one.
\<close>

definition lead_byte :: "char \<Rightarrow> (nat \<times> nat \<times> nat) option" where
  "lead_byte c =
     (let n = of_char c :: nat
      in if n < 128 then Some (0, 128, 191)
         else if n < 194 then None
         else if n < 224 then Some (1, 128, 191)
         else if n = 224 then Some (2, 160, 191)
         else if n = 237 then Some (2, 128, 159)
         else if n < 240 then Some (2, 128, 191)
         else if n = 240 then Some (3, 144, 191)
         else if n < 244 then Some (3, 128, 191)
         else if n = 244 then Some (3, 128, 143)
         else None)"

text \<open>The number of bytes of the valid encoding at the start of a text, 0 when there is none.\<close>

fun rune_width :: "string \<Rightarrow> nat" where
  "rune_width [] = 0"
| "rune_width (b # t) =
     (case lead_byte b of
        None \<Rightarrow> 0
      | Some (m, lo, hi) \<Rightarrow>
          (if m = 0 \<or> (m \<le> length t \<and> byte_in lo hi (hd t) \<and> list_all (byte_in 128 191) (take m t))
           then Suc m else 0))"

text \<open>A text as its runes; \<open>None\<close> is a byte that starts no valid encoding.\<close>

function rune_split :: "string \<Rightarrow> string option list" where
  "rune_split [] = []"
| "rune_split (b # t) =
     (let k = rune_width (b # t)
      in if k = 0 then None # rune_split t else Some (take k (b # t)) # rune_split (drop (k - 1) t))"
  by pat_completeness auto
termination by (relation "measure length") auto

definition rune_text :: "string option \<Rightarrow> string" where
  "rune_text r = (case r of None \<Rightarrow> utf8 65533 | Some t \<Rightarrow> t)"

text \<open>\<open>[]rune(s)\<close>, each rune as its encoding, and the text that they make.\<close>

definition runes :: "string \<Rightarrow> string list" where
  "runes s = map rune_text (rune_split s)"

definition clean_text :: "string \<Rightarrow> string" where
  "clean_text s = concat (runes s)"

section \<open>Syntax\<close>

datatype json =
    JNull
  | JBool bool
  | JNum string
  | JStr string
  | JArr "json list"
  | JObj "(string \<times> json) list"

definition is_ws :: "char \<Rightarrow> bool" where
  "is_ws c \<longleftrightarrow> c = CHR '' '' \<or> c = CHR 0x09 \<or> c = CHR 0x0A \<or> c = CHR 0x0D"

definition skip_ws :: "string \<Rightarrow> string" where
  "skip_ws s = dropWhile is_ws s"

definition hex_val :: "char \<Rightarrow> nat option" where
  "hex_val c =
     (let n = of_char c :: nat
      in if 48 \<le> n \<and> n \<le> 57 then Some (n - 48)
         else if 97 \<le> n \<and> n \<le> 102 then Some (n - 87)
         else if 65 \<le> n \<and> n \<le> 70 then Some (n - 55) else None)"

fun hex4 :: "string \<Rightarrow> (nat \<times> string) option" where
  "hex4 (a # b # c # d # s) =
     (case (hex_val a, hex_val b, hex_val c, hex_val d) of
        (Some w, Some x, Some y, Some z) \<Rightarrow> Some (((w * 16 + x) * 16 + y) * 16 + z, s)
      | _ \<Rightarrow> None)"
| "hex4 _ = None"

text \<open>A \<open>\u\<close> escape: surrogate pairs are joined, a lone surrogate becomes U+FFFD.\<close>

definition unicode_escape :: "string \<Rightarrow> (string \<times> string) option" where
  "unicode_escape s =
     (case hex4 s of
        None \<Rightarrow> None
      | Some (r, rest) \<Rightarrow>
          (if 55296 \<le> r \<and> r < 57344
           then (case (if r < 56320 \<and> take 2 rest = [CHR 0x5C, CHR ''u''] then hex4 (drop 2 rest) else None) of
                   Some (r2, rest2) \<Rightarrow>
                     (if 56320 \<le> r2 \<and> r2 < 57344
                      then Some (utf8 (65536 + (r - 55296) * 1024 + (r2 - 56320)), rest2)
                      else Some (utf8 65533, rest))
                 | None \<Rightarrow> Some (utf8 65533, rest))
           else Some (utf8 r, rest)))"

definition simple_escape :: "char \<Rightarrow> char option" where
  "simple_escape c =
     map_of [(CHR 0x22, CHR 0x22), (CHR 0x5C, CHR 0x5C), (CHR ''/'', CHR ''/''), (CHR ''b'', CHR 0x08),
       (CHR ''f'', CHR 0x0C), (CHR ''n'', CHR 0x0A), (CHR ''r'', CHR 0x0D), (CHR ''t'', CHR 0x09)] c"

text \<open>
  The rest of a string literal, after the opening quote. The fuel is the length of the text. What an
  escape stands for never completes the bytes before it to a valid encoding, so the invalid bytes
  are replaced at the end.
\<close>

fun scan_string :: "nat \<Rightarrow> string \<Rightarrow> string \<Rightarrow> (string \<times> string) option" where
  "scan_string 0 acc s = None"
| "scan_string (Suc f) acc [] = None"
| "scan_string (Suc f) acc (c # s) =
     (if c = CHR 0x22 then Some (clean_text (rev acc), s)
      else if (of_char c :: nat) < 32 then None
      else if c = CHR 0x5C
      then (case s of
              [] \<Rightarrow> None
            | e # s' \<Rightarrow>
                (if e = CHR ''u''
                 then (case unicode_escape s' of
                         None \<Rightarrow> None | Some (u, rest) \<Rightarrow> scan_string f (rev u @ acc) rest)
                 else (case simple_escape e of
                         None \<Rightarrow> None | Some x \<Rightarrow> scan_string f (x # acc) s')))
      else scan_string f (c # acc) s)"

definition is_digit :: "char \<Rightarrow> bool" where
  "is_digit c \<longleftrightarrow> digit_val c \<noteq> None"

text \<open>A number literal: the literal and the rest.\<close>

definition scan_number :: "string \<Rightarrow> (string \<times> string) option" where
  "scan_number s =
     (let (sign, s1) = (case s of c # cs \<Rightarrow> if c = CHR ''-'' then ([c], cs) else ([], s) | [] \<Rightarrow> ([], []));
          ip = takeWhile is_digit s1; s2 = dropWhile is_digit s1
      in if ip = [] \<or> (hd ip = CHR ''0'' \<and> length ip \<noteq> 1) then None
         else
           (let (fp, s3) = (case s2 of c # cs \<Rightarrow> if c = CHR ''.'' then (c # takeWhile is_digit cs, dropWhile is_digit cs)
                                         else ([], s2) | [] \<Rightarrow> ([], []))
            in if length fp = 1 then None
               else
                 (case s3 of
                    e # s4 \<Rightarrow>
                      (if e = CHR ''e'' \<or> e = CHR ''E''
                       then (let (es, s5) = (case s4 of c # cs \<Rightarrow>
                                     if c = CHR ''+'' \<or> c = CHR ''-'' then ([c], cs) else ([], s4) | [] \<Rightarrow> ([], []));
                                 ed = takeWhile is_digit s5
                             in if ed = [] then None
                                else Some (sign @ ip @ fp @ [e] @ es @ ed, dropWhile is_digit s5))
                       else Some (sign @ ip @ fp, s3))
                  | [] \<Rightarrow> Some (sign @ ip @ fp, []))))"

text \<open>
  Values, elements after \<open>[\<close> or a comma, members after \<open>{\<close> or a comma. Every call but the first of
  a value reads at least one byte, so twice the length of the text is fuel enough.
\<close>

fun parse_value :: "nat \<Rightarrow> string \<Rightarrow> (json \<times> string) option"
and parse_elems :: "nat \<Rightarrow> json list \<Rightarrow> string \<Rightarrow> (json \<times> string) option"
and parse_members :: "nat \<Rightarrow> (string \<times> json) list \<Rightarrow> string \<Rightarrow> (json \<times> string) option" where
  "parse_value 0 s = None"
| "parse_value (Suc f) s =
     (case skip_ws s of
        [] \<Rightarrow> None
      | c # cs \<Rightarrow>
          (if c = CHR 0x22 then map_option (\<lambda>(t, r). (JStr t, r)) (scan_string (Suc (length cs)) [] cs)
           else if c = CHR ''['' then
             (case skip_ws cs of
                d # ds \<Rightarrow> if d = CHR '']'' then Some (JArr [], ds) else parse_elems f [] cs
              | [] \<Rightarrow> None)
           else if c = CHR ''{'' then
             (case skip_ws cs of
                d # ds \<Rightarrow> if d = CHR ''}'' then Some (JObj [], ds) else parse_members f [] cs
              | [] \<Rightarrow> None)
           else if take 4 (c # cs) = ''null'' then Some (JNull, drop 3 cs)
           else if take 4 (c # cs) = ''true'' then Some (JBool True, drop 3 cs)
           else if take 5 (c # cs) = ''false'' then Some (JBool False, drop 4 cs)
           else map_option (\<lambda>(t, r). (JNum t, r)) (scan_number (c # cs))))"
| "parse_elems 0 acc s = None"
| "parse_elems (Suc f) acc s =
     (case parse_value f s of
        None \<Rightarrow> None
      | Some (v, r) \<Rightarrow>
          (case skip_ws r of
             c # cs \<Rightarrow> if c = CHR '']'' then Some (JArr (rev (v # acc)), cs)
                       else if c = CHR '','' then parse_elems f (v # acc) cs else None
           | [] \<Rightarrow> None))"
| "parse_members 0 acc s = None"
| "parse_members (Suc f) acc s =
     (case skip_ws s of
        [] \<Rightarrow> None
      | q # qs \<Rightarrow>
          (if q \<noteq> CHR 0x22 then None
           else (case scan_string (Suc (length qs)) [] qs of
                   None \<Rightarrow> None
                 | Some (k, r) \<Rightarrow>
                     (case skip_ws r of
                        [] \<Rightarrow> None
                      | c # cs \<Rightarrow>
                          (if c \<noteq> CHR '':'' then None
                           else (case parse_value f cs of
                                   None \<Rightarrow> None
                                 | Some (v, r2) \<Rightarrow>
                                     (case skip_ws r2 of
                                        d # ds \<Rightarrow>
                                          if d = CHR ''}'' then Some (JObj (rev ((k, v) # acc)), ds)
                                          else if d = CHR '','' then parse_members f ((k, v) # acc) ds else None
                                      | [] \<Rightarrow> None)))))))"

definition json_parse :: "bytes \<Rightarrow> json option" where
  "json_parse s =
     (case parse_value (2 * length s + 2) s of
        Some (v, r) \<Rightarrow> if skip_ws r = [] then Some v else None
      | None \<Rightarrow> None)"

section \<open>Decoding\<close>

type_synonym 'a decoder = "json \<Rightarrow> 'a \<Rightarrow> 'a \<times> bool"

definition dec_string :: "string decoder" where
  "dec_string j s = (case j of JStr t \<Rightarrow> (t, True) | JNull \<Rightarrow> (s, True) | _ \<Rightarrow> (s, False))"

definition dec_int :: "int decoder" where
  "dec_int j i =
     (case j of
        JNum lit \<Rightarrow> (case Atoi lit of Some n \<Rightarrow> (n, True) | None \<Rightarrow> (i, False))
      | JNull \<Rightarrow> (i, True)
      | _ \<Rightarrow> (i, False))"

definition field_named :: "(string \<times> 'a) list \<Rightarrow> string \<Rightarrow> 'a option" where
  "field_named fs k =
     (case map_of fs k of
        Some d \<Rightarrow> Some d
      | None \<Rightarrow> map_option snd (find (\<lambda>(n, d). ToLower n = ToLower k) fs))"

definition dec_member ::
    "(string \<times> 'r decoder) list \<Rightarrow> string \<times> json \<Rightarrow> 'r \<times> bool \<Rightarrow> 'r \<times> bool" where
  "dec_member fs kv r =
     (case field_named fs (fst kv) of
        None \<Rightarrow> r
      | Some d \<Rightarrow> (let (x, ok) = d (snd kv) (fst r) in (x, snd r \<and> ok)))"

definition dec_struct :: "(string \<times> 'r decoder) list \<Rightarrow> 'r decoder" where
  "dec_struct fs j r =
     (case j of
        JObj ms \<Rightarrow> fold (dec_member fs) ms (r, True)
      | JNull \<Rightarrow> (r, True)
      | _ \<Rightarrow> (r, False))"

definition dec_list :: "'a decoder \<Rightarrow> 'a \<Rightarrow> 'a list decoder" where
  "dec_list d zero j xs =
     (case j of
        JArr js \<Rightarrow> (let rs = map (\<lambda>e. d e zero) js in (map fst rs, list_all snd rs))
      | JNull \<Rightarrow> ([], True)
      | _ \<Rightarrow> (xs, False))"

text \<open>A pointer to a struct: null makes it nil, anything else decodes into a (new) struct.\<close>

definition dec_ptr :: "'a decoder \<Rightarrow> 'a \<Rightarrow> 'a option decoder" where
  "dec_ptr d zero j p =
     (case j of
        JNull \<Rightarrow> (None, True)
      | _ \<Rightarrow> (let (x, ok) = d j (case p of Some y \<Rightarrow> y | None \<Rightarrow> zero) in (Some x, ok)))"

text \<open>\<open>json.RawMessage\<close> keeps the value for later.\<close>

definition dec_raw :: "json option decoder" where
  "dec_raw j p = (Some j, True)"

definition Unmarshal :: "'a decoder \<Rightarrow> 'a \<Rightarrow> bytes \<Rightarrow> 'a option" where
  "Unmarshal d zero data =
     (case json_parse data of
        None \<Rightarrow> None
      | Some j \<Rightarrow> (let (x, ok) = d j zero in if ok then Some x else None))"

lemmas [go_defs] = dec_string_def dec_int_def dec_struct_def dec_list_def dec_ptr_def dec_raw_def
  dec_member_def field_named_def


end
