(* ===== verification/JsonPrint.thy ===== *)
theory JsonPrint
  imports Json
begin

text \<open>
  Writing JSON as Go's \<open>json.Marshal\<close> and \<open>json.MarshalIndent\<close> do, and the proof that reading the
  written text gives the value back.
\<close>

section \<open>Printing\<close>

definition hex_char :: "nat \<Rightarrow> char" where
  "hex_char n = (if n < 10 then char_of (48 + n) else char_of (87 + n))"

definition u_escape :: "nat \<Rightarrow> string" where
  "u_escape n =
     [CHR 0x5C, CHR ''u'', hex_char (n div 4096), hex_char (n div 256 mod 16),
      hex_char (n div 16 mod 16), hex_char (n mod 16)]"

definition escape_char :: "char \<Rightarrow> string" where
  "escape_char c =
     (if c = CHR 0x22 \<or> c = CHR 0x5C then [CHR 0x5C, c]
      else if c = CHR 0x08 then [CHR 0x5C, CHR ''b''] else if c = CHR 0x0C then [CHR 0x5C, CHR ''f'']
      else if c = CHR 0x0A then [CHR 0x5C, CHR ''n''] else if c = CHR 0x0D then [CHR 0x5C, CHR ''r'']
      else if c = CHR 0x09 then [CHR 0x5C, CHR ''t'']
      else if (of_char c :: nat) < 32 \<or> c = CHR ''<'' \<or> c = CHR ''>'' \<or> c = CHR ''&''
      then u_escape (of_char c)
      else [c])"

text \<open>U+2028 and U+2029 are escaped as well, and so is an invalid byte, as U+FFFD.\<close>

fun escape_rune :: "string option \<Rightarrow> string" where
  "escape_rune None = u_escape 65533"
| "escape_rune (Some r) =
     (case r of
        [c] \<Rightarrow> escape_char c
      | _ \<Rightarrow> if r = utf8 8232 then u_escape 8232 else if r = utf8 8233 then u_escape 8233 else r)"

definition escape_string :: "string \<Rightarrow> string" where
  "escape_string s = concat (map escape_rune (rune_split s))"

definition string_text :: "string \<Rightarrow> string" where
  "string_text s = [CHR 0x22] @ escape_string s @ [CHR 0x22]"

definition comma :: "string list \<Rightarrow> string" where
  "comma ts = (case ts of [] \<Rightarrow> [] | t # ts \<Rightarrow> t @ concat (map (\<lambda>u. CHR '','' # u) ts))"

fun json_print :: "json \<Rightarrow> bytes" where
  "json_print JNull = ''null''"
| "json_print (JBool b) = (if b then ''true'' else ''false'')"
| "json_print (JNum lit) = lit"
| "json_print (JStr s) = string_text s"
| "json_print (JArr js) = ''['' @ comma (map json_print js) @ '']''"
| "json_print (JObj ms) =
     ''{'' @ comma (map (\<lambda>kv. string_text (fst kv) @ '':'' @ json_print (snd kv)) ms) @ ''}''"

text \<open>
  The same with white space: \<open>nl n\<close> before what stands at depth \<open>n\<close> on its own line, \<open>sp\<close> after a
  colon. \<open>json.MarshalIndent(v, "", "  ")\<close> takes a line break with two blanks per level, and one blank.
\<close>

definition sep_by :: "string \<Rightarrow> string list \<Rightarrow> string" where
  "sep_by w ts = (case ts of [] \<Rightarrow> [] | t # ts \<Rightarrow> t @ concat (map (\<lambda>u. CHR '','' # w @ u) ts))"

fun json_layout :: "(nat \<Rightarrow> string) \<Rightarrow> string \<Rightarrow> nat \<Rightarrow> json \<Rightarrow> bytes" where
  "json_layout nl sp n (JArr js) =
     (if js = [] then ''[]''
      else ''['' @ nl (Suc n) @ sep_by (nl (Suc n)) (map (json_layout nl sp (Suc n)) js) @ nl n @ '']'')"
| "json_layout nl sp n (JObj ms) =
     (if ms = [] then ''{}''
      else ''{'' @ nl (Suc n) @ sep_by (nl (Suc n))
             (map (\<lambda>kv. string_text (fst kv) @ '':'' @ sp @ json_layout nl sp (Suc n) (snd kv)) ms) @ nl n @ ''}'')"
| "json_layout nl sp n j = json_print j"

definition json_indent :: "json \<Rightarrow> bytes" where
  "json_indent = json_layout (\<lambda>n. CHR 0x0A # replicate (2 * n) (CHR '' '')) '' '' 0"

lemma comma_sep_by: "comma ts = sep_by '''' ts"
  by (cases ts) (simp_all add: comma_def sep_by_def)

lemma json_print_layout: "json_layout (\<lambda>n. '''') '''' n j = json_print j"
proof (induction j arbitrary: n)
  case (JArr js)
  then have m: "map (json_layout (\<lambda>n. '''') '''' (Suc n)) js = map json_print js" by simp
  show ?case unfolding json_layout.simps json_print.simps comma_sep_by m by (simp add: sep_by_def)
next
  case (JObj ms)
  have m: "map (\<lambda>kv. string_text (fst kv) @ '':'' @ '''' @ json_layout (\<lambda>n. '''') '''' (Suc n) (snd kv)) ms =
      map (\<lambda>kv. string_text (fst kv) @ '':'' @ json_print (snd kv)) ms"
    using JObj by (intro map_cong refl) (metis append_Nil snds.intros prod.collapse)
  show ?case unfolding json_layout.simps json_print.simps comma_sep_by m by (simp add: sep_by_def)
qed simp_all

section \<open>Runes\<close>

lemma rune_width_le: "rune_width s \<le> length s"
  by (cases s) (auto split: option.split)

lemma rune_width_take:
  assumes "0 < rune_width s"
  shows "rune_width (take (rune_width s) s @ t) = rune_width s"
proof (cases s)
  case (Cons b u)
  with assms obtain m lo hi where l: "lead_byte b = Some (m, lo, hi)"
    by (auto split: option.splits)
  then have k: "rune_width s = Suc m" and ok: "m = 0 \<or> (m \<le> length u \<and> byte_in lo hi (hd u) \<and>
      list_all (byte_in 128 191) (take m u))"
    using assms Cons by (auto split: if_splits)
  have "m = 0 \<or> hd (take m u @ t) = hd u" using ok by (cases u) (auto simp: hd_append)
  then show ?thesis using l ok by (auto simp: k Cons)
qed (use assms in simp)

definition whole_rune :: "string \<Rightarrow> bool" where
  "whole_rune r \<longleftrightarrow> r \<noteq> [] \<and> rune_width r = length r"

lemma rune_split_whole: "Some r \<in> set (rune_split s) \<Longrightarrow> whole_rune r"
proof (induction s rule: rune_split.induct)
  case (2 b t)
  let ?k = "rune_width (b # t)"
  show ?case
  proof (cases "?k = 0")
    case False
    have "whole_rune (take ?k (b # t))"
      using False rune_width_take [of "b # t" "[]"] rune_width_le [of "b # t"]
      by (auto simp: whole_rune_def simp del: rune_width.simps)
    with 2 False show ?thesis by (auto simp: Let_def simp del: rune_width.simps)
  qed (use 2 in \<open>auto simp: Let_def simp del: rune_width.simps\<close>)
qed simp

lemma rune_split_append:
  assumes "whole_rune r"
  shows "rune_split (r @ t) = Some r # rune_split t"
proof -
  obtain b u where r: "r = b # u" using assms by (cases r) (auto simp: whole_rune_def)
  have w: "rune_width r = length r" "0 < rune_width r" using assms by (auto simp: whole_rune_def)
  then have "rune_width (r @ t) = length r"
    using rune_width_take [of r t] by simp
  then show ?thesis by (simp add: r Let_def del: rune_width.simps)
qed

lemma whole_rune_text: "r \<in> set (rune_split s) \<Longrightarrow> whole_rune (rune_text r)"
proof (cases r)
  case None
  have "whole_rune (utf8 65533)"
    by (simp add: whole_rune_def utf8_def lead_byte_def byte_in_def)
  with None show ?thesis by (simp add: rune_text_def)
next
  case (Some t)
  then show "r \<in> set (rune_split s) \<Longrightarrow> ?thesis"
    using rune_split_whole [of t s] by (simp add: rune_text_def)
qed

lemma clean_text_idem [simp]: "clean_text (clean_text s) = clean_text s"
proof -
  have "\<forall>r\<in>set rs. whole_rune (rune_text r) \<Longrightarrow> rune_split (concat (map rune_text rs)) = map (Some \<circ> rune_text) rs" for rs
    by (induction rs) (simp_all add: rune_split_append)
  then have "rune_split (clean_text s) = map (Some \<circ> rune_text) (rune_split s)"
    using whole_rune_text by (simp add: clean_text_def runes_def)
  moreover have "map rune_text (map (Some \<circ> rune_text) rs) = map rune_text rs" for rs
    by (simp add: rune_text_def)
  ultimately show ?thesis unfolding clean_text_def runes_def by metis
qed

lemma whole_rune_single: "whole_rune [c] \<Longrightarrow> (of_char c :: nat) < 128"
  by (auto simp: whole_rune_def lead_byte_def Let_def split: if_splits option.splits)

lemma whole_rune_long:
  assumes "whole_rune r" and "length r \<noteq> 1"
  shows "list_all (\<lambda>c. 128 \<le> (of_char c :: nat)) r"
proof -
  obtain b u where r: "r = b # u" using assms by (cases r) (auto simp: whole_rune_def)
  with assms obtain m lo hi where l: "lead_byte b = Some (m, lo, hi)" "m = length u" "m \<noteq> 0"
    "list_all (byte_in 128 191) u"
    by (auto simp: whole_rune_def split: option.splits if_splits)
  have "128 \<le> (of_char b :: nat)"
    using l(1,3) by (auto simp: lead_byte_def Let_def split: if_splits)
  moreover have "list_all (\<lambda>c. 128 \<le> (of_char c :: nat)) u"
    using l(4) by (auto simp: list_all_iff byte_in_def)
  ultimately show ?thesis by (simp add: r)
qed

section \<open>Reading a written string\<close>

lemma hex_val_hex_char: "k < 16 \<Longrightarrow> hex_val (hex_char k) = Some k"
  by (auto simp: hex_val_def hex_char_def Let_def)

lemma hex4_digits:
  assumes "n < 65536"
  shows "hex4 (drop 2 (u_escape n) @ t) = Some (n, t)"
proof -
  have "n div 4096 = n div 256 div 16" and "n div 256 = n div 16 div 16"
    using div_mult2_eq [of n 256 16] div_mult2_eq [of n 16 16] by simp_all
  then have "n div 4096 * 16 + n div 256 mod 16 = n div 256"
    and "n div 256 * 16 + n div 16 mod 16 = n div 16"
    by (simp_all only: div_mult_mod_eq)
  moreover have "n div 16 * 16 + n mod 16 = n" by (rule div_mult_mod_eq)
  moreover have "n div 4096 < 16" using assms by linarith
  ultimately show ?thesis by (simp add: u_escape_def hex_val_hex_char)
qed

text \<open>One escape read: \<open>n\<close> is no surrogate.\<close>

lemma scan_u_escape:
  assumes "n < 55296 \<or> (57344 \<le> n \<and> n < 65536)"
  shows "scan_string (Suc f) acc (u_escape n @ t) = scan_string f (rev (utf8 n) @ acc) t"
proof -
  have e: "u_escape n @ t = CHR 0x5C # CHR ''u'' # (drop 2 (u_escape n) @ t)" by (simp add: u_escape_def)
  have "unicode_escape (drop 2 (u_escape n) @ t) = Some (utf8 n, t)"
    using hex4_digits [of n t] assms by (auto simp: unicode_escape_def)
  then show ?thesis unfolding e by simp
qed

lemma scan_plain:
  "list_all (\<lambda>c. 32 \<le> (of_char c :: nat) \<and> c \<noteq> CHR 0x22 \<and> c \<noteq> CHR 0x5C) r \<Longrightarrow>
     scan_string (length r + f) acc (r @ t) = scan_string f (rev r @ acc) t"
  by (induction r arbitrary: acc) auto

lemma scan_escape_char:
  assumes "(of_char c :: nat) < 128"
  shows "scan_string (Suc f) acc (escape_char c @ t) = scan_string f (c # acc) t"
proof -
  have "utf8 (of_char c) = [c]" using assms by (simp add: utf8_def)
  then show ?thesis
    using scan_u_escape [of "of_char c" f acc t] scan_plain [of "[c]" f acc t] assms
    by (auto simp: escape_char_def simple_escape_def)
qed

lemma scan_rune:
  assumes "whole_rune (rune_text r)" and "r = None \<or> whole_rune (the r)" and "length (escape_rune r) \<le> f"
  shows "\<exists>g\<ge>f - length (escape_rune r). scan_string f acc (escape_rune r @ t) = scan_string g (rev (rune_text r) @ acc) t"
proof -
  have one: ?thesis if "\<And>g. scan_string (Suc g) acc (escape_rune r @ t) = scan_string g (rev (rune_text r) @ acc) t"
      and "escape_rune r \<noteq> []"
    using that assms(3) by (intro exI [of _ "f - 1"]) (cases f; cases "escape_rune r"; auto)
  show ?thesis
  proof (cases r)
    case None
    then show ?thesis by (intro one) (simp_all add: scan_u_escape rune_text_def, simp add: u_escape_def)
  next
    case (Some w)
    then have w: "whole_rune w" "rune_text r = w" using assms(2) by (simp_all add: rune_text_def)
    show ?thesis
    proof (cases "length w = 1")
      case True
      then obtain c where c: "w = [c]" by (cases w) auto
      then have "(of_char c :: nat) < 128" using w whole_rune_single by simp
      then show ?thesis
        using Some w c by (intro one) (simp_all add: scan_escape_char, auto simp: escape_char_def u_escape_def)
    next
      case False
      then have e: "escape_rune r = (if w = utf8 8232 then u_escape 8232 else if w = utf8 8233 then u_escape 8233 else w)"
        using Some w(1) by (cases w rule: list.exhaust) (auto simp: whole_rune_def split: list.split)
      show ?thesis
      proof (cases "w = utf8 8232 \<or> w = utf8 8233")
        case True
        then show ?thesis
          using w e by (intro one) (auto simp: scan_u_escape, auto simp: u_escape_def split: if_splits)
      next
        case F: False
        have "list_all (\<lambda>c. 32 \<le> (of_char c :: nat) \<and> c \<noteq> CHR 0x22 \<and> c \<noteq> CHR 0x5C) w"
          using whole_rune_long [OF w(1) False] by (auto simp: list_all_iff)
        from scan_plain [OF this, of "f - length w" acc t] F e w assms(3) show ?thesis
          by (intro exI [of _ "f - length w"]) auto
      qed
    qed
  qed
qed

lemma scan_escaped:
  assumes "list_all (\<lambda>r. whole_rune (rune_text r) \<and> (r = None \<or> whole_rune (the r))) rs"
    and "length (concat (map escape_rune rs)) < f"
  shows "scan_string f acc (concat (map escape_rune rs) @ CHR 0x22 # t) =
    Some (clean_text (rev acc @ concat (map rune_text rs)), t)"
  using assms
proof (induction rs arbitrary: f acc)
  case Nil
  then show ?case by (cases f) auto
next
  case (Cons r rs)
  let ?rest = "concat (map escape_rune rs) @ CHR 0x22 # t"
  obtain g where g: "g \<ge> f - length (escape_rune r)"
    "scan_string f acc (escape_rune r @ ?rest) = scan_string g (rev (rune_text r) @ acc) ?rest"
    using scan_rune [of r f acc ?rest] Cons.prems by auto
  then have "length (concat (map escape_rune rs)) < g" using Cons.prems by auto
  with Cons g show ?case by simp
qed

text \<open>A written string reads as itself, with U+FFFD for each of its invalid bytes.\<close>

lemma scan_string_text:
  "length (escape_string s) < f \<Longrightarrow> scan_string f [] (escape_string s @ CHR 0x22 # t) = Some (clean_text s, t)"
proof -
  assume f: "length (escape_string s) < f"
  have "list_all (\<lambda>r. whole_rune (rune_text r) \<and> (r = None \<or> whole_rune (the r))) (rune_split s)"
    using whole_rune_text [of _ s] rune_split_whole [of _ s] unfolding list_all_iff by (metis option.collapse)
  from scan_escaped [OF this, of f "[]" t] f show ?thesis
    by (simp add: escape_string_def clean_text_def [of s, symmetric] runes_def [symmetric])
qed

section \<open>Reading a written value\<close>

text \<open>What comes back: the strings with their invalid bytes replaced.\<close>

fun clean_json :: "json \<Rightarrow> json" where
  "clean_json (JStr s) = JStr (clean_text s)"
| "clean_json (JArr js) = JArr (map clean_json js)"
| "clean_json (JObj ms) = JObj (map (\<lambda>kv. (clean_text (fst kv), clean_json (snd kv))) ms)"
| "clean_json j = j"

fun number_free :: "json \<Rightarrow> bool" where
  "number_free (JNum lit) = False"
| "number_free (JArr js) = list_all number_free js"
| "number_free (JObj ms) = list_all (\<lambda>kv. number_free (snd kv)) ms"
| "number_free j = True"

lemma skip_ws_append: "list_all is_ws w \<Longrightarrow> skip_ws (w @ s) = skip_ws s"
  by (simp add: skip_ws_def dropWhile_append list_all_iff)

lemma skip_ws_Cons: "\<not> is_ws c \<Longrightarrow> skip_ws (c # s) = c # s"
  by (simp add: skip_ws_def)

lemma not_ws: "\<not> is_ws (CHR 0x22)" "\<not> is_ws (CHR '','')" "\<not> is_ws (CHR '':'')" "\<not> is_ws (CHR ''['')"
  "\<not> is_ws (CHR '']'')" "\<not> is_ws (CHR ''{'')" "\<not> is_ws (CHR ''}'')" "\<not> is_ws (CHR ''n'')"
  "\<not> is_ws (CHR ''t'')" "\<not> is_ws (CHR ''f'')"
  by (simp_all add: is_ws_def)

lemma parse_value_ws: "list_all is_ws w \<Longrightarrow> parse_value f (w @ s) = parse_value f s"
  by (cases f) (simp_all add: skip_ws_append)

lemma parse_elems_ws: "list_all is_ws w \<Longrightarrow> parse_elems f acc (w @ s) = parse_elems f acc s"
  by (cases f) (simp_all add: parse_value_ws)

lemma parse_members_ws: "list_all is_ws w \<Longrightarrow> parse_members f acc (w @ s) = parse_members f acc s"
  by (cases f) (simp_all add: skip_ws_append)

lemma sep_by_simps: "sep_by w [t] = t" "sep_by w (t # u # us) = t @ CHR '','' # w @ sep_by w (u # us)"
  by (simp_all add: sep_by_def)

lemma parse_string_text:
  "parse_value (Suc f) (string_text s @ rest) = Some (JStr (clean_text s), rest)"
proof -
  have "scan_string (Suc (length (escape_string s @ CHR 0x22 # rest))) [] (escape_string s @ CHR 0x22 # rest) =
      Some (clean_text s, rest)"
    by (rule scan_string_text) simp
  then show ?thesis by (simp add: string_text_def skip_ws_Cons not_ws)
qed

lemma parse_elems_layout:
  assumes "js \<noteq> []" and "list_all is_ws w" and "list_all is_ws w'"
    and "\<And>j f rest. j \<in> set js \<Longrightarrow> 2 * length (p j) \<le> f \<Longrightarrow> parse_value f (p j @ rest) = Some (c j, rest)"
    and "2 * length (sep_by w (map p js)) + 1 \<le> f"
  shows "parse_elems f acc (sep_by w (map p js) @ w' @ CHR '']'' # rest) = Some (JArr (rev acc @ map c js), rest)"
  using assms(1,4,5)
proof (induction js arbitrary: f acc)
  case (Cons j js)
  then obtain g where f: "f = Suc g" by (cases f) auto
  show ?case
  proof (cases js)
    case Nil
    then have "parse_value g (p j @ w' @ CHR '']'' # rest) = Some (c j, w' @ CHR '']'' # rest)"
      using Cons.prems f by (simp add: sep_by_simps)
    with Nil show ?thesis
      by (simp add: f sep_by_simps skip_ws_append assms(3) skip_ws_Cons not_ws)
  next
    case (Cons k ks)
    let ?t = "sep_by w (map p js)"
    have t: "sep_by w (map p (j # js)) = p j @ CHR '','' # w @ ?t" using Cons by (simp add: sep_by_simps)
    have "parse_value g (p j @ CHR '','' # w @ ?t @ w' @ CHR '']'' # rest) =
        Some (c j, CHR '','' # w @ ?t @ w' @ CHR '']'' # rest)"
      using Cons.prems f t by simp
    moreover have "parse_elems g (c j # acc) (?t @ w' @ CHR '']'' # rest) = Some (JArr (rev (c j # acc) @ map c js), rest)"
      using Cons Cons.prems f t by (intro Cons.IH) auto
    ultimately show ?thesis
      unfolding t f by (simp add: skip_ws_Cons not_ws parse_elems_ws assms(2))
  qed
qed simp

lemma parse_members_layout:
  assumes "ms \<noteq> []" and "list_all is_ws w" and "list_all is_ws w'" and "list_all is_ws sp"
    and "\<And>kv f rest. kv \<in> set ms \<Longrightarrow> 2 * length (p (snd kv)) \<le> f \<Longrightarrow>
      parse_value f (p (snd kv) @ rest) = Some (c (snd kv), rest)"
    and "2 * length (sep_by w (map (\<lambda>kv. string_text (fst kv) @ '':'' @ sp @ p (snd kv)) ms)) + 1 \<le> f"
  shows "parse_members f acc (sep_by w (map (\<lambda>kv. string_text (fst kv) @ '':'' @ sp @ p (snd kv)) ms) @
      w' @ CHR ''}'' # rest) = Some (JObj (rev acc @ map (\<lambda>kv. (clean_text (fst kv), c (snd kv))) ms), rest)"
  using assms(1,5,6)
proof (induction ms arbitrary: f acc)
  case (Cons kv ms)
  let ?m = "\<lambda>kv. string_text (fst kv) @ '':'' @ sp @ p (snd kv)"
  obtain g where f: "f = Suc g" using Cons.prems(3) by (cases f) auto
  have member: "parse_members (Suc g) acc (?m kv @ r) =
      (case skip_ws r of
         d # ds \<Rightarrow> if d = CHR ''}'' then Some (JObj (rev ((clean_text (fst kv), c (snd kv)) # acc)), ds)
                   else if d = CHR '','' then parse_members g ((clean_text (fst kv), c (snd kv)) # acc) ds else None
       | [] \<Rightarrow> None)" if "2 * length (p (snd kv)) \<le> g" for r
  proof -
    let ?r = "CHR '':'' # sp @ p (snd kv) @ r"
    have s: "scan_string (Suc (length (escape_string (fst kv) @ CHR 0x22 # ?r))) []
        (escape_string (fst kv) @ CHR 0x22 # ?r) = Some (clean_text (fst kv), ?r)"
      by (rule scan_string_text) simp
    have v: "parse_value g (sp @ p (snd kv) @ r) = Some (c (snd kv), r)"
      using Cons.prems(2) [of kv g r] that assms(4) by (simp add: parse_value_ws)
    have e: "?m kv @ r = CHR 0x22 # escape_string (fst kv) @ CHR 0x22 # ?r" by (simp add: string_text_def)
    show ?thesis
      unfolding e parse_members.simps skip_ws_Cons [OF not_ws(1)] list.case s option.case prod.case
        skip_ws_Cons [OF not_ws(3)] v by simp
  qed
  show ?case
  proof (cases ms)
    case Nil
    with Cons.prems f member [of "w' @ CHR ''}'' # rest"] show ?thesis
      by (simp add: sep_by_simps skip_ws_append assms(3) skip_ws_Cons not_ws)
  next
    case (Cons k ks)
    let ?t = "sep_by w (map ?m ms)"
    have t: "sep_by w (map ?m (kv # ms)) = ?m kv @ CHR '','' # w @ ?t" using Cons by (simp add: sep_by_simps)
    have "parse_members g ((clean_text (fst kv), c (snd kv)) # acc) (?t @ w' @ CHR ''}'' # rest) =
        Some (JObj (rev ((clean_text (fst kv), c (snd kv)) # acc) @
          map (\<lambda>kv. (clean_text (fst kv), c (snd kv))) ms), rest)"
      using Cons Cons.prems f t by (intro Cons.IH) auto
    moreover have "2 * length (p (snd kv)) \<le> g" using Cons.prems(3) f t by simp
    ultimately show ?thesis
      using member [of "CHR '','' # w @ ?t @ w' @ CHR ''}'' # rest"]
      unfolding t f by (simp add: skip_ws_Cons not_ws parse_members_ws assms(2))
  qed
qed simp

text \<open>How a written value starts.\<close>

definition starts_value :: "string \<Rightarrow> bool" where
  "starts_value t \<longleftrightarrow> t \<noteq> [] \<and> hd t \<in> {CHR ''n'', CHR ''t'', CHR ''f'', CHR 0x22, CHR ''['', CHR ''{''}"

lemma starts_layout: "number_free j \<Longrightarrow> starts_value (json_layout nl sp n j)"
  by (cases j) (auto simp: starts_value_def string_text_def)

lemma starts_sep_by: "ts \<noteq> [] \<Longrightarrow> starts_value (hd ts) \<Longrightarrow> starts_value (sep_by w ts @ r)"
  by (cases ts) (auto simp: sep_by_def starts_value_def)

lemma skip_ws_starts: "list_all is_ws w \<Longrightarrow> starts_value t \<Longrightarrow> skip_ws (w @ t) = t"
  by (cases t) (auto simp: skip_ws_append starts_value_def skip_ws_Cons not_ws)

lemma parse_array:
  assumes "list_all is_ws w" and "starts_value t" and "parse_elems f [] t = Some r"
  shows "parse_value (Suc f) (CHR ''['' # w @ t) = Some r"
proof -
  obtain d ds where d: "t = d # ds" "d \<noteq> CHR '']''" using assms(2) by (cases t) (auto simp: starts_value_def)
  then have s: "skip_ws (w @ t) = d # ds" using skip_ws_starts [OF assms(1,2)] by simp
  show ?thesis using assms(3) d(2) by (simp add: skip_ws_Cons not_ws s parse_elems_ws [OF assms(1)])
qed

lemma parse_object:
  assumes "list_all is_ws w" and "starts_value t" and "parse_members f [] t = Some r"
  shows "parse_value (Suc f) (CHR ''{'' # w @ t) = Some r"
proof -
  obtain d ds where d: "t = d # ds" "d \<noteq> CHR ''}''" using assms(2) by (cases t) (auto simp: starts_value_def)
  then have s: "skip_ws (w @ t) = d # ds" using skip_ws_starts [OF assms(1,2)] by simp
  show ?thesis using assms(3) d(2) by (simp add: skip_ws_Cons not_ws s parse_members_ws [OF assms(1)])
qed

text \<open>Whatever the layout, a written value is read as itself.\<close>

lemma parse_layout:
  assumes "\<And>n. list_all is_ws (nl n)" and "list_all is_ws sp" and "number_free j"
    and "2 * length (json_layout nl sp n j) \<le> f"
  shows "parse_value f (json_layout nl sp n j @ rest) = Some (clean_json j, rest)"
  using assms(3,4)
proof (induction j arbitrary: n f rest)
  case JNull
  then obtain g where "f = Suc g" by (cases f) auto
  then show ?case by (simp add: skip_ws_Cons not_ws)
next
  case (JBool b)
  then obtain g where "f = Suc g" by (cases f) (auto split: if_splits)
  then show ?case by (simp add: skip_ws_Cons not_ws)
next
  case (JStr s)
  then obtain g where "f = Suc g" by (cases f) (auto simp: string_text_def)
  then show ?case by (simp add: parse_string_text del: parse_value.simps)
next
  case (JArr js)
  then obtain g where g: "f = Suc g" by (cases f) (auto split: if_splits)
  show ?case
  proof (cases "js = []")
    case True
    then show ?thesis by (simp add: g skip_ws_Cons not_ws)
  next
    case False
    let ?t = "sep_by (nl (Suc n)) (map (json_layout nl sp (Suc n)) js)"
    have "parse_elems g [] (?t @ nl n @ CHR '']'' # rest) = Some (JArr (rev [] @ map clean_json js), rest)"
      using False JArr assms(1) g by (intro parse_elems_layout) (auto simp: list_all_iff)
    moreover have "starts_value (?t @ nl n @ CHR '']'' # rest)"
      using False JArr.prems(1) by (intro starts_sep_by) (auto simp: hd_map list_all_iff intro!: starts_layout)
    ultimately show ?thesis
      using parse_array [OF assms(1) [of "Suc n"]] False by (simp add: g del: parse_value.simps)
  qed
next
  case (JObj ms)
  then obtain g where g: "f = Suc g" by (cases f) (auto split: if_splits)
  show ?case
  proof (cases "ms = []")
    case True
    then show ?thesis by (simp add: g skip_ws_Cons not_ws)
  next
    case False
    let ?m = "\<lambda>kv. string_text (fst kv) @ '':'' @ sp @ json_layout nl sp (Suc n) (snd kv)"
    let ?t = "sep_by (nl (Suc n)) (map ?m ms)"
    have "parse_members g [] (?t @ nl n @ CHR ''}'' # rest) =
        Some (JObj (rev [] @ map (\<lambda>kv. (clean_text (fst kv), clean_json (snd kv))) ms), rest)"
    proof (rule parse_members_layout [OF False assms(1) assms(1) assms(2)])
      fix kv f rest assume kv: "kv \<in> set ms" and f: "2 * length (json_layout nl sp (Suc n) (snd kv)) \<le> f"
      have "snd kv \<in> Basic_BNFs.snds kv" by (metis prod.collapse snds.intros)
      moreover have "number_free (snd kv)" using kv JObj.prems(1) by (auto simp: list_all_iff)
      ultimately show "parse_value f (json_layout nl sp (Suc n) (snd kv) @ rest) = Some (clean_json (snd kv), rest)"
        using JObj.IH kv f by blast
    next
      show "2 * length ?t + 1 \<le> g" using JObj.prems(2) False g by simp
    qed
    moreover have "starts_value (?t @ nl n @ CHR ''}'' # rest)"
      using False by (intro starts_sep_by) (auto simp: hd_map starts_value_def string_text_def)
    ultimately show ?thesis
      using parse_object [OF assms(1) [of "Suc n"]] False by (simp add: g del: parse_value.simps)
  qed
qed simp

lemma json_parse_layout:
  assumes "\<And>n. list_all is_ws (nl n)" and "list_all is_ws sp" and "number_free j"
  shows "json_parse (json_layout nl sp n j) = Some (clean_json j)"
  using parse_layout [of nl sp j n "2 * length (json_layout nl sp n j) + 2" "[]"] assms
  by (simp add: json_parse_def skip_ws_def)

lemma json_parse_print: "number_free j \<Longrightarrow> json_parse (json_print j) = Some (clean_json j)"
  using json_parse_layout [of "\<lambda>n. ''''" "''''" j 0] by (simp add: json_print_layout)

lemma json_parse_indent: "number_free j \<Longrightarrow> json_parse (json_indent j) = Some (clean_json j)"
  using json_parse_layout [of "\<lambda>n. CHR 0x0A # replicate (2 * n) (CHR '' '')" "'' ''" j 0]
  by (simp add: json_indent_def is_ws_def list_all_iff)

end
