(* ===== verification/KeyStore.thy ===== *)
theory KeyStore
  imports Config JsonPrint
begin

text \<open>
  The persisted keys (internal/keypool/store.go, encrypted_store.go, and the item operations of
  keyring.go): stores of key entries, the encrypted file, and the order in which the backends are
  tried. A store is written and read as JSON. The operating system is a \<open>world\<close> of files and keyring
  items with fault switches; AES-GCM is an argument, with what the code relies on as the predicate
  \<open>codec_ok\<close>. Random bytes (a fresh master key, the nonce) are arguments.
\<close>

section \<open>Stores\<close>

record KeyEntry =
  e_Key :: string
  e_Name :: string
  e_Disabled :: bool
  e_Deleted :: bool

type_synonym KeyStore = "KeyEntry list"

text \<open>Deleted entries are not loaded into the routing pool.\<close>

definition keysFromStore :: "KeyStore \<Rightarrow> string list \<times> string list" where
  "keysFromStore store =
     (let live = filter (\<lambda>e. \<not> e_Deleted e) store in (map e_Key live, map e_Name live))"

definition merge_entry :: "KeyEntry \<Rightarrow> KeyStore \<Rightarrow> KeyStore" where
  "merge_entry ie store = (if list_ex (\<lambda>ke. e_Key ie = e_Key ke) store then store else store @ [ie])"

definition entries_of :: "string list \<Rightarrow> string list \<Rightarrow> KeyStore" where
  "entries_of keys names =
     map (\<lambda>i. \<lparr>e_Key = keys ! i, e_Name = (if i < length names then names ! i else ''''),
               e_Disabled = False, e_Deleted = False\<rparr>) [0..<length keys]"

section \<open>Stores as JSON\<close>

definition zeroEntry :: KeyEntry where
  "zeroEntry = \<lparr>e_Key = '''', e_Name = '''', e_Disabled = False, e_Deleted = False\<rparr>"

text \<open>All members but the key are left out when they are zero.\<close>

definition entry_json :: "KeyEntry \<Rightarrow> json" where
  "entry_json e =
     JObj ([(''key'', JStr (e_Key e))] @
       (if e_Name e \<noteq> '''' then [(''name'', JStr (e_Name e))] else []) @
       (if e_Disabled e then [(''disabled'', JBool True)] else []) @
       (if e_Deleted e then [(''deleted'', JBool True)] else []))"

definition store_json :: "KeyStore \<Rightarrow> json" where
  "store_json st = JObj [(''keys'', JArr (map entry_json st))]"

definition dec_bool :: "bool decoder" where
  "dec_bool j b = (case j of JBool c \<Rightarrow> (c, True) | JNull \<Rightarrow> (b, True) | _ \<Rightarrow> (b, False))"

definition dec_entry :: "KeyEntry decoder" where
  "dec_entry = dec_struct
     [(''key'', \<lambda>j e. let (v, ok) = dec_string j (e_Key e) in (e\<lparr>e_Key := v\<rparr>, ok)),
      (''name'', \<lambda>j e. let (v, ok) = dec_string j (e_Name e) in (e\<lparr>e_Name := v\<rparr>, ok)),
      (''disabled'', \<lambda>j e. let (v, ok) = dec_bool j (e_Disabled e) in (e\<lparr>e_Disabled := v\<rparr>, ok)),
      (''deleted'', \<lambda>j e. let (v, ok) = dec_bool j (e_Deleted e) in (e\<lparr>e_Deleted := v\<rparr>, ok))]"

definition dec_store :: "KeyStore decoder" where
  "dec_store = dec_struct [(''keys'', dec_list dec_entry zeroEntry)]"

definition marshal_store :: "KeyStore \<Rightarrow> bytes" where
  "marshal_store st = json_print (store_json st)"

definition marshal_indent :: "KeyStore \<Rightarrow> bytes" where
  "marshal_indent st = json_indent (store_json st)"

definition unmarshal_store :: "bytes \<Rightarrow> KeyStore option" where
  "unmarshal_store data = Unmarshal dec_store [] data"

text \<open>Reading what was written: the same store, but for invalid bytes in its texts.\<close>

definition clean_entry :: "KeyEntry \<Rightarrow> KeyEntry" where
  "clean_entry e = e\<lparr>e_Key := clean_text (e_Key e), e_Name := clean_text (e_Name e)\<rparr>"

definition valid_entry :: "KeyEntry \<Rightarrow> bool" where
  "valid_entry e \<longleftrightarrow> clean_text (e_Key e) = e_Key e \<and> clean_text (e_Name e) = e_Name e"

lemma clean_ascii: "list_all (\<lambda>c. (of_char c :: nat) < 128) s \<Longrightarrow> clean_text s = s"
proof (induction s)
  case (Cons c s)
  then have "whole_rune [c]" by (simp add: whole_rune_def lead_byte_def Let_def)
  then have "rune_split (c # s) = Some [c] # rune_split s" using rune_split_append [of "[c]" s] by simp
  with Cons show ?case by (simp add: clean_text_def runes_def rune_text_def del: rune_split.simps)
qed (simp add: clean_text_def runes_def)

lemma dec_entry_json: "dec_entry (clean_json (entry_json e)) zeroEntry = (clean_entry e, True)"
proof -
  have keys: "clean_text ''key'' = ''key''" "clean_text ''name'' = ''name''"
    "clean_text ''disabled'' = ''disabled''" "clean_text ''deleted'' = ''deleted''" "clean_text '''' = ''''"
    by (simp_all add: clean_ascii)
  show ?thesis
    by (cases e) (simp add: entry_json_def dec_entry_def go_defs dec_bool_def zeroEntry_def clean_entry_def keys)
qed

lemma dec_store_json: "dec_store (clean_json (store_json st)) [] = (map clean_entry st, True)"
proof -
  have "clean_text ''keys'' = ''keys''" by (simp add: clean_ascii)
  then show ?thesis
    by (simp add: store_json_def dec_store_def go_defs comp_def dec_entry_json list_all_iff)
qed

lemma number_free_store: "number_free (store_json st)"
  by (auto simp: store_json_def entry_json_def list_all_iff)

lemma unmarshal_marshal:
  "unmarshal_store (marshal_store st) = Some (map clean_entry st)"
  "unmarshal_store (marshal_indent st) = Some (map clean_entry st)"
  by (simp_all add: unmarshal_store_def marshal_store_def marshal_indent_def Unmarshal_def
      json_parse_print json_parse_indent number_free_store dec_store_json)

lemma clean_valid: "list_all valid_entry st \<Longrightarrow> map clean_entry st = st"
  by (induction st) (auto simp: clean_entry_def valid_entry_def)

section \<open>The outside world\<close>

datatype node = Content bytes | Unreadable

record world =
  w_configDir :: "string option"
  w_files :: "string \<Rightarrow> node option"
  w_canWrite :: "string \<Rightarrow> bool"
  w_canRename :: "string \<Rightarrow> bool"
  w_canMkdir :: bool
  w_keyring :: "(string \<Rightarrow> node option) option"
  w_keyringWritable :: bool

datatype store_error =
    NoConfigDir
  | MasterKeyLength nat
  | ReadError string
  | WriteError string
  | RenameError string
  | MkdirError
  | KeyringError
  | UnmarshalError
  | ShortCiphertext
  | DecryptError
  | CipherError nat

record codec =
  seal :: "bytes \<Rightarrow> bytes \<Rightarrow> bytes \<Rightarrow> bytes"
  unseal :: "bytes \<Rightarrow> bytes \<Rightarrow> bytes \<Rightarrow> bytes option"

text \<open>What the code relies on: decrypting with the same key and nonce undoes encrypting.\<close>

definition codec_ok :: "codec \<Rightarrow> bool" where
  "codec_ok C \<longleftrightarrow> (\<forall>k n p. unseal C k n (seal C k n p) = Some p)"

text \<open>The state is the world and the cached outcome of the one-time master key setup.\<close>

record store_state =
  s_world :: world
  s_master :: "(store_error + bytes) option"

definition write_file :: "string \<Rightarrow> bytes \<Rightarrow> world \<Rightarrow> store_error option \<times> world" where
  "write_file path data w =
     (if w_canWrite w path then (None, w\<lparr>w_files := (w_files w)(path := Some (Content data))\<rparr>)
      else (Some (WriteError path), w))"

definition remove_file :: "string \<Rightarrow> world \<Rightarrow> world" where
  "remove_file path w = (if w_canWrite w path then w\<lparr>w_files := (w_files w)(path := None)\<rparr> else w)"

definition rename_file :: "string \<Rightarrow> string \<Rightarrow> world \<Rightarrow> store_error option \<times> world" where
  "rename_file src dst w =
     (if w_canRename w dst \<and> w_files w src \<noteq> None
      then (None, w\<lparr>w_files := (w_files w)(dst := w_files w src, src := None)\<rparr>)
      else (Some (RenameError dst), w))"

definition keys_path :: "world \<Rightarrow> string \<Rightarrow> string option" where
  "keys_path w name = map_option (\<lambda>dir. dir @ ''/keys/'' @ name) (w_configDir w)"

definition masterKeyFile :: "world \<Rightarrow> string option" where
  "masterKeyFile w = keys_path w ''master.key''"

definition encryptedFilePath :: "world \<Rightarrow> string \<Rightarrow> string option" where
  "encryptedFilePath w provider = keys_path w (provider @ ''.enc'')"

definition insecureKeysPath :: "world \<Rightarrow> string \<Rightarrow> string option" where
  "insecureKeysPath w provider = keys_path w (provider @ ''.json'')"

definition legacyKeysPath :: "world \<Rightarrow> string \<Rightarrow> string option" where
  "legacyKeysPath w provider = keys_path w (provider @ ''.enc'')"

definition ensureKeysDir :: "world \<Rightarrow> store_error option" where
  "ensureKeysDir w =
     (case w_configDir w of None \<Rightarrow> Some NoConfigDir
      | Some d \<Rightarrow> if w_canMkdir w then None else Some MkdirError)"

definition keyringItemKey :: "string \<Rightarrow> string" where
  "keyringItemKey provider = ''akswitch:'' @ provider"

section \<open>The master key\<close>

definition master_to_file :: "string \<Rightarrow> bytes \<Rightarrow> world \<Rightarrow> (store_error + bytes) \<times> world" where
  "master_to_file path fresh w =
     (case ensureKeysDir w of
        Some e \<Rightarrow> (Inl e, w)
      | None \<Rightarrow> (case write_file path fresh w of (Some e, w') \<Rightarrow> (Inl e, w') | (None, w') \<Rightarrow> (Inr fresh, w')))"

definition setup_master :: "bytes \<Rightarrow> world \<Rightarrow> (store_error + bytes) \<times> world" where
  "setup_master fresh w =
     (case Option.bind (w_keyring w) (\<lambda>kr. kr ''akswitch:master-key'') of
        Some (Content d) \<Rightarrow> (Inr d, w)
      | _ \<Rightarrow>
          (case masterKeyFile w of
             None \<Rightarrow> (Inl NoConfigDir, w)
           | Some path \<Rightarrow>
               (case w_files w path of
                  Some (Content d) \<Rightarrow>
                    (if length d = 32 then (Inr d, w) else (Inl (MasterKeyLength (length d)), w))
                | Some Unreadable \<Rightarrow> (Inl (ReadError path), w)
                | None \<Rightarrow>
                    (case w_keyring w of
                       Some kr \<Rightarrow>
                         (if w_keyringWritable w
                          then (Inr fresh, w\<lparr>w_keyring := Some (kr(''akswitch:master-key'' := Some (Content fresh)))\<rparr>)
                          else master_to_file path fresh w)
                     | None \<Rightarrow> master_to_file path fresh w))))"

text \<open>\<open>sync.Once\<close>: the first outcome, a key or an error, is kept.\<close>

definition getMasterKey :: "bytes \<Rightarrow> store_state \<Rightarrow> (store_error + bytes) \<times> store_state" where
  "getMasterKey fresh s =
     (case s_master s of
        Some r \<Rightarrow> (r, s)
      | None \<Rightarrow> (let (r, w) = setup_master fresh (s_world s)
                 in (r, s\<lparr>s_world := w, s_master := Some r\<rparr>)))"

text \<open>\<open>aes.NewCipher\<close> takes keys of 16, 24 or 32 bytes; a key from the keyring may have any length.\<close>

definition cipher_error :: "bytes \<Rightarrow> store_error option" where
  "cipher_error key = (if length key \<in> set [16, 24, 32] then None else Some (CipherError (length key)))"

definition encrypt :: "codec \<Rightarrow> bytes \<Rightarrow> bytes \<Rightarrow> bytes \<Rightarrow> store_error + bytes" where
  "encrypt C nonce key plaintext =
     (case cipher_error key of Some e \<Rightarrow> Inl e | None \<Rightarrow> Inr (nonce @ seal C key nonce plaintext))"

definition decrypt :: "codec \<Rightarrow> bytes \<Rightarrow> bytes \<Rightarrow> store_error + bytes" where
  "decrypt C key data =
     (case cipher_error key of
        Some e \<Rightarrow> Inl e
      | None \<Rightarrow>
          (if length data < 12 then Inl ShortCiphertext
           else (case unseal C key (take 12 data) (drop 12 data) of None \<Rightarrow> Inl DecryptError | Some p \<Rightarrow> Inr p)))"

section \<open>The encrypted file\<close>

definition SaveEncrypted ::
    "codec \<Rightarrow> bytes \<Rightarrow> bytes \<Rightarrow> string \<Rightarrow> KeyStore \<Rightarrow> store_state \<Rightarrow> store_error option \<times> store_state" where
  "SaveEncrypted C fresh nonce provider store s =
     (case getMasterKey fresh s of
        (Inl e, s) \<Rightarrow> (Some e, s)
      | (Inr mk, s) \<Rightarrow>
          (case encrypt C nonce mk (marshal_store store) of
             Inl e \<Rightarrow> (Some e, s)
           | Inr encrypted \<Rightarrow>
               (let w = s_world s
                in case encryptedFilePath w provider of
                     None \<Rightarrow> (Some NoConfigDir, s)
                   | Some path \<Rightarrow>
                       (case ensureKeysDir w of
                          Some e \<Rightarrow> (Some e, s)
                        | None \<Rightarrow>
                            (let tmpPath = path @ ''.tmp''
                             in case write_file tmpPath encrypted w of
                                  (Some e, w) \<Rightarrow> (Some e, s\<lparr>s_world := w\<rparr>)
                                | (None, w) \<Rightarrow>
                                    (case rename_file tmpPath path (remove_file path w) of
                                       (Some e, w) \<Rightarrow> (Some e, s\<lparr>s_world := remove_file tmpPath w\<rparr>)
                                     | (None, w) \<Rightarrow> (None, s\<lparr>s_world := w\<rparr>)))))))"

definition LoadEncrypted ::
    "codec \<Rightarrow> bytes \<Rightarrow> string \<Rightarrow> store_state \<Rightarrow> (store_error + KeyStore option) \<times> store_state" where
  "LoadEncrypted C fresh provider s =
     (case getMasterKey fresh s of
        (Inl e, s) \<Rightarrow> (Inl e, s)
      | (Inr mk, s) \<Rightarrow>
          (case encryptedFilePath (s_world s) provider of
             None \<Rightarrow> (Inl NoConfigDir, s)
           | Some path \<Rightarrow>
               (case w_files (s_world s) path of
                  None \<Rightarrow> (Inr None, s)
                | Some Unreadable \<Rightarrow> (Inl (ReadError path), s)
                | Some (Content data) \<Rightarrow>
                    (case decrypt C mk data of
                       Inl e \<Rightarrow> (Inl e, s)
                     | Inr plaintext \<Rightarrow>
                         (case unmarshal_store plaintext of
                            None \<Rightarrow> (Inl UnmarshalError, s) | Some st \<Rightarrow> (Inr (Some st), s))))))"

definition RemoveEncrypted :: "string \<Rightarrow> store_state \<Rightarrow> store_error option \<times> store_state" where
  "RemoveEncrypted provider s =
     (case encryptedFilePath (s_world s) provider of
        None \<Rightarrow> (Some NoConfigDir, s)
      | Some path \<Rightarrow>
          (if w_files (s_world s) path \<noteq> None \<and> \<not> w_canWrite (s_world s) path then (Some (WriteError path), s)
           else (None, s\<lparr>s_world := remove_file path (s_world s)\<rparr>)))"

section \<open>Plain files and the keyring\<close>

definition LoadFullStore :: "string \<Rightarrow> world \<Rightarrow> store_error + KeyStore option" where
  "LoadFullStore path w =
     (case w_files w path of
        None \<Rightarrow> Inr None
      | Some Unreadable \<Rightarrow> Inl (ReadError path)
      | Some (Content data) \<Rightarrow>
          (case unmarshal_store data of None \<Rightarrow> Inl UnmarshalError | Some st \<Rightarrow> Inr (Some st)))"

definition SaveFullStore :: "string \<Rightarrow> KeyStore \<Rightarrow> world \<Rightarrow> store_error option \<times> world" where
  "SaveFullStore path store w = write_file path (marshal_indent store) w"

definition LoadKeysFromFile :: "string \<Rightarrow> world \<Rightarrow> store_error + (string list \<times> string list) option" where
  "LoadKeysFromFile path w =
     (case LoadFullStore path w of
        Inl e \<Rightarrow> Inl e
      | Inr None \<Rightarrow> Inr None
      | Inr (Some st) \<Rightarrow> Inr (Some (map e_Key st, map e_Name st)))"

definition SaveKeysToFile ::
    "string \<Rightarrow> string list \<Rightarrow> string list \<Rightarrow> world \<Rightarrow> store_error option \<times> world" where
  "SaveKeysToFile path keys names w = SaveFullStore path (entries_of keys names) w"

definition SaveKeysInsecure :: "string \<Rightarrow> KeyStore \<Rightarrow> world \<Rightarrow> store_error option \<times> world" where
  "SaveKeysInsecure provider store w =
     (case insecureKeysPath w provider of
        None \<Rightarrow> (Some NoConfigDir, w)
      | Some path \<Rightarrow>
          (if \<not> w_canMkdir w then (Some MkdirError, w)
           else write_file path (marshal_indent store) w))"

definition loadInsecureFile :: "string \<Rightarrow> world \<Rightarrow> store_error + KeyStore option" where
  "loadInsecureFile provider w =
     (case insecureKeysPath w provider of
        None \<Rightarrow> Inl NoConfigDir | Some path \<Rightarrow> LoadFullStore path w)"

definition loadFromKeyring :: "string \<Rightarrow> world \<Rightarrow> store_error + KeyStore option" where
  "loadFromKeyring provider w =
     (case w_keyring w of
        None \<Rightarrow> Inl KeyringError
      | Some kr \<Rightarrow>
          (case kr (keyringItemKey provider) of
             None \<Rightarrow> Inr None
           | Some Unreadable \<Rightarrow> Inl KeyringError
           | Some (Content data) \<Rightarrow>
               (case unmarshal_store data of None \<Rightarrow> Inl UnmarshalError | Some st \<Rightarrow> Inr (Some st))))"

definition removeFromKeyring :: "string \<Rightarrow> world \<Rightarrow> world" where
  "removeFromKeyring provider w =
     (case w_keyring w of
        None \<Rightarrow> w
      | Some kr \<Rightarrow>
          (if w_keyringWritable w then w\<lparr>w_keyring := Some (kr(keyringItemKey provider := None))\<rparr> else w))"

abbreviation on_world :: "(world \<Rightarrow> world) \<Rightarrow> store_state \<Rightarrow> store_state" where
  "on_world f s \<equiv> s\<lparr>s_world := f (s_world s)\<rparr>"

definition SaveKeys ::
    "codec \<Rightarrow> bytes \<Rightarrow> bytes \<Rightarrow> string \<Rightarrow> KeyStore \<Rightarrow> store_state \<Rightarrow> store_error option \<times> store_state" where
  "SaveKeys C fresh nonce provider store s =
     (case SaveEncrypted C fresh nonce provider store s of
        (Some e, s) \<Rightarrow> (Some e, s)
      | (None, s) \<Rightarrow> (None, on_world (removeFromKeyring provider) s))"

definition RemoveKeys :: "string \<Rightarrow> store_state \<Rightarrow> store_state" where
  "RemoveKeys provider s = on_world (removeFromKeyring provider) (snd (RemoveEncrypted provider s))"

section \<open>Loading\<close>

text \<open>\<open>os.WriteFile(path+".bak", src)\<close> with what \<open>os.ReadFile(path)\<close> returned, errors ignored.\<close>

definition backup :: "string \<Rightarrow> world \<Rightarrow> world" where
  "backup path w =
     snd (write_file (path @ ''.bak'')
            (case w_files w path of Some (Content d) \<Rightarrow> d | _ \<Rightarrow> []) w)"

text \<open>What \<open>LoadKeys\<close> does from its label \<open>fallback\<close> on.\<close>

definition load_fallback ::
    "codec \<Rightarrow> bytes \<Rightarrow> bytes \<Rightarrow> string \<Rightarrow> store_state \<Rightarrow> (store_error + KeyStore option) \<times> store_state" where
  "load_fallback C fresh nonce provider s =
     (case loadFromKeyring provider (s_world s) of
        Inl e \<Rightarrow> (Inl e, s)
      | Inr (Some st) \<Rightarrow>
          (case SaveEncrypted C fresh nonce provider st s of
             (None, s) \<Rightarrow> (Inr (Some st), on_world (removeFromKeyring provider) s)
           | (Some e, s) \<Rightarrow> (Inr (Some st), s))
      | Inr None \<Rightarrow>
          (case loadInsecureFile provider (s_world s) of
             Inl e \<Rightarrow> (Inl e, s)
           | Inr (Some st) \<Rightarrow> (Inr (Some st), s)
           | Inr None \<Rightarrow>
               (case legacyKeysPath (s_world s) provider of
                  None \<Rightarrow> (Inr None, s)
                | Some oldPath \<Rightarrow>
                    (case LoadFullStore oldPath (s_world s) of
                       Inl e \<Rightarrow> (Inr None, s)
                     | Inr None \<Rightarrow> (Inr None, s)
                     | Inr (Some st) \<Rightarrow>
                         (case SaveEncrypted C fresh nonce provider st s of
                            (None, s) \<Rightarrow>
                              (Inr (Some st), on_world (\<lambda>w. remove_file oldPath (backup oldPath w)) s)
                          | (Some e, s) \<Rightarrow> (Inr (Some st), s))))))"

definition LoadKeys ::
    "codec \<Rightarrow> bytes \<Rightarrow> bytes \<Rightarrow> string \<Rightarrow> store_state \<Rightarrow> (store_error + KeyStore option) \<times> store_state" where
  "LoadKeys C fresh nonce provider s =
     (case LoadEncrypted C fresh provider s of
        (Inl e, s) \<Rightarrow>
          (case encryptedFilePath (s_world s) provider of
             None \<Rightarrow> (Inl NoConfigDir, s)
           | Some path \<Rightarrow>
               (case (w_files (s_world s) path, LoadFullStore path (s_world s)) of
                  (Some f, Inr (Some st)) \<Rightarrow>
                    (Inr (Some st),
                     snd (SaveEncrypted C fresh nonce provider st (on_world (backup path) s)))
                | _ \<Rightarrow> load_fallback C fresh nonce provider s))
      | (Inr (Some st), s) \<Rightarrow> (Inr (Some st), s)
      | (Inr None, s) \<Rightarrow> load_fallback C fresh nonce provider s)"

definition mergeInsecureKeys :: "string \<Rightarrow> world \<Rightarrow> KeyStore \<Rightarrow> KeyStore" where
  "mergeInsecureKeys name w store =
     (case loadInsecureFile name w of
        Inr (Some ins) \<Rightarrow> fold merge_entry ins store
      | _ \<Rightarrow> store)"

text \<open>\<open>None\<close> is \<open>loaded = false\<close>.\<close>

definition load_files_last :: "string \<Rightarrow> world \<Rightarrow> (string list \<times> string list) option" where
  "load_files_last name w =
     (case loadInsecureFile name w of
        Inr (Some st) \<Rightarrow> Some (keysFromStore st)
      | _ \<Rightarrow>
          (case legacyKeysPath w name of
             None \<Rightarrow> None
           | Some path \<Rightarrow> (case LoadKeysFromFile path w of Inr (Some kn) \<Rightarrow> Some kn | _ \<Rightarrow> None)))"

definition LoadKeysFromStore ::
    "codec \<Rightarrow> bytes \<Rightarrow> bytes \<Rightarrow> string \<Rightarrow> ProviderConfig \<Rightarrow> store_state \<Rightarrow>
      (string list \<times> string list) option \<times> store_state" where
  "LoadKeysFromStore C fresh nonce name cfg s =
     (case LoadEncrypted C fresh name s of
        (Inr (Some st), s) \<Rightarrow> (Some (keysFromStore (mergeInsecureKeys name (s_world s) st)), s)
      | (_, s) \<Rightarrow>
          (case loadFromKeyring name (s_world s) of
             Inr (Some st) \<Rightarrow>
               (let st = mergeInsecureKeys name (s_world s) st;
                    s = snd (SaveEncrypted C fresh nonce name st s)
                in (Some (keysFromStore st), on_world (removeFromKeyring name) s))
           | _ \<Rightarrow>
               (if c_KeysFile cfg \<noteq> ''''
                then (case LoadKeysFromFile (c_KeysFile cfg) (s_world s) of
                        Inr (Some kn) \<Rightarrow> (Some kn, s)
                      | _ \<Rightarrow> (load_files_last name (s_world s), s))
                else (load_files_last name (s_world s), s))))"

definition loadStoreFromAnyBackend ::
    "codec \<Rightarrow> bytes \<Rightarrow> string \<Rightarrow> ProviderConfig \<Rightarrow> store_state \<Rightarrow> KeyStore option \<times> store_state" where
  "loadStoreFromAnyBackend C fresh name cfg s =
     (case LoadEncrypted C fresh name s of
        (Inr (Some st), s) \<Rightarrow> (Some st, s)
      | (_, s) \<Rightarrow>
          (case loadFromKeyring name (s_world s) of
             Inr (Some st) \<Rightarrow> (Some st, s)
           | _ \<Rightarrow>
               (case (if c_KeysFile cfg \<noteq> '''' then LoadFullStore (c_KeysFile cfg) (s_world s) else Inr None) of
                  Inr (Some st) \<Rightarrow> (Some st, s)
                | _ \<Rightarrow>
                    (case loadInsecureFile name (s_world s) of
                       Inr (Some st) \<Rightarrow> (Some st, s)
                     | _ \<Rightarrow> (None, s)))))"

definition LoadDisabledNames ::
    "codec \<Rightarrow> bytes \<Rightarrow> string \<Rightarrow> ProviderConfig \<Rightarrow> store_state \<Rightarrow> string list \<times> store_state" where
  "LoadDisabledNames C fresh name cfg s =
     (case loadStoreFromAnyBackend C fresh name cfg s of
        (None, s) \<Rightarrow> ([], s)
      | (Some st, s) \<Rightarrow> (map e_Name (filter e_Disabled st), s))"

section \<open>Merging and reading back\<close>

lemma keysFromStore_lengths: "length (fst (keysFromStore st)) = length (snd (keysFromStore st))"
  by (simp add: keysFromStore_def Let_def)

lemma keysFromStore_deleted:
  "k \<in> set (fst (keysFromStore st)) \<longleftrightarrow> (\<exists>e\<in>set st. e_Key e = k \<and> \<not> e_Deleted e)"
  by (auto simp: keysFromStore_def Let_def)

lemma merge_entry_keys: "e_Key ` set (merge_entry ie st) = insert (e_Key ie) (e_Key ` set st)"
  by (auto simp: merge_entry_def list_ex_iff)

lemma fold_merge_keys: "e_Key ` set (fold merge_entry ins st) = e_Key ` set ins \<union> e_Key ` set st"
  by (induction ins arbitrary: st) (auto simp: merge_entry_keys)

lemma fold_merge_prefix: "\<exists>more. fold merge_entry ins st = st @ more"
proof (induction ins arbitrary: st)
  case (Cons ie ins)
  have "\<exists>m. merge_entry ie st = st @ m" by (simp add: merge_entry_def)
  then obtain m where m: "merge_entry ie st = st @ m" by blast
  from Cons [of "st @ m"] m show ?case by (auto intro: exI [of _ "m @ _"])
qed simp

lemma fold_merge_distinct:
  "distinct (map e_Key st) \<Longrightarrow> distinct (map e_Key (fold merge_entry ins st))"
proof (induction ins arbitrary: st)
  case (Cons ie ins)
  have "distinct (map e_Key (merge_entry ie st))"
    using Cons.prems by (auto simp: merge_entry_def list_ex_iff)
  with Cons.IH show ?case by simp
qed simp

section \<open>The encrypted file round trip\<close>

lemma decrypt_encrypt:
  "codec_ok C \<Longrightarrow> length nonce = 12 \<Longrightarrow> encrypt C nonce k p = Inr c \<Longrightarrow> decrypt C k c = Inr p"
  by (auto simp: decrypt_def encrypt_def codec_ok_def split: option.splits)

lemma getMasterKey_cached: "fst (getMasterKey fresh s) = r \<Longrightarrow> s_master (snd (getMasterKey fresh s)) = Some r"
  by (auto simp: getMasterKey_def split: option.splits prod.splits)

lemma getMasterKey_again:
  "s_master s = Some r \<Longrightarrow> getMasterKey fresh s = (r, s)"
  by (simp add: getMasterKey_def)

lemma setup_master_config:
  "setup_master fresh w = (r, w') \<Longrightarrow> w_configDir w' = w_configDir w"
  by (auto simp: setup_master_def master_to_file_def write_file_def
      split: option.splits node.splits if_splits prod.splits)

lemma SaveEncrypted_ok:
  assumes "SaveEncrypted C fresh nonce provider store s = (None, s')"
  obtains mk path data where "s_master s' = Some (Inr mk)" and "encryptedFilePath (s_world s') provider = Some path"
    and "encrypt C nonce mk (marshal_store store) = Inr data" and "w_files (s_world s') path = Some (Content data)"
proof -
  obtain r s1 where mk: "getMasterKey fresh s = (r, s1)" by force
  obtain k where k: "r = Inr k" using assms mk by (cases r) (auto simp: SaveEncrypted_def)
  have cached: "s_master s1 = Some (Inr k)" using getMasterKey_cached [of fresh s] mk k by simp
  obtain data where data: "encrypt C nonce k (marshal_store store) = Inr data"
    using assms mk k by (cases "encrypt C nonce k (marshal_store store)") (auto simp: SaveEncrypted_def)
  obtain path where path: "encryptedFilePath (s_world s1) provider = Some path"
    using assms mk k data by (cases "encryptedFilePath (s_world s1) provider") (auto simp: SaveEncrypted_def Let_def)
  show ?thesis
    by (rule that [of k path data])
       (use assms mk k data path cached in \<open>auto simp: SaveEncrypted_def Let_def write_file_def rename_file_def
          remove_file_def encryptedFilePath_def keys_path_def split: option.splits if_splits\<close>)
qed

text \<open>Whatever was saved is loaded back, with the cached master key.\<close>

lemma Save_Load_encrypted:
  assumes "codec_ok C" and "length nonce = 12" and "SaveEncrypted C fresh nonce provider store s = (None, s')"
  shows "LoadEncrypted C fresh' provider s' = (Inr (Some (map clean_entry store)), s')"
proof -
  obtain mk path data where "s_master s' = Some (Inr mk)" "encryptedFilePath (s_world s') provider = Some path"
    "decrypt C mk data = Inr (marshal_store store)" "w_files (s_world s') path = Some (Content data)"
    using SaveEncrypted_ok [OF assms(3)] decrypt_encrypt [OF assms(1,2)] by metis
  then show ?thesis
    by (simp add: LoadEncrypted_def getMasterKey_again unmarshal_marshal)
qed

text \<open>
  Losing the file: the old file is removed before the rename, so a failing rename leaves neither the
  old nor the new file.
\<close>

lemma SaveEncrypted_rename_fails:
  assumes "s_master s = Some (Inr mk)" and "length mk = 32" and "encryptedFilePath (s_world s) provider = Some path"
    and "w_canMkdir (s_world s)" and "w_canWrite (s_world s) path" and "w_canWrite (s_world s) (path @ ''.tmp'')"
    and "\<not> w_canRename (s_world s) path" and "SaveEncrypted C fresh nonce provider store s = (r, s')"
  shows "r = Some (RenameError path) \<and> w_files (s_world s') path = None \<and>
    w_files (s_world s') (path @ ''.tmp'') = None"
proof -
  have "ensureKeysDir (s_world s) = None"
    using assms(3,4) by (auto simp: ensureKeysDir_def encryptedFilePath_def keys_path_def)
  with assms show ?thesis
    by (auto simp: SaveEncrypted_def encrypt_def cipher_error_def getMasterKey_again Let_def write_file_def rename_file_def remove_file_def)
qed

text \<open>
  A file that no longer decrypts (a new master key, say) and holds no plain store is reported as no
  store at all, without an error, when the other backends are empty.
\<close>

lemma LoadKeys_undecryptable:
  assumes "s_master s = Some (Inr mk)" and "encryptedFilePath (s_world s) provider = Some path"
    and "w_files (s_world s) path = Some (Content data)" and "decrypt C mk data = Inl e"
    and "unmarshal_store data = None" and "loadFromKeyring provider (s_world s) = Inr None"
    and "loadInsecureFile provider (s_world s) = Inr None"
  shows "LoadKeys C fresh nonce provider s = (Inr None, s)"
  using assms
  by (simp add: LoadKeys_def LoadEncrypted_def getMasterKey_again load_fallback_def LoadFullStore_def
      encryptedFilePath_def legacyKeysPath_def)

text \<open>Keys that are saved come back, for the pool without the deleted ones.\<close>

lemma SaveKeys_LoadEncrypted:
  assumes "codec_ok C" and "length nonce = 12" and "SaveKeys C fresh nonce provider store s = (None, s')"
  shows "LoadEncrypted C fresh' provider s' = (Inr (Some (map clean_entry store)), s')"
proof -
  obtain s1 where s1: "SaveEncrypted C fresh nonce provider store s = (None, s1)"
      "s' = on_world (removeFromKeyring provider) s1"
    using assms(3) by (auto simp: SaveKeys_def split: prod.splits option.splits)
  obtain mk path data where p: "s_master s1 = Some (Inr mk)" "encryptedFilePath (s_world s1) provider = Some path"
    "decrypt C mk data = Inr (marshal_store store)" "w_files (s_world s1) path = Some (Content data)"
    using SaveEncrypted_ok [OF s1(1)] decrypt_encrypt [OF assms(1,2)] by metis
  have keep: "w_files (removeFromKeyring provider w) = w_files w"
      "encryptedFilePath (removeFromKeyring provider w) provider = encryptedFilePath w provider" for w
    by (simp_all add: removeFromKeyring_def encryptedFilePath_def keys_path_def split: option.splits)
  show ?thesis
    using p s1(2)
    by (simp add: LoadEncrypted_def getMasterKey_again keep unmarshal_marshal)
qed

lemma SaveKeys_LoadKeysFromStore:
  assumes "codec_ok C" and "length nonce = 12" and "SaveKeys C fresh nonce provider store s = (None, s')"
    and "loadInsecureFile provider (s_world s') = Inr None"
  shows "LoadKeysFromStore C fresh' nonce' provider cfg s' = (Some (keysFromStore (map clean_entry store)), s')"
  using SaveKeys_LoadEncrypted [OF assms(1-3), of fresh'] assms(4)
  by (simp add: LoadKeysFromStore_def mergeInsecureKeys_def)

lemma SaveKeys_LoadDisabledNames:
  assumes "codec_ok C" and "length nonce = 12" and "SaveKeys C fresh nonce provider store s = (None, s')"
  shows "LoadDisabledNames C fresh' provider cfg s' = (map e_Name (filter e_Disabled (map clean_entry store)), s')"
  using SaveKeys_LoadEncrypted [OF assms, of fresh']
  by (simp add: LoadDisabledNames_def loadStoreFromAnyBackend_def)

end
