(* ===== verification/ProviderState.thy ===== *)
theory ProviderState
  imports PoolReadings UpstreamBreaker FieldDescriptors KeyStore
begin

text \<open>
  One provider at run time (internal/server/router.go, \<open>ProviderState\<close>): its configuration, pool,
  upstream breaker and HTTP client timeout, the runtime changes of single settings
  (\<open>ApplyRuntime\<close> in internal/config/field_descriptor.go), admin tokens and persisting the keys.
\<close>

section \<open>State\<close>

record ProviderState =
  ps_name :: string
  ps_config :: Config
  ps_pool :: KeyPool
  ps_clientTimeout :: duration
  ps_upCB :: UpstreamCircuitBreaker
  ps_lastCheckTime :: time
  ps_lastCheckOK :: bool
  ps_dashboardHTML :: string
  ps_keysFile :: string

abbreviation ps_pc :: "ProviderState \<Rightarrow> ProviderConfig" where
  "ps_pc ps \<equiv> cf_Provider (ps_config ps)"

text \<open>\<open>time.Duration(sec) * time.Second\<close>.\<close>

definition seconds :: "int \<Rightarrow> duration" where
  "seconds s = wrap64 (s * 1000000000)"

definition float_le_zero :: "float64 \<Rightarrow> bool" where
  "float_le_zero f \<longleftrightarrow> float_lt f (Fin 0) \<or> float_eq f (Fin 0)"

definition NewProviderState ::
    "string \<Rightarrow> Config \<Rightarrow> KeyPool \<Rightarrow> string \<Rightarrow> string \<Rightarrow> ProviderState" where
  "NewProviderState name cfg pool dash keysFile =
     (let pc = cf_Provider cfg;
          backoffCapSec = (if c_BackoffCapSec pc \<le> 0 then 120 else c_BackoffCapSec pc);
          backoffMult = (if float_le_zero (c_BackoffMultiplier pc) then Fin 2 else c_BackoffMultiplier pc);
          upstreamThreshold = (if c_UpstreamCBThreshold pc \<le> 0 then 5 else c_UpstreamCBThreshold pc);
          cbResetSec = (if c_CBResetSec pc \<le> 0 then 30 else c_CBResetSec pc);
          pool = ConfigureCBs (seconds (c_CooldownSec pc)) (seconds backoffCapSec) backoffMult pool;
          pool = SetSelectionMode (c_KeySelection pc) pool
      in \<lparr>ps_name = name, ps_config = cfg, ps_pool = pool,
          ps_clientTimeout = seconds (c_HTTPTimeoutSec pc),
          ps_upCB = NewUpstreamCircuitBreaker upstreamThreshold (seconds cbResetSec),
          ps_lastCheckTime = 0, ps_lastCheckOK = False,
          ps_dashboardHTML = dash, ps_keysFile = keysFile\<rparr>)"

definition SetLastHealthCheck :: "time \<Rightarrow> bool \<Rightarrow> ProviderState \<Rightarrow> ProviderState" where
  "SetLastHealthCheck now ok ps = ps\<lparr>ps_lastCheckTime := now, ps_lastCheckOK := ok\<rparr>"

text \<open>The forwarding setters of the configuration.\<close>

definition set_pc :: "(ProviderConfig \<Rightarrow> ProviderConfig) \<Rightarrow> ProviderState \<Rightarrow> ProviderState" where
  "set_pc f ps = ps\<lparr>ps_config := (ps_config ps)\<lparr>cf_Provider := f (ps_pc ps)\<rparr>\<rparr>"

definition SetHTTPTimeoutSec :: "int \<Rightarrow> ProviderState \<Rightarrow> ProviderState" where
  "SetHTTPTimeoutSec v = set_pc (c_HTTPTimeoutSec_update (\<lambda>_. v))"

definition SetMaxRetries :: "int \<Rightarrow> ProviderState \<Rightarrow> ProviderState" where
  "SetMaxRetries v = set_pc (c_MaxRetries_update (\<lambda>_. v))"

definition SetCooldownSec :: "int \<Rightarrow> ProviderState \<Rightarrow> ProviderState" where
  "SetCooldownSec v = set_pc (c_CooldownSec_update (\<lambda>_. v))"

definition SetBackoffCapSec :: "int \<Rightarrow> ProviderState \<Rightarrow> ProviderState" where
  "SetBackoffCapSec v = set_pc (c_BackoffCapSec_update (\<lambda>_. v))"

definition SetBackoffMultiplier :: "float64 \<Rightarrow> ProviderState \<Rightarrow> ProviderState" where
  "SetBackoffMultiplier v = set_pc (c_BackoffMultiplier_update (\<lambda>_. v))"

definition SetCBResetSec :: "int \<Rightarrow> ProviderState \<Rightarrow> ProviderState" where
  "SetCBResetSec v = set_pc (c_CBResetSec_update (\<lambda>_. v))"

definition SetUpstreamCBThreshold :: "int \<Rightarrow> ProviderState \<Rightarrow> ProviderState" where
  "SetUpstreamCBThreshold v = set_pc (c_UpstreamCBThreshold_update (\<lambda>_. v))"

definition SetLogLevel :: "string \<Rightarrow> ProviderState \<Rightarrow> ProviderState" where
  "SetLogLevel v = set_pc (c_LogLevel_update (\<lambda>_. v))"

definition SetThinkingMode :: "string \<Rightarrow> ProviderState \<Rightarrow> ProviderState" where
  "SetThinkingMode v = set_pc (c_ThinkingMode_update (\<lambda>_. v))"

definition SetRectifyThinkingMapTo :: "string \<Rightarrow> ProviderState \<Rightarrow> ProviderState" where
  "SetRectifyThinkingMapTo v = set_pc (c_RectifyThinkingMapTo_update (\<lambda>_. v))"

definition ConfigurePoolCBs :: "duration \<Rightarrow> duration \<Rightarrow> float64 \<Rightarrow> ProviderState \<Rightarrow> ProviderState" where
  "ConfigurePoolCBs b cap m ps = ps\<lparr>ps_pool := ConfigureCBs b cap m (ps_pool ps)\<rparr>"

definition SetProxyTimeout :: "duration \<Rightarrow> ProviderState \<Rightarrow> ProviderState" where
  "SetProxyTimeout d ps = ps\<lparr>ps_clientTimeout := d\<rparr>"

definition SetUpstreamCBResetTimeout :: "int \<Rightarrow> ProviderState \<Rightarrow> ProviderState" where
  "SetUpstreamCBResetTimeout sec ps = ps\<lparr>ps_upCB := SetResetTimeout (seconds sec) (ps_upCB ps)\<rparr>"

definition SetUpstreamProxyCBThreshold :: "int \<Rightarrow> ProviderState \<Rightarrow> ProviderState" where
  "SetUpstreamProxyCBThreshold n ps = ps\<lparr>ps_upCB := SetThreshold n (ps_upCB ps)\<rparr>"

definition ResetUpstreamCB :: "ProviderState \<Rightarrow> ProviderState" where
  "ResetUpstreamCB ps = ps\<lparr>ps_upCB := U_Reset (ps_upCB ps)\<rparr>"

definition RecordUpstreamFailure :: "time \<Rightarrow> ProviderState \<Rightarrow> ProviderState" where
  "RecordUpstreamFailure now ps = ps\<lparr>ps_upCB := U_RecordFailure now (ps_upCB ps)\<rparr>"

definition RecordUpstreamSuccess :: "ProviderState \<Rightarrow> ProviderState" where
  "RecordUpstreamSuccess ps = ps\<lparr>ps_upCB := U_RecordSuccess (ps_upCB ps)\<rparr>"

lemmas setter_defs = set_pc_def SetHTTPTimeoutSec_def SetMaxRetries_def SetCooldownSec_def
  SetBackoffCapSec_def SetBackoffMultiplier_def SetCBResetSec_def SetUpstreamCBThreshold_def
  SetLogLevel_def SetThinkingMode_def SetRectifyThinkingMapTo_def ConfigurePoolCBs_def
  SetProxyTimeout_def SetUpstreamCBResetTimeout_def SetUpstreamProxyCBThreshold_def

section \<open>Admin tokens\<close>

definition HasAdminToken :: "ProviderState \<Rightarrow> bool" where
  "HasAdminToken ps \<longleftrightarrow> c_AdminToken (ps_pc ps) \<noteq> ''''"

text \<open>\<open>subtle.ConstantTimeCompare\<close> is 1 exactly on equal contents.\<close>

definition CheckAdminToken :: "string \<Rightarrow> ProviderState \<Rightarrow> bool" where
  "CheckAdminToken token ps =
     (if c_AdminToken (ps_pc ps) = '''' then False else c_AdminToken (ps_pc ps) = token)"

section \<open>Persisting the keys\<close>

text \<open>Every key of the pool becomes an entry; an error of \<open>SaveKeys\<close> is only logged.\<close>

definition pool_entries :: "KeyPool \<Rightarrow> KeyStore" where
  "pool_entries p =
     map (\<lambda>i. \<lparr>e_Key = p_keys p ! i, e_Name = (case Name (int i) p of Inl e \<Rightarrow> '''' | Inr n \<Rightarrow> n),
               e_Disabled = IsDisabled (int i) p, e_Deleted = False\<rparr>) [0..<length (Keys p)]"

definition PersistKeys ::
    "codec \<Rightarrow> bytes \<Rightarrow> bytes \<Rightarrow> ProviderState \<Rightarrow> store_state \<Rightarrow> store_state" where
  "PersistKeys C fresh nonce ps s =
     snd (SaveKeys C fresh nonce (ps_name ps) (pool_entries (ps_pool ps)) s)"

section \<open>Runtime changes\<close>

text \<open>
  The \<open>ApplyRuntime\<close> closures. The value is an \<open>any\<close> that the callers always fill with a string; the
  result is the new value and the changed provider, or the error of the closure, or \<open>None\<close> when the
  field has no such closure.
\<close>

definition positive_int :: "string \<Rightarrow> string \<Rightarrow> field_error + int" where
  "positive_int key s =
     (case Atoi s of
        None \<Rightarrow> Inl (MustBePositive key)
      | Some v \<Rightarrow> if v < 1 then Inl (MustBePositive key) else Inr v)"

definition apply_int ::
    "(field_error + int) \<Rightarrow> (int \<Rightarrow> ProviderState \<Rightarrow> ProviderState) \<Rightarrow> ProviderState \<Rightarrow>
      field_error + (fvalue \<times> ProviderState)" where
  "apply_int r f ps = (case r of Inl e \<Rightarrow> Inl e | Inr v \<Rightarrow> Inr (VInt v, f v ps))"

definition apply_string ::
    "(field_error + string) \<Rightarrow> (string \<Rightarrow> ProviderState \<Rightarrow> ProviderState) \<Rightarrow> ProviderState \<Rightarrow>
      field_error + (fvalue \<times> ProviderState)" where
  "apply_string r f ps = (case r of Inl e \<Rightarrow> Inl e | Inr v \<Rightarrow> Inr (VStr v, f v ps))"

definition apply_cooldown :: "int \<Rightarrow> ProviderState \<Rightarrow> ProviderState" where
  "apply_cooldown v ps =
     (let ps = SetCooldownSec v ps
      in ConfigurePoolCBs (seconds v) (seconds (c_BackoffCapSec (ps_pc ps))) (c_BackoffMultiplier (ps_pc ps)) ps)"

definition apply_backoff_cap :: "int \<Rightarrow> ProviderState \<Rightarrow> ProviderState" where
  "apply_backoff_cap v ps =
     (let ps = SetBackoffCapSec v ps
      in ConfigurePoolCBs (seconds (c_CooldownSec (ps_pc ps))) (seconds v) (c_BackoffMultiplier (ps_pc ps)) ps)"

definition apply_multiplier :: "float64 \<Rightarrow> ProviderState \<Rightarrow> ProviderState" where
  "apply_multiplier v ps =
     (let ps = SetBackoffMultiplier v ps
      in ConfigurePoolCBs (seconds (c_CooldownSec (ps_pc ps))) (seconds (c_BackoffCapSec (ps_pc ps))) v ps)"

definition ApplyRuntime ::
    "string \<Rightarrow> string \<Rightarrow> ProviderState \<Rightarrow> (field_error + (fvalue \<times> ProviderState)) option" where
  "ApplyRuntime key s ps =
     (if key = ''cooldown_sec'' then Some (apply_int (positive_int key s) apply_cooldown ps)
      else if key = ''max_retries''
      then Some (apply_int (case Atoi s of None \<Rightarrow> Inl (MustBeNonNegative key)
                  | Some v \<Rightarrow> if v < 0 then Inl (MustBeNonNegative key) else Inr v) SetMaxRetries ps)
      else if key = ''backoff_cap_sec'' then Some (apply_int (positive_int key s) apply_backoff_cap ps)
      else if key = ''backoff_multiplier''
      then Some (case ParseFloat s of
                   None \<Rightarrow> Inl (MustBeAtLeastOne key)
                 | Some v \<Rightarrow> if float_lt v (Fin 1) then Inl (MustBeAtLeastOne key)
                             else Inr (VFloat v, apply_multiplier v ps))
      else if key = ''cb_reset_sec''
      then Some (apply_int (positive_int key s) (\<lambda>v ps. SetCBResetSec v (SetUpstreamCBResetTimeout v ps)) ps)
      else if key = ''upstream_cb_threshold''
      then Some (apply_int (positive_int key s)
                  (\<lambda>v ps. SetUpstreamCBThreshold v (SetUpstreamProxyCBThreshold v ps)) ps)
      else if key = ''http_timeout_sec''
      then Some (apply_int (positive_int key s) (\<lambda>v ps. SetHTTPTimeoutSec v (SetProxyTimeout (seconds v) ps)) ps)
      else if key = ''log_level''
      then Some (apply_string (choice [''debug'', ''info'', ''warn'', ''error''] InvalidLogLevel s) SetLogLevel ps)
      else if key = ''thinking_mode''
      then Some (apply_string (choice [''default'', ''rectify''] InvalidThinkingMode s) SetThinkingMode ps)
      else if key = ''rectify_thinking_map_to''
      then Some (apply_string (choose_map_to s) SetRectifyThinkingMapTo ps)
      else None)"

text \<open>\<open>setRuntimeConfigField\<close>: only fields of the table that are editable at run time.\<close>

definition setRuntimeConfigField ::
    "string \<Rightarrow> string \<Rightarrow> ProviderState \<Rightarrow> field_error + (fvalue \<times> ProviderState)" where
  "setRuntimeConfigField key s ps =
     (case FindField key of
        None \<Rightarrow> Inl (UnknownKey key)
      | Some fd \<Rightarrow>
          (if \<not> fd_RuntimeEditable fd then Inl (UnknownKey key)
           else (case ApplyRuntime key s ps of None \<Rightarrow> Inl (UnknownKey key) | Some r \<Rightarrow> r)))"

definition getRuntimeParams :: "ProviderState \<Rightarrow> (string \<times> fvalue) list" where
  "getRuntimeParams ps =
     (let pc = ps_pc ps
      in [(''http_timeout_sec'', VInt (c_HTTPTimeoutSec pc)), (''max_retries'', VInt (c_MaxRetries pc)),
          (''cooldown_sec'', VInt (c_CooldownSec pc)), (''backoff_cap_sec'', VInt (c_BackoffCapSec pc)),
          (''backoff_multiplier'', VFloat (c_BackoffMultiplier pc)), (''cb_reset_sec'', VInt (c_CBResetSec pc)),
          (''upstream_cb_threshold'', VInt (c_UpstreamCBThreshold pc)), (''log_level'', VStr (c_LogLevel pc)),
          (''thinking_mode'', VStr (c_ThinkingMode pc)),
          (''rectify_thinking_map_to'', VStr (c_RectifyThinkingMapTo pc))])"

section \<open>Settings and their effects agree\<close>

text \<open>
  The breakers, the upstream breaker and the HTTP client run with the values that the
  configuration shows.
\<close>

definition in_sync :: "ProviderState \<Rightarrow> bool" where
  "in_sync ps \<longleftrightarrow>
     list_all (\<lambda>k. k_base k = seconds (c_CooldownSec (ps_pc ps)) \<and>
                   k_backoffCap k = seconds (c_BackoffCapSec (ps_pc ps)) \<and>
                   k_multiplier k = c_BackoffMultiplier (ps_pc ps)) (p_cbs (ps_pool ps)) \<and>
     u_threshold (ps_upCB ps) = c_UpstreamCBThreshold (ps_pc ps) \<and>
     u_resetTimeout (ps_upCB ps) = seconds (c_CBResetSec (ps_pc ps)) \<and>
     ps_clientTimeout ps = seconds (c_HTTPTimeoutSec (ps_pc ps))"

lemma reconfigured_params [simp]:
  "k_base (reconfigured b c m k) = b" "k_backoffCap (reconfigured b c m k) = c"
  "k_multiplier (reconfigured b c m k) = m" "k_jitterFn (reconfigured b c m k) = None"
  "k_attempt (reconfigured b c m k) = 0"
  "k_state (reconfigured b c m k) = (if k_state k = Permanent then Permanent else Closed)"
  by (simp_all add: reconfigured_def NewKeyCircuitBreaker_def RecordPerma_def Let_def)

lemma NewProviderState_in_sync:
  assumes "validateConfig c = (None, c')"
  shows "in_sync (NewProviderState name c' pool dash kf)"
proof -
  have v: "30 \<le> c_BackoffCapSec (cf_Provider c')" "5 \<le> c_CBResetSec (cf_Provider c')"
    "2 \<le> c_UpstreamCBThreshold (cf_Provider c')"
    "\<not> float_lt (c_BackoffMultiplier (cf_Provider c')) (Fin 1)"
    using validateConfig_ok [OF assms] by simp_all
  then have "\<not> float_le_zero (c_BackoffMultiplier (cf_Provider c'))"
    by (cases "c_BackoffMultiplier (cf_Provider c')") (auto simp: float_le_zero_def)
  with v show ?thesis
    by (simp add: in_sync_def NewProviderState_def Let_def ConfigureCBs_def SetSelectionMode_def
        NewUpstreamCircuitBreaker_def list_all_length)
qed

text \<open>A successful runtime change is one of ten writes.\<close>

lemma apply_int_Inr: "apply_int r f ps = Inr (v, ps') \<longleftrightarrow> (\<exists>n. r = Inr n \<and> v = VInt n \<and> ps' = f n ps)"
  by (auto simp: apply_int_def split: sum.splits)

lemma apply_string_Inr: "apply_string r f ps = Inr (v, ps') \<longleftrightarrow> (\<exists>t. r = Inr t \<and> v = VStr t \<and> ps' = f t ps)"
  by (auto simp: apply_string_def split: sum.splits)

definition runtime_write :: "string \<Rightarrow> fvalue \<Rightarrow> ProviderState \<Rightarrow> ProviderState \<Rightarrow> bool" where
  "runtime_write key v ps ps' \<longleftrightarrow>
     (\<exists>n. key = ''cooldown_sec'' \<and> v = VInt n \<and> ps' = apply_cooldown n ps) \<or>
     (\<exists>n. key = ''max_retries'' \<and> v = VInt n \<and> ps' = SetMaxRetries n ps) \<or>
     (\<exists>n. key = ''backoff_cap_sec'' \<and> v = VInt n \<and> ps' = apply_backoff_cap n ps) \<or>
     (\<exists>f. key = ''backoff_multiplier'' \<and> v = VFloat f \<and> ps' = apply_multiplier f ps) \<or>
     (\<exists>n. key = ''cb_reset_sec'' \<and> v = VInt n \<and> ps' = SetCBResetSec n (SetUpstreamCBResetTimeout n ps)) \<or>
     (\<exists>n. key = ''upstream_cb_threshold'' \<and> v = VInt n \<and>
        ps' = SetUpstreamCBThreshold n (SetUpstreamProxyCBThreshold n ps)) \<or>
     (\<exists>n. key = ''http_timeout_sec'' \<and> v = VInt n \<and> ps' = SetHTTPTimeoutSec n (SetProxyTimeout (seconds n) ps)) \<or>
     (\<exists>t. key = ''log_level'' \<and> v = VStr t \<and> ps' = SetLogLevel t ps) \<or>
     (\<exists>t. key = ''thinking_mode'' \<and> v = VStr t \<and> ps' = SetThinkingMode t ps) \<or>
     (\<exists>t. key = ''rectify_thinking_map_to'' \<and> v = VStr t \<and> ps' = SetRectifyThinkingMapTo t ps)"

lemma ApplyRuntime_write:
  assumes "ApplyRuntime key s ps = Some (Inr (v, ps'))"
  shows "runtime_write key v ps ps'"
proof -
  have "(case ParseFloat s of None \<Rightarrow> Inl (MustBeAtLeastOne key)
      | Some x \<Rightarrow> if float_lt x (Fin 1) then Inl (MustBeAtLeastOne key) else Inr (VFloat x, apply_multiplier x ps))
      = Inr (v, ps') \<Longrightarrow> \<exists>f. v = VFloat f \<and> ps' = apply_multiplier f ps"
    by (auto split: option.splits if_splits)
  then show ?thesis
    using assms unfolding ApplyRuntime_def runtime_write_def
    by (auto simp: apply_int_Inr apply_string_Inr simp del: set_simps split: if_split_asm)
qed

lemma in_sync_write:
  assumes "in_sync ps" and "runtime_write key v ps ps'"
  shows "in_sync ps'"
  using assms(2) unfolding runtime_write_def
  by (elim disjE exE)
     (use assms(1) in \<open>simp_all add: apply_cooldown_def apply_backoff_cap_def apply_multiplier_def
        setter_defs in_sync_def ConfigureCBs_def SetThreshold_def SetResetTimeout_def list_all_length Let_def\<close>)

lemma in_sync_apply:
  "in_sync ps \<Longrightarrow> ApplyRuntime key s ps = Some (Inr (v, ps')) \<Longrightarrow> in_sync ps'"
  by (rule in_sync_write [OF _ ApplyRuntime_write])

lemma in_sync_set:
  "in_sync ps \<Longrightarrow> setRuntimeConfigField key s ps = Inr (v, ps') \<Longrightarrow> in_sync ps'"
  by (auto simp: setRuntimeConfigField_def intro: in_sync_apply split: option.splits if_splits)

section \<open>Reading back what was set\<close>

lemma params_keys: "map fst (getRuntimeParams ps) =
  [''http_timeout_sec'', ''max_retries'', ''cooldown_sec'', ''backoff_cap_sec'', ''backoff_multiplier'',
   ''cb_reset_sec'', ''upstream_cb_threshold'', ''log_level'', ''thinking_mode'', ''rectify_thinking_map_to'']"
  by (simp add: getRuntimeParams_def Let_def)

text \<open>The parameters shown are exactly the fields of the table that are editable at run time.\<close>

lemma params_are_runtime:
  "set (map fst (getRuntimeParams ps)) = set (map fd_Key (filter fd_RuntimeEditable reflectBuildDescriptors))"
  unfolding params_keys table_runtime by auto

lemma map_of_list_update:
  "distinct (map fst xs) \<Longrightarrow> i < length xs \<Longrightarrow> fst (xs ! i) = k \<Longrightarrow>
     map_of (xs[i := (k, v)]) = (map_of xs)(k \<mapsto> v)"
proof (induction xs arbitrary: i)
  case (Cons x xs)
  show ?case
  proof (cases i)
    case 0
    with Cons.prems show ?thesis by (cases x) auto
  next
    case (Suc j)
    with Cons.prems have "k \<in> fst ` set xs" by auto
    with Cons.prems(1) have "fst x \<noteq> k" by auto
    with Cons Suc show ?thesis by (cases x) (auto simp: fun_eq_iff)
  qed
qed simp

lemma params_distinct: "distinct (map fst (getRuntimeParams ps))"
  unfolding params_keys by code_simp

lemma params_after_write:
  assumes "runtime_write key v ps ps'"
  shows "\<exists>i<10. fst (getRuntimeParams ps ! i) = key \<and> getRuntimeParams ps' = (getRuntimeParams ps)[i := (key, v)]"
  using assms unfolding runtime_write_def
  apply (elim disjE exE conjE)
  subgoal by (rule exI [of _ 2]) (simp add: apply_cooldown_def setter_defs getRuntimeParams_def Let_def)
  subgoal by (rule exI [of _ 1]) (simp add: setter_defs getRuntimeParams_def Let_def)
  subgoal by (rule exI [of _ 3]) (simp add: apply_backoff_cap_def setter_defs getRuntimeParams_def Let_def)
  subgoal by (rule exI [of _ 4]) (simp add: apply_multiplier_def setter_defs getRuntimeParams_def Let_def)
  subgoal by (rule exI [of _ 5]) (simp add: setter_defs getRuntimeParams_def Let_def)
  subgoal by (rule exI [of _ 6]) (simp add: setter_defs getRuntimeParams_def Let_def)
  subgoal by (rule exI [of _ 0]) (simp add: setter_defs getRuntimeParams_def Let_def)
  subgoal by (rule exI [of _ 7]) (simp add: setter_defs getRuntimeParams_def Let_def)
  subgoal by (rule exI [of _ 8]) (simp add: setter_defs getRuntimeParams_def Let_def)
  subgoal by (rule exI [of _ 9]) (simp add: setter_defs getRuntimeParams_def Let_def)
  done

lemma set_then_get:
  assumes "ApplyRuntime key s ps = Some (Inr (v, ps'))"
  shows "map_of (getRuntimeParams ps') = (map_of (getRuntimeParams ps))(key \<mapsto> v)"
proof -
  obtain i where "i < 10" "fst (getRuntimeParams ps ! i) = key"
    "getRuntimeParams ps' = (getRuntimeParams ps)[i := (key, v)]"
    using params_after_write [OF ApplyRuntime_write [OF assms]] by blast
  moreover have "length (getRuntimeParams ps) = 10" by (simp add: getRuntimeParams_def Let_def)
  ultimately show ?thesis using map_of_list_update [OF params_distinct] by simp
qed

section \<open>A cooldown that reaches the cap\<close>

lemma math_Pow_zero [simp]: "math_Pow f 0 = Fin 1"
  by (cases f) simp_all

lemma raw_cooldown_first: "k_attempt k = 0 \<Longrightarrow> in_int64 (k_base k) \<Longrightarrow> raw_cooldown k = k_base k"
  by (simp add: raw_cooldown_def trunc_rat_def in_int64_def [of 1] range_simps)

lemma seconds_in_int64 [simp]: "in_int64 (seconds n)"
  by (simp add: seconds_def)

text \<open>
  Nothing compares the two settings: with a cooldown of at least the cap the first rate-limit
  failure of a fresh key disables it for good.
\<close>

lemma cooldown_reaches_cap:
  assumes "in_sync ps" and "pool_wf (ps_pool ps)" and "i < length (p_keys (ps_pool ps))"
    and "k_state (p_cbs (ps_pool ps) ! i) = Closed"
    and "seconds (c_BackoffCapSec (ps_pc ps)) \<le> seconds (c_CooldownSec (ps_pc ps))"
  shows "IsDisabled (int i) (snd (P_RecordFailure now draw (int i) (ps_pool ps)))"
proof -
  let ?k = "p_cbs (ps_pool ps) ! i"
  have "k_base ?k = seconds (c_CooldownSec (ps_pc ps)) \<and> k_backoffCap ?k = seconds (c_BackoffCapSec (ps_pc ps))"
    using assms(1-3) by (simp add: in_sync_def list_all_length pool_wf_lengths)
  moreover have "k_attempt ?k = 0"
    using pool_wf_breaker [OF assms(2,3)] assms(4) by (simp add: key_inv_def)
  ultimately have "k_backoffCap ?k \<le> raw_cooldown ?k"
    using raw_cooldown_first [of ?k] assms(5) by simp
  then have "k_state (snd (RecordFailure now draw ?k)) = Permanent"
    using RecordFailure_trips [of ?k now draw] assms(4) by simp
  with assms(2,3) show ?thesis
    by (simp add: IsDisabled_def P_RecordFailure_def CB_def update_cb_def pool_wf_lengths)
qed

section \<open>Persisted keys come back\<close>

lemma pool_entries_keys:
  assumes "pool_wf p"
  shows "keysFromStore (pool_entries p) = (p_keys p, p_names p)"
    and "map e_Disabled (pool_entries p) = map (\<lambda>cb. k_state cb = Permanent) (p_cbs p)"
proof -
  have live: "filter (\<lambda>e. \<not> e_Deleted e) (pool_entries p) = pool_entries p"
    by (auto simp: pool_entries_def filter_id_conv)
  have "map e_Name (pool_entries p) = map ((!) (p_names p)) [0..<length (p_names p)]"
    using assms by (auto simp: pool_entries_def Keys_def Name_def validateIndex_wf in_range_def pool_wf_lengths)
  moreover have "map e_Key (pool_entries p) = map ((!) (p_keys p)) [0..<length (p_keys p)]"
    by (simp add: pool_entries_def Keys_def comp_def)
  ultimately show "keysFromStore (pool_entries p) = (p_keys p, p_names p)"
    unfolding keysFromStore_def Let_def live by (simp only: map_nth)
  show "map e_Disabled (pool_entries p) = map (\<lambda>cb. k_state cb = Permanent) (p_cbs p)"
    using assms by (intro nth_equalityI)
      (simp_all add: pool_entries_def Keys_def IsDisabled_def pool_wf_lengths)
qed

text \<open>The keys and names of the pool are valid UTF-8.\<close>

definition valid_texts :: "KeyPool \<Rightarrow> bool" where
  "valid_texts p \<longleftrightarrow>
     list_all (\<lambda>t. clean_text t = t) (p_keys p) \<and> list_all (\<lambda>t. clean_text t = t) (p_names p)"

lemma valid_pool_entries: "pool_wf p \<Longrightarrow> valid_texts p \<Longrightarrow> map clean_entry (pool_entries p) = pool_entries p"
  by (rule clean_valid)
     (auto simp: valid_texts_def list_all_length pool_entries_def Keys_def Name_def validateIndex_wf
       in_range_def valid_entry_def pool_wf_lengths split: if_splits)

lemma PersistKeys_reload:
  assumes "codec_ok C" and "length nonce = 12" and "pool_wf (ps_pool ps)" and "valid_texts (ps_pool ps)"
    and "SaveKeys C fresh nonce (ps_name ps) (pool_entries (ps_pool ps)) s = (None, s')"
    and "loadInsecureFile (ps_name ps) (s_world s') = Inr None"
  shows "fst (LoadKeysFromStore C fresh' nonce' (ps_name ps) cfg (PersistKeys C fresh nonce ps s)) =
    Some (p_keys (ps_pool ps), p_names (ps_pool ps))"
  using SaveKeys_LoadKeysFromStore [OF assms(1,2,5,6), of fresh' nonce' cfg] assms(5)
  by (simp add: PersistKeys_def pool_entries_keys [OF assms(3)] valid_pool_entries [OF assms(3,4)])

text \<open>Only the names of the disabled keys are remembered.\<close>

lemma pool_entries_disabled:
  assumes "pool_wf p"
  shows "set (map e_Name (filter e_Disabled (pool_entries p))) =
    {p_names p ! j | j. j < length (p_keys p) \<and> IsDisabled (int j) p}"
  using assms
  by (auto simp: pool_entries_def filter_map comp_def Keys_def Name_def validateIndex_wf in_range_def)

end
