(* ===== verification/Rectifier.thy ===== *)
theory Rectifier
  imports JsonPrint FieldDescriptors "HOL-Library.AList"
begin

text \<open>
  Writing JSON as Go's \<open>json.Marshal\<close> does for maps, slices, strings and float64 numbers, and the
  rewriting of request bodies with it (internal/server/rectifier.go, \<open>ThinkingRectifier\<close>).
\<close>

section \<open>Numbers\<close>

text \<open>
  The shortest decimal that reads back as the same float64, the closest one if there are several.
  \<open>dec_exp x\<close> is the position of the decimal point: \<open>x\<close> is below \<open>10 ^ dec_exp x\<close>.
\<close>

definition pow10 :: "int \<Rightarrow> rat" where
  "pow10 k = (if 0 \<le> k then 10 ^ nat k else 1 / 10 ^ nat (- k))"

definition dec_exp :: "rat \<Rightarrow> int" where
  "dec_exp x =
     (case find (\<lambda>i. x < pow10 (int i - 330)) [0..<650] of Some i \<Rightarrow> int i - 330 | None \<Rightarrow> 320)"

definition decimal_with :: "rat \<Rightarrow> nat \<Rightarrow> int option" where
  "decimal_with x n =
     (let e = dec_exp x; s = x * pow10 (int n - e); lo = \<lfloor>s\<rfloor>;
          ok = (\<lambda>c. to_float (of_int c * pow10 (e - int n)) = Fin x)
      in if ok lo \<and> ok (lo + 1) then Some (round_half_even s)
         else if ok lo then Some lo else if ok (lo + 1) then Some (lo + 1) else None)"

text \<open>The significant digits and the position of the decimal point.\<close>

definition shortest :: "rat \<Rightarrow> string \<times> int" where
  "shortest x =
     (case find (\<lambda>n. decimal_with x n \<noteq> None) [1..<18] of
        None \<Rightarrow> ('''', 0)
      | Some n \<Rightarrow>
          (let ds = Itoa (the (decimal_with x n))
           in (TrimRight (\<lambda>c. c = CHR ''0'') ds, dec_exp x + int (length ds) - int n)))"

definition layout_fixed :: "string \<Rightarrow> int \<Rightarrow> string" where
  "layout_fixed ds dp =
     (if dp \<le> 0 then ''0.'' @ replicate (nat (- dp)) (CHR ''0'') @ ds
      else if int (length ds) \<le> dp then ds @ replicate (nat dp - length ds) (CHR ''0'')
      else take (nat dp) ds @ ''.'' @ drop (nat dp) ds)"

definition layout_exp :: "string \<Rightarrow> int \<Rightarrow> string" where
  "layout_exp ds dp =
     take 1 ds @ (if length ds = 1 then '''' else ''.'' @ drop 1 ds) @ ''e'' @
     (if dp - 1 < 0 then Itoa (dp - 1) else ''+'' @ Itoa (dp - 1))"

text \<open>A number literal as it is after a round through float64; \<open>None\<close> is out of range.\<close>

definition number_text :: "string \<Rightarrow> string option" where
  "number_text lit =
     (case ParseFloat lit of
        Some (Fin x) \<Rightarrow>
          (let sign = (if HasPrefix lit ''-'' then ''-'' else ''''); (ds, dp) = shortest \<bar>x\<bar>
           in Some (if x = 0 then sign @ ''0''
                    else if \<bar>x\<bar> < pow10 (- 6) \<or> pow10 21 \<le> \<bar>x\<bar> then sign @ layout_exp ds dp
                    else sign @ layout_fixed ds dp))
      | _ \<Rightarrow> None)"

section \<open>Decoded values\<close>

text \<open>
  A decoded object is a map: the last member of a name wins, and the names come out sorted.
\<close>

definition as_map :: "(string \<times> 'a) list \<Rightarrow> (string \<times> 'a) list" where
  "as_map ms = sort_key fst (AList.clearjunk (rev ms))"

text \<open>\<open>json.Unmarshal\<close> into an \<open>interface{}\<close>: numbers out of range make it fail.\<close>

fun to_interface :: "json \<Rightarrow> json option" where
  "to_interface (JNum lit) = map_option JNum (number_text lit)"
| "to_interface (JArr js) = map_option JArr (those (map to_interface js))"
| "to_interface (JObj ms) =
     map_option (\<lambda>vs. JObj (as_map (zip (map fst ms) vs))) (those (map (\<lambda>kv. to_interface (snd kv)) ms))"
| "to_interface j = Some j"

section \<open>The rectifier\<close>

record ThinkingRectifier =
  tr_enabled :: bool
  tr_mapTo :: string

definition NewThinkingRectifier :: "bool \<Rightarrow> string \<Rightarrow> ThinkingRectifier" where
  "NewThinkingRectifier enabled mapTo = \<lparr>tr_enabled = enabled, tr_mapTo = mapTo\<rparr>"

text \<open>
  A body that is no JSON object is passed on as it is (\<open>null\<close> decodes into a nil map), and so is one
  whose \<open>thinking\<close> is no object or has another type than \<open>adaptive\<close>.
\<close>

definition Process :: "ThinkingRectifier \<Rightarrow> bytes \<Rightarrow> bytes \<times> bool" where
  "Process r body =
     (if \<not> tr_enabled r \<or> tr_mapTo r = '''' \<or> tr_mapTo r = ''disabled'' then (body, False)
      else (case Option.bind (json_parse body) to_interface of
              Some (JObj data) \<Rightarrow>
                (case map_of data ''thinking'' of
                   Some (JObj thinking) \<Rightarrow>
                     (case map_of thinking ''type'' of
                        Some (JStr ty) \<Rightarrow>
                          (if ty \<noteq> ''adaptive'' then (body, False)
                           else (json_print (JObj (AList.update ''thinking''
                                   (JObj (AList.update ''type'' (JStr (tr_mapTo r)) thinking)) data)), True))
                      | _ \<Rightarrow> (body, False))
                 | _ \<Rightarrow> (body, False))
            | _ \<Rightarrow> (body, False)))"

lemma Process_untouched: "\<not> snd (Process r body) \<Longrightarrow> fst (Process r body) = body"
  by (auto simp: Process_def split: if_splits option.splits json.splits)

lemma Process_disabled: "\<not> tr_enabled r \<or> tr_mapTo r = '''' \<or> tr_mapTo r = ''disabled'' \<Longrightarrow> Process r body = (body, False)"
  by (simp add: Process_def)

end
