(* ===== verification/Logging.thy ===== *)
theory Logging
  imports Rectifier
begin

text \<open>
  Log output (internal/server/colorhandler.go, logmanager.go, multihandler.go): the text of a record
  in the two formats of the terminal handler, the choice of handlers, and the log manager with its
  level and its file. Writing to the terminal and to the rotated file (lumberjack) is outside; the
  formatted time stamps of a record and the source position of its caller are part of the record.
\<close>

section \<open>Values in log lines\<close>

text \<open>\<open>%v\<close> of a float64: shortest digits, with an exponent below 1e-4 and from 1e21 on.\<close>

definition two_digits :: "nat \<Rightarrow> string" where
  "two_digits n = (if n < 10 then ''0'' @ nat_digits n else nat_digits n)"

definition layout_e :: "string \<Rightarrow> int \<Rightarrow> string" where
  "layout_e ds dp =
     take 1 ds @ (if length ds = 1 then '''' else ''.'' @ drop 1 ds) @ ''e'' @
     (if dp - 1 < 0 then ''-'' else ''+'') @ two_digits (nat \<bar>dp - 1\<bar>)"

fun format_float_v :: "float64 \<Rightarrow> string" where
  "format_float_v NaN = ''NaN''"
| "format_float_v PosInf = ''+Inf''"
| "format_float_v NegInf = ''-Inf''"
| "format_float_v (Fin x) =
     (if x = 0 then ''0''
      else (let (ds, dp) = shortest \<bar>x\<bar>
            in (if x < 0 then ''-'' else '''') @
               (if dp - 1 < - 4 \<or> 21 \<le> dp - 1 then layout_e ds dp else layout_fixed ds dp)))"

text \<open>
  The dynamic types that \<open>attrInt64\<close> tells apart (\<open>slog\<close> turns every signed integer into an
  int64); any other value is its \<open>%v\<close> text.
\<close>

datatype attr_value = AInt int | AFloat float64 | AText string

fun attr_text :: "attr_value \<Rightarrow> string" where
  "attr_text (AInt i) = Itoa i"
| "attr_text (AFloat f) = format_float_v f"
| "attr_text (AText s) = s"

fun attrInt64 :: "attr_value \<Rightarrow> int" where
  "attrInt64 (AInt i) = i"
| "attrInt64 (AFloat f) = float_to_int64 f"
| "attrInt64 (AText s) = 0"

section \<open>The compact format\<close>

definition esc :: "string \<Rightarrow> string" where
  "esc code = CHR 0x1B # ''['' @ code @ ''m''"

definition colorReset :: string where "colorReset = esc ''0''"
definition colorRed :: string where "colorRed = esc ''31''"
definition colorGreen :: string where "colorGreen = esc ''32''"
definition colorYellow :: string where "colorYellow = esc ''33''"
definition colorGray :: string where "colorGray = esc ''90''"
definition colorCyan :: string where "colorCyan = esc ''36''"
definition colorWhite :: string where "colorWhite = esc ''97''"

definition methodColor :: "string \<Rightarrow> string" where
  "methodColor method =
     (if method = ''GET'' then colorGreen else if method = ''POST'' then colorCyan
      else if method = ''PUT'' then colorYellow else if method = ''DELETE'' then colorRed
      else colorWhite)"

definition keyNameWidth :: nat where
  "keyNameWidth = 12"

definition truncateKeyName :: "string \<Rightarrow> string" where
  "truncateKeyName name =
     (let rs = runes name
      in if length rs \<le> keyNameWidth
         then (let totalPad = keyNameWidth - length rs; leftPad = totalPad div 2; rightPad = totalPad - leftPad
               in replicate leftPad (CHR '' '') @ name @ replicate rightPad (CHR '' ''))
         else concat (take 5 rs) @ ''...'' @ concat (drop (length rs - 4) rs))"

definition durationColor :: "int \<Rightarrow> string" where
  "durationColor ms = (if 10000 \<le> ms then colorRed else if 3000 \<le> ms then colorYellow else colorGray)"

definition ttfbColor :: "int \<Rightarrow> string" where
  "ttfbColor ms = (if 3000 \<le> ms then colorRed else if 1000 \<le> ms then colorYellow else colorGray)"

definition compactURL :: "string \<Rightarrow> string" where
  "compactURL rawURL =
     (case Index rawURL ''://'' of
        None \<Rightarrow> rawURL
      | Some idx \<Rightarrow> (case Index (drop (idx + 3) rawURL) ''/'' of
                       None \<Rightarrow> rawURL | Some pathIdx \<Rightarrow> drop (idx + 3 + pathIdx) rawURL))"

definition formatSizeCompact :: "int \<Rightarrow> string" where
  "formatSizeCompact n =
     (if 2 ^ 30 \<le> n then FormatFloat1 (float_div_ints n (2 ^ 30)) @ ''GB''
      else if 2 ^ 20 \<le> n then FormatFloat1 (float_div_ints n (2 ^ 20)) @ ''MB''
      else if 2 ^ 10 \<le> n then Itoa (n div 2 ^ 10) @ ''KB''
      else ''0KB'')"

definition formatDurationCompact :: "int \<Rightarrow> string" where
  "formatDurationCompact ms =
     (if 1000 \<le> ms then FormatFloat1 (float_div_ints ms 1000) @ ''s'' else Itoa ms @ ''ms'')"

section \<open>Records and handlers\<close>

record log_record =
  lr_clock :: string
  lr_millis :: string
  lr_level :: int
  lr_message :: string
  lr_attrs :: "(string \<times> attr_value) list"
  lr_source :: "(string \<times> int) option"

record ColorHandler =
  ch_addSource :: bool
  ch_compact :: bool
  ch_singleProvider :: bool

definition LevelDebug :: int where "LevelDebug = - 4"
definition LevelInfo :: int where "LevelInfo = 0"
definition LevelWarn :: int where "LevelWarn = 4"
definition LevelError :: int where "LevelError = 8"

lemmas level_defs = LevelDebug_def LevelInfo_def LevelWarn_def LevelError_def

definition level_label :: "int \<Rightarrow> string \<times> string" where
  "level_label lvl =
     (if LevelError \<le> lvl then (colorRed, ''ERRO'') else if LevelWarn \<le> lvl then (colorYellow, ''WARN'')
      else if LevelInfo \<le> lvl then (colorGreen, ''INFO'') else (colorGray, ''DEBU''))"

definition attrs_text :: "(string \<times> attr_value) list \<Rightarrow> string" where
  "attrs_text attrs =
     concat (map (\<lambda>(i, k, v). (if 0 < i then '' '' else '''') @
         colorGray @ k @ colorReset @ ''='' @ colorWhite @ attr_text v @ colorReset)
       (List.enumerate (0 :: nat) attrs))"

definition source_text :: "ColorHandler \<Rightarrow> log_record \<Rightarrow> string" where
  "source_text h r =
     (case lr_source r of
        Some (f, line) \<Rightarrow>
          (if ch_addSource h \<and> f \<noteq> ''''
           then (let short = (case LastIndexByte f (CHR ''/'') of Some i \<Rightarrow> drop (i + 1) f | None \<Rightarrow> f)
                 in colorGray @ '' '' @ short @ '':'' @ Itoa line @ colorReset)
           else '''')
      | None \<Rightarrow> '''')"

definition handleNonCompact :: "ColorHandler \<Rightarrow> log_record \<Rightarrow> string" where
  "handleNonCompact h r =
     (let (levelColor, levelLabel) = level_label (lr_level r);
          source = source_text h r; attrsStr = attrs_text (lr_attrs r);
          suffix = (if source \<noteq> '''' \<and> attrsStr \<noteq> '''' then source @ '' '' @ attrsStr
                    else if source \<noteq> '''' then source else attrsStr)
      in colorGray @ lr_millis r @ colorReset @ '' '' @ levelColor @ levelLabel @ colorReset @ '' '' @
         lr_message r @ (if suffix \<noteq> '''' then '' '' @ suffix else '''') @ [CHR 0x0A])"

text \<open>The callbacks keep the last attribute of a name.\<close>

definition attr_named :: "string \<Rightarrow> log_record \<Rightarrow> attr_value option" where
  "attr_named k r = map_of (rev (lr_attrs r)) k"

definition attr_str :: "string \<Rightarrow> log_record \<Rightarrow> string" where
  "attr_str k r = (case attr_named k r of None \<Rightarrow> '''' | Some v \<Rightarrow> attr_text v)"

definition attr_int :: "string \<Rightarrow> log_record \<Rightarrow> int" where
  "attr_int k r = (case attr_named k r of None \<Rightarrow> 0 | Some v \<Rightarrow> attrInt64 v)"

definition bracketTS :: "log_record \<Rightarrow> string" where
  "bracketTS r = colorGray @ ''['' @ lr_clock r @ '']'' @ colorReset"

definition arrow :: string where "arrow = [CHR 0xE2, CHR 0x86, CHR 0x92]"
definition cross :: string where "cross = [CHR 0xE2, CHR 0x9C, CHR 0x97]"

definition request_line :: "log_record \<Rightarrow> string" where
  "request_line r =
     (let method = attr_str ''method'' r
      in bracketTS r @ '' '' @ colorGray @ arrow @ '' '' @ methodColor method @ method @ colorReset @ '' '' @
         compactURL (attr_str ''url'' r) @ '' ('' @ formatSizeCompact (attr_int ''body_size'' r) @ '')'' @
         colorReset @ [CHR 0x0A])"

definition success_line :: "ColorHandler \<Rightarrow> log_record \<Rightarrow> string" where
  "success_line h r =
     (let retry = attr_int ''retry'' r; durationMs = attr_int ''duration_ms'' r;
          ttfbMs = attr_int ''ttfb_ms'' r; respBodySize = attr_int ''response_body_size'' r;
          inputTokens = attr_int ''input_tokens'' r; outputTokens = attr_int ''output_tokens'' r;
          reqSizeStr = formatSizeCompact (attr_int ''request_body_size'' r)
      in bracketTS r @ '' '' @ colorGreen @ Itoa (attr_int ''status'' r) @ colorReset @ '' '' @
         (if ch_singleProvider h then '''' else colorGray @ attr_str ''provider'' r @ colorReset @ '' '') @
         ''('' @ truncateKeyName (attr_str ''key_name'' r) @ '')'' @
         (if 0 < retry then '' retry '' @ Itoa retry else '''') @
         '' ttfb='' @ ttfbColor ttfbMs @ formatDurationCompact ttfbMs @ colorReset @
         '' total='' @ durationColor durationMs @ formatDurationCompact durationMs @ colorReset @
         (if 0 < respBodySize
          then '' '' @ colorGray @ reqSizeStr @ arrow @ formatSizeCompact respBodySize @ colorReset
          else '' '' @ colorGray @ reqSizeStr @ colorReset) @
         (if 0 < inputTokens \<or> 0 < outputTokens
          then '' '' @ colorGray @ ''tok='' @ Itoa inputTokens @ ''+'' @ Itoa outputTokens @ colorReset
          else '''') @ [CHR 0x0A])"

definition rejected_line :: "log_record \<Rightarrow> string" where
  "rejected_line r =
     bracketTS r @ '' '' @ colorRed @ cross @ '' '' @ Itoa (attr_int ''status'' r) @ '' ('' @
     truncateKeyName (attr_str ''key_name'' r) @ '')'' @ colorReset @ [CHR 0x0A]"

definition handleCompact :: "ColorHandler \<Rightarrow> log_record \<Rightarrow> string" where
  "handleCompact h r =
     (if lr_message r = ''proxy request'' then request_line r
      else if lr_message r = ''proxy success'' then success_line h r
      else if lr_message r = ''non-retryable client error'' then rejected_line r
      else handleNonCompact h r)"

definition Handle :: "ColorHandler \<Rightarrow> log_record \<Rightarrow> string" where
  "Handle h r = (if ch_compact h then handleCompact h r else handleNonCompact h r)"

text \<open>The handler with attributes or in a group: the attributes go into the unused inner handler.\<close>

definition WithAttrs :: "(string \<times> attr_value) list \<Rightarrow> ColorHandler \<Rightarrow> ColorHandler" where
  "WithAttrs attrs h =
     \<lparr>ch_addSource = ch_addSource h, ch_compact = ch_compact h, ch_singleProvider = False\<rparr>"

definition WithGroup :: "string \<Rightarrow> ColorHandler \<Rightarrow> ColorHandler" where
  "WithGroup name h =
     \<lparr>ch_addSource = ch_addSource h, ch_compact = ch_compact h, ch_singleProvider = False\<rparr>"

section \<open>The log manager\<close>

text \<open>
  The level is shared by every handler that the manager has built (a \<open>slog.LevelVar\<close>), so a handler
  is its kind only. \<open>newHandler\<close> reads the environment and the terminal: two arguments.
\<close>

datatype stderr_handler = TextHandler | Colored ColorHandler

definition newHandler :: "bool \<Rightarrow> bool \<Rightarrow> int \<Rightarrow> bool \<Rightarrow> bool \<Rightarrow> stderr_handler" where
  "newHandler noColor terminal lvl isCompact singleProvider =
     (if noColor then TextHandler
      else if terminal
      then Colored \<lparr>ch_addSource = (lvl \<le> LevelDebug), ch_compact = isCompact, ch_singleProvider = singleProvider\<rparr>
      else TextHandler)"

text \<open>The file of a \<open>lumberjack.Logger\<close> with its size and age limits.\<close>

record file_writer =
  fw_Filename :: string
  fw_MaxSize :: int
  fw_MaxAge :: int

record multiHandler =
  mh_stderr :: stderr_handler
  mh_file :: "file_writer option"

record LogManager =
  lm_level :: int
  lm_compact :: bool
  lm_singleProvider :: bool
  lm_fileWriter :: "file_writer option"
  lm_default :: "multiHandler option"

text \<open>The field \<open>lm_default\<close> is what \<open>slog.SetDefault\<close> was last given.\<close>

definition NewLogManager :: LogManager where
  "NewLogManager =
     \<lparr>lm_level = 0, lm_compact = False, lm_singleProvider = False, lm_fileWriter = None, lm_default = None\<rparr>"

definition SetFormat :: "bool \<Rightarrow> bool \<Rightarrow> LogManager \<Rightarrow> LogManager" where
  "SetFormat isCompact singleProvider lm = lm\<lparr>lm_compact := isCompact, lm_singleProvider := singleProvider\<rparr>"

definition level_of :: "string \<Rightarrow> int" where
  "level_of level =
     (let l = ToLower level
      in if l = ''debug'' then LevelDebug else if l = ''info'' then LevelInfo
         else if l = ''warn'' then LevelWarn else if l = ''error'' then LevelError else LevelInfo)"

definition BuildHandler :: "bool \<Rightarrow> bool \<Rightarrow> string \<Rightarrow> LogManager \<Rightarrow> multiHandler \<times> LogManager" where
  "BuildHandler noColor terminal level lm =
     (let lvl = level_of level
      in (\<lparr>mh_stderr = newHandler noColor terminal lvl (lm_compact lm) (lm_singleProvider lm),
           mh_file = lm_fileWriter lm\<rparr>, lm\<lparr>lm_level := lvl\<rparr>))"

definition ApplyLevel :: "bool \<Rightarrow> bool \<Rightarrow> string \<Rightarrow> LogManager \<Rightarrow> LogManager" where
  "ApplyLevel noColor terminal level lm =
     (let (h, lm) = BuildHandler noColor terminal level lm in lm\<lparr>lm_default := Some h\<rparr>)"

definition CloseFileHandler :: "LogManager \<Rightarrow> LogManager" where
  "CloseFileHandler lm = lm\<lparr>lm_fileWriter := None\<rparr>"

definition InitFileHandler :: "string \<Rightarrow> int \<Rightarrow> int \<Rightarrow> LogManager \<Rightarrow> LogManager" where
  "InitFileHandler logFile maxSizeMB maxAgeDays lm =
     (if logFile = '''' then lm
      else (CloseFileHandler lm)\<lparr>lm_fileWriter :=
              Some \<lparr>fw_Filename = logFile, fw_MaxSize = maxSizeMB, fw_MaxAge = maxAgeDays\<rparr>\<rparr>)"

definition CurrentLevel :: "LogManager \<Rightarrow> string" where
  "CurrentLevel lm =
     (if lm_level lm = LevelDebug then ''debug'' else if lm_level lm = LevelInfo then ''info''
      else if lm_level lm = LevelWarn then ''warn'' else if lm_level lm = LevelError then ''error''
      else ''info'')"

definition LogFilePath :: "LogManager \<Rightarrow> string" where
  "LogFilePath lm = (case lm_fileWriter lm of Some w \<Rightarrow> fw_Filename w | None \<Rightarrow> '''')"

text \<open>Both handlers of a \<open>multiHandler\<close> look at the same level.\<close>

definition Enabled :: "LogManager \<Rightarrow> int \<Rightarrow> bool" where
  "Enabled lm lvl \<longleftrightarrow> lm_level lm \<le> lvl"

text \<open>A record goes to the terminal and, as JSON, to the file; \<open>other\<close> is the library's own text.\<close>

definition multi_Handle ::
    "(log_record \<Rightarrow> string) \<Rightarrow> (log_record \<Rightarrow> string) \<Rightarrow> multiHandler \<Rightarrow> log_record \<Rightarrow> string \<times> string option" where
  "multi_Handle plain toJSON h r =
     ((case mh_stderr h of TextHandler \<Rightarrow> plain r | Colored c \<Rightarrow> Handle c r),
      map_option (\<lambda>w. toJSON r) (mh_file h))"

lemma CurrentLevel_ApplyLevel:
  "CurrentLevel (ApplyLevel nc tm level lm) =
     (if ToLower level \<in> set [''debug'', ''info'', ''warn'', ''error''] then ToLower level else ''info'')"
  by (simp add: CurrentLevel_def ApplyLevel_def BuildHandler_def level_of_def level_defs Let_def)

lemma ApplyLevel_keeps [simp]:
  "LogFilePath (ApplyLevel nc tm level lm) = LogFilePath lm"
  "lm_fileWriter (ApplyLevel nc tm level lm) = lm_fileWriter lm"
  by (simp_all add: LogFilePath_def ApplyLevel_def BuildHandler_def Let_def)

end
