(* ===== verification/Providers.thy ===== *)
theory Providers
  imports ProviderState Logging
begin

text \<open>
  The providers of a running server (internal/server/provider_manager.go, admin.go): registering,
  looking up and reloading them. The map of providers is a list of pairs with distinct names, in
  the order the runtime happens to iterate it. The state of the server is the providers, the log
  manager, the outside world with the key stores and the configuration file, and the name of the
  default provider that loading a configuration writes.
\<close>

section \<open>State\<close>

record ProviderManager =
  pm_providers :: "(string \<times> ProviderState) list"
  pm_startTime :: time
  pm_dashboardHTML :: string

record server =
  sv_pm :: ProviderManager
  sv_lm :: LogManager
  sv_store :: store_state
  sv_defaultName :: string

text \<open>
  What the operations take from outside: the codecs, fresh random bytes (for the master key, for a
  nonce per provider, for the counter of a new pool), the environment's NO_COLOR and whether
  standard error is a terminal.
\<close>

record senv =
  en_codec :: codec
  en_fresh :: bytes
  en_nonce :: "string \<Rightarrow> bytes"
  en_counter :: "string \<Rightarrow> uint64"
  en_noColor :: bool
  en_terminal :: bool
  en_tomlDecode :: "bytes \<Rightarrow> TomlConfig option"
  en_tomlEncode :: "TomlConfig \<Rightarrow> bytes option"

abbreviation sv_providers :: "server \<Rightarrow> (string \<times> ProviderState) list" where
  "sv_providers s \<equiv> pm_providers (sv_pm s)"

abbreviation apply_level :: "senv \<Rightarrow> string \<Rightarrow> LogManager \<Rightarrow> LogManager" where
  "apply_level E \<equiv> ApplyLevel (en_noColor E) (en_terminal E)"

section \<open>Registering and looking up\<close>

definition NewProviderManager :: "time \<Rightarrow> string \<Rightarrow> ProviderManager" where
  "NewProviderManager now dash = \<lparr>pm_providers = [], pm_startTime = now, pm_dashboardHTML = dash\<rparr>"

definition put_provider :: "string \<Rightarrow> ProviderState \<Rightarrow> ProviderManager \<Rightarrow> ProviderManager" where
  "put_provider name ps pm = pm\<lparr>pm_providers := AList.update name ps (pm_providers pm)\<rparr>"

definition AddProvider :: "string \<Rightarrow> Config \<Rightarrow> KeyPool \<Rightarrow> ProviderManager \<Rightarrow> ProviderManager" where
  "AddProvider name cfg pool pm =
     put_provider name
       (NewProviderState name cfg pool (pm_dashboardHTML pm) (c_KeysFile (cf_Provider cfg))) pm"

definition LookupProvider :: "string \<Rightarrow> ProviderManager \<Rightarrow> ProviderState option" where
  "LookupProvider name pm = map_of (pm_providers pm) name"

definition ProviderNames :: "ProviderManager \<Rightarrow> string list" where
  "ProviderNames pm = sort (map fst (pm_providers pm))"

definition first_name :: "string list \<Rightarrow> string" where
  "first_name names = fold (\<lambda>name first. if first = '''' \<or> name < first then name else first) names ''''"

definition FirstProvider :: "ProviderManager \<Rightarrow> ProviderState option" where
  "FirstProvider pm =
     (let first = first_name (map fst (pm_providers pm))
      in if first = '''' then None else LookupProvider first pm)"

text \<open>\<open>ForEach\<close> with a callback that changes its provider.\<close>

definition ForEach :: "(string \<Rightarrow> ProviderState \<Rightarrow> ProviderState) \<Rightarrow> ProviderManager \<Rightarrow> ProviderManager" where
  "ForEach f pm = pm\<lparr>pm_providers := map (\<lambda>(name, ps). (name, f name ps)) (pm_providers pm)\<rparr>"

section \<open>Reloading\<close>

definition loadKeysFromConfig ::
    "senv \<Rightarrow> string \<Rightarrow> Config \<Rightarrow> store_state \<Rightarrow> (string list \<times> string list) \<times> store_state" where
  "loadKeysFromConfig E name cfg s =
     (case LoadKeysFromStore (en_codec E) (en_fresh E) (en_nonce E name) name (cf_Provider cfg) s of
        (None, s) \<Rightarrow> (([], []), s)
      | (Some kn, s) \<Rightarrow> (kn, s))"

definition set_keys :: "string list \<Rightarrow> string list \<Rightarrow> Config \<Rightarrow> Config" where
  "set_keys keys names cfg =
     cfg\<lparr>cf_Provider := (cf_Provider cfg)\<lparr>c_Keys := keys, c_KeyNames := names\<rparr>\<rparr>"

text \<open>Every key whose name is one of the disabled names is disabled.\<close>

definition disable_named :: "string \<Rightarrow> KeyPool \<Rightarrow> KeyPool" where
  "disable_named dn p =
     fold (\<lambda>i p. let n = (case Name (int i) p of Inr n \<Rightarrow> n | Inl e \<Rightarrow> '''')
                 in if n = dn then snd (Disable (int i) p) else p) [0..<length (p_keys p)] p"

definition restore_disabled :: "string list \<Rightarrow> KeyPool \<Rightarrow> KeyPool" where
  "restore_disabled dns p = fold disable_named dns p"

text \<open>
  One entry of the configuration. A known provider gets the configuration and a new pool; its
  upstream breaker, its HTTP client and its keys file stay as they are.
\<close>

definition refreshed :: "senv \<Rightarrow> Config \<Rightarrow> ProviderState \<Rightarrow> ProviderState" where
  "refreshed E cfg ps =
     (let pc = cf_Provider cfg;
          pool = SetSelectionMode (c_KeySelection pc)
                   (NewKeyPool (en_counter E (ps_name ps)) (c_Keys pc) (c_KeyNames pc))
      in ConfigurePoolCBs (seconds (c_CooldownSec pc)) (seconds (c_BackoffCapSec pc)) (c_BackoffMultiplier pc)
           (ps\<lparr>ps_config := cfg, ps_pool := pool\<rparr>))"

definition reload_one :: "senv \<Rightarrow> string \<times> Config \<Rightarrow> server \<Rightarrow> server" where
  "reload_one E nc s =
     (let name = fst nc; cfg = snd nc;
          ((keys, names), st) = loadKeysFromConfig E name cfg (sv_store s);
          cfg = (if keys \<noteq> [] then set_keys keys names cfg else cfg)
      in case LookupProvider name (sv_pm s) of
           Some existing \<Rightarrow>
             (let ps = refreshed E cfg existing;
                  (dns, st) = LoadDisabledNames (en_codec E) (en_fresh E) name (cf_Provider cfg) st;
                  ps = ps\<lparr>ps_pool := restore_disabled dns (ps_pool ps)\<rparr>
              in s\<lparr>sv_pm := put_provider name ps (sv_pm s), sv_store := st,
                   sv_lm := apply_level E (c_LogLevel (cf_Provider cfg)) (sv_lm s)\<rparr>)
         | None \<Rightarrow>
             s\<lparr>sv_pm := AddProvider name cfg
                   (NewKeyPool (en_counter E name) (c_Keys (cf_Provider cfg)) (c_KeyNames (cf_Provider cfg)))
                   (sv_pm s),
               sv_store := st,
               sv_lm := apply_level E (c_LogLevel (cf_Provider cfg)) (sv_lm s)\<rparr>)"

definition ReloadConfig :: "senv \<Rightarrow> (string \<times> Config) list \<Rightarrow> server \<Rightarrow> server" where
  "ReloadConfig E providers s = fold (reload_one E) providers s"

section \<open>The configuration file\<close>

definition XDGConfigPath :: "world \<Rightarrow> string option" where
  "XDGConfigPath w = map_option (\<lambda>dir. dir @ ''/config.toml'') (w_configDir w)"

definition read_file :: "world \<Rightarrow> string \<Rightarrow> bytes option" where
  "read_file w path = (case w_files w path of Some (Content d) \<Rightarrow> Some d | _ \<Rightarrow> None)"

datatype save_error = EncodeError | FileError store_error

definition SaveTomlConfig ::
    "(TomlConfig \<Rightarrow> bytes option) \<Rightarrow> TomlConfig \<Rightarrow> string \<Rightarrow> world \<Rightarrow> save_error option \<times> world" where
  "SaveTomlConfig encode tc path w =
     (case encode tc of
        None \<Rightarrow> (Some EncodeError, w)
      | Some data \<Rightarrow> (let (r, w) = write_file path data w in (map_option FileError r, w)))"

section \<open>The first provider\<close>

lemma first_name_fold:
  "x \<noteq> '''' \<Longrightarrow> '''' \<notin> set names \<Longrightarrow>
     fold (\<lambda>name first. if first = '''' \<or> name < first then name else first) names x = Min (insert x (set names))"
proof (induction names arbitrary: x)
  case (Cons n ns)
  have m: "(if x = '''' \<or> n < x then n else x) = min n x" using Cons.prems(1) by auto
  have "min n x \<noteq> ''''" using Cons.prems by (auto simp: min_def)
  then show ?case
    using Cons.IH [of "min n x"] Cons.prems
    by (cases "ns = []") (auto simp: m min.commute min.left_commute insert_commute)
qed simp

lemma first_name_Min: "names \<noteq> [] \<Longrightarrow> '''' \<notin> set names \<Longrightarrow> first_name names = Min (set names)"
  using first_name_fold [of "hd names" "tl names"] by (cases names) (auto simp: first_name_def)

text \<open>Without a nameless provider the first provider is the one that sorting the names gives.\<close>

lemma FirstProvider_sorted:
  assumes "'''' \<notin> set (map fst (pm_providers pm))"
  shows "FirstProvider pm = (case ProviderNames pm of [] \<Rightarrow> None | n # ns \<Rightarrow> LookupProvider n pm)"
proof (cases "pm_providers pm")
  case Nil
  then show ?thesis by (simp add: FirstProvider_def ProviderNames_def first_name_def)
next
  case (Cons a as)
  let ?names = "map fst (pm_providers pm)"
  have ne: "?names \<noteq> []" using Cons by simp
  have "first_name ?names = Min (set ?names)" using first_name_Min [OF ne assms] .
  moreover have "Min (set ?names) \<in> set ?names" using ne by (intro Min_in) simp_all
  ultimately have f: "first_name ?names = Min (set ?names)" "first_name ?names \<noteq> ''''"
    using assms by metis+
  obtain n ns where s: "sort ?names = n # ns" using ne by (metis length_0_conv length_sort list.exhaust)
  have "sorted (n # ns)" using s by (metis sorted_sort)
  then have "n = Min (set (n # ns))" by (intro Min_eqI [symmetric]) auto
  moreover have "set (n # ns) = set ?names" using s by (metis set_sort)
  ultimately show ?thesis using f s by (simp add: FirstProvider_def ProviderNames_def)
qed

section \<open>Restoring the disabled keys\<close>

definition perma_at :: "nat set \<Rightarrow> KeyPool \<Rightarrow> KeyPool" where
  "perma_at S p = p\<lparr>p_cbs := map (\<lambda>i. if i \<in> S then RecordPerma ''manual'' (p_cbs p ! i) else p_cbs p ! i)
                             [0..<length (p_cbs p)]\<rparr>"

lemma perma_at_frame [simp]:
  "p_keys (perma_at S p) = p_keys p" "p_names (perma_at S p) = p_names p"
  "length (p_cbs (perma_at S p)) = length (p_cbs p)"
  "p_selectionMode (perma_at S p) = p_selectionMode p"
  by (simp_all add: perma_at_def)

lemma perma_at_cb: "i < length (p_cbs p) \<Longrightarrow>
    p_cbs (perma_at S p) ! i = (if i \<in> S then RecordPerma ''manual'' (p_cbs p ! i) else p_cbs p ! i)"
  by (simp add: perma_at_def)

lemma perma_at_empty [simp]: "perma_at {} p = p"
  by (simp add: perma_at_def map_nth)

lemma perma_at_wf:
  assumes "pool_wf p"
  shows "pool_wf (perma_at S p)"
proof -
  have "key_inv (RecordPerma ''manual'' (p_cbs p ! i))" if "i < length (p_keys p)" for i
    using key_step_inv [OF pool_wf_breaker [OF assms that], of "EPerma ''manual''"] by simp
  with assms show ?thesis by (simp add: perma_at_def pool_wf_def list_all_length)
qed

lemma perma_twice: "RecordPerma r (RecordPerma q k) = RecordPerma r k"
  by (simp add: RecordPerma_def)

lemma Disable_perma_at:
  assumes "pool_wf p" and "i < length (p_keys p)"
  shows "snd (Disable (int i) (perma_at S p)) = perma_at (insert i S) p"
proof -
  have "i < length (p_cbs p)" using assms by (simp add: pool_wf_lengths)
  then show ?thesis
    using assms validateIndex_wf [OF perma_at_wf [OF assms(1), of S], of "int i"]
    by (auto simp: Disable_def in_range_def update_cb_def perma_at_def perma_twice
        intro!: arg_cong [of _ _ "\<lambda>cbs. p\<lparr>p_cbs := cbs\<rparr>"] nth_equalityI simp: nth_list_update)
qed

lemma disable_named_perma:
  assumes "pool_wf p"
  shows "disable_named dn (perma_at S p) = perma_at (S \<union> {i. i < length (p_keys p) \<and> p_names p ! i = dn}) p"
proof -
  let ?f = "\<lambda>i p. let n = (case Name (int i) p of Inr n \<Rightarrow> n | Inl e \<Rightarrow> '''')
                 in if n = dn then snd (Disable (int i) p) else p"
  have "fold ?f [0..<m] (perma_at S p) = perma_at (S \<union> {i. i < m \<and> p_names p ! i = dn}) p"
    if "m \<le> length (p_keys p)" for m
    using that
  proof (induction m)
    case (Suc m)
    let ?T = "S \<union> {i. i < m \<and> p_names p ! i = dn}"
    have "Name (int m) (perma_at ?T p) = Inr (p_names p ! m)"
      using Suc.prems validateIndex_wf [OF perma_at_wf [OF assms, of ?T], of "int m"]
      by (simp add: Name_def in_range_def)
    moreover have "{i. i < Suc m \<and> p_names p ! i = dn} =
        {i. i < m \<and> p_names p ! i = dn} \<union> (if p_names p ! m = dn then {m} else {})"
      by (auto simp: less_Suc_eq)
    ultimately show ?case
      using Suc Disable_perma_at [OF assms, of m ?T] by (simp add: Let_def insert_def [symmetric])
  qed simp
  then show ?thesis by (simp add: disable_named_def)
qed

lemma restore_disabled_perma:
  assumes "pool_wf p"
  shows "restore_disabled dns p = perma_at {i. i < length (p_keys p) \<and> p_names p ! i \<in> set dns} p"
proof -
  have "fold disable_named dns (perma_at S p) =
      perma_at (S \<union> {i. i < length (p_keys p) \<and> p_names p ! i \<in> set dns}) p" for S
  proof (induction dns arbitrary: S)
    case (Cons dn dns)
    have "S \<union> {i. i < length (p_keys p) \<and> p_names p ! i = dn} \<union> {i. i < length (p_keys p) \<and> p_names p ! i \<in> set dns}
        = S \<union> {i. i < length (p_keys p) \<and> p_names p ! i \<in> set (dn # dns)}" by auto
    with Cons show ?case by (simp add: disable_named_perma [OF assms])
  qed simp
  from this [of "{}"] show ?thesis by (simp add: restore_disabled_def)
qed

lemma restore_disabled_IsDisabled:
  assumes "pool_wf p" and "i < length (p_keys p)"
  shows "IsDisabled (int i) (restore_disabled dns p) \<longleftrightarrow>
    IsDisabled (int i) p \<or> p_names p ! i \<in> set dns"
  using assms
  by (auto simp: restore_disabled_perma IsDisabled_def pool_wf_lengths perma_at_cb RecordPerma_def)

lemma restore_disabled_reason:
  assumes "pool_wf p" and "i < length (p_keys p)" and "\<not> IsDisabled (int i) p"
    and "IsDisabled (int i) (restore_disabled dns p)"
  shows "k_trippedReason (p_cbs (restore_disabled dns p) ! i) = ''manual''"
  using assms
  by (auto simp: restore_disabled_perma IsDisabled_def pool_wf_lengths perma_at_cb RecordPerma_def split: if_splits)

section \<open>What a reload keeps\<close>

lemma NewKeyPool_simps [simp]:
  "p_keys (NewKeyPool r keys names) = keys"
  "length names = length keys \<Longrightarrow> p_names (NewKeyPool r keys names) = names"
  "p_cbs (NewKeyPool r keys names) = replicate (length keys) zeroBreaker"
  by (auto simp: NewKeyPool_def intro: nth_equalityI)

lemma refreshed_pool:
  fixes E :: senv and cfg :: Config and ps :: ProviderState and i :: int
  defines "p \<equiv> ps_pool (refreshed E cfg ps)"
  assumes "length (c_KeyNames (cf_Provider cfg)) = length (c_Keys (cf_Provider cfg))"
  shows "pool_wf p" and "p_keys p = c_Keys (cf_Provider cfg)" and "p_names p = c_KeyNames (cf_Provider cfg)"
    and "\<not> IsDisabled i p"
proof -
  have p: "p = ConfigureCBs (seconds (c_CooldownSec (cf_Provider cfg))) (seconds (c_BackoffCapSec (cf_Provider cfg)))
      (c_BackoffMultiplier (cf_Provider cfg)) (SetSelectionMode (c_KeySelection (cf_Provider cfg))
        (NewKeyPool (en_counter E (ps_name ps)) (c_Keys (cf_Provider cfg)) (c_KeyNames (cf_Provider cfg))))"
    by (simp add: p_def refreshed_def Let_def ConfigurePoolCBs_def)
  show "pool_wf p"
    unfolding p using pool_step_wf [of _ "PConfigure b c m" for b c m] pool_step_wf [of _ "PMode m" for m]
    by (simp add: NewKeyPool_wf)
  show "p_keys p = c_Keys (cf_Provider cfg)" and "p_names p = c_KeyNames (cf_Provider cfg)"
    using assms(2) unfolding p by (simp_all add: ConfigureCBs_def SetSelectionMode_def)
  show "\<not> IsDisabled i p"
    by (auto simp: p ConfigureCBs_def SetSelectionMode_def IsDisabled_def zeroBreaker_def
        NewKeyCircuitBreaker_def nth_replicate [of "nat i"])
qed

text \<open>
  Reloading a provider whose keys load: it gets them, and each key is disabled whose name is one of
  the disabled names, for the reason \<open>manual\<close>.
\<close>

lemma reload_loaded:
  assumes "LookupProvider name (sv_pm s) = Some ps" and "keys \<noteq> []" and "length names = length keys"
    and load: "loadKeysFromConfig E name cfg (sv_store s) = ((keys, names), sv_store s)"
    and dn: "LoadDisabledNames (en_codec E) (en_fresh E) name (cf_Provider (set_keys keys names cfg)) (sv_store s) =
      (dns, sv_store s)"
  obtains ps' where "LookupProvider name (sv_pm (ReloadConfig E [(name, cfg)] s)) = Some ps'"
    and "p_keys (ps_pool ps') = keys" and "p_names (ps_pool ps') = names"
    and "\<And>i. i < length keys \<Longrightarrow> IsDisabled (int i) (ps_pool ps') \<longleftrightarrow> names ! i \<in> set dns"
    and "\<And>i. i < length keys \<Longrightarrow> IsDisabled (int i) (ps_pool ps') \<Longrightarrow>
      k_trippedReason (p_cbs (ps_pool ps') ! i) = ''manual''"
    and "pool_wf (ps_pool ps')"
proof -
  let ?cfg = "set_keys keys names cfg"
  let ?q = "ps_pool (refreshed E ?cfg ps)"
  let ?ps' = "(refreshed E ?cfg ps)\<lparr>ps_pool := restore_disabled dns ?q\<rparr>"
  have len: "length (c_KeyNames (cf_Provider ?cfg)) = length (c_Keys (cf_Provider ?cfg))"
    using assms(3) by (simp add: set_keys_def)
  note q = refreshed_pool [where E = E and ps = ps, OF len]
  have ks: "p_keys ?q = keys" "p_names ?q = names" using q by (simp_all add: set_keys_def)
  show ?thesis
  proof (rule that [of ?ps'])
    show "LookupProvider name (sv_pm (ReloadConfig E [(name, cfg)] s)) = Some ?ps'"
      using assms(1,2) load dn
      by (simp add: ReloadConfig_def reload_one_def Let_def put_provider_def LookupProvider_def update_conv)
    show "p_keys (ps_pool ?ps') = keys" "p_names (ps_pool ?ps') = names"
      using q(1) ks by (simp_all add: restore_disabled_perma)
    fix i assume i: "i < length keys"
    show "IsDisabled (int i) (ps_pool ?ps') \<longleftrightarrow> names ! i \<in> set dns"
      using restore_disabled_IsDisabled [OF q(1), of i dns] i ks q(4) by simp
    show "k_trippedReason (p_cbs (ps_pool ?ps') ! i) = ''manual''" if "IsDisabled (int i) (ps_pool ?ps')"
      using that restore_disabled_reason [OF q(1), of i dns] i ks q(4) by simp
  next
    show "pool_wf (ps_pool ?ps')" using q(1) by (simp add: restore_disabled_perma perma_at_wf)
  qed
qed

text \<open>
  After the keys of a provider have been written, reloading it brings the same keys and names back,
  and disables each key whose name is the name of a disabled key.
\<close>

lemma persist_then_reload:
  assumes "codec_ok (en_codec E)" and "length nonce = 12" and "LookupProvider name (sv_pm s) = Some ps"
    and "pool_wf (ps_pool ps)" and "p_keys (ps_pool ps) \<noteq> []" and "valid_texts (ps_pool ps)"
    and "SaveKeys (en_codec E) fresh nonce name (pool_entries (ps_pool ps)) st = (None, sv_store s)"
    and "loadInsecureFile name (s_world (sv_store s)) = Inr None"
  obtains ps' where "LookupProvider name (sv_pm (ReloadConfig E [(name, cfg)] s)) = Some ps'"
    and "p_keys (ps_pool ps') = p_keys (ps_pool ps)" and "p_names (ps_pool ps') = p_names (ps_pool ps)"
    and "\<And>i. i < length (p_keys (ps_pool ps)) \<Longrightarrow> IsDisabled (int i) (ps_pool ps') \<longleftrightarrow>
      (\<exists>j<length (p_keys (ps_pool ps)). IsDisabled (int j) (ps_pool ps) \<and>
         p_names (ps_pool ps) ! j = p_names (ps_pool ps) ! i)"
    and "\<And>i. i < length (p_keys (ps_pool ps)) \<Longrightarrow> IsDisabled (int i) (ps_pool ps') \<Longrightarrow>
      k_trippedReason (p_cbs (ps_pool ps') ! i) = ''manual''"
    and "pool_wf (ps_pool ps')"
proof -
  let ?p = "ps_pool ps" and ?C = "en_codec E"
  let ?dns = "map e_Name (filter e_Disabled (pool_entries ?p))"
  have load: "loadKeysFromConfig E name cfg (sv_store s) = ((p_keys ?p, p_names ?p), sv_store s)"
    using SaveKeys_LoadKeysFromStore [OF assms(1,2,7,8)]
    by (simp add: loadKeysFromConfig_def pool_entries_keys [OF assms(4)] valid_pool_entries [OF assms(4,6)])
  have dn: "LoadDisabledNames ?C (en_fresh E) name (cf_Provider (set_keys (p_keys ?p) (p_names ?p) cfg)) (sv_store s)
      = (?dns, sv_store s)"
    using SaveKeys_LoadDisabledNames [OF assms(1,2,7)] by (simp add: valid_pool_entries [OF assms(4,6)])
  have len: "length (p_names ?p) = length (p_keys ?p)" using assms(4) by (simp add: pool_wf_lengths)
  show ?thesis
    by (rule reload_loaded [OF assms(3,5) len load dn], rule that)
      (use pool_entries_disabled [OF assms(4)] in auto)
qed

end
