(* ===== verification/LogView.thy ===== *)
theory LogView
  imports Logging
begin

text \<open>
  The log entries that the dashboard reads (internal/server/logs_handler.go): the last megabyte of
  the log file, cut at a line, its lines decoded as JSON objects, the entries about requests, from a
  given time on. Parsing a time stamp (RFC 3339) is an argument.
\<close>

definition maxRead :: nat where
  "maxRead = 2 ^ 20"

text \<open>What is read after the first line break; nothing when there is none.\<close>

definition skip_line :: "bytes \<Rightarrow> bytes" where
  "skip_line data = tl (dropWhile (\<lambda>c. c \<noteq> CHR 0x0A) data)"

definition log_window :: "bytes \<Rightarrow> bytes" where
  "log_window content =
     (let readOffset = length content - maxRead;
          rest = drop readOffset content;
          rest = (if 0 < readOffset then skip_line rest else rest)
      in take maxRead rest)"

text \<open>A member of a decoded object, null when it is missing.\<close>

definition raw_field :: "(string \<times> json) list \<Rightarrow> string \<Rightarrow> json" where
  "raw_field raw k = (case map_of raw k of None \<Rightarrow> JNull | Some v \<Rightarrow> v)"

definition view_entry :: "(string \<times> json) list \<Rightarrow> (string \<times> json) list" where
  "view_entry raw =
     (let entry = (''timestamp'', raw_field raw ''time'') #
            map (\<lambda>k. (k, raw_field raw k))
              [''key_name'', ''method'', ''url'', ''status'', ''request_body_size'', ''provider'',
               ''duration_ms'', ''ttfb_ms'', ''retry'', ''input_tokens'', ''output_tokens'',
               ''response_body_size''];
          entry = (case map_of raw ''key_index'' of
                     Some (JNum lit) \<Rightarrow>
                       (case ParseFloat lit of
                          Some ki \<Rightarrow> entry @ [(''key_index'', JNum (Itoa (wrap64 (float_to_int64 ki + 1))))]
                        | None \<Rightarrow> entry)
                   | _ \<Rightarrow> entry)
      in entry @ [(''key'', raw_field raw ''key_name'')])"

text \<open>A line that counts: an object with a method and an URL, not before the wanted time.\<close>

definition too_old :: "(string \<Rightarrow> time option) \<Rightarrow> time \<Rightarrow> (string \<times> json) list \<Rightarrow> bool" where
  "too_old parseTime since raw \<longleftrightarrow>
     since \<noteq> 0 \<and>
     (case parseTime (case map_of raw ''time'' of Some (JStr ts) \<Rightarrow> ts | _ \<Rightarrow> '''') of
        Some t \<Rightarrow> t < since | None \<Rightarrow> False)"

definition line_entry :: "(string \<Rightarrow> time option) \<Rightarrow> time \<Rightarrow> string \<Rightarrow> (string \<times> json) list option" where
  "line_entry parseTime since line =
     (let line = TrimSpace line
      in if line = '''' then None
         else (case Option.bind (json_parse line) to_interface of
                 Some (JObj raw) \<Rightarrow>
                   (if map_of raw ''method'' = None \<or> map_of raw ''url'' = None \<or> too_old parseTime since raw
                    then None else Some (view_entry raw))
               | _ \<Rightarrow> None))"

definition log_entries :: "(string \<Rightarrow> time option) \<Rightarrow> string \<Rightarrow> bytes \<Rightarrow> (string \<times> json) list list" where
  "log_entries parseTime since content =
     (let sinceTime = (if since \<noteq> '''' then (case parseTime since of Some t \<Rightarrow> t | None \<Rightarrow> 0) else 0)
      in List.map_filter (line_entry parseTime sinceTime) (split_on (CHR 0x0A) (log_window content)))"

text \<open>
  The answer: an empty array when there is no file to read, and null, the encoding of a nil slice,
  when the file holds no matching entry. The file is \<open>None\<close> when it cannot be read.
\<close>

definition logsHandler ::
    "(string \<Rightarrow> time option) \<Rightarrow> (string \<Rightarrow> bytes option) \<Rightarrow> LogManager \<Rightarrow> string \<Rightarrow> json" where
  "logsHandler parseTime readFile lm since =
     (let logFile = LogFilePath lm
      in if logFile = '''' then JArr []
         else (case readFile logFile of
                 None \<Rightarrow> JArr []
               | Some content \<Rightarrow>
                   (let entries = log_entries parseTime since content
                    in if entries = [] then JNull else JArr (map JObj entries))))"

section \<open>Bounds and filtering\<close>

lemma length_log_window: "length (log_window content) \<le> maxRead"
  by (simp add: log_window_def Let_def)

lemma log_window_suffix: "\<exists>pre. content = pre @ log_window content"
proof -
  have "length (skip_line (drop (length content - maxRead) content)) \<le> maxRead"
    using length_dropWhile_le [of "\<lambda>c. c \<noteq> CHR 0x0A" "drop (length content - maxRead) content"]
    unfolding skip_line_def length_tl length_drop by linarith
  then have w: "log_window content = drop (length content - maxRead) content \<or>
      log_window content = skip_line (drop (length content - maxRead) content)"
    by (auto simp: log_window_def Let_def)
  have "\<exists>pre. data = pre @ skip_line data" for data
  proof (cases "dropWhile (\<lambda>c. c \<noteq> CHR 0x0A) data")
    case Nil
    then have "skip_line data = []" unfolding skip_line_def by (simp only: list.sel)
    then show ?thesis by simp
  next
    case (Cons c cs)
    then have "data = (takeWhile (\<lambda>c. c \<noteq> CHR 0x0A) data @ [c]) @ skip_line data"
      using takeWhile_dropWhile_id [of "\<lambda>c. c \<noteq> CHR 0x0A" data] by (simp add: skip_line_def)
    then show ?thesis by blast
  qed
  then obtain pre where "drop (length content - maxRead) content =
      pre @ skip_line (drop (length content - maxRead) content)" by blast
  with w show ?thesis
    by (metis append.assoc append_take_drop_id)
qed

text \<open>Every entry has the same fields, \<open>key_index\<close> aside; the key's value is never one of them.\<close>

lemma view_entry_fields:
  "map fst (view_entry raw) = map fst (view_entry []) \<or>
   map fst (view_entry raw) = butlast (map fst (view_entry [])) @ [''key_index'', ''key'']"
proof -
  have "\<exists>more. map fst (view_entry raw) = butlast (map fst (view_entry [])) @ more @ [''key''] \<and>
      more \<in> {[], [''key_index'']}"
    by (simp add: view_entry_def Let_def split: option.split json.split)
  then show ?thesis by (auto simp: view_entry_def)
qed

end
