(* ===== verification/Calibrator.thy ===== *)
theory Calibrator
  imports GoFloat Json "HOL-Library.AList" "HOL-Library.Product_Lexorder" "HOL-Library.Multiset"
begin

text \<open>
  Token counting: the calibration window per model (internal/tracker/calibration.go), and the
  extraction and estimation of token counts (internal/tokenestimator/tokenestimator.go), with the
  tiktoken library as the argument \<open>tk\<close>: the encoding of that name, as the number of tokens of a
  text, or \<open>None\<close> when it cannot be loaded.
\<close>

section \<open>Calibrator\<close>

record sample =
  sm_estimate :: int
  sm_actual :: int
  sm_ratio :: float64

record Calibrator =
  cal_windowSize :: int
  cal_models :: "(string \<times> sample list) list"

definition NewCalibrator :: "int \<Rightarrow> Calibrator" where
  "NewCalibrator windowSize =
     \<lparr>cal_windowSize = (if windowSize < 3 then 3 else windowSize), cal_models = []\<rparr>"

definition samples_of :: "string \<Rightarrow> Calibrator \<Rightarrow> sample list" where
  "samples_of model c = (case map_of (cal_models c) model of None \<Rightarrow> [] | Some xs \<Rightarrow> xs)"

definition Record :: "string \<Rightarrow> int \<Rightarrow> int \<Rightarrow> Calibrator \<Rightarrow> Calibrator" where
  "Record model estimate actual c =
     (if estimate \<le> 0 \<or> actual \<le> 0 then c
      else
        (let s = \<lparr>sm_estimate = estimate, sm_actual = actual, sm_ratio = float_div_ints actual estimate\<rparr>;
             samples = samples_of model c @ [s];
             samples = (if cal_windowSize c < int (length samples)
                        then drop (nat (int (length samples) - cal_windowSize c)) samples else samples)
         in c\<lparr>cal_models := AList.update model samples (cal_models c)\<rparr>))"

text \<open>The order of \<open>sort.Float64s\<close>: NaN first.\<close>

fun float_rank :: "float64 \<Rightarrow> int \<times> rat" where
  "float_rank NaN = (0, 0)"
| "float_rank NegInf = (1, 0)"
| "float_rank (Fin q) = (2, q)"
| "float_rank PosInf = (3, 0)"

definition Ratio :: "string \<Rightarrow> Calibrator \<Rightarrow> float64" where
  "Ratio model c =
     (let samples = samples_of model c
      in if length samples < 3 then Fin 1
         else (let ratios = sort_key float_rank (map sm_ratio samples)
               in ratios ! (length ratios div 2)))"

definition ApplyRatio :: "string \<Rightarrow> int \<Rightarrow> Calibrator \<Rightarrow> int" where
  "ApplyRatio model estimate c =
     (let ratio = Ratio model c
      in if float_eq ratio (Fin 1) then estimate
         else (let adjusted = float_to_int64 (math_Round (float_mul (float_of_int estimate) ratio))
               in if adjusted < 0 then 0 else adjusted))"

definition ResetModel :: "string \<Rightarrow> Calibrator \<Rightarrow> Calibrator" where
  "ResetModel model c = c\<lparr>cal_models := AList.delete model (cal_models c)\<rparr>"

definition Models :: "Calibrator \<Rightarrow> string list" where
  "Models c = sort (map fst (cal_models c))"

definition SampleCount :: "string \<Rightarrow> Calibrator \<Rightarrow> nat" where
  "SampleCount model c = length (samples_of model c)"

subsection \<open>The window\<close>

definition cal_inv :: "Calibrator \<Rightarrow> bool" where
  "cal_inv c \<longleftrightarrow> 3 \<le> cal_windowSize c \<and> distinct (map fst (cal_models c)) \<and>
     list_all (\<lambda>(m, xs). int (length xs) \<le> cal_windowSize c \<and>
       list_all (\<lambda>s. 0 < sm_estimate s \<and> 0 < sm_actual s \<and>
         sm_ratio s = float_div_ints (sm_actual s) (sm_estimate s)) xs) (cal_models c)"

datatype cal_event = CRecord string int int | CReset string

fun cal_step :: "cal_event \<Rightarrow> Calibrator \<Rightarrow> Calibrator" where
  "cal_step (CRecord m e a) c = Record m e a c"
| "cal_step (CReset m) c = ResetModel m c"

lemma cal_inv_new: "cal_inv (NewCalibrator n)"
  by (simp add: cal_inv_def NewCalibrator_def)

lemma in_set_update: "(k', v') \<in> set (AList.update k v xs) \<Longrightarrow> (k', v') = (k, v) \<or> (k', v') \<in> set xs"
  by (induction xs) (auto split: if_splits)

lemma samples_inv:
  assumes "cal_inv c"
  shows "int (length (samples_of m c)) \<le> cal_windowSize c \<and>
    list_all (\<lambda>s. 0 < sm_estimate s \<and> 0 < sm_actual s \<and>
      sm_ratio s = float_div_ints (sm_actual s) (sm_estimate s)) (samples_of m c)"
proof (cases "map_of (cal_models c) m")
  case None
  with assms show ?thesis by (simp add: samples_of_def cal_inv_def)
next
  case (Some xs)
  then have "(m, xs) \<in> set (cal_models c)" by (rule map_of_SomeD)
  with assms Some show ?thesis by (auto simp: samples_of_def cal_inv_def list_all_iff)
qed

lemma list_all_drop: "list_all P xs \<Longrightarrow> list_all P (drop n xs)"
  by (auto simp: list_all_iff dest: in_set_dropD)

lemma cal_step_inv:
  assumes "cal_inv c"
  shows "cal_inv (cal_step e c)"
proof (cases e)
  case (CReset m)
  with assms show ?thesis
    by (auto simp: cal_inv_def ResetModel_def list_all_iff AList.delete_eq distinct_map_filter)
next
  case (CRecord m est act)
  show ?thesis
  proof (cases "est \<le> 0 \<or> act \<le> 0")
    case True
    with assms CRecord show ?thesis by (simp add: Record_def)
  next
    case False
    let ?s = "\<lparr>sm_estimate = est, sm_actual = act, sm_ratio = float_div_ints act est\<rparr>"
    let ?xs = "samples_of m c @ [?s]"
    let ?ys = "if cal_windowSize c < int (length ?xs)
      then drop (nat (int (length ?xs) - cal_windowSize c)) ?xs else ?xs"
    have "int (length ?ys) \<le> cal_windowSize c"
      using assms by (auto simp: cal_inv_def)
    moreover have "list_all (\<lambda>s. 0 < sm_estimate s \<and> 0 < sm_actual s \<and>
         sm_ratio s = float_div_ints (sm_actual s) (sm_estimate s)) ?ys"
      using samples_inv [OF assms, of m] False by (auto intro!: list_all_drop)
    moreover have "cal_step e c = c\<lparr>cal_models := AList.update m ?ys (cal_models c)\<rparr>"
      using False CRecord by (simp add: Record_def Let_def)
    ultimately show ?thesis
      using assms unfolding cal_inv_def list_all_iff
      by (auto simp: distinct_update dest!: in_set_update)
  qed
qed

interpretation cal_machine: event_machine cal_step cal_inv
  by unfold_locales (rule cal_step_inv)

text \<open>The samples of a model are the last ones recorded for it.\<close>

definition last_n :: "nat \<Rightarrow> 'a list \<Rightarrow> 'a list" where
  "last_n n xs = drop (length xs - n) xs"

lemma last_n_append: "last_n n (last_n n xs @ [x]) = last_n n (xs @ [x])" if "0 < n"
proof -
  have "drop (length (drop (length xs - n) xs @ [x]) - n) (drop (length xs - n) xs @ [x])
      = drop (length (xs @ [x]) - n) (xs @ [x])"
    using that by (cases "length xs < n") (auto simp: Suc_diff_le)
  then show ?thesis by (simp add: last_n_def)
qed

definition valid_samples :: "string \<Rightarrow> (string \<times> int \<times> int) list \<Rightarrow> sample list" where
  "valid_samples m rs =
     map (\<lambda>(_, e, a). \<lparr>sm_estimate = e, sm_actual = a, sm_ratio = float_div_ints a e\<rparr>)
       (filter (\<lambda>(m', e, a). m' = m \<and> 0 < e \<and> 0 < a) rs)"

lemma samples_of_update:
  "samples_of m (c\<lparr>cal_models := AList.update m' xs (cal_models c)\<rparr>) = (if m = m' then xs else samples_of m c)"
  by (simp add: samples_of_def update_conv)

lemma nat_int_minus: "0 \<le> w \<Longrightarrow> nat (int n - w) = n - nat w"
  by linarith

lemma samples_Record:
  assumes "3 \<le> cal_windowSize c"
  shows "samples_of m (Record m' e a c) =
    (if m' = m \<and> 0 < e \<and> 0 < a
     then last_n (nat (cal_windowSize c))
       (samples_of m c @ [\<lparr>sm_estimate = e, sm_actual = a, sm_ratio = float_div_ints a e\<rparr>])
     else samples_of m c)"
  using assms
  by (auto simp: Record_def Let_def samples_of_update last_n_def nat_int_minus simp del: length_append)

lemma records_window:
  assumes "3 \<le> cal_windowSize c" and "samples_of m c = last_n (nat (cal_windowSize c)) hist"
  shows "samples_of m (fold (\<lambda>(m', e, a). Record m' e a) rs c) =
    last_n (nat (cal_windowSize c)) (hist @ valid_samples m rs)"
  using assms
proof (induction rs arbitrary: c hist)
  case (Cons r rs)
  obtain m' e a where r: "r = (m', e, a)" by (cases r)
  let ?c = "Record m' e a c"
  let ?new = "if m' = m \<and> 0 < e \<and> 0 < a
    then [\<lparr>sm_estimate = e, sm_actual = a, sm_ratio = float_div_ints a e\<rparr>] else []"
  have w: "cal_windowSize ?c = cal_windowSize c" by (simp add: Record_def Let_def)
  have "samples_of m ?c = last_n (nat (cal_windowSize c)) (hist @ ?new)"
    using Cons.prems by (simp add: samples_Record last_n_append)
  with Cons.IH [of ?c "hist @ ?new"] Cons.prems(1) w show ?case
    by (simp add: r valid_samples_def)
qed (simp add: valid_samples_def)

subsection \<open>The median\<close>

lemma Ratio_in_samples:
  assumes "3 \<le> length (samples_of m c)"
  shows "Ratio m c \<in> set (map sm_ratio (samples_of m c))"
proof -
  let ?r = "sort_key float_rank (map sm_ratio (samples_of m c))"
  have "?r ! (length ?r div 2) \<in> set ?r" using assms by (intro nth_mem) simp
  with assms show ?thesis by (simp add: Ratio_def Let_def)
qed

lemma ApplyRatio_nonneg: "0 \<le> estimate \<Longrightarrow> 0 \<le> ApplyRatio m estimate c"
  by (simp add: ApplyRatio_def Let_def)

text \<open>At least half of the samples have a ratio of at most the median, and at least half of at least it.\<close>

lemma sorted_median:
  assumes "sorted (map f xs)" and "i < length xs"
  shows "Suc i \<le> length (filter (\<lambda>x. f x \<le> f (xs ! i)) xs)"
    and "length xs - i \<le> length (filter (\<lambda>x. f (xs ! i) \<le> f x) xs)"
proof -
  have le: "f (xs ! j) \<le> f (xs ! k)" if "j \<le> k" "k < length xs" for j k
    using sorted_nth_mono [OF assms(1), of j k] that by simp
  have "filter (\<lambda>x. f x \<le> f (xs ! i)) (take (Suc i) xs) = take (Suc i) xs"
    using assms(2) le by (auto simp: filter_id_conv in_set_conv_nth)
  then have "length (filter (\<lambda>x. f x \<le> f (xs ! i)) (take (Suc i) xs @ drop (Suc i) xs)) \<ge> Suc i"
    using assms(2) by (simp only: filter_append length_append) simp
  then show "Suc i \<le> length (filter (\<lambda>x. f x \<le> f (xs ! i)) xs)" by simp
  have "filter (\<lambda>x. f (xs ! i) \<le> f x) (drop i xs) = drop i xs"
    using assms(2) le by (auto simp: filter_id_conv in_set_conv_nth)
  then have "length (filter (\<lambda>x. f (xs ! i) \<le> f x) (take i xs @ drop i xs)) \<ge> length xs - i"
    by (simp only: filter_append length_append) simp
  then show "length xs - i \<le> length (filter (\<lambda>x. f (xs ! i) \<le> f x) xs)" by simp
qed

lemma length_filter_mset: "mset xs = mset ys \<Longrightarrow> length (filter P xs) = length (filter P ys)"
  by (metis mset_filter size_mset)

lemma Ratio_median:
  assumes "3 \<le> length (samples_of m c)"
  shows "length (samples_of m c) \<le> 2 * length (filter (\<lambda>s. float_rank (sm_ratio s) \<le> float_rank (Ratio m c)) (samples_of m c))"
    and "length (samples_of m c) \<le> 2 * length (filter (\<lambda>s. float_rank (Ratio m c) \<le> float_rank (sm_ratio s)) (samples_of m c))"
proof -
  let ?xs = "map sm_ratio (samples_of m c)"
  let ?r = "sort_key float_rank ?xs" and ?n = "length (samples_of m c)"
  have r: "Ratio m c = ?r ! (?n div 2)" using assms by (simp add: Ratio_def Let_def)
  have i: "?n div 2 < length ?r" using assms by simp
  have count: "length (filter P ?r) = length (filter (\<lambda>s. P (sm_ratio s)) (samples_of m c))" for P
  proof -
    have "length (filter P ?r) = length (filter P ?xs)" by (rule length_filter_mset) simp
    then show ?thesis by (simp add: filter_map comp_def)
  qed
  have s: "sorted (map float_rank ?r)" by simp
  from sorted_median(1) [OF s i] count
  show "?n \<le> 2 * length (filter (\<lambda>s. float_rank (sm_ratio s) \<le> float_rank (Ratio m c)) (samples_of m c))"
    by (simp add: r)
  from sorted_median(2) [OF s i] count
  show "?n \<le> 2 * length (filter (\<lambda>s. float_rank (Ratio m c) \<le> float_rank (sm_ratio s)) (samples_of m c))"
    by (simp add: r)
qed

section \<open>Token usage and text of a response\<close>

record usage =
  us_input :: int
  us_output :: int
  us_prompt :: int
  us_completion :: int

definition dec_usage :: "usage decoder" where
  "dec_usage = dec_struct
     [(''input_tokens'', \<lambda>j u. map_prod (\<lambda>v. u\<lparr>us_input := v\<rparr>) id (dec_int j (us_input u))),
      (''output_tokens'', \<lambda>j u. map_prod (\<lambda>v. u\<lparr>us_output := v\<rparr>) id (dec_int j (us_output u))),
      (''prompt_tokens'', \<lambda>j u. map_prod (\<lambda>v. u\<lparr>us_prompt := v\<rparr>) id (dec_int j (us_prompt u))),
      (''completion_tokens'', \<lambda>j u. map_prod (\<lambda>v. u\<lparr>us_completion := v\<rparr>) id (dec_int j (us_completion u)))]"

definition ExtractTokenUsage :: "bytes \<Rightarrow> int \<times> int" where
  "ExtractTokenUsage body =
     (case Unmarshal (dec_struct [(''usage'', dec_usage)])
             \<lparr>us_input = 0, us_output = 0, us_prompt = 0, us_completion = 0\<rparr> body of
        None \<Rightarrow> (0, 0)
      | Some u \<Rightarrow> if 0 < us_input u \<or> 0 < us_output u then (us_input u, us_output u)
                  else (us_prompt u, us_completion u))"

text \<open>Non-empty texts joined by one blank.\<close>

fun join_texts :: "string list \<Rightarrow> string \<Rightarrow> string" where
  "join_texts [] acc = acc"
| "join_texts (t # ts) acc =
     (if t = '''' then join_texts ts acc
      else join_texts ts ((if acc = '''' then acc else acc @ '' '') @ t))"

definition dec_block :: "(string \<times> string) decoder" where
  "dec_block = dec_struct
     [(''type'', \<lambda>j b. map_prod (\<lambda>v. (v, snd b)) id (dec_string j (fst b))),
      (''text'', \<lambda>j b. map_prod (\<lambda>v. (fst b, v)) id (dec_string j (snd b)))]"

definition ExtractResponseText :: "bytes \<Rightarrow> string" where
  "ExtractResponseText body =
     (let anthropic = (case Unmarshal (dec_struct [(''content'', dec_list dec_block ('''', ''''))]) [] body of
                         None \<Rightarrow> ''''
                       | Some blocks \<Rightarrow> join_texts (map snd (filter (\<lambda>(ty, t). ty = ''text'') blocks)) '''')
      in if anthropic \<noteq> '''' then anthropic
         else (case Unmarshal (dec_struct [(''choices'', dec_list (dec_struct
                      [(''message'', dec_struct [(''content'', dec_string)])]) '''')]) [] body of
                 None \<Rightarrow> ''''
               | Some contents \<Rightarrow> join_texts contents ''''))"

definition encodingForModel :: "string \<Rightarrow> string" where
  "encodingForModel model =
     (if HasPrefix model ''gpt-4o'' \<or> HasPrefix model ''o1'' \<or> HasPrefix model ''o3''
      then ''o200k_base'' else ''cl100k_base'')"

definition ExtractModel :: "bytes \<Rightarrow> string" where
  "ExtractModel bodyBytes =
     (if bodyBytes = [] then ''''
      else (case Unmarshal (dec_struct [(''model'', dec_string)]) '''' bodyBytes of
              None \<Rightarrow> '''' | Some m \<Rightarrow> m))"

type_synonym tiktoken = "string \<Rightarrow> (string \<Rightarrow> nat) option"

definition count_tokens :: "tiktoken \<Rightarrow> string \<Rightarrow> string \<Rightarrow> int" where
  "count_tokens tk text model =
     (case tk (encodingForModel model) of None \<Rightarrow> 0 | Some enc \<Rightarrow> int (enc text))"

definition EstimateOutput :: "tiktoken \<Rightarrow> string \<Rightarrow> string \<Rightarrow> int" where
  "EstimateOutput tk text model = (if text = '''' then 0 else count_tokens tk text model)"

text \<open>The text of one message: a string, or the texts of an array of parts.\<close>

definition message_text :: "json option \<Rightarrow> string" where
  "message_text content =
     (case content of
        Some (JStr s) \<Rightarrow> s
      | Some (JArr js) \<Rightarrow>
          (let (ts, ok) = dec_list (dec_struct [(''text'', dec_string)]) '''' (JArr js) []
           in if ok then concat ts else '''')
      | _ \<Rightarrow> '''')"

definition EstimateInput :: "tiktoken \<Rightarrow> bytes \<Rightarrow> string \<Rightarrow> int" where
  "EstimateInput tk bodyBytes model =
     (if bodyBytes = [] then 0
      else (case Unmarshal (dec_struct [(''messages'', dec_list (dec_struct [(''content'', dec_raw)]) None)])
                   [] bodyBytes of
              None \<Rightarrow> 0
            | Some msgs \<Rightarrow>
                if msgs = [] then 0 else count_tokens tk (concat (map message_text msgs)) model))"

section \<open>Server-sent events\<close>

record sse_text =
  st_text :: string
  st_partial :: string
  st_thinking :: string

definition emptySse :: sse_text where
  "emptySse = \<lparr>st_text = '''', st_partial = '''', st_thinking = ''''\<rparr>"

definition dec_sse_text :: "string list \<Rightarrow> sse_text decoder" where
  "dec_sse_text names = dec_struct (filter (\<lambda>(n, _). n \<in> set names)
     [(''text'', \<lambda>j b. map_prod (\<lambda>v. b\<lparr>st_text := v\<rparr>) id (dec_string j (st_text b))),
      (''content'', \<lambda>j b. map_prod (\<lambda>v. b\<lparr>st_text := v\<rparr>) id (dec_string j (st_text b))),
      (''partial_json'', \<lambda>j b. map_prod (\<lambda>v. b\<lparr>st_partial := v\<rparr>) id (dec_string j (st_partial b))),
      (''thinking'', \<lambda>j b. map_prod (\<lambda>v. b\<lparr>st_thinking := v\<rparr>) id (dec_string j (st_thinking b)))])"

record anthropic_event =
  ae_type :: string
  ae_delta :: "sse_text option"
  ae_block :: "sse_text option"
  ae_usage :: "int option"

definition dec_event :: "anthropic_event decoder" where
  "dec_event = dec_struct
     [(''type'', \<lambda>j e. map_prod (\<lambda>v. e\<lparr>ae_type := v\<rparr>) id (dec_string j (ae_type e))),
      (''delta'', \<lambda>j e. map_prod (\<lambda>v. e\<lparr>ae_delta := v\<rparr>) id
          (dec_ptr (dec_sse_text [''text'', ''partial_json'', ''thinking'']) emptySse j (ae_delta e))),
      (''content_block'', \<lambda>j e. map_prod (\<lambda>v. e\<lparr>ae_block := v\<rparr>) id
          (dec_ptr (dec_sse_text [''text'', ''thinking'']) emptySse j (ae_block e))),
      (''usage'', \<lambda>j e. map_prod (\<lambda>v. e\<lparr>ae_usage := v\<rparr>) id
          (dec_ptr (dec_struct [(''output_tokens'', dec_int)]) 0 j (ae_usage e)))]"

definition parseAnthropicSSE :: "bytes \<Rightarrow> int \<times> string \<times> string" where
  "parseAnthropicSSE raw =
     (case Unmarshal dec_event \<lparr>ae_type = '''', ae_delta = None, ae_block = None, ae_usage = None\<rparr> raw of
        None \<Rightarrow> (0, '''', '''')
      | Some e \<Rightarrow>
          (if ae_type e = ''content_block_delta''
           then (case ae_delta e of None \<Rightarrow> (0, '''', '''')
                 | Some d \<Rightarrow> (0, st_text d @ st_partial d, st_thinking d))
           else if ae_type e = ''content_block_start''
           then (case ae_block e of None \<Rightarrow> (0, '''', '''') | Some b \<Rightarrow> (0, st_text b, st_thinking b))
           else if ae_type e = ''message_delta''
           then (case ae_usage e of Some n \<Rightarrow> (if 0 < n then n else 0, '''', '''') | None \<Rightarrow> (0, '''', ''''))
           else (0, '''', '''')))"

definition parseOpenAISSE :: "bytes \<Rightarrow> int \<times> string \<times> string" where
  "parseOpenAISSE raw =
     (case Unmarshal (dec_struct [(''choices'', dec_list (dec_struct
              [(''delta'', dec_ptr (dec_sse_text [''content'', ''thinking'', ''partial_json'']) emptySse)]) None)])
             [] raw of
        None \<Rightarrow> (0, '''', '''')
      | Some choices \<Rightarrow>
          (let ds = List.map_filter id choices
           in (0, concat (map (\<lambda>d. st_text d @ st_partial d) ds), concat (map st_thinking ds))))"

definition ParseSSEEvent :: "bytes \<Rightarrow> int \<times> string \<times> string" where
  "ParseSSEEvent raw =
     (case raw of
        [] \<Rightarrow> (0, '''', '''')
      | c # cs \<Rightarrow>
          (if c = CHR ''{''
           then (case Unmarshal (dec_struct [(''type'', dec_string)]) '''' raw of
                   Some t \<Rightarrow> if t \<noteq> '''' then parseAnthropicSSE raw else parseOpenAISSE raw
                 | None \<Rightarrow> parseOpenAISSE raw)
           else (0, '''', '''')))"

definition ProcessResponse :: "bytes \<Rightarrow> int \<times> int \<times> string" where
  "ProcessResponse bodyBytes =
     (let (i, out) = ExtractTokenUsage bodyBytes in (i, out, ExtractResponseText bodyBytes))"

definition RecordCalibration :: "string \<Rightarrow> int \<Rightarrow> int \<Rightarrow> int \<Rightarrow> int \<Rightarrow> Calibrator \<Rightarrow> Calibrator" where
  "RecordCalibration model estInput actualInput estOutput actualOutput cal =
     (if model = '''' then cal
      else
        (let cal = (if 0 < estInput \<and> 0 < actualInput then Record model estInput actualInput cal else cal)
         in if 0 < estOutput \<and> 0 < actualOutput then Record model estOutput actualOutput cal else cal))"

lemma RecordCalibration_inv: "cal_inv cal \<Longrightarrow> cal_inv (RecordCalibration m ei ai eo ao cal)"
  using cal_step_inv [of cal "CRecord m ei ai"]
    cal_step_inv [of "Record m ei ai cal" "CRecord m eo ao"] cal_step_inv [of cal "CRecord m eo ao"]
  by (simp add: RecordCalibration_def Let_def)

lemma ParseSSEEvent_nonneg: "0 \<le> fst (ParseSSEEvent raw)"
  by (auto simp: ParseSSEEvent_def parseAnthropicSSE_def parseOpenAISSE_def Let_def
      split: list.splits option.splits)

end
