(* ===== verification/Proxy.thy ===== *)
theory Proxy
  imports GoStrings Calibrator Config
begin

text \<open>
  The parts of a proxied request that need no provider state: error codes and categories
  (internal/server/proxy.go), header copying (headers.go), the upstream URL and the request body
  (proxy_handler.go), path splitting (router.go), key indexes in paths (helpers.go), status classes
  (internal/metrics/metrics.go) and the streaming of server-sent events (proxy_executor.go).
\<close>

section \<open>Errors\<close>

datatype ErrorCode =
    ErrorBadRequest
  | ErrorUpstreamError
  | ErrorAllKeysInvalid
  | ErrorAllKeysCooling
  | ErrorExhaustedRetries

fun error_code :: "ErrorCode \<Rightarrow> string" where
  "error_code ErrorBadRequest = ''BAD_REQUEST''"
| "error_code ErrorUpstreamError = ''UPSTREAM_ERROR''"
| "error_code ErrorAllKeysInvalid = ''ALL_KEYS_INVALID''"
| "error_code ErrorAllKeysCooling = ''ALL_KEYS_COOLING''"
| "error_code ErrorExhaustedRetries = ''EXHAUSTED_RETRIES''"

datatype ErrorCategory = CatUnknown | CatRetryable | CatNonRetryable | CatClientAbort

text \<open>The error is absent, or present with the answer of \<open>errors.Is(err, context.Canceled)\<close>.\<close>

definition categorizeError :: "int \<Rightarrow> bool option \<Rightarrow> ErrorCategory" where
  "categorizeError statusCode err =
     (case err of
        Some canceled \<Rightarrow> if canceled then CatClientAbort else CatRetryable
      | None \<Rightarrow> if statusCode \<in> set [400, 405, 406, 413, 414, 415, 422, 501] then CatNonRetryable
                else CatRetryable)"

definition StatusLabel :: "int \<Rightarrow> string" where
  "StatusLabel code =
     (if code < 200 then ''1xx'' else if code < 300 then ''2xx'' else if code < 400 then ''3xx''
      else if code < 500 then ''4xx'' else ''5xx'')"

section \<open>Headers\<close>

type_synonym headers = "(string \<times> string list) list"

definition header_get :: "string \<Rightarrow> headers \<Rightarrow> string" where
  "header_get k h = (case map_of h k of Some (v # vs) \<Rightarrow> v | _ \<Rightarrow> '''')"

definition header_add :: "string \<Rightarrow> string \<Rightarrow> headers \<Rightarrow> headers" where
  "header_add k v h = AList.update k ((case map_of h k of None \<Rightarrow> [] | Some vs \<Rightarrow> vs) @ [v]) h"

definition header_set :: "string \<Rightarrow> string \<Rightarrow> headers \<Rightarrow> headers" where
  "header_set k v h = AList.update k [v] h"

definition sensitive :: "string \<Rightarrow> bool" where
  "sensitive k \<longleftrightarrow> ToLower k \<in> set [''x-admin-token'', ''cookie'', ''proxy-authorization'']"

text \<open>Both maps have canonical names; \<open>src\<close> is in the order the runtime iterates it.\<close>

definition copyHeaders :: "headers \<Rightarrow> headers \<Rightarrow> headers" where
  "copyHeaders dst src =
     fold (\<lambda>(k, vals) d. if sensitive k then d else fold (\<lambda>v. header_add k v) vals d) src dst"

lemma map_of_header_add [simp]:
  "map_of (header_add k v h) = (map_of h)(k \<mapsto> (case map_of h k of None \<Rightarrow> [] | Some vs \<Rightarrow> vs) @ [v])"
  by (simp add: header_add_def update_conv')

definition values_of :: "string \<Rightarrow> headers \<Rightarrow> string list" where
  "values_of k h = (case map_of h k of None \<Rightarrow> [] | Some vs \<Rightarrow> vs)"

lemma values_of_add: "values_of k' (header_add k v h) = (if k' = k then values_of k h @ [v] else values_of k' h)"
  by (simp add: values_of_def)

lemma values_of_Cons: "values_of k ((k', vs) # h) = (if k = k' then vs else values_of k h)"
  by (simp add: values_of_def)

lemma values_of_adds:
  "values_of k' (fold (\<lambda>v. header_add k v) vals h) = (if k' = k then values_of k h @ vals else values_of k' h)"
  by (induction vals arbitrary: h) (simp_all add: values_of_add)

lemma values_of_copy:
  assumes "distinct (map fst src)"
  shows "values_of k (copyHeaders dst src) =
    (if sensitive k then values_of k dst else values_of k dst @ values_of k src)"
  using assms
proof (induction src arbitrary: dst)
  case (Cons kv src)
  obtain k' vals where kv: "kv = (k', vals)" by force
  let ?d = "if sensitive k' then dst else fold (\<lambda>v. header_add k' v) vals dst"
  have step: "copyHeaders dst (kv # src) = copyHeaders ?d src" by (simp add: copyHeaders_def kv)
  have "map_of src k' = None"
    using Cons.prems kv by (simp add: map_of_eq_None_iff)
  then have "values_of k' src = []"
    by (simp add: values_of_def)
  with Cons kv show ?case
    unfolding step by (auto simp: values_of_adds values_of_Cons)
qed (simp add: copyHeaders_def values_of_def)

section \<open>Paths and URLs\<close>

definition extractProvider :: "string \<Rightarrow> string \<times> string" where
  "extractProvider path =
     (let p = TrimPrefix path ''/''; (a, rest) = split2 (CHR ''/'') p
      in if a = '''' then ('''', ''/'')
         else (case rest of None \<Rightarrow> (a, ''/'') | Some r \<Rightarrow> (a, ''/'' @ r)))"

definition parseKeyIndex :: "string \<Rightarrow> int option" where
  "parseKeyIndex raw =
     (case Atoi raw of None \<Rightarrow> None | Some idx \<Rightarrow> if idx < 1 then None else Some (idx - 1))"

definition slash :: "char \<Rightarrow> bool" where
  "slash c \<longleftrightarrow> c = CHR ''/''"

text \<open>
  A parsed URL: its path, its query and the rest; \<open>url.Parse\<close> and \<open>URL.String\<close> are arguments.
\<close>

record url =
  url_Path :: string
  url_RawQuery :: string
  url_rest :: string

definition join_path :: "string \<Rightarrow> string \<Rightarrow> string" where
  "join_path basePath path =
     (let path = (if HasSuffix basePath ''/v1'' \<and> HasPrefix path ''/v1'' then drop 3 path else path)
      in TrimRight slash basePath @ path)"

definition buildTargetURL ::
    "(string \<Rightarrow> url option) \<Rightarrow> (url \<Rightarrow> string) \<Rightarrow> string \<Rightarrow> string \<Rightarrow> string \<Rightarrow> string" where
  "buildTargetURL parse toString targetBase path rawQuery =
     (case parse targetBase of
        None \<Rightarrow> targetBase @ (if rawQuery \<noteq> '''' then path @ ''?'' @ rawQuery else path)
      | Some b \<Rightarrow>
          (let b = b\<lparr>url_Path := join_path (url_Path b) path\<rparr>;
               b = (if rawQuery \<noteq> '''' then b\<lparr>url_RawQuery := rawQuery\<rparr> else b)
           in toString b))"

definition calibrationTarget :: "string \<Rightarrow> string" where
  "calibrationTarget targetBase =
     (let b = TrimRight slash targetBase
      in if HasSuffix b ''/v1'' then b @ ''/messages'' else b @ ''/v1/messages'')"

lemma extractProvider_path:
  assumes "name \<noteq> ''''" and "CHR ''/'' \<notin> set name"
  shows "extractProvider (''/'' @ name @ ''/'' @ rest) = (name, ''/'' @ rest)"
    and "extractProvider (''/'' @ name) = (name, ''/'')"
  using assms TrimPrefix_append [of "''/''"]
  by (simp_all add: extractProvider_def Let_def split2_no_sep TrimPrefix_def HasPrefix_def)

lemma parseKeyIndex_Itoa: "in_int64 (i + 1) \<Longrightarrow> 0 \<le> i \<Longrightarrow> parseKeyIndex (Itoa (i + 1)) = Some i"
  by (simp add: parseKeyIndex_def Atoi_Itoa)

lemma parseKeyIndex_nonneg: "parseKeyIndex raw = Some i \<Longrightarrow> 0 \<le> i"
  by (auto simp: parseKeyIndex_def split: option.splits if_splits)

lemma TrimRight_append_slashes: "TrimRight slash (s @ replicate n (CHR ''/'')) = TrimRight slash s"
proof -
  have "dropWhile slash (replicate n (CHR ''/'') @ xs) = dropWhile slash xs" for xs
    by (induction n) (simp_all add: slash_def)
  then show ?thesis by (simp add: TrimRight_def)
qed


section \<open>Request bodies\<close>

text \<open>\<open>None\<close> in the second place is no body at all; the result \<open>None\<close> is the 400 answer.\<close>

definition readRequestBody :: "bool \<Rightarrow> bytes option \<Rightarrow> bytes option" where
  "readRequestBody readable body =
     (case body of
        None \<Rightarrow> Some []
      | Some b \<Rightarrow> if readable \<and> length b \<le> 10 * 1024 * 1024 then Some b else None)"

section \<open>Streaming\<close>

text \<open>
  The lines that \<open>bufio.Scanner\<close> delivers with a buffer of at most one megabyte: without the line
  feed and a carriage return before it; a longer line ends the scan.
\<close>

definition drop_cr :: "string \<Rightarrow> string" where
  "drop_cr s = (if s \<noteq> [] \<and> last s = CHR 0x0D then butlast s else s)"

definition scan_lines :: "bytes \<Rightarrow> string list" where
  "scan_lines data =
     (let ls = split_on (CHR 0x0A) data;
          ls = (if last ls = [] then butlast ls else ls)
      in map drop_cr (takeWhile (\<lambda>l. length l < 1024 * 1024) ls))"

definition has_terminal :: "string \<Rightarrow> bool" where
  "has_terminal s \<longleftrightarrow> Contains s ''message_stop'' \<or> Contains s ''[DONE]''"

definition isCompleteStream :: "bytes \<Rightarrow> bool" where
  "isCompleteStream body \<longleftrightarrow> (if length body = 0 then False else has_terminal body)"

record sse_state =
  ss_out :: bytes
  ss_size :: int
  ss_tokens :: int
  ss_text :: string
  ss_terminal :: bool
  ss_broken :: bool

text \<open>
  \<open>fails n = Some k\<close>: the write of line number \<open>n\<close> to the client fails after \<open>k\<close> bytes.
\<close>

fun sse_loop :: "(nat \<Rightarrow> nat option) \<Rightarrow> nat \<Rightarrow> string list \<Rightarrow> sse_state \<Rightarrow> sse_state" where
  "sse_loop fails n [] st = st"
| "sse_loop fails n (line # lines) st =
     (let st = (if has_terminal line then st\<lparr>ss_terminal := True\<rparr> else st);
          data = line @ [CHR 0x0A]
      in case fails n of
           Some k \<Rightarrow> st\<lparr>ss_size := ss_size st + int k, ss_out := ss_out st @ take k data, ss_broken := True\<rparr>
         | None \<Rightarrow>
             (let st = st\<lparr>ss_size := ss_size st + int (length data), ss_out := ss_out st @ data\<rparr>;
                  st = (if HasPrefix line ''data: ''
                        then (let (tokens, textDelta, _) = ParseSSEEvent (drop 6 line);
                                  st = st\<lparr>ss_text := ss_text st @ textDelta\<rparr>
                              in if 0 < tokens then st\<lparr>ss_tokens := tokens\<rparr> else st)
                        else st)
              in sse_loop fails (Suc n) lines st))"

definition quoted :: "string \<Rightarrow> string" where
  "quoted s = [CHR 0x22] @ s @ [CHR 0x22]"

definition errorEvent :: bytes where
  "errorEvent = ''event: error'' @ [CHR 0x0A] @ ''data: {'' @ quoted ''type'' @ '':'' @ quoted ''error'' @ '','' @
     quoted ''error'' @ '':{'' @ quoted ''type'' @ '':'' @ quoted ''overloaded_error'' @ '','' @
     quoted ''message'' @ '':'' @ quoted ''upstream stream truncated, please retry'' @ ''}}'' @
     [CHR 0x0A, CHR 0x0A]"

definition stopEvent :: bytes where
  "stopEvent = ''event: message_stop'' @ [CHR 0x0A] @ ''data: {'' @ quoted ''type'' @ '':'' @
     quoted ''message_stop'' @ ''}'' @ [CHR 0x0A, CHR 0x0A]"

text \<open>After a failed write the client is gone, and the two writes go nowhere.\<close>

definition injectTruncationError :: "sse_state \<Rightarrow> sse_state" where
  "injectTruncationError st =
     (if ss_broken st then st else st\<lparr>ss_out := ss_out st @ errorEvent @ stopEvent\<rparr>)"

definition streamSSE :: "(nat \<Rightarrow> nat option) \<Rightarrow> bytes \<Rightarrow> sse_state" where
  "streamSSE fails body =
     (let st = sse_loop fails 0 (scan_lines body)
                 \<lparr>ss_out = [], ss_size = 0, ss_tokens = 0, ss_text = '''', ss_terminal = False, ss_broken = False\<rparr>
      in if \<not> ss_terminal st \<and> 0 < ss_size st then injectTruncationError st else st)"

definition streamSSEAndEstimateTokens ::
    "tiktoken \<Rightarrow> (nat \<Rightarrow> nat option) \<Rightarrow> bytes \<Rightarrow> bytes \<Rightarrow> string \<Rightarrow> bytes \<times> int \<times> int \<times> int" where
  "streamSSEAndEstimateTokens tk fails body bodyBytes model =
     (let st = streamSSE fails body; inputTokens = EstimateInput tk bodyBytes model
      in if 0 < ss_tokens st then (ss_out st, inputTokens, ss_tokens st, ss_size st)
         else (let est = EstimateOutput tk (ss_text st) model;
                   est = (if est = 0 \<and> ss_text st \<noteq> '''' then ss_size st div 4 else est)
               in (ss_out st, inputTokens, est, ss_size st)))"

section \<open>What the client of a stream sees\<close>

text \<open>The stream as the client gets it when every write succeeds.\<close>

definition relayed :: "bytes \<Rightarrow> bytes" where
  "relayed body = concat (map (\<lambda>l. l @ [CHR 0x0A]) (scan_lines body))"

lemma sse_loop_step_out:
  "ss_out (sse_loop (\<lambda>_. None) n ls st) = ss_out st @ concat (map (\<lambda>l. l @ [CHR 0x0A]) ls) \<and>
   ss_size (sse_loop (\<lambda>_. None) n ls st) = ss_size st + int (length (concat (map (\<lambda>l. l @ [CHR 0x0A]) ls))) \<and>
   ss_broken (sse_loop (\<lambda>_. None) n ls st) = ss_broken st \<and>
   ss_terminal (sse_loop (\<lambda>_. None) n ls st) = (ss_terminal st \<or> list_ex has_terminal ls)"
proof (induction ls arbitrary: n st)
  case (Cons l ls)
  show ?case
    by (auto simp: Let_def Cons split: prod.splits)
qed simp

lemma scan_lines_empty: "scan_lines body = [] \<longleftrightarrow> relayed body = []"
  by (auto simp: relayed_def)

text \<open>A failing write cuts the stream off; without one the writes make no difference.\<close>

lemma sse_loop_unbroken:
  "\<not> ss_broken (sse_loop fails n ls st) \<Longrightarrow> sse_loop fails n ls st = sse_loop (\<lambda>_. None) m ls st"
  by (induction ls arbitrary: n m st) (auto simp: Let_def split: option.splits prod.splits if_splits)

lemma sse_loop_prefix:
  "\<exists>rest. ss_out st @ concat (map (\<lambda>l. l @ [CHR 0x0A]) ls) = ss_out (sse_loop fails n ls st) @ rest"
proof (induction ls arbitrary: n st)
  case (Cons l ls)
  show ?case
  proof (cases "fails n")
    case (Some k)
    have out: "ss_out (sse_loop fails n (l # ls) st) = ss_out st @ take k (l @ [CHR 0x0A])"
      using Some by (simp add: Let_def)
    have "l @ [CHR 0x0A] = take k (l @ [CHR 0x0A]) @ drop k (l @ [CHR 0x0A])" by (rule append_take_drop_id [symmetric])
    then show ?thesis unfolding out list.map concat.simps by (metis append.assoc)
  next
    case None
    have "ss_out st' = ss_out st @ l @ [CHR 0x0A] \<Longrightarrow>
        \<exists>rest. ss_out st @ concat (map (\<lambda>l. l @ [CHR 0x0A]) (l # ls)) = ss_out (sse_loop fails (Suc n) ls st') @ rest" for st'
      using Cons [of st' "Suc n"] by simp
    with None show ?thesis by (simp add: Let_def split: prod.split)
  qed
qed simp

lemma streamSSE_complete:
  "ss_out (streamSSE (\<lambda>_. None) body) =
     (if list_ex has_terminal (scan_lines body) \<or> scan_lines body = [] then relayed body
      else relayed body @ errorEvent @ stopEvent)"
proof -
  let ?init = "\<lparr>ss_out = [], ss_size = 0, ss_tokens = 0, ss_text = '''', ss_terminal = False, ss_broken = False\<rparr>"
  note loop = sse_loop_step_out [of 0 "scan_lines body" ?init]
  have "0 < length (relayed body) \<longleftrightarrow> scan_lines body \<noteq> []" by (simp add: scan_lines_empty)
  with loop show ?thesis
    by (auto simp: streamSSE_def Let_def injectTruncationError_def relayed_def [symmetric])
qed

text \<open>A terminal mark inside a line is one of the relayed text.\<close>

lemma Contains_iff: "Contains s p \<longleftrightarrow> (\<exists>a b. s = a @ p @ b)"
proof
  assume "Contains s p"
  then obtain i where "Index s p = Some i" by (auto simp: Contains_def)
  then have "HasPrefix (drop i s) p" using Index_Some_HasPrefix by blast
  then obtain t where "drop i s = p @ t" by (auto simp: HasPrefix_iff)
  then have "s = take i s @ p @ t" by (metis append_take_drop_id)
  then show "\<exists>a b. s = a @ p @ b" by blast
next
  assume "\<exists>a b. s = a @ p @ b"
  then obtain a b where "s = a @ p @ b" by blast
  then have "HasPrefix (drop (length a) s) p" by (simp add: HasPrefix_iff)
  then show "Contains s p" using Index_None_no_prefix by (auto simp: Contains_def)
qed

lemma has_terminal_mono: "has_terminal s \<Longrightarrow> has_terminal (a @ s @ b)"
  unfolding has_terminal_def Contains_iff by (metis append.assoc)

lemma has_terminal_relayed: "list_ex has_terminal (scan_lines body) \<Longrightarrow> has_terminal (relayed body)"
proof -
  assume "list_ex has_terminal (scan_lines body)"
  then obtain l where l: "l \<in> set (scan_lines body)" "has_terminal l" by (auto simp: list_ex_iff)
  then obtain xs ys where "scan_lines body = xs @ l # ys" by (meson split_list)
  then have "relayed body = concat (map (\<lambda>l. l @ [CHR 0x0A]) xs) @ l @ ([CHR 0x0A] @ concat (map (\<lambda>l. l @ [CHR 0x0A]) ys))"
    by (simp add: relayed_def)
  with l(2) show ?thesis using has_terminal_mono by presburger
qed

lemma stopEvent_terminal: "has_terminal stopEvent"
  unfolding has_terminal_def Contains_iff stopEvent_def by (metis append.assoc append_Cons append_Nil)

text \<open>Whatever the writes do, the client gets the beginning of the complete stream.\<close>

lemma streamSSE_prefix:
  "\<exists>rest. ss_out (streamSSE (\<lambda>_. None) body) = ss_out (streamSSE fails body) @ rest"
proof -
  let ?init = "\<lparr>ss_out = [], ss_size = 0, ss_tokens = 0, ss_text = '''', ss_terminal = False, ss_broken = False\<rparr>"
  let ?st = "sse_loop fails 0 (scan_lines body) ?init"
  show ?thesis
  proof (cases "ss_broken ?st")
    case True
    obtain rest where "relayed body = ss_out ?st @ rest"
      using sse_loop_prefix [of ?init "scan_lines body" fails 0] by (auto simp: relayed_def)
    with True show ?thesis
      by (auto simp: streamSSE_complete) (simp_all add: streamSSE_def injectTruncationError_def Let_def)
  next
    case False
    from sse_loop_unbroken [OF this, of 0] show ?thesis by (simp add: streamSSE_def)
  qed
qed

text \<open>Every stream with some content ends up with a terminal mark at the client.\<close>

lemma streamSSE_terminal:
  assumes "scan_lines body \<noteq> []"
  shows "has_terminal (ss_out (streamSSE (\<lambda>_. None) body))"
  using assms has_terminal_relayed [of body] has_terminal_mono [OF stopEvent_terminal, of "relayed body @ errorEvent" "[]"]
  by (auto simp: streamSSE_complete)

end
