(* ===== verification/Admin.thy ===== *)
theory Admin
  imports Providers LogView Proxy
begin

text \<open>
  The management API (internal/server/provider_state.go, auth_handlers.go, keys_handlers.go,
  health_handlers.go, runtime_config.go): one function per handler from the request and the server
  to the answer and the server, and the table of routes. An answer is its status and what is handed
  to the encoder; \<open>None\<close> is a handler that panics, which aborts the connection.
\<close>

section \<open>Requests and answers\<close>

record api_request =
  aq_method :: string
  aq_path :: string
  aq_query :: "(string \<times> string) list"
  aq_header :: headers
  aq_body :: bytes

datatype api_error =
    Unauthorized
  | InvalidBody
  | KeyRequired
  | InvalidIndex
  | BadKeyIndex string
  | KeyNotFound
  | NoProviders
  | ProviderNotFound string
  | NoSuchKey string
  | BadLogLevel
  | PoolError pool_error
  | FieldError field_error
  | NoConfigPath
  | ConfigFailed config_error

datatype persist_error = PathFailed | LoadFailed config_error | SaveFailed save_error

record key_row =
  kr_index :: int
  kr_key :: string
  kr_status :: key_label
  kr_requests :: nat
  kr_name :: string

record health_row =
  hr_keys :: int
  hr_cbState :: string
  hr_lastCheck :: "(time \<times> bool) option"

datatype payload =
    BEmpty
  | BHtml string
  | BError api_error
  | BLevel string
  | BCleared
  | BConfig string "string list"
  | BKeys "key_row list"
  | BAdded int string string
  | BRemoved
  | BSuccess
  | BHealth bool "(string \<times> health_row) list"
  | BStats nat nat nat duration
  | BReset string
  | BParam string string fvalue
  | BParams string "(string \<times> fvalue) list"
  | BAllParams "(string \<times> (string \<times> fvalue) list) list"
  | BSet string string fvalue bool "persist_error option"
  | BSetAll string "fvalue option" bool "string list"
  | BLogs json

datatype api_response = Reply int payload

type_synonym handled = "api_response option \<times> server"

definition answer_with :: "int \<Rightarrow> payload \<Rightarrow> server \<Rightarrow> handled" where
  "answer_with status p s = (Some (Reply status p), s)"

text \<open>\<open>Query().Get\<close> and \<open>Header.Get\<close>: the first value, or the empty string.\<close>

definition query_get :: "string \<Rightarrow> api_request \<Rightarrow> string" where
  "query_get k r = (case map_of (aq_query r) k of None \<Rightarrow> '''' | Some v \<Rightarrow> v)"

text \<open>\<open>json.NewDecoder(body).Decode\<close>: the first value of the body; what follows is not looked at.\<close>

definition Decode :: "'a decoder \<Rightarrow> 'a \<Rightarrow> bytes \<Rightarrow> 'a option" where
  "Decode d zero data =
     (case parse_value (2 * length data + 2) data of
        None \<Rightarrow> None
      | Some (j, r) \<Rightarrow> (let (x, ok) = d j zero in if ok then Some x else None))"

section \<open>Authorisation\<close>

definition checkAdminToken :: "string \<Rightarrow> api_request \<Rightarrow> server \<Rightarrow> bool" where
  "checkAdminToken name r s =
     (case LookupProvider name (sv_pm s) of
        None \<Rightarrow> False
      | Some ps \<Rightarrow>
          (if \<not> HasAdminToken ps then True
           else CheckAdminToken (header_get ''X-Admin-Token'' (aq_header r)) ps))"

definition checkAnyAdminToken :: "api_request \<Rightarrow> server \<Rightarrow> bool" where
  "checkAnyAdminToken r s =
     (let token = header_get ''X-Admin-Token'' (aq_header r);
          (hasAnyToken, matched) =
            fold (\<lambda>(name, ps) (hasAnyToken, matched).
                    if \<not> HasAdminToken ps then (hasAnyToken, matched)
                    else (True, matched \<or> CheckAdminToken token ps))
              (sv_providers s) (False, False)
      in if \<not> hasAnyToken then True else matched)"

definition unauthorized :: "server \<Rightarrow> handled" where
  "unauthorized = answer_with 401 (BError Unauthorized)"

section \<open>Finding the provider\<close>

text \<open>A provider comes with the name that it is registered under.\<close>

definition named_provider :: "string \<Rightarrow> server \<Rightarrow> api_error + (string \<times> ProviderState)" where
  "named_provider name s =
     (case LookupProvider name (sv_pm s) of
        None \<Rightarrow> Inl (ProviderNotFound name) | Some ps \<Rightarrow> Inr (name, ps))"

definition first_provider :: "server \<Rightarrow> api_error + (string \<times> ProviderState)" where
  "first_provider s =
     (case FirstProvider (sv_pm s) of
        None \<Rightarrow> Inl NoProviders | Some ps \<Rightarrow> Inr (first_name (map fst (sv_providers s)), ps))"

definition resolveProviderByName :: "string \<Rightarrow> server \<Rightarrow> api_error + (string \<times> ProviderState)" where
  "resolveProviderByName name s = (if name \<noteq> '''' then named_provider name s else first_provider s)"

definition resolveProvider :: "api_request \<Rightarrow> server \<Rightarrow> api_error + (string \<times> ProviderState)" where
  "resolveProvider r s =
     (let pName = query_get ''provider'' r
      in if pName = '''' then first_provider s else named_provider pName s)"

definition set_provider :: "string \<Rightarrow> ProviderState \<Rightarrow> server \<Rightarrow> server" where
  "set_provider name ps s = s\<lparr>sv_pm := put_provider name ps (sv_pm s)\<rparr>"

definition persist :: "senv \<Rightarrow> string \<Rightarrow> ProviderState \<Rightarrow> server \<Rightarrow> server" where
  "persist E name ps s =
     (set_provider name ps s)
       \<lparr>sv_store := PersistKeys (en_codec E) (en_fresh E) (en_nonce E name) ps (sv_store s)\<rparr>"

definition on_ps_pool :: "(KeyPool \<Rightarrow> KeyPool) \<Rightarrow> ProviderState \<Rightarrow> ProviderState" where
  "on_ps_pool f ps = ps\<lparr>ps_pool := f (ps_pool ps)\<rparr>"

section \<open>Operations on one key\<close>

type_synonym key_operation = "ProviderState \<Rightarrow> int \<Rightarrow> pool_error option \<times> ProviderState"

definition pool_operation :: "(int \<Rightarrow> KeyPool \<Rightarrow> pool_error option \<times> KeyPool) \<Rightarrow> key_operation" where
  "pool_operation f ps idx = (let (r, p) = f idx (ps_pool ps) in (r, ps\<lparr>ps_pool := p\<rparr>))"

definition disableKey :: key_operation where
  "disableKey = pool_operation Disable"

definition enableKey :: key_operation where
  "enableKey = pool_operation Enable"

definition cooldownKey :: "time \<Rightarrow> key_operation" where
  "cooldownKey now ps = pool_operation (\<lambda>idx. Cooldown now idx (seconds (c_CooldownSec (ps_pc ps)))) ps"

definition deleteKey :: key_operation where
  "deleteKey = pool_operation RemoveKey"

definition keyOperationHandler ::
    "senv \<Rightarrow> key_operation \<Rightarrow> string \<Rightarrow> api_request \<Rightarrow> server \<Rightarrow> handled" where
  "keyOperationHandler E operation rawIndex r s =
     (case resolveProvider r s of
        Inl e \<Rightarrow> answer_with 404 (BError e) s
      | Inr (name, ps) \<Rightarrow>
          (if \<not> checkAdminToken (ps_name ps) r s then unauthorized s
           else (case parseKeyIndex rawIndex of
                   None \<Rightarrow> answer_with 400 (BError (BadKeyIndex rawIndex)) s
                 | Some idx \<Rightarrow>
                     (if Len (ps_pool ps) \<le> idx then answer_with 404 (BError KeyNotFound) s
                      else (case operation ps idx of
                              (Some e, ps') \<Rightarrow> answer_with 404 (BError (PoolError e)) (set_provider name ps' s)
                            | (None, ps') \<Rightarrow> answer_with 200 BSuccess (persist E name ps' s))))))"

section \<open>The keys of a provider\<close>

text \<open>The rows of the key list; the old requests of each key are dropped on the way.\<close>

definition key_row_of :: "time \<Rightarrow> nat \<Rightarrow> KeyPool \<Rightarrow> (key_row \<times> KeyPool) option" where
  "key_row_of now i p =
     (case CleanupOldRequests now (int i) p of
        None \<Rightarrow> None
      | Some p \<Rightarrow>
          (case (CB (int i) p, RequestsInLastMinute now (int i) p) of
             (Some cb, Some n) \<Rightarrow>
               Some (\<lparr>kr_index = int i + 1, kr_key = MaskKey (p_keys p ! i),
                      kr_status = KeyStatusLabel now cb, kr_requests = n,
                      kr_name = (case Name (int i) p of Inl e \<Rightarrow> '''' | Inr nm \<Rightarrow> nm)\<rparr>, p)
           | _ \<Rightarrow> None))"

fun key_rows :: "time \<Rightarrow> nat list \<Rightarrow> KeyPool \<Rightarrow> (key_row list \<times> KeyPool) option" where
  "key_rows now [] p = Some ([], p)"
| "key_rows now (i # is) p =
     (case key_row_of now i p of
        None \<Rightarrow> None
      | Some (row, p) \<Rightarrow> map_option (\<lambda>(rows, p). (row # rows, p)) (key_rows now is p))"

record add_body =
  ab_key :: string
  ab_name :: string

definition dec_add :: "add_body decoder" where
  "dec_add = dec_struct
     [(''key'', \<lambda>j b. let (v, ok) = dec_string j (ab_key b) in (b\<lparr>ab_key := v\<rparr>, ok)),
      (''name'', \<lambda>j b. let (v, ok) = dec_string j (ab_name b) in (b\<lparr>ab_name := v\<rparr>, ok))]"

definition dec_index :: "int decoder" where
  "dec_index = dec_struct [(''index'', dec_int)]"

definition keysHandler :: "senv \<Rightarrow> time \<Rightarrow> api_request \<Rightarrow> server \<Rightarrow> handled" where
  "keysHandler E now r s =
     (case resolveProvider r s of
        Inl e \<Rightarrow> answer_with 404 (BError e) s
      | Inr (name, ps) \<Rightarrow>
          (if (aq_method r = ''POST'' \<or> aq_method r = ''DELETE'') \<and> \<not> checkAdminToken (ps_name ps) r s
           then unauthorized s
           else if aq_method r = ''GET''
           then (case key_rows now [0..<length (Keys (ps_pool ps))] (ps_pool ps) of
                   None \<Rightarrow> (None, s)
                 | Some (rows, p) \<Rightarrow> answer_with 200 (BKeys rows) (set_provider name (ps\<lparr>ps_pool := p\<rparr>) s))
           else if aq_method r = ''POST''
           then (case Decode dec_add \<lparr>ab_key = '''', ab_name = ''''\<rparr> (aq_body r) of
                   None \<Rightarrow> answer_with 400 (BError InvalidBody) s
                 | Some body \<Rightarrow>
                     (if ab_key body = '''' then answer_with 400 (BError KeyRequired) s
                      else (let (idx, p) = AddKey (ab_key body) (ab_name body) (ps_pool ps)
                            in answer_with 200 (BAdded idx (MaskKey (ab_key body)) (ab_name body))
                                 (persist E name (ps\<lparr>ps_pool := p\<rparr>) s))))
           else if aq_method r = ''DELETE''
           then (case Decode dec_index 0 (aq_body r) of
                   None \<Rightarrow> answer_with 400 (BError InvalidBody) s
                 | Some index \<Rightarrow>
                     (if index < 1 \<or> Len (ps_pool ps) < index then answer_with 400 (BError InvalidIndex) s
                      else (case RemoveKey (index - 1) (ps_pool ps) of
                              (Some e, p) \<Rightarrow> answer_with 400 (BError (PoolError e))
                                               (set_provider name (ps\<lparr>ps_pool := p\<rparr>) s)
                            | (None, p) \<Rightarrow> answer_with 200 BRemoved (persist E name (ps\<lparr>ps_pool := p\<rparr>) s))))
           else answer_with 405 BEmpty s))"

section \<open>Small handlers\<close>

definition dec_level :: "string decoder" where
  "dec_level = dec_struct [(''level'', dec_string)]"

definition logLevelHandler :: "senv \<Rightarrow> api_request \<Rightarrow> server \<Rightarrow> handled" where
  "logLevelHandler E r s =
     (if \<not> checkAnyAdminToken r s then unauthorized s
      else if aq_method r = ''GET'' then answer_with 200 (BLevel (CurrentLevel (sv_lm s))) s
      else if aq_method r = ''POST''
      then (case Decode dec_level '''' (aq_body r) of
              None \<Rightarrow> answer_with 400 (BError InvalidBody) s
            | Some body \<Rightarrow>
                (let level = TrimSpace (ToLower body)
                 in if IsValidLogLevel level
                    then answer_with 200 (BLevel level) (s\<lparr>sv_lm := apply_level E level (sv_lm s)\<rparr>)
                    else answer_with 400 (BError BadLogLevel) s))
      else answer_with 405 BEmpty s)"

definition configHandler :: "api_request \<Rightarrow> server \<Rightarrow> handled" where
  "configHandler r s =
     (if aq_method r = ''GET''
      then (case resolveProvider r s of
              Inl e \<Rightarrow> answer_with 404 (BError e) s
            | Inr (name, ps) \<Rightarrow>
                answer_with 200 (BConfig (c_TargetBase (ps_pc ps)) (map MaskKey (Keys (ps_pool ps)))) s)
      else answer_with 405 BEmpty s)"

definition dashboardHandler :: "server \<Rightarrow> handled" where
  "dashboardHandler s = answer_with 200 (BHtml (pm_dashboardHTML (sv_pm s))) s"

definition clearHandler :: "api_request \<Rightarrow> server \<Rightarrow> handled" where
  "clearHandler r s =
     (if \<not> checkAnyAdminToken r s then unauthorized s
      else if aq_method r \<noteq> ''POST'' then answer_with 405 BEmpty s
      else answer_with 200 BCleared s)"

definition swHandler :: "server \<Rightarrow> handled" where
  "swHandler = answer_with 204 BEmpty"

section \<open>Health and statistics\<close>

text \<open>The loop variable \<open>pName\<close> of the handlers: all providers, or the one that is named.\<close>

definition selected :: "string \<Rightarrow> server \<Rightarrow> (string \<times> ProviderState) list" where
  "selected pName s = filter (\<lambda>(name, ps). \<not> (pName \<noteq> '''' \<and> name \<noteq> pName)) (sv_providers s)"

fun cb_state_name :: "State \<Rightarrow> string" where
  "cb_state_name Closed = ''closed''"
| "cb_state_name Open = ''open''"
| "cb_state_name HalfOpen = ''half_open''"
| "cb_state_name Permanent = ''unknown''"

definition health_row_of :: "ProviderState \<Rightarrow> health_row" where
  "health_row_of ps =
     \<lparr>hr_keys = Len (ps_pool ps), hr_cbState = cb_state_name (u_state (ps_upCB ps)),
      hr_lastCheck = (if ps_lastCheckTime ps \<noteq> 0 then Some (ps_lastCheckTime ps, ps_lastCheckOK ps) else None)\<rparr>"

definition unhealthy :: "health_row \<Rightarrow> bool" where
  "unhealthy ph \<longleftrightarrow> hr_cbState ph \<noteq> ''closed'' \<or> (case hr_lastCheck ph of Some (t, ok) \<Rightarrow> \<not> ok | None \<Rightarrow> False)"

definition healthHandler :: "api_request \<Rightarrow> server \<Rightarrow> handled" where
  "healthHandler r s =
     (if \<not> checkAnyAdminToken r s then unauthorized s
      else (let pName = query_get ''provider'' r;
                result = map (\<lambda>(name, ps). (name, health_row_of ps)) (selected pName s);
                overallOK = list_all (\<lambda>(name, ph). \<not> unhealthy ph) result
            in if pName \<noteq> '''' \<and> result = [] then answer_with 404 (BError (ProviderNotFound pName)) s
               else answer_with 200 (BHealth overallOK result) s))"

definition statsHandler :: "time \<Rightarrow> api_request \<Rightarrow> server \<Rightarrow> handled" where
  "statsHandler now r s =
     (if \<not> checkAnyAdminToken r s then unauthorized s
      else (let pName = query_get ''provider'' r
            in case (if pName = '''' then None else Some (resolveProviderByName pName s)) of
                 Some (Inl e) \<Rightarrow> answer_with 404 (BError e) s
               | _ \<Rightarrow>
                   (let pools = map (\<lambda>(name, ps). ps_pool ps) (selected pName s)
                    in answer_with 200
                         (BStats (sum_list (map ActiveCount pools)) (sum_list (map (CoolingCount now) pools))
                           (sum_list (map DisabledCount pools)) (now - pm_startTime (sv_pm s))) s)))"

definition upstreamCBResetHandler :: "api_request \<Rightarrow> server \<Rightarrow> handled" where
  "upstreamCBResetHandler r s =
     (if aq_method r \<noteq> ''POST'' then answer_with 405 BEmpty s
      else (case resolveProviderByName (query_get ''provider'' r) s of
              Inl e \<Rightarrow> answer_with 404 (BError e) s
            | Inr (name, ps) \<Rightarrow>
                (if \<not> checkAdminToken (ps_name ps) r s then unauthorized s
                 else answer_with 200 (BReset (ps_name ps)) (set_provider name (ResetUpstreamCB ps) s))))"

definition reloadHandler :: "senv \<Rightarrow> api_request \<Rightarrow> server \<Rightarrow> handled" where
  "reloadHandler E r s =
     (if \<not> checkAnyAdminToken r s then unauthorized s
      else (case XDGConfigPath (s_world (sv_store s)) of
              None \<Rightarrow> answer_with 500 (BError NoConfigPath) s
            | Some path \<Rightarrow>
                (let (res, def) = LoadAllTomlProviders (read_file (s_world (sv_store s))) (en_tomlDecode E) path;
                     s = (case def of Some n \<Rightarrow> s\<lparr>sv_defaultName := n\<rparr> | None \<Rightarrow> s)
                 in case res of
                      Inl e \<Rightarrow> answer_with 500 (BError (ConfigFailed e)) s
                    | Inr providers \<Rightarrow> answer_with 200 BSuccess (ReloadConfig E providers s))))"

section \<open>Runtime configuration\<close>

text \<open>\<open>%v\<close> of a decoded JSON value.\<close>

definition number_v :: "string \<Rightarrow> string" where
  "number_v lit =
     (case ParseFloat lit of
        Some x \<Rightarrow> (if x = Fin 0 \<and> HasPrefix lit ''-'' then ''-0'' else format_float_v x)
      | None \<Rightarrow> '''')"

definition spaced :: "string list \<Rightarrow> string" where
  "spaced ts = (case ts of [] \<Rightarrow> [] | t # ts \<Rightarrow> t @ concat (map (\<lambda>u. CHR '' '' # u) ts))"

fun fmt_v :: "json \<Rightarrow> string" where
  "fmt_v JNull = ''<nil>''"
| "fmt_v (JBool b) = (if b then ''true'' else ''false'')"
| "fmt_v (JNum lit) = number_v lit"
| "fmt_v (JStr s) = s"
| "fmt_v (JArr js) = ''['' @ spaced (map fmt_v js) @ '']''"
| "fmt_v (JObj ms) =
     ''map['' @ spaced (map (\<lambda>(k, v). k @ '':'' @ v) (as_map (map (\<lambda>kv. (fst kv, fmt_v (snd kv))) ms))) @ '']''"

definition handleRuntimeConfigGet :: "api_request \<Rightarrow> server \<Rightarrow> handled" where
  "handleRuntimeConfigGet r s =
     (let key = query_get ''key'' r; pName = query_get ''provider'' r;
          everything = map (\<lambda>(name, ps). (name, getRuntimeParams ps)) (sv_providers s)
      in if pName = ''all'' then answer_with 200 (BAllParams everything) s
         else if pName \<noteq> ''''
         then (case LookupProvider pName (sv_pm s) of
                 None \<Rightarrow> answer_with 404 (BError (ProviderNotFound pName)) s
               | Some ps \<Rightarrow>
                   (let params = getRuntimeParams ps
                    in if key \<noteq> ''''
                       then (case map_of params key of
                               None \<Rightarrow> answer_with 400 (BError (NoSuchKey key)) s
                             | Some val \<Rightarrow> answer_with 200 (BParam (ps_name ps) key val) s)
                       else answer_with 200 (BParams (ps_name ps) params) s))
         else if key \<noteq> ''''
         then (case List.map_filter (\<lambda>name. map_option (\<lambda>val. (name, val))
                      (Option.bind (LookupProvider name (sv_pm s)) (\<lambda>ps. map_of (getRuntimeParams ps) key)))
                      (ProviderNames (sv_pm s)) of
                 (name, val) # _ \<Rightarrow> answer_with 200 (BParam name key val) s
               | [] \<Rightarrow> answer_with 400 (BError (NoSuchKey key)) s)
         else answer_with 200 (BAllParams everything) s)"

record set_body =
  sb_key :: string
  sb_value :: json

definition dec_any :: "json decoder" where
  "dec_any j v = (case to_interface j of None \<Rightarrow> (v, False) | Some i \<Rightarrow> (j, True))"

definition dec_set :: "set_body decoder" where
  "dec_set = dec_struct
     [(''key'', \<lambda>j b. let (v, ok) = dec_string j (sb_key b) in (b\<lparr>sb_key := v\<rparr>, ok)),
      (''value'', \<lambda>j b. let (v, ok) = dec_any j (sb_value b) in (b\<lparr>sb_value := v\<rparr>, ok))]"

definition zeroConfig :: Config where
  "zeroConfig = \<lparr>cf_Provider = zeroProviderConfig, cf_Runtime = zeroRuntimeConfig\<rparr>"

text \<open>
  Writing one setting into the configuration file. The outer \<open>None\<close> is a panic of the descriptor's
  closure on a value of another type.
\<close>

definition persistRuntimeConfigField ::
    "senv \<Rightarrow> string \<Rightarrow> string \<Rightarrow> fvalue \<Rightarrow> world \<Rightarrow> (persist_error option \<times> world) option" where
  "persistRuntimeConfigField E name key v w =
     (case XDGConfigPath w of
        None \<Rightarrow> Some (Some PathFailed, w)
      | Some path \<Rightarrow>
          (case LoadTomlConfig (read_file w) (en_tomlDecode E) path of
             Inl e \<Rightarrow> Some (Some (LoadFailed e), w)
           | Inr tc \<Rightarrow>
               (let providerCfg = (case map_of (t_Provider tc) name of None \<Rightarrow> Some zeroConfig | Some p \<Rightarrow> p)
                in case (case FindField key of
                           None \<Rightarrow> Some (Some tc, providerCfg)
                         | Some fd \<Rightarrow> Persist fd v (Some tc) providerCfg) of
                     None \<Rightarrow> None
                   | Some (tc', c') \<Rightarrow>
                       (let tc2 = (case tc' of Some t \<Rightarrow> t | None \<Rightarrow> tc);
                            (e, w) = SaveTomlConfig (en_tomlEncode E)
                                       (tc2\<lparr>t_Provider := AList.update name c' (t_Provider tc2)\<rparr>) path w
                        in Some (map_option SaveFailed e, w)))))"

definition persistRuntimeConfigFieldToDefault ::
    "senv \<Rightarrow> string \<Rightarrow> fvalue option \<Rightarrow> world \<Rightarrow> (persist_error option \<times> world) option" where
  "persistRuntimeConfigFieldToDefault E key v w =
     (case XDGConfigPath w of
        None \<Rightarrow> Some (Some PathFailed, w)
      | Some path \<Rightarrow>
          (case LoadTomlConfig (read_file w) (en_tomlDecode E) path of
             Inl e \<Rightarrow> Some (Some (LoadFailed e), w)
           | Inr tc \<Rightarrow>
               (let dflt = (case t_Default tc of None \<Rightarrow> zeroConfig | Some c \<Rightarrow> c)
                in case (case (FindField key, v) of
                           (None, _) \<Rightarrow> Some (Some tc, Some dflt)
                         | (Some fd, Some v) \<Rightarrow> Persist fd v (Some tc) (Some dflt)
                         | (Some fd, None) \<Rightarrow> None) of
                     None \<Rightarrow> None
                   | Some (tc', c') \<Rightarrow>
                       (let tc2 = (case tc' of Some t \<Rightarrow> t | None \<Rightarrow> tc);
                            (e, w) = SaveTomlConfig (en_tomlEncode E) (tc2\<lparr>t_Default := c'\<rparr>) path w
                        in Some (map_option SaveFailed e, w)))))"

definition apply_log_level :: "senv \<Rightarrow> string \<Rightarrow> fvalue \<Rightarrow> server \<Rightarrow> server" where
  "apply_log_level E key v s =
     (case v of VStr level \<Rightarrow> if key = ''log_level'' then s\<lparr>sv_lm := apply_level E level (sv_lm s)\<rparr> else s
      | _ \<Rightarrow> s)"

text \<open>A set for all providers: every provider is tried, the first error is the answer.\<close>

definition set_all :: "string \<Rightarrow> string \<Rightarrow> (string \<times> ProviderState) list \<Rightarrow>
    field_error option \<times> fvalue option \<times> (string \<times> ProviderState) list" where
  "set_all key v pss =
     fold (\<lambda>(name, ps) (err, val, done).
             case setRuntimeConfigField key v ps of
               Inl e \<Rightarrow> (if err = None then Some e else err, val, done @ [(name, ps)])
             | Inr (nv, ps) \<Rightarrow> (err, if val = None then Some nv else val, done @ [(name, ps)]))
       pss (None, None, [])"

definition on_config_world :: "world \<Rightarrow> server \<Rightarrow> server" where
  "on_config_world w s = s\<lparr>sv_store := (sv_store s)\<lparr>s_world := w\<rparr>\<rparr>"

definition set_for_all :: "senv \<Rightarrow> bool \<Rightarrow> string \<Rightarrow> json \<Rightarrow> server \<Rightarrow> handled" where
  "set_for_all E keep key value s =
     (let (err, val, pss) = set_all key (fmt_v value) (sv_providers s);
          s = s\<lparr>sv_pm := (sv_pm s)\<lparr>pm_providers := pss\<rparr>\<rparr>;
          answer = BSetAll key val keep (map fst pss)
      in case err of
           Some e \<Rightarrow> answer_with 400 (BError (FieldError e)) s
         | None \<Rightarrow>
             (if key = ''log_level'' \<and> val = None then (None, s)
              else
                (let s = (case val of Some v \<Rightarrow> apply_log_level E key v s | None \<Rightarrow> s)
                 in if keep
                    then (case persistRuntimeConfigFieldToDefault E key val (s_world (sv_store s)) of
                            None \<Rightarrow> (None, s)
                          | Some (e, w) \<Rightarrow> answer_with 200 answer (on_config_world w s))
                    else answer_with 200 answer s)))"

definition handleRuntimeConfigSet :: "senv \<Rightarrow> api_request \<Rightarrow> server \<Rightarrow> handled" where
  "handleRuntimeConfigSet E r s =
     (case Decode dec_set \<lparr>sb_key = '''', sb_value = JNull\<rparr> (aq_body r) of
        None \<Rightarrow> answer_with 400 (BError InvalidBody) s
      | Some body \<Rightarrow>
          (if sb_key body = '''' then answer_with 400 (BError KeyRequired) s
           else
             (let pName = query_get ''provider'' r; keep = (query_get ''keep'' r = ''true'');
                  key = sb_key body
              in if pName = ''all'' then set_for_all E keep key (sb_value body) s
                 else (case resolveProviderByName pName s of
                         Inl e \<Rightarrow> answer_with 404 (BError e) s
                       | Inr (name, ps) \<Rightarrow>
                           (case setRuntimeConfigField key (fmt_v (sb_value body)) ps of
                              Inl e \<Rightarrow> answer_with 400 (BError (FieldError e)) s
                            | Inr (v, ps') \<Rightarrow>
                                (let s = apply_log_level E key v (set_provider name ps' s)
                                 in if keep
                                    then (case persistRuntimeConfigField E (ps_name ps) key v (s_world (sv_store s)) of
                                            None \<Rightarrow> (None, s)
                                          | Some (err, w) \<Rightarrow>
                                              answer_with 200 (BSet (ps_name ps) key v (err = None) err)
                                                (on_config_world w s))
                                    else answer_with 200 (BSet (ps_name ps) key v False None) s))))))"

definition runtimeConfigHandler :: "senv \<Rightarrow> api_request \<Rightarrow> server \<Rightarrow> handled" where
  "runtimeConfigHandler E r s =
     (if \<not> checkAnyAdminToken r s then unauthorized s
      else if aq_method r = ''GET'' then handleRuntimeConfigGet r s
      else if aq_method r = ''POST'' then handleRuntimeConfigSet E r s
      else answer_with 405 BEmpty s)"

section \<open>Routes\<close>

datatype key_op = OpDisable | OpEnable | OpCooldown | OpDelete

datatype endpoint =
    Health | Logs | Dashboard | Clear | ConfigView | KeysOf | KeyOp key_op string | Stats | ResetUpstream
  | Reload | LogLevel | RuntimeConfigOf | ServiceWorker | MetricsPage | ProxyAll

text \<open>
  The routes of the mux. A pattern with a method applies to that method only (GET also to HEAD);
  a path whose patterns all have other methods falls through to the pattern of all paths, the proxy.
  The path is clean and an index in it is not empty.
\<close>

definition is_get :: "string \<Rightarrow> bool" where
  "is_get m \<longleftrightarrow> m = ''GET'' \<or> m = ''HEAD''"

definition key_route :: "string \<Rightarrow> string list \<Rightarrow> endpoint option" where
  "key_route m segs =
     (case segs of
        [a, b, c, index] \<Rightarrow>
          (if [a, b, c] = ['''', ''api'', ''keys''] \<and> index \<noteq> '''' \<and> m = ''DELETE''
           then Some (KeyOp OpDelete index) else None)
      | [a, b, c, index, op] \<Rightarrow>
          (if [a, b, c] = ['''', ''api'', ''keys''] \<and> index \<noteq> ''''
           then (if op = ''disable'' \<and> m = ''POST'' then Some (KeyOp OpDisable index)
                 else if op = ''enable'' \<and> m = ''POST'' then Some (KeyOp OpEnable index)
                 else if op = ''cooldown'' \<and> m = ''PUT'' then Some (KeyOp OpCooldown index) else None)
           else None)
      | _ \<Rightarrow> None)"

definition route :: "string \<Rightarrow> string \<Rightarrow> endpoint" where
  "route m path =
     (if path = ''/health'' then Health
      else if path = ''/logs'' then Logs
      else if path = ''/dashboard'' then Dashboard
      else if path = ''/clear'' then Clear
      else if path = ''/api/config'' then ConfigView
      else if path = ''/api/keys'' then KeysOf
      else if path = ''/api/stats'' \<and> is_get m then Stats
      else if path = ''/api/stats/reset-upstream-cb'' \<and> m = ''POST'' then ResetUpstream
      else if path = ''/api/reload'' \<and> m = ''POST'' then Reload
      else if path = ''/api/log-level'' then LogLevel
      else if path = ''/api/runtime-config'' then RuntimeConfigOf
      else if path = ''/sw.js'' then ServiceWorker
      else if path = ''/metrics'' \<and> is_get m then MetricsPage
      else (case key_route m (split_on (CHR ''/'') path) of Some e \<Rightarrow> e | None \<Rightarrow> ProxyAll))"

definition key_operation_of :: "time \<Rightarrow> key_op \<Rightarrow> key_operation" where
  "key_operation_of now op =
     (case op of OpDisable \<Rightarrow> disableKey | OpEnable \<Rightarrow> enableKey | OpCooldown \<Rightarrow> cooldownKey now
      | OpDelete \<Rightarrow> deleteKey)"

text \<open>The handlers of the API; the metrics page and the proxy are none of them.\<close>

definition api_serve ::
    "senv \<Rightarrow> time \<Rightarrow> (string \<Rightarrow> time option) \<Rightarrow> endpoint \<Rightarrow> api_request \<Rightarrow> server \<Rightarrow> handled option" where
  "api_serve E now parseTime ep r s =
     (case ep of
        Health \<Rightarrow> Some (healthHandler r s)
      | Logs \<Rightarrow> Some (answer_with 200 (BLogs (logsHandler parseTime (read_file (s_world (sv_store s)))
                   (sv_lm s) (query_get ''since'' r))) s)
      | Dashboard \<Rightarrow> Some (dashboardHandler s)
      | Clear \<Rightarrow> Some (clearHandler r s)
      | ConfigView \<Rightarrow> Some (configHandler r s)
      | KeysOf \<Rightarrow> Some (keysHandler E now r s)
      | KeyOp op index \<Rightarrow> Some (keyOperationHandler E (key_operation_of now op) index r s)
      | Stats \<Rightarrow> Some (statsHandler now r s)
      | ResetUpstream \<Rightarrow> Some (upstreamCBResetHandler r s)
      | Reload \<Rightarrow> Some (reloadHandler E r s)
      | LogLevel \<Rightarrow> Some (logLevelHandler E r s)
      | RuntimeConfigOf \<Rightarrow> Some (runtimeConfigHandler E r s)
      | ServiceWorker \<Rightarrow> Some (swHandler s)
      | MetricsPage \<Rightarrow> None
      | ProxyAll \<Rightarrow> None)"

end
