(* ===== verification/AdminSafety.thy ===== *)
theory AdminSafety
  imports Admin
begin

text \<open>
  What the management API guarantees: an invariant of the providers that every handler keeps,
  stated for any predicate on a provider that the small steps keep; and what a request without a
  valid token can change, which is nothing but the expired entries of the request histories.
\<close>

section \<open>Invariants of the providers\<close>

text \<open>Every provider satisfies the predicate, and there are providers of certain names.\<close>

definition all_in :: "string set \<Rightarrow> (string \<Rightarrow> ProviderState \<Rightarrow> bool) \<Rightarrow> server \<Rightarrow> bool" where
  "all_in ns P s \<longleftrightarrow> (\<forall>name\<in>ns. LookupProvider name (sv_pm s) \<noteq> None) \<and>
     (\<forall>name ps. LookupProvider name (sv_pm s) = Some ps \<longrightarrow> P name ps)"

abbreviation all_ok :: "(string \<Rightarrow> ProviderState \<Rightarrow> bool) \<Rightarrow> server \<Rightarrow> bool" where
  "all_ok \<equiv> all_in {}"

lemma all_ok_def: "all_ok P s \<longleftrightarrow> (\<forall>name ps. LookupProvider name (sv_pm s) = Some ps \<longrightarrow> P name ps)"
  by (simp add: all_in_def)

lemma LookupProvider_put [simp]:
  "LookupProvider n (put_provider name ps pm) = (if n = name then Some ps else LookupProvider n pm)"
  by (simp add: LookupProvider_def put_provider_def update_conv')

lemma all_ok_set_provider: "all_in ns P s \<Longrightarrow> P name ps \<Longrightarrow> all_in ns P (set_provider name ps s)"
  by (auto simp: all_in_def set_provider_def)

lemma all_ok_frame: "sv_pm t = sv_pm s \<Longrightarrow> all_in ns P t = all_in ns P s"
  by (simp add: all_in_def)

lemma resolve_ok:
  "resolveProviderByName n s = Inr (name, ps) \<Longrightarrow> LookupProvider name (sv_pm s) = Some ps"
  "resolveProvider r s = Inr (name, ps) \<Longrightarrow> LookupProvider name (sv_pm s) = Some ps"
  by (auto simp: resolveProviderByName_def resolveProvider_def named_provider_def first_provider_def
      FirstProvider_def Let_def split: option.splits if_splits)

text \<open>The key list only cleans up histories.\<close>

lemma key_row_of_pool:
  "key_row_of now i p = Some (row, q) \<Longrightarrow> q = pool_step (PCleanup now (int i)) p"
  by (auto simp: key_row_of_def split: option.splits)

lemma key_rows_pool: "key_rows now is p = Some (rows, q) \<Longrightarrow> q = fold pool_step (map (\<lambda>i. PCleanup now (int i)) is) p"
proof (induction "is" arbitrary: p rows q)
  case (Cons i "is")
  then show ?case
    by (auto split: option.splits prod.splits dest!: key_row_of_pool)
qed simp

lemma all_ok_simps:
  "all_in ns P (s\<lparr>sv_lm := l\<rparr>) = all_in ns P s" "all_in ns P (s\<lparr>sv_store := st\<rparr>) = all_in ns P s"
  "all_in ns P (s\<lparr>sv_defaultName := n\<rparr>) = all_in ns P s" "all_in ns P (on_config_world w s) = all_in ns P s"
  "all_in ns P (apply_log_level E k v s) = all_in ns P s"
  by (simp_all add: all_in_def on_config_world_def apply_log_level_def split: fvalue.split)

lemma all_ok_persist: "all_in ns P s \<Longrightarrow> P name ps \<Longrightarrow> all_in ns P (persist E name ps s)"
  using all_ok_set_provider by (simp add: persist_def all_ok_simps)

lemma all_ok_resolve:
  "all_in ns P s \<Longrightarrow> resolveProviderByName n s = Inr (name, ps) \<Longrightarrow> P name ps"
  "all_in ns P s \<Longrightarrow> resolveProvider r s = Inr (name, ps) \<Longrightarrow> P name ps"
  using resolve_ok by (metis all_in_def)+

text \<open>What a set for all providers does to each of them.\<close>

definition set_one :: "string \<Rightarrow> string \<Rightarrow> ProviderState \<Rightarrow> ProviderState" where
  "set_one key v ps = (case setRuntimeConfigField key v ps of Inl e \<Rightarrow> ps | Inr (nv, ps') \<Rightarrow> ps')"

lemma set_all_providers:
  "snd (snd (set_all key v pss)) = map (\<lambda>(name, ps). (name, set_one key v ps)) pss"
proof -
  have "snd (snd (fold (\<lambda>(name, ps) (err, val, done).
             case setRuntimeConfigField key v ps of
               Inl e \<Rightarrow> (if err = None then Some e else err, val, done @ [(name, ps)])
             | Inr (nv, ps) \<Rightarrow> (err, if val = None then Some nv else val, done @ [(name, ps)]))
       pss a)) = snd (snd a) @ map (\<lambda>(name, ps). (name, set_one key v ps)) pss" for a
    by (induction pss arbitrary: a) (auto simp: set_one_def split: sum.splits)
  from this [of "(None, None, [])"] show ?thesis by (simp add: set_all_def)
qed

text \<open>
  The operations on a pool that the API performs beside those that enable or remove a key, and the
  requests that perform no others than these and \<open>good\<close> ones.
\<close>

definition mild :: "pool_event \<Rightarrow> bool" where
  "mild e \<longleftrightarrow> (case e of PCleanup t i \<Rightarrow> True | PAdd k n \<Rightarrow> True | PDisable i \<Rightarrow> True
     | PCooldown t i d \<Rightarrow> True | _ \<Rightarrow> False)"

definition gentle_op :: "(pool_event \<Rightarrow> bool) \<Rightarrow> endpoint \<Rightarrow> api_request \<Rightarrow> bool" where
  "gentle_op good ep r \<longleftrightarrow>
     (case ep of
        KeyOp OpEnable raw \<Rightarrow> (case parseKeyIndex raw of None \<Rightarrow> True | Some idx \<Rightarrow> good (PEnable idx))
      | KeyOp OpDelete raw \<Rightarrow> (case parseKeyIndex raw of None \<Rightarrow> True | Some idx \<Rightarrow> good (PRemove idx))
      | KeysOf \<Rightarrow> aq_method r = ''DELETE'' \<longrightarrow>
          (case Decode dec_index 0 (aq_body r) of None \<Rightarrow> True | Some idx \<Rightarrow> good (PRemove (idx - 1)))
      | _ \<Rightarrow> True)"

definition gentle :: "(string \<Rightarrow> pool_event \<Rightarrow> bool) \<Rightarrow> endpoint \<Rightarrow> api_request \<Rightarrow> server \<Rightarrow> bool" where
  "gentle good ep r s \<longleftrightarrow>
     (case resolveProvider r s of Inl e \<Rightarrow> True | Inr (name, ps) \<Rightarrow> gentle_op (good name) ep r)"

locale gentle_predicate =
  fixes P :: "string \<Rightarrow> ProviderState \<Rightarrow> bool" and good :: "string \<Rightarrow> pool_event \<Rightarrow> bool"
  assumes P_pool: "good name e \<Longrightarrow> P name ps \<Longrightarrow> P name (ps\<lparr>ps_pool := pool_step e (ps_pool ps)\<rparr>)"
    and mild_good: "mild e \<Longrightarrow> good name e"
    and P_reset: "P name ps \<Longrightarrow> P name (ResetUpstreamCB ps)"
    and P_runtime: "P name ps \<Longrightarrow> setRuntimeConfigField key v ps = Inr (nv, ps') \<Longrightarrow> P name ps'"
begin

lemma P_mild:
  "P name ps \<Longrightarrow> P name (ps\<lparr>ps_pool := pool_step (PCleanup t i) (ps_pool ps)\<rparr>)"
  "P name ps \<Longrightarrow> P name (ps\<lparr>ps_pool := pool_step (PAdd k n) (ps_pool ps)\<rparr>)"
  "P name ps \<Longrightarrow> P name (ps\<lparr>ps_pool := pool_step (PDisable i) (ps_pool ps)\<rparr>)"
  "P name ps \<Longrightarrow> P name (ps\<lparr>ps_pool := pool_step (PCooldown t i d) (ps_pool ps)\<rparr>)"
  by (rule P_pool [OF mild_good]; simp add: mild_def)+

lemma P_run: "\<forall>e\<in>set es. good name e \<Longrightarrow> P name ps \<Longrightarrow> P name (ps\<lparr>ps_pool := fold pool_step es (ps_pool ps)\<rparr>)"
proof (induction es arbitrary: ps)
  case (Cons e es)
  from Cons.IH [of "ps\<lparr>ps_pool := pool_step e (ps_pool ps)\<rparr>"] P_pool [of name e ps] Cons.prems show ?case by simp
qed simp

lemma key_operation_ok:
  assumes "P name ps" and "op = OpEnable \<Longrightarrow> good name (PEnable idx)" and "op = OpDelete \<Longrightarrow> good name (PRemove idx)"
  shows "P name (snd (key_operation_of now op ps idx))"
  using P_mild(3) [OF assms(1), of idx] P_mild(4) [OF assms(1), of now idx "seconds (c_CooldownSec (ps_pc ps))"]
    P_pool [OF assms(2,1)] P_pool [OF assms(3,1)]
  by (auto simp: key_operation_of_def pool_operation_def disableKey_def enableKey_def cooldownKey_def
      deleteKey_def split: key_op.split prod.splits)

lemma keyOperationHandler_ok:
  assumes "all_in ns P s" and "gentle good (KeyOp op raw) r s"
  shows "all_in ns P (snd (keyOperationHandler E (key_operation_of now op) raw r s))"
proof (cases "resolveProvider r s")
  case (Inl e)
  with assms show ?thesis by (simp add: keyOperationHandler_def answer_with_def)
next
  case (Inr x)
  obtain name ps where x: "x = (name, ps)" by force
  then have P: "P name ps" using Inr all_ok_resolve(2) [OF assms(1)] by simp
  have Q: "P name ps'" if "parseKeyIndex raw = Some idx" "key_operation_of now op ps idx = (e, ps')" for idx e ps'
    using key_operation_ok [OF P, of op idx now] assms(2) that
    by (cases op) (auto simp: gentle_def gentle_op_def Inr x)
  show ?thesis
    by (simp add: keyOperationHandler_def Inr x answer_with_def unauthorized_def assms split: option.split prod.split)
       (auto intro!: all_ok_set_provider all_ok_persist assms(1) dest: Q)
qed

lemma keysHandler_ok:
  assumes "all_in ns P s" and "gentle good KeysOf r s"
  shows "all_in ns P (snd (keysHandler E now r s))"
proof (cases "resolveProvider r s")
  case (Inl e)
  with assms show ?thesis by (simp add: keysHandler_def answer_with_def)
next
  case (Inr x)
  obtain name ps where x: "x = (name, ps)" by force
  then have P: "P name ps" using Inr all_ok_resolve(2) [OF assms(1)] by simp
  have rows: "key_rows now is (ps_pool ps) = Some (rows, p) \<Longrightarrow> P name (ps\<lparr>ps_pool := p\<rparr>)" for "is" rows p
    using P_run [OF _ P] mild_good by (auto simp: mild_def dest!: key_rows_pool)
  have add: "AddKey k n (ps_pool ps) = (i, p) \<Longrightarrow> P name (ps\<lparr>ps_pool := p\<rparr>)" for k n i p
    using P_mild(2) [OF P, of k n] by simp
  have rem: "P name (ps\<lparr>ps_pool := p\<rparr>)" if "aq_method r = ''DELETE''" "Decode dec_index 0 (aq_body r) = Some i"
      "RemoveKey (i - 1) (ps_pool ps) = (e, p)" for i e p
    using P_pool [OF _ P, of "PRemove (i - 1)"] assms(2) that by (simp add: gentle_def gentle_op_def Inr x)
  show ?thesis
    by (simp add: keysHandler_def Inr x answer_with_def unauthorized_def assms Let_def split: option.split prod.split)
       (auto intro!: all_ok_set_provider all_ok_persist assms(1) dest: rows add rem)
qed

lemma set_for_all_ok: "all_in ns P s \<Longrightarrow> all_in ns P (snd (set_for_all E keep key value s))"
proof -
  assume ok: "all_in ns P s"
  obtain err val pss where a: "set_all key (fmt_v value) (sv_providers s) = (err, val, pss)"
    by (metis prod_cases3)
  let ?s = "s\<lparr>sv_pm := (sv_pm s)\<lparr>pm_providers := pss\<rparr>\<rparr>"
  have "map_of pss = map_option (set_one key (fmt_v value)) \<circ> map_of (sv_providers s)"
    using set_all_providers [of key "fmt_v value" "sv_providers s"] by (simp add: a map_of_map)
  moreover have "P n (set_one key v ps)" if "P n ps" for n v ps
    using P_runtime [OF that, of key v] that by (auto simp: set_one_def split: sum.split)
  ultimately have "all_in ns P ?s"
    using ok by (auto simp: all_in_def LookupProvider_def)
  then show ?thesis
    by (auto simp: set_for_all_def a Let_def answer_with_def all_ok_simps split: option.splits prod.splits)
qed

lemma runtimeConfigHandler_ok: "all_in ns P s \<Longrightarrow> all_in ns P (snd (runtimeConfigHandler E r s))"
proof -
  assume ok: "all_in ns P s"
  have "all_in ns P (snd (handleRuntimeConfigSet E r s))"
    using ok set_for_all_ok [OF ok] P_runtime
    by (fastforce simp: handleRuntimeConfigSet_def answer_with_def Let_def all_ok_simps
        intro!: all_ok_set_provider dest: all_ok_resolve split: sum.splits option.splits prod.splits)
  with ok show ?thesis
    by (auto simp: runtimeConfigHandler_def unauthorized_def answer_with_def handleRuntimeConfigGet_def Let_def
        split: option.splits list.splits)
qed

lemma small_handlers_ok:
  assumes "all_in ns P s"
  shows "all_in ns P (snd (logLevelHandler E r s))" and "all_in ns P (snd (configHandler r s))"
    and "all_in ns P (snd (clearHandler r s))" and "all_in ns P (snd (healthHandler r s))"
    and "all_in ns P (snd (statsHandler now r s))" and "all_in ns P (snd (upstreamCBResetHandler r s))"
proof -
  note defs = answer_with_def unauthorized_def Let_def all_ok_simps assms
  show "all_in ns P (snd (logLevelHandler E r s))"
    by (simp add: logLevelHandler_def defs split: option.split)
  show "all_in ns P (snd (configHandler r s))"
    by (simp add: configHandler_def defs split: sum.split prod.split)
  show "all_in ns P (snd (clearHandler r s))" by (simp add: clearHandler_def defs)
  show "all_in ns P (snd (healthHandler r s))" by (simp add: healthHandler_def defs)
  show "all_in ns P (snd (statsHandler now r s))"
    by (simp add: statsHandler_def defs split: sum.split option.split prod.split)
  show "all_in ns P (snd (upstreamCBResetHandler r s))"
    using P_reset by (auto simp: upstreamCBResetHandler_def defs
        intro!: all_ok_set_provider dest: all_ok_resolve [OF assms] split: sum.split prod.split)
qed

lemma api_serve_gentle:
  assumes "all_in ns P s" and "api_serve E now pt ep r s = Some (resp, s')" and "gentle good ep r s" and "ep \<noteq> Reload"
  shows "all_in ns P s'"
  using assms(2-) small_handlers_ok [OF assms(1)] keyOperationHandler_ok [OF assms(1)]
    keysHandler_ok [OF assms(1)] runtimeConfigHandler_ok [OF assms(1)] assms(1)
  by (cases ep) (simp_all add: api_serve_def dashboardHandler_def swHandler_def answer_with_def,
      (metis snd_conv)+)

end

locale provider_predicate = gentle_predicate P "\<lambda>name e. True"
  for P :: "string \<Rightarrow> ProviderState \<Rightarrow> bool" +
  assumes P_refreshed: "P name ps \<Longrightarrow> P name (refreshed E cfg ps)"
    and P_new: "P name (NewProviderState name cfg (NewKeyPool c keys names) dash kf)"
begin

lemma P_restore: "P name ps \<Longrightarrow> P name (ps\<lparr>ps_pool := restore_disabled dns (ps_pool ps)\<rparr>)"
proof -
  assume P: "P name ps"
  have named: "\<exists>es. disable_named dn p = fold pool_step es p" for dn p
  proof -
    let ?f = "\<lambda>i p. let n = (case Name (int i) p of Inr n \<Rightarrow> n | Inl e \<Rightarrow> '''')
                 in if n = dn then snd (Disable (int i) p) else p"
    have "\<exists>es. fold ?f is p = fold pool_step es p" for "is" p
    proof (induction "is" arbitrary: p)
      case (Cons i "is")
      from Cons [of "?f i p"] obtain es where "fold ?f (i # is) p = fold pool_step es (?f i p)" by auto
      then have "fold ?f (i # is) p = fold pool_step (if ?f i p = p then es else PDisable (int i) # es) p"
        by (auto simp: Let_def)
      then show ?case by blast
    qed (auto intro: exI [of _ "[]"])
    then show ?thesis by (simp add: disable_named_def)
  qed
  have "\<exists>es. fold disable_named dns p = fold pool_step es p" for p
  proof (induction dns arbitrary: p)
    case (Cons dn dns)
    obtain es where "disable_named dn p = fold pool_step es p" using named by blast
    moreover obtain fs where "fold disable_named dns (fold pool_step es p) = fold pool_step fs (fold pool_step es p)"
      using Cons by blast
    ultimately have "fold disable_named (dn # dns) p = fold pool_step (es @ fs) p" by simp
    then show ?case by blast
  qed (auto intro: exI [of _ "[]"])
  then obtain es where "restore_disabled dns (ps_pool ps) = fold pool_step es (ps_pool ps)"
    unfolding restore_disabled_def by blast
  with P_run [OF _ P, of es] show ?thesis by simp
qed

lemma reload_one_ok: "all_in ns P s \<Longrightarrow> all_in ns P (reload_one E nc s)"
  using P_restore P_refreshed P_new
  by (auto simp: reload_one_def Let_def all_in_def AddProvider_def split: option.splits prod.splits)

lemma ReloadConfig_ok: "all_in ns P s \<Longrightarrow> all_in ns P (ReloadConfig E pcs s)"
  unfolding ReloadConfig_def by (induction pcs arbitrary: s) (auto intro: reload_one_ok)

lemma reloadHandler_ok: "all_in ns P s \<Longrightarrow> all_in ns P (snd (reloadHandler E r s))"
  by (auto simp: reloadHandler_def answer_with_def unauthorized_def Let_def all_ok_simps
      intro!: ReloadConfig_ok split: sum.split option.split prod.split)

lemma api_serve_ok:
  assumes "all_in ns P s" and "api_serve E now pt ep r s = Some (resp, s')"
  shows "all_in ns P s'"
proof (cases "ep = Reload")
  case True
  with assms(2) reloadHandler_ok [OF assms(1), of E r] show ?thesis by (simp add: api_serve_def)
next
  case False
  moreover have "gentle (\<lambda>name e. True) ep r s"
    by (simp add: gentle_def gentle_op_def split: sum.split prod.split endpoint.split key_op.split option.split)
  ultimately show ?thesis by (intro api_serve_gentle [OF assms])
qed

end

section \<open>The providers stay well-formed\<close>

definition provider_ok :: "string \<Rightarrow> ProviderState \<Rightarrow> bool" where
  "provider_ok name ps \<longleftrightarrow> ps_name ps = name \<and> pool_wf (ps_pool ps) \<and> upstream_inv (ps_upCB ps)"

lemma ConfigureCBs_wf: "pool_wf p \<Longrightarrow> pool_wf (ConfigureCBs b c m p)"
  using pool_step_wf [of p "PConfigure b c m"] by simp

lemma SetSelectionMode_wf: "pool_wf p \<Longrightarrow> pool_wf (SetSelectionMode m p)"
  using pool_step_wf [of p "PMode m"] by simp

lemma provider_ok_runtime:
  assumes "provider_ok name ps" and "runtime_write key v ps ps'"
  shows "provider_ok name ps'"
  using assms(2) unfolding runtime_write_def
  by (elim disjE exE)
     (use assms(1) in \<open>simp_all add: provider_ok_def apply_cooldown_def apply_backoff_cap_def apply_multiplier_def
        setter_defs ConfigureCBs_wf SetThreshold_def SetResetTimeout_def upstream_inv_def Let_def\<close>)

lemma setRuntimeConfigField_write:
  "setRuntimeConfigField key s ps = Inr (v, ps') \<Longrightarrow> runtime_write key v ps ps'"
  by (auto simp: setRuntimeConfigField_def intro: ApplyRuntime_write split: option.splits if_splits)

interpretation well_formed: provider_predicate provider_ok
proof
  show "provider_ok name (ps\<lparr>ps_pool := pool_step e (ps_pool ps)\<rparr>)" if "provider_ok name ps" for name ps e
    using that by (simp add: provider_ok_def pool_step_wf)
  show "provider_ok name (ResetUpstreamCB ps)" if "provider_ok name ps" for name ps
    using that upstream_step_inv [of _ UReset] by (simp add: provider_ok_def ResetUpstreamCB_def)
  show "provider_ok name ps'" if "provider_ok name ps" and "setRuntimeConfigField key v ps = Inr (nv, ps')"
    for name ps ps' key v nv
    using provider_ok_runtime [OF that(1) setRuntimeConfigField_write [OF that(2)]] .
  show "provider_ok name (refreshed E cfg ps)" if "provider_ok name ps" for name ps E cfg
    using that by (simp add: provider_ok_def refreshed_def Let_def ConfigurePoolCBs_def ConfigureCBs_wf
        SetSelectionMode_wf NewKeyPool_wf)
  show "provider_ok name (NewProviderState name cfg (NewKeyPool c keys names) dash kf)" for name cfg c keys names dash kf
    by (simp add: provider_ok_def NewProviderState_def Let_def ConfigureCBs_wf SetSelectionMode_wf NewKeyPool_wf)
qed simp

section \<open>Requests without a valid token\<close>

text \<open>The server but for the request histories of its pools.\<close>

definition forget_history :: "ProviderState \<Rightarrow> ProviderState" where
  "forget_history ps = ps\<lparr>ps_pool := (ps_pool ps)\<lparr>p_requestHistory := []\<rparr>\<rparr>"

definition public_view :: "server \<Rightarrow> (string \<times> ProviderState) list \<times> LogManager \<times> store_state \<times> string" where
  "public_view s = (map (\<lambda>(n, ps). (n, forget_history ps)) (sv_providers s), sv_lm s, sv_store s, sv_defaultName s)"

text \<open>Every provider has a token and the request carries none of them.\<close>

definition intruder :: "api_request \<Rightarrow> server \<Rightarrow> bool" where
  "intruder r s \<longleftrightarrow> sv_providers s \<noteq> [] \<and>
     list_all (\<lambda>(n, ps). HasAdminToken ps \<and> \<not> CheckAdminToken (header_get ''X-Admin-Token'' (aq_header r)) ps)
       (sv_providers s)"

lemma intruder_any: "intruder r s \<Longrightarrow> \<not> checkAnyAdminToken r s"
proof -
  assume i: "intruder r s"
  let ?t = "header_get ''X-Admin-Token'' (aq_header r)"
  have "fold (\<lambda>(name, ps) (hasAnyToken, matched).
              if \<not> HasAdminToken ps then (hasAnyToken, matched)
              else (True, matched \<or> CheckAdminToken ?t ps)) pss (h, False) = (h \<or> pss \<noteq> [], False)"
    if "list_all (\<lambda>(n, ps). HasAdminToken ps \<and> \<not> CheckAdminToken ?t ps) pss" for pss h
    using that by (induction pss arbitrary: h) auto
  from this [of "sv_providers s" False] i show ?thesis
    by (simp add: intruder_def checkAnyAdminToken_def)
qed

lemma intruder_one:
  assumes "intruder r s" and "LookupProvider name (sv_pm s) = Some ps"
  shows "\<not> checkAdminToken name r s"
proof -
  have "(name, ps) \<in> set (sv_providers s)" using assms(2) by (auto simp: LookupProvider_def dest: map_of_SomeD)
  with assms show ?thesis by (auto simp: intruder_def checkAdminToken_def list_all_iff)
qed

lemma map_update_same:
  "map_of al k = Some w \<Longrightarrow> f (k, v) = f (k, w) \<Longrightarrow> map f (AList.update k v al) = map f al"
  by (induction al) auto

lemma public_view_history:
  assumes "LookupProvider name (sv_pm s) = Some ps" and "forget_history ps' = forget_history ps"
  shows "public_view (set_provider name ps' s) = public_view s"
  using assms map_update_same [of "sv_providers s" name ps "\<lambda>(n, ps). (n, forget_history ps)" ps']
  by (simp add: public_view_def set_provider_def put_provider_def LookupProvider_def)

lemma key_rows_history:
  assumes "key_rows now is p = Some (rows, q)"
  shows "q\<lparr>p_requestHistory := []\<rparr> = p\<lparr>p_requestHistory := []\<rparr>"
proof -
  have c: "(pool_step (PCleanup now i) p)\<lparr>p_requestHistory := []\<rparr> = p\<lparr>p_requestHistory := []\<rparr>" for i p
    by (auto simp: CleanupOldRequests_def split: option.split)
  have "(fold pool_step (map (\<lambda>i. PCleanup now (int i)) is) p)\<lparr>p_requestHistory := []\<rparr> =
      p\<lparr>p_requestHistory := []\<rparr>"
    by (induction "is" arbitrary: p) (simp_all add: c del: pool_step.simps)
  with key_rows_pool [OF assms] show ?thesis by simp
qed

lemma intruder_sees_public_view:
  assumes "intruder r s" and "all_ok provider_ok s" and "api_serve E now pt ep r s = Some (resp, s')"
  shows "public_view s' = public_view s"
proof -
  have any: "\<not> checkAnyAdminToken r s" by (rule intruder_any [OF assms(1)])
  have one: "\<not> checkAdminToken (ps_name ps) r s" if "LookupProvider name (sv_pm s) = Some ps" for name ps
    using that assms(2) intruder_one [OF assms(1) that] by (auto simp: all_ok_def provider_ok_def)
  note defs = answer_with_def unauthorized_def any Let_def
  have keys: "public_view (snd (keysHandler E now r s)) = public_view s"
    by (cases "resolveProvider r s")
       (auto simp: keysHandler_def defs forget_history_def dest!: resolve_ok(2) key_rows_history dest: one
         intro!: public_view_history split: option.split)
  have op: "public_view (snd (keyOperationHandler E f raw r s)) = public_view s" for f raw
    by (cases "resolveProvider r s")
       (auto simp: keyOperationHandler_def defs dest!: resolve_ok(2) dest: one)
  have reset: "public_view (snd (upstreamCBResetHandler r s)) = public_view s"
    by (cases "resolveProviderByName (query_get ''provider'' r) s")
       (auto simp: upstreamCBResetHandler_def defs dest!: resolve_ok(1) dest: one)
  have config: "snd (configHandler r s) = s" by (auto simp: configHandler_def defs split: sum.split)
  show ?thesis
    using assms(3) keys op reset config
    by (cases ep)
       (auto simp: api_serve_def healthHandler_def dashboardHandler_def clearHandler_def statsHandler_def
         reloadHandler_def logLevelHandler_def runtimeConfigHandler_def swHandler_def defs
         dest: arg_cong [of _ _ snd], metis op snd_conv)
qed

end
