(* ===== verification/ErrorDump.thy ===== *)
theory ErrorDump
  imports Masking "HOL-Library.AList"
begin

text \<open>
  The dumps of failed requests (internal/server/error_dump.go) and their cleaning
  (internal/server/crash.go). The dump directory is an association list from file names to
  modification times and contents. Formatted times depend on the local zone and are arguments.
\<close>

section \<open>The directory\<close>

type_synonym dump_dir = "(string \<times> (time \<times> bytes)) list"

text \<open>What the file system allows: making the directory, writing, removing and renaming files.\<close>

record dump_env =
  de_mkdir :: bool
  de_writable :: "string \<Rightarrow> bool"
  de_removable :: "string \<Rightarrow> bool"
  de_renamable :: "string \<Rightarrow> bool"
  de_now :: time

datatype dump_error = DumpMkdir | DumpWriteTemp | DumpRename

text \<open>\<open>AddDate(0, 0, -n)\<close> for days of 24 hours.\<close>

definition cleanErrorDumps :: "dump_env \<Rightarrow> int \<Rightarrow> dump_dir \<Rightarrow> dump_dir" where
  "cleanErrorDumps env maxAgeDays dir =
     (let days = (if maxAgeDays \<le> 0 then 7 else maxAgeDays);
          cutoff = de_now env - days * 86400000000000
      in filter (\<lambda>(name, (modTime, content)). \<not> (modTime < cutoff \<and> de_removable env name)) dir)"

definition SetupErrorLogDir :: "dump_env \<Rightarrow> int \<Rightarrow> dump_dir \<Rightarrow> dump_dir" where
  "SetupErrorLogDir env maxAgeDays dir = cleanErrorDumps env maxAgeDays dir"

definition errorDumpFilename :: "int \<Rightarrow> string \<Rightarrow> string \<Rightarrow> string" where
  "errorDumpFilename status stamp prefix = Itoa status @ ''-'' @ stamp @ ''-'' @ prefix @ ''.txt''"

section \<open>One dump\<close>

record dump_info =
  du_start :: string
  du_stamp :: string
  du_seconds :: string
  du_provider :: string
  du_keyName :: string
  du_target :: string
  du_method :: string
  du_status :: int
  du_round :: int
  du_rectify :: "string option"
  du_rectified :: bool
  du_reqBody :: bytes
  du_respBody :: bytes

definition nl :: string where
  "nl = [CHR 0x0A]"

definition dump_text :: "dump_info \<Rightarrow> bytes" where
  "dump_text d =
     ''Time:      '' @ du_start d @ nl @ ''Provider:  '' @ du_provider d @ nl @
     ''Key:       '' @ du_keyName d @ nl @ ''URL:       '' @ du_target d @ nl @
     ''Method:    '' @ du_method d @ nl @ ''Status:    '' @ Itoa (du_status d) @ nl @
     ''Round:     '' @ Itoa (du_round d) @ nl @ ''Duration:  '' @ du_seconds d @ ''s'' @ nl @
     (case du_rectify d of
        Some mapTo \<Rightarrow> ''Rectifier: enabled (mapTo: '' @ mapTo @ '')'' @ nl
      | None \<Rightarrow> ''Rectifier: default'' @ nl) @
     ''Rectified: '' @ (if du_rectified d then ''true'' else ''false'') @ nl @ nl @
     ''--- Request Body ---'' @ nl @ du_reqBody d @ nl @ nl @ ''--- Response Body ---'' @ nl @
     du_respBody d @ nl"

definition writeErrorDump ::
    "dump_env \<Rightarrow> int \<Rightarrow> dump_info \<Rightarrow> dump_dir \<Rightarrow> dump_error option \<times> dump_dir" where
  "writeErrorDump env maxAgeDays d dir =
     (if \<not> de_mkdir env then (Some DumpMkdir, dir)
      else
        (let dir = cleanErrorDumps env maxAgeDays dir;
             path = errorDumpFilename (du_status d) (du_stamp d) (sanitizeKeyPrefix (du_keyName d));
             tmp = path @ ''.tmp''
         in if \<not> de_writable env tmp then (Some DumpWriteTemp, dir)
            else
              (let dir = AList.update tmp (de_now env, dump_text d) dir;
                   dir = (if de_removable env path then AList.delete path dir else dir)
               in if de_renamable env path
                  then (None, AList.update path (de_now env, dump_text d) (AList.delete tmp dir))
                  else (Some DumpRename, if de_removable env tmp then AList.delete tmp dir else dir))))"

section \<open>What is left in the directory\<close>

lemma clean_subset: "set (cleanErrorDumps env n dir) \<subseteq> set dir"
  by (auto simp: cleanErrorDumps_def Let_def)

lemma clean_map_of:
  assumes "distinct (map fst dir)"
  shows "map_of (cleanErrorDumps env n dir) name =
    (case map_of dir name of
       None \<Rightarrow> None
     | Some (t, c) \<Rightarrow>
         (if t < de_now env - (if n \<le> 0 then 7 else n) * 86400000000000 \<and> de_removable env name
          then None else Some (t, c)))"
  using assms
proof (induction dir)
  case (Cons e dir)
  have "map_of (cleanErrorDumps env n dir) (fst e) = None"
    using Cons.prems clean_subset [of env n dir] by (auto simp: map_of_eq_None_iff)
  with Cons show ?case
    by (cases e) (auto simp: cleanErrorDumps_def Let_def split: option.splits)
qed (simp add: cleanErrorDumps_def)

lemma tmp_neq [simp]: "path @ ''.tmp'' \<noteq> path" "path \<noteq> path @ ''.tmp''"
  by simp_all

lemma writeErrorDump_ok:
  assumes "writeErrorDump env n d dir = (None, dir')"
  shows "map_of dir' = (map_of (cleanErrorDumps env n dir))
    (errorDumpFilename (du_status d) (du_stamp d) (sanitizeKeyPrefix (du_keyName d)) @ ''.tmp'' := None,
     errorDumpFilename (du_status d) (du_stamp d) (sanitizeKeyPrefix (du_keyName d))
       \<mapsto> (de_now env, dump_text d))"
  using assms
  by (auto simp: writeErrorDump_def Let_def update_conv' delete_conv' fun_eq_iff split: if_splits)

text \<open>A failed write keeps every dump that is neither stale nor the one of the same name.\<close>

lemma writeErrorDump_keeps:
  assumes "name \<noteq> errorDumpFilename (du_status d) (du_stamp d) (sanitizeKeyPrefix (du_keyName d))"
    and "name \<noteq> errorDumpFilename (du_status d) (du_stamp d) (sanitizeKeyPrefix (du_keyName d)) @ ''.tmp''"
    and "map_of (cleanErrorDumps env n dir) name = Some e" and "distinct (map fst dir)"
  shows "map_of (snd (writeErrorDump env n d dir)) name = Some e"
proof -
  have "map_of dir name = Some e"
    using assms(3,4) by (auto simp: clean_map_of split: option.splits if_splits)
  with assms show ?thesis
    by (auto simp: writeErrorDump_def Let_def update_conv' delete_conv')
qed

end
