(* ===== verification/ProxyExecutor.thy ===== *)
theory ProxyExecutor
  imports ProviderState Proxy Rectifier ErrorDump
begin

text \<open>
  The life of one proxied request (internal/server/proxy_executor.go): reading and rectifying the
  body, the rounds of key selection and forwarding, the answers by status, the metrics. What happens
  outside is an argument: the answers of the upstream, the clock readings and random draws of every
  round, and the operations that other requests and tasks perform on the pool and the upstream
  breaker while this request waits for the upstream. Between the arrival of an answer and the end of
  its round no other operation is interleaved. The provider's pool and configuration stay the ones
  the request started with.
\<close>

section \<open>Requests, answers, effects\<close>

record request =
  rq_method :: string
  rq_path :: string
  rq_rawQuery :: string
  rq_header :: headers
  rq_body :: "bytes option"
  rq_readable :: bool

record up_request =
  uq_method :: string
  uq_url :: string
  uq_header :: headers
  uq_body :: bytes

text \<open>\<open>a_readOk\<close>: reading the body met no error; \<open>a_body\<close> is what was read.\<close>

record answer =
  a_status :: int
  a_header :: headers
  a_body :: bytes
  a_readOk :: bool

text \<open>An error of \<open>client.Do\<close> carries whether it is \<open>context.Canceled\<close>.\<close>

datatype upstream_result = NetworkError bool | Answer answer

type_synonym upstream = "nat \<Rightarrow> up_request \<Rightarrow> upstream_result"

text \<open>What the client gets: an error of the proxy, or the upstream's status, headers and a body.\<close>

datatype response = ProxyError int ErrorCode | Forwarded int headers bytes

datatype metric =
    RequestsTotal string string string
  | UpstreamErrors string
  | TokenUsage string string int
  | RetryCount string int

record exec =
  x_ps :: ProviderState
  x_store :: store_state
  x_cal :: Calibrator
  x_dumps :: dump_dir
  x_metrics :: "metric list"
  x_resp :: "response option"
  x_sent :: "(nat \<times> string \<times> up_request) list"

text \<open>A handler returns a value, panics, or never returns.\<close>

datatype 'a outcome = Returned 'a exec | Panicked exec | Hung exec

fun and_then :: "'a outcome \<Rightarrow> ('a \<Rightarrow> exec \<Rightarrow> 'b outcome) \<Rightarrow> 'b outcome" where
  "and_then (Returned a x) f = f a x"
| "and_then (Panicked x) f = Panicked x"
| "and_then (Hung x) f = Hung x"

text \<open>
  The libraries. \<open>lb_counterAdd\<close> says whether \<open>Add\<close> of a Prometheus counter takes a value or panics;
  it is documented to panic on a negative one.
\<close>

record libs =
  lb_tk :: tiktoken
  lb_codec :: codec
  lb_parseURL :: "string \<Rightarrow> url option"
  lb_urlString :: "url \<Rightarrow> string"
  lb_counterAdd :: "int \<Rightarrow> bool"

text \<open>What one round reads from outside, apart from the upstream.\<close>

record round_env =
  re_allowAt :: time
  re_selectAt :: time
  re_buildOk :: bool
  re_pool :: "pool_event list"
  re_up :: "upstream_event list"
  re_failAt :: time
  re_draw :: nat
  re_coolAt :: time
  re_countAt :: time
  re_writes :: "nat \<Rightarrow> nat option"
  re_fresh :: bytes
  re_nonce :: bytes
  re_dumpEnv :: dump_env
  re_stamps :: "string \<times> string \<times> string"

section \<open>Small steps\<close>

definition on_pool :: "(KeyPool \<Rightarrow> KeyPool) \<Rightarrow> exec \<Rightarrow> exec" where
  "on_pool f x = x\<lparr>x_ps := (x_ps x)\<lparr>ps_pool := f (ps_pool (x_ps x))\<rparr>\<rparr>"

definition on_up :: "(UpstreamCircuitBreaker \<Rightarrow> UpstreamCircuitBreaker) \<Rightarrow> exec \<Rightarrow> exec" where
  "on_up f x = x\<lparr>x_ps := (x_ps x)\<lparr>ps_upCB := f (ps_upCB (x_ps x))\<rparr>\<rparr>"

definition record_metric :: "metric \<Rightarrow> exec \<Rightarrow> exec" where
  "record_metric m x = x\<lparr>x_metrics := x_metrics x @ [m]\<rparr>"

definition respond :: "response \<Rightarrow> exec \<Rightarrow> exec" where
  "respond r x = x\<lparr>x_resp := Some r\<rparr>"

abbreviation x_pool :: "exec \<Rightarrow> KeyPool" where
  "x_pool x \<equiv> ps_pool (x_ps x)"

abbreviation x_name :: "exec \<Rightarrow> string" where
  "x_name x \<equiv> ps_name (x_ps x)"

lemmas step_defs = on_pool_def on_up_def record_metric_def respond_def

text \<open>The arguments of a log call are computed also when the level is off.\<close>

definition log_preview :: "bytes \<Rightarrow> 'a \<Rightarrow> exec \<Rightarrow> 'a outcome" where
  "log_preview body a x =
     (case MaskSensitiveData body 1024 of None \<Rightarrow> Hung x | Some s \<Rightarrow> Returned a x)"

definition recordProxyMetrics :: "string \<Rightarrow> string \<Rightarrow> string \<Rightarrow> exec \<Rightarrow> exec" where
  "recordProxyMetrics method statusClass keyIndex = record_metric (RequestsTotal method statusClass keyIndex)"

definition writeAllKeysExhausted :: "string \<Rightarrow> exec \<Rightarrow> exec" where
  "writeAllKeysExhausted method x =
     recordProxyMetrics method ''5xx'' '''' (respond (ProxyError 503 ErrorAllKeysInvalid) x)"

section \<open>Answers by status\<close>

text \<open>
  A 429: the key's breaker records a failure, and the key is cooled for the breaker's time or, when
  longer, for the \<open>Retry-After\<close> seconds plus two. The result is whether the request is over.
\<close>

definition rate_limit_cooldown :: "answer \<Rightarrow> duration \<Rightarrow> duration" where
  "rate_limit_cooldown resp cbCooldown =
     (let ra = header_get ''Retry-After'' (a_header resp)
      in if ra \<noteq> ''''
         then (case Atoi ra of
                 Some secs \<Rightarrow> (let raDuration = wrap64 (wrap64 (secs + 2) * 1000000000)
                              in if cbCooldown < raDuration then raDuration else cbCooldown)
               | None \<Rightarrow> cbCooldown)
         else cbCooldown)"

definition handleRateLimited ::
    "round_env \<Rightarrow> nat \<Rightarrow> answer \<Rightarrow> string \<Rightarrow> exec \<Rightarrow> bool outcome" where
  "handleRateLimited e idx resp method x =
     (let (cbCooldown, p) = P_RecordFailure (re_failAt e) (re_draw e) (int idx) (x_pool x);
          x = on_pool (\<lambda>_. p) x;
          x = on_pool (snd \<circ> Cooldown (re_coolAt e) (int idx) (rate_limit_cooldown resp cbCooldown)) x
      in case CB (int idx) (x_pool x) of
           None \<Rightarrow> Panicked x
         | Some cb \<Rightarrow>
             and_then (log_preview (a_body resp) () x)
               (\<lambda>_ x.
                  let x = record_metric (UpstreamErrors ''rate_limited'') x
                  in if k_state cb = Permanent \<and> ActiveCount (x_pool x) = 0
                     then Returned True (writeAllKeysExhausted method x)
                     else Returned False x))"

text \<open>A 401 or 403: the failure is counted, and the key is disabled when the count says so.\<close>

definition handleAuthRejected ::
    "libs \<Rightarrow> round_env \<Rightarrow> nat \<Rightarrow> answer \<Rightarrow> string \<Rightarrow> exec \<Rightarrow> bool outcome" where
  "handleAuthRejected L e idx resp method x =
     (let x = record_metric (UpstreamErrors ''auth_rejected'') x;
          (perma, p) = P_RecordAuthFailure (re_failAt e) (int idx) (x_pool x);
          x = on_pool (\<lambda>_. p) x;
          finish = (\<lambda>_ x.
            if ActiveCount (x_pool x) = 0
            then Returned True (recordProxyMetrics method ''5xx'' ''''
                   (respond (ProxyError 503 ErrorAllKeysInvalid) x))
            else Returned False x)
      in if perma
         then
           (let x = on_pool (snd \<circ> Disable (int idx)) x;
                x = x\<lparr>x_store := PersistKeys (lb_codec L) (re_fresh e) (re_nonce e) (x_ps x) (x_store x)\<rparr>
            in and_then (log_preview (a_body resp) () x) finish)
         else
           (case CB (int idx) (x_pool x) of None \<Rightarrow> Panicked x | Some cb \<Rightarrow> finish () x))"

text \<open>A 5xx: only the upstream breaker learns of it.\<close>

definition handleServerError :: "round_env \<Rightarrow> answer \<Rightarrow> exec \<Rightarrow> bool outcome" where
  "handleServerError e resp x =
     and_then (log_preview (a_body resp) () x)
       (\<lambda>_ x. Returned False
          (on_up (U_RecordFailure (re_failAt e)) (record_metric (UpstreamErrors ''server_error'') x)))"

text \<open>Other 4xx answers and 501 go to the client as they are, and into a dump.\<close>

definition dump_of ::
    "round_env \<Rightarrow> nat \<Rightarrow> answer \<Rightarrow> string \<Rightarrow> string \<Rightarrow> bytes \<Rightarrow> nat \<Rightarrow> bool \<Rightarrow> exec \<Rightarrow> dump_info" where
  "dump_of e idx resp method target bodyBytes attempt rectified x =
     \<lparr>du_start = fst (re_stamps e), du_stamp = fst (snd (re_stamps e)), du_seconds = snd (snd (re_stamps e)),
      du_provider = x_name x,
      du_keyName = (case Name (int idx) (x_pool x) of Inl err \<Rightarrow> '''' | Inr n \<Rightarrow> n),
      du_target = target, du_method = method, du_status = a_status resp, du_round = int attempt,
      du_rectify = (if c_ThinkingMode (ps_pc (x_ps x)) = ''rectify''
                    then Some (c_RectifyThinkingMapTo (ps_pc (x_ps x))) else None),
      du_rectified = rectified, du_reqBody = bodyBytes, du_respBody = a_body resp\<rparr>"

definition handleNonRetryable ::
    "round_env \<Rightarrow> nat \<Rightarrow> answer \<Rightarrow> string \<Rightarrow> string \<Rightarrow> bytes \<Rightarrow> nat \<Rightarrow> bool \<Rightarrow> exec \<Rightarrow> unit outcome" where
  "handleNonRetryable e idx resp method target bodyBytes attempt rectified x =
     (let x = respond (Forwarded (a_status resp) (copyHeaders [] (a_header resp)) (a_body resp)) x;
          maxAge = c_ErrorDumpMaxAge (ps_pc (x_ps x));
          dir = SetupErrorLogDir (re_dumpEnv e) maxAge (x_dumps x);
          x = x\<lparr>x_dumps := snd (writeErrorDump (re_dumpEnv e) maxAge
                (dump_of e idx resp method target bodyBytes attempt rectified x) dir)\<rparr>
      in and_then (log_preview (a_body resp) () x)
           (\<lambda>_ x. let x = recordProxyMetrics method ''4xx'' (Itoa (int idx)) x
                  in Returned () (if 0 < attempt then record_metric (RetryCount (x_name x) (int attempt)) x else x)))"

definition recordMetricsAndLog ::
    "nat \<Rightarrow> answer \<Rightarrow> string \<Rightarrow> int \<Rightarrow> int \<Rightarrow> nat \<Rightarrow> exec \<Rightarrow> exec" where
  "recordMetricsAndLog idx resp method inputTokens outputTokens attempt x =
     (let x = (if 0 < inputTokens then record_metric (TokenUsage (x_name x) ''input'' inputTokens) x else x);
          x = (if 0 < outputTokens then record_metric (TokenUsage (x_name x) ''output'' outputTokens) x else x);
          x = (if 0 < attempt then record_metric (RetryCount (x_name x) (int attempt)) x else x)
      in recordProxyMetrics method (StatusLabel (a_status resp)) (Itoa (int idx)) x)"

text \<open>
  Token counts of a complete body: the upstream's numbers, the output estimated from a text when
  there is none, and the samples that the calibrator records.
\<close>

definition count_response ::
    "libs \<Rightarrow> bytes \<Rightarrow> bytes \<Rightarrow> string \<Rightarrow> string \<Rightarrow> Calibrator \<Rightarrow> int \<times> int \<times> Calibrator" where
  "count_response L body bodyBytes text model cal =
     (let (inputTokens, outputTokens, _) = ProcessResponse body;
          outputEstimate = EstimateOutput (lb_tk L) text model;
          cal = RecordCalibration model (EstimateInput (lb_tk L) bodyBytes model) inputTokens
                  outputEstimate outputTokens cal
      in (inputTokens,
          if outputTokens = 0 \<and> 0 < outputEstimate then outputEstimate else outputTokens, cal))"

text \<open>Committing an answer: the request is counted, which panics on a key that is gone.\<close>

definition commit_success ::
    "round_env \<Rightarrow> nat \<Rightarrow> answer \<Rightarrow> string \<Rightarrow> int \<Rightarrow> int \<Rightarrow> nat \<Rightarrow> exec \<Rightarrow> bool outcome" where
  "commit_success e idx resp method inputTokens outputTokens attempt x =
     (case IncrementRequestCount (re_countAt e) (int idx) (x_pool x) of
        None \<Rightarrow> Panicked x
      | Some p \<Rightarrow> Returned True
          (recordMetricsAndLog idx resp method inputTokens outputTokens attempt (on_pool (\<lambda>_. p) x)))"

definition record_success :: "nat \<Rightarrow> exec \<Rightarrow> exec" where
  "record_success idx x = on_up U_RecordSuccess (on_pool (P_RecordSuccess (int idx)) x)"

definition forward :: "answer \<Rightarrow> bytes \<Rightarrow> exec \<Rightarrow> exec" where
  "forward resp body = respond (Forwarded (a_status resp) (copyHeaders [] (a_header resp)) body)"

definition is_sse :: "answer \<Rightarrow> bool" where
  "is_sse resp \<longleftrightarrow> Contains (header_get ''Content-Type'' (a_header resp)) ''text/event-stream''"

definition handleSuccess ::
    "libs \<Rightarrow> round_env \<Rightarrow> nat \<Rightarrow> answer \<Rightarrow> string \<Rightarrow> bytes \<Rightarrow> nat \<Rightarrow> exec \<Rightarrow> bool outcome" where
  "handleSuccess L e idx resp method bodyBytes attempt x =
     (let isSSE = is_sse resp; model = ExtractModel bodyBytes
      in if c_BufferMode (ps_pc (x_ps x)) \<and> isSSE
         then
           (if \<not> a_readOk resp \<or> \<not> isCompleteStream (a_body resp) then Returned False x
            else
              (let x = forward resp (a_body resp) (record_success idx x);
                   (inputTokens, outputTokens, cal) =
                     count_response L (a_body resp) bodyBytes (a_body resp) model (x_cal x)
               in commit_success e idx resp method inputTokens outputTokens attempt (x\<lparr>x_cal := cal\<rparr>)))
         else
           (let x = record_success idx x
            in if isSSE
               then
                 (let (out, inputTokens, outputTokens, size) =
                        streamSSEAndEstimateTokens (lb_tk L) (re_writes e) (a_body resp) bodyBytes model;
                      outputTokens = (if model \<noteq> '''' \<and> 0 < outputTokens
                                      then ApplyRatio model outputTokens (x_cal x) else outputTokens)
                  in commit_success e idx resp method inputTokens outputTokens attempt (forward resp out x))
               else if a_readOk resp
               then
                 (let (inputTokens, outputTokens, cal) =
                        count_response L (a_body resp) bodyBytes (snd (snd (ProcessResponse (a_body resp))))
                          model (x_cal x)
                  in commit_success e idx resp method inputTokens outputTokens attempt
                       (forward resp (a_body resp) (x\<lparr>x_cal := cal\<rparr>)))
               else commit_success e idx resp method 0 0 attempt (forward resp [] x)))"

section \<open>The rounds\<close>

definition dispatch ::
    "libs \<Rightarrow> round_env \<Rightarrow> nat \<Rightarrow> answer \<Rightarrow> string \<Rightarrow> string \<Rightarrow> bytes \<Rightarrow> nat \<Rightarrow> bool \<Rightarrow> exec \<Rightarrow> bool outcome" where
  "dispatch L e idx resp method target bodyBytes rnd rectified x =
     (let s = a_status resp
      in if s = 429 then handleRateLimited e idx resp method x
         else if s = 401 \<or> s = 403 then handleAuthRejected L e idx resp method x
         else if s = 502 \<or> s = 503 then handleServerError e resp x
         else if (400 \<le> s \<and> s < 500) \<or> categorizeError s None = CatNonRetryable
         then and_then (handleNonRetryable e idx resp method target bodyBytes rnd rectified x)
                (\<lambda>_. Returned True)
         else if 500 \<le> s then handleServerError e resp x
         else handleSuccess L e idx resp method bodyBytes rnd x)"

definition upstream_request :: "request \<Rightarrow> string \<Rightarrow> bytes \<Rightarrow> string \<Rightarrow> up_request" where
  "upstream_request rq target bodyBytes key =
     \<lparr>uq_method = rq_method rq, uq_url = target,
      uq_header = header_set ''Authorization'' (''Bearer '' @ key) (copyHeaders [] (rq_header rq)),
      uq_body = bodyBytes\<rparr>"

text \<open>One round; the result is whether the request is over.\<close>

definition one_round ::
    "libs \<Rightarrow> upstream \<Rightarrow> (nat \<Rightarrow> round_env) \<Rightarrow> request \<Rightarrow> string \<Rightarrow> bytes \<Rightarrow> bool \<Rightarrow> nat \<Rightarrow> exec \<Rightarrow> bool outcome" where
  "one_round L up env rq target bodyBytes rectified rnd x =
     (let e = env rnd; (allowed, cb) = U_Allow (re_allowAt e) (ps_upCB (x_ps x)); x = on_up (\<lambda>_. cb) x
      in if \<not> allowed then Returned False x
         else
           (let (sel, p) = SelectKey (re_selectAt e) (x_pool x); x = on_pool (\<lambda>_. p) x
            in case sel of
                 None \<Rightarrow>
                   (if \<not> AnyActive (x_pool x) then Returned True (writeAllKeysExhausted (rq_method rq) x)
                    else Returned True (recordProxyMetrics (rq_method rq) ''429'' ''''
                           (respond (ProxyError 429 ErrorAllKeysCooling) x)))
               | Some (idx, key) \<Rightarrow>
                   (if \<not> re_buildOk e
                    then Returned True (recordProxyMetrics (rq_method rq) ''5xx'' ''''
                           (respond (ProxyError 500 ErrorUpstreamError)
                             (record_metric (UpstreamErrors ''network'') x)))
                    else
                      (let q = upstream_request rq target bodyBytes key;
                           x = x\<lparr>x_sent := x_sent x @ [(idx, key, q)]\<rparr>;
                           x = on_up (fold upstream_step (re_up e)) (on_pool (fold pool_step (re_pool e)) x)
                       in case up rnd q of
                            NetworkError canceled \<Rightarrow>
                              (let x = on_pool (Release (int idx)) x
                               in if categorizeError 0 (Some canceled) = CatClientAbort then Returned True x
                                  else Returned False (on_up (U_RecordFailure (re_failAt e))
                                         (record_metric (UpstreamErrors ''network'') x)))
                          | Answer resp \<Rightarrow>
                              dispatch L e idx resp (rq_method rq) target bodyBytes rnd rectified x))))"

text \<open>
  \<open>n\<close> rounds are left. The source compares the round with \<open>MaxRetries\<close> every time; no round
  changes the configuration. When the rounds are over, the answer is written before the number of
  retries is added to its counter: a number that the counter refuses is a panic. The other additions
  to a counter are of numbers that the code has found positive.
\<close>

fun rounds ::
    "libs \<Rightarrow> upstream \<Rightarrow> (nat \<Rightarrow> round_env) \<Rightarrow> request \<Rightarrow> string \<Rightarrow> bytes \<Rightarrow> bool \<Rightarrow> nat \<Rightarrow> nat \<Rightarrow> exec \<Rightarrow> unit outcome" where
  "rounds L up env rq target bodyBytes rectified 0 rnd x =
     (let x = respond (ProxyError 503 ErrorExhaustedRetries) x
      in if \<not> lb_counterAdd L (c_MaxRetries (ps_pc (x_ps x))) then Panicked x
         else (let x = record_metric (RetryCount (x_name x) (c_MaxRetries (ps_pc (x_ps x)))) x
               in Returned () (recordProxyMetrics (rq_method rq) ''5xx'' '''' x)))"
| "rounds L up env rq target bodyBytes rectified (Suc n) rnd x =
     and_then (one_round L up env rq target bodyBytes rectified rnd x)
       (\<lambda>over x. if over then Returned () x
                  else rounds L up env rq target bodyBytes rectified n (Suc rnd) x)"

definition Execute :: "libs \<Rightarrow> upstream \<Rightarrow> (nat \<Rightarrow> round_env) \<Rightarrow> request \<Rightarrow> exec \<Rightarrow> unit outcome" where
  "Execute L up env rq x =
     (case readRequestBody (rq_readable rq) (rq_body rq) of
        None \<Rightarrow> Returned () (recordProxyMetrics (rq_method rq) ''4xx'' ''''
                  (respond (ProxyError 400 ErrorBadRequest) x))
      | Some bodyBytes \<Rightarrow>
          (let pc = ps_pc (x_ps x);
               (bodyBytes, rectified) =
                 (if c_ThinkingMode pc = ''rectify''
                  then Process (NewThinkingRectifier True (c_RectifyThinkingMapTo pc)) bodyBytes
                  else (bodyBytes, False));
               target = buildTargetURL (lb_parseURL L) (lb_urlString L) (c_TargetBase pc) (rq_path rq) (rq_rawQuery rq);
               go = (\<lambda>_ x. rounds L up env rq target bodyBytes rectified (nat (c_MaxRetries pc)) 0 x)
           in if header_get ''Authorization'' (rq_header rq) \<noteq> '''' \<and> bodyBytes \<noteq> []
              then and_then (log_preview (take 1024 bodyBytes) () x) go
              else go () x))"

end
