(* ===== verification/RequestSteps.thy ===== *)
theory RequestSteps
  imports ProxyExecutor
begin

text \<open>
  A proxied request is built of small steps. The locale \<open>handler_steps\<close> states what a relation
  between states has to allow so that it covers every handler of an upstream answer; the operations
  on the pool that it allows may be limited to those that are \<open>good\<close>, which the request's own always
  are. \<open>request_steps\<close> adds the sending of a request and covers \<open>Execute\<close>. Their instances are the
  invariants that a request keeps however it ends, and what it leaves alone.
\<close>

fun final :: "'a outcome \<Rightarrow> exec" where
  "final (Returned a x) = x"
| "final (Panicked x) = x"
| "final (Hung x) = x"

section \<open>Handlers\<close>

text \<open>The operations that a request performs itself.\<close>

definition own :: "pool_event \<Rightarrow> bool" where
  "own ev \<longleftrightarrow>
     (case ev of PSelect now \<Rightarrow> True | PRelease idx \<Rightarrow> True | PIncrement now idx \<Rightarrow> True
      | PCooldown now idx d \<Rightarrow> True | PDisable idx \<Rightarrow> True | PFailure now draw idx \<Rightarrow> True
      | PAuthFailure now idx \<Rightarrow> True | PSuccess idx \<Rightarrow> True | _ \<Rightarrow> False)"

lemma own_simps [simp]:
  "own (PSelect now)" "own (PRelease idx)" "own (PIncrement now idx)" "own (PCooldown now idx d)"
  "own (PDisable idx)" "own (PFailure now draw idx)" "own (PAuthFailure now idx)" "own (PSuccess idx)"
  by (simp_all add: own_def)

text \<open>The samples that a request adds to the metrics, with the label values that their help texts name.\<close>

definition documented :: "metric \<Rightarrow> bool" where
  "documented m \<longleftrightarrow>
     (case m of
        RequestsTotal method status key \<Rightarrow> status \<in> set [''1xx'', ''2xx'', ''3xx'', ''4xx'', ''429'', ''5xx'']
      | UpstreamErrors t \<Rightarrow> t \<in> set [''network'', ''rate_limited'', ''auth_rejected'', ''server_error'']
      | TokenUsage provider direction n \<Rightarrow> direction \<in> set [''input'', ''output''] \<and> 0 < n
      | RetryCount provider n \<Rightarrow> 0 \<le> n)"

lemma documented_simps [simp]:
  "documented (RequestsTotal method (StatusLabel code) key)"
  "documented (RequestsTotal method ''4xx'' key)" "documented (RequestsTotal method ''5xx'' key)"
  "documented (RequestsTotal method ''429'' key)" "documented (UpstreamErrors ''network'')"
  "documented (UpstreamErrors ''rate_limited'')" "documented (UpstreamErrors ''auth_rejected'')"
  "documented (UpstreamErrors ''server_error'')" "documented (TokenUsage p ''input'' n) \<longleftrightarrow> 0 < n"
  "documented (TokenUsage p ''output'' n) \<longleftrightarrow> 0 < n" "documented (RetryCount p n) \<longleftrightarrow> 0 \<le> n"
  by (simp_all add: documented_def StatusLabel_def)

locale handler_steps =
  fixes R :: "exec \<Rightarrow> exec \<Rightarrow> bool" and good :: "pool_event \<Rightarrow> bool" and fine :: "metric \<Rightarrow> bool"
  assumes refl: "R x x"
    and trans: "R x y \<Longrightarrow> R y z \<Longrightarrow> R x z"
    and own_good: "own ev \<Longrightarrow> good ev"
    and pool: "good ev \<Longrightarrow> R x (on_pool (pool_step ev) x)"
    and up: "R x (on_up (upstream_step uev) x)"
    and documented_fine: "documented m \<Longrightarrow> fine m"
    and fine_metric: "fine m \<Longrightarrow> R x (record_metric m x)"
    and respond: "R x (respond r x)"
    and store: "R x (x\<lparr>x_store := s\<rparr>)"
    and cal: "R x (x\<lparr>x_cal := RecordCalibration mo a b c d (x_cal x)\<rparr>)"
    and dumps: "R x (x\<lparr>x_dumps := du\<rparr>)"
begin

lemma R_and_then:
  assumes "R x (final m)" and "\<And>a y. R y (final (f a y))"
  shows "R x (final (and_then m f))"
  using assms(1) trans [OF _ assms(2)] by (cases m) auto

lemma R_log_preview: "R x (final (log_preview b a x))"
  by (simp add: log_preview_def refl split: option.splits)

lemmas own_pool = pool [OF own_good]

lemma R_pool_eq: "own ev \<Longrightarrow> p = pool_step ev (x_pool x) \<Longrightarrow> R x (on_pool (\<lambda>_. p) x)"
  using own_pool [of ev x] by (simp add: on_pool_def)

lemmas metric = fine_metric [OF documented_fine]

lemma R_recordProxyMetrics: "documented (RequestsTotal a b c) \<Longrightarrow> R x (recordProxyMetrics a b c x)"
  unfolding recordProxyMetrics_def by (rule metric)

lemma metric_after: "R x y \<Longrightarrow> documented m \<Longrightarrow> R x (record_metric m y)"
  by (rule trans [OF _ metric])

lemma R_exhausted: "R x (writeAllKeysExhausted method x)"
  unfolding writeAllKeysExhausted_def by (rule trans [OF respond R_recordProxyMetrics]) simp

lemma R_rate_limited: "R x (final (handleRateLimited e idx resp method x))"
proof -
  obtain d p where r: "P_RecordFailure (re_failAt e) (re_draw e) (int idx) (x_pool x) = (d, p)" by force
  let ?x1 = "on_pool (\<lambda>_. p) x"
  let ?x2 = "on_pool (snd \<circ> Cooldown (re_coolAt e) (int idx) (rate_limit_cooldown resp d)) ?x1"
  have "R x ?x1" using r by (intro R_pool_eq [of "PFailure (re_failAt e) (re_draw e) (int idx)"]) simp_all
  moreover have "R ?x1 ?x2"
    using own_pool [of "PCooldown (re_coolAt e) (int idx) (rate_limit_cooldown resp d)" ?x1] by (simp add: comp_def on_pool_def)
  ultimately have x2: "R x ?x2" by (rule trans)
  have m: "documented (UpstreamErrors ''rate_limited'')" by simp
  have tail: "R y (final (if b then Returned True (writeAllKeysExhausted method (record_metric (UpstreamErrors ''rate_limited'') y))
      else Returned False (record_metric (UpstreamErrors ''rate_limited'') y)))" for y b
    using metric [OF m, of y] trans [OF metric [OF m] R_exhausted] by simp
  show ?thesis
  proof (cases "CB (int idx) (x_pool ?x2)")
    case None
    with r x2 show ?thesis by (simp add: handleRateLimited_def Let_def)
  next
    case (Some cb)
    let ?f = "\<lambda>_ x. if k_state cb = Permanent \<and> ActiveCount (x_pool (record_metric (UpstreamErrors ''rate_limited'') x)) = 0
       then Returned True (writeAllKeysExhausted method (record_metric (UpstreamErrors ''rate_limited'') x))
       else Returned False (record_metric (UpstreamErrors ''rate_limited'') x)"
    have "R x (final (and_then (log_preview (a_body resp) () ?x2) ?f))"
      by (rule R_and_then [OF trans [OF x2 R_log_preview]]) (rule tail)
    with r Some show ?thesis by (simp add: handleRateLimited_def Let_def)
  qed
qed

lemma R_auth_rejected: "R x (final (handleAuthRejected L e idx resp method x))"
proof -
  let ?x0 = "record_metric (UpstreamErrors ''auth_rejected'') x"
  have m: "documented (UpstreamErrors ''auth_rejected'')" "documented (RequestsTotal method ''5xx'' '''')" by simp_all
  obtain b p where r: "P_RecordAuthFailure (re_failAt e) (int idx) (x_pool ?x0) = (b, p)" by force
  let ?x1 = "on_pool (\<lambda>_. p) ?x0"
  let ?x2 = "on_pool (snd \<circ> Disable (int idx)) ?x1"
  let ?x3 = "?x2\<lparr>x_store := PersistKeys (lb_codec L) (re_fresh e) (re_nonce e) (x_ps ?x2) (x_store ?x2)\<rparr>"
  let ?f = "\<lambda>_ x. if ActiveCount (x_pool x) = 0
     then Returned True (recordProxyMetrics method ''5xx'' '''' (respond (ProxyError 503 ErrorAllKeysInvalid) x))
     else Returned False x"
  have x1: "R x ?x1"
    using r by (intro trans [OF metric [OF m(1)] R_pool_eq [of "PAuthFailure (re_failAt e) (int idx)"]]) simp_all
  have "R ?x1 ?x2" using own_pool [of "PDisable (int idx)" ?x1] by (simp add: comp_def on_pool_def)
  then have x3: "R x ?x3" by (rule trans [OF trans [OF x1] store])
  have tail: "R y (final (?f u y))" for y u
    using refl [of y] trans [OF respond R_recordProxyMetrics [OF m(2)]] by simp
  have a: "R x (final (and_then (log_preview (a_body resp) () ?x3) ?f))"
    by (rule R_and_then [OF trans [OF x3 R_log_preview]]) (rule tail)
  have b: "R x (final (?f () ?x1))" by (rule trans [OF x1 tail])
  show ?thesis
  proof (cases b)
    case True
    with r a show ?thesis by (simp add: handleAuthRejected_def Let_def)
  next
    case False
    with r b x1 show ?thesis by (simp add: handleAuthRejected_def Let_def split: option.splits if_splits)
  qed
qed

lemma R_server_error: "R x (final (handleServerError e resp x))"
  unfolding handleServerError_def
proof (rule R_and_then [OF R_log_preview])
  fix a y
  show "R y (final (Returned False
    (on_up (U_RecordFailure (re_failAt e)) (record_metric (UpstreamErrors ''server_error'') y))))"
    using trans [OF metric up [of _ "UFailure (re_failAt e)"], of "UpstreamErrors ''server_error''" y]
    by (simp add: on_up_def)
qed

lemma R_non_retryable: "R x (final (handleNonRetryable e idx resp method target b att rect x))"
  unfolding handleNonRetryable_def Let_def
proof (rule R_and_then [OF trans [OF trans [OF respond dumps] R_log_preview]])
  fix a y
  show "R y (final (Returned () (if 0 < att
    then record_metric (RetryCount (x_name (recordProxyMetrics method ''4xx'' (Itoa (int idx)) y)) (int att))
           (recordProxyMetrics method ''4xx'' (Itoa (int idx)) y)
    else recordProxyMetrics method ''4xx'' (Itoa (int idx)) y)))"
    by (auto intro!: R_recordProxyMetrics trans [OF R_recordProxyMetrics metric])
qed

lemma R_metrics: "R x (recordMetricsAndLog idx resp method i out att x)"
  unfolding recordMetricsAndLog_def Let_def
  by (auto intro!: metric_after refl simp: recordProxyMetrics_def)

lemma R_commit: "R x (final (commit_success e idx resp method i out att x))"
proof (cases "IncrementRequestCount (re_countAt e) (int idx) (x_pool x)")
  case None
  then show ?thesis by (simp add: commit_success_def refl)
next
  case (Some p)
  then have "R x (on_pool (\<lambda>_. p) x)"
    by (intro R_pool_eq [of "PIncrement (re_countAt e) (int idx)"]) simp_all
  with Some trans [OF _ R_metrics] show ?thesis by (simp add: commit_success_def)
qed

lemma R_record_success: "R x (record_success idx x)"
  using trans [OF own_pool [of "PSuccess (int idx)" x] up [of _ USuccess]]
  by (simp add: record_success_def on_up_def on_pool_def)

lemma R_forward: "R x (forward resp b x)"
  unfolding forward_def by (rule respond)

lemma count_response_cal: "\<exists>mo a b c d. snd (snd (count_response L body bb t model cl)) = RecordCalibration mo a b c d cl"
  by (simp add: count_response_def Let_def split_beta) blast

lemma R_count: "count_response L body bb t model (x_cal x) = (i, out, cl) \<Longrightarrow> R x (x\<lparr>x_cal := cl\<rparr>)"
  using count_response_cal [of L body bb t model "x_cal x"] cal [of x] by auto

lemma R_success: "R x (final (handleSuccess L e idx resp method bb att x))"
proof -
  let ?x = "record_success idx x"
  note commit = trans [OF _ R_commit]
  have buffered: "R x (final (let y = forward resp (a_body resp) ?x;
      (i, out, cl) = count_response L (a_body resp) bb (a_body resp) mo (x_cal y)
      in commit_success e idx resp method i out att (y\<lparr>x_cal := cl\<rparr>)))" for mo
    by (auto simp: Let_def split: prod.split
        intro!: commit trans [OF trans [OF R_record_success R_forward] R_count])
  have whole: "R x (final (let (i, out, cl) = count_response L (a_body resp) bb t mo (x_cal ?x)
      in commit_success e idx resp method i out att (forward resp (a_body resp) (?x\<lparr>x_cal := cl\<rparr>))))" for mo t
    by (auto split: prod.split
        intro!: commit trans [OF _ R_forward] trans [OF R_record_success R_count])
  have bare: "R x (final (commit_success e idx resp method i out att (forward resp b ?x)))" for i out b
    by (rule commit) (rule trans [OF R_record_success R_forward])
  show ?thesis
    using buffered whole bare refl by (auto simp: handleSuccess_def Let_def split: prod.split)
qed

lemma R_dispatch: "R x (final (dispatch L e idx resp method target bb rnd rect x))"
proof -
  have "R x (final (and_then (handleNonRetryable e idx resp method target bb rnd rect x) (\<lambda>_. Returned True)))"
    by (rule R_and_then [OF R_non_retryable]) (simp add: refl)
  then show ?thesis
    by (simp add: dispatch_def Let_def R_rate_limited R_auth_rejected R_server_error R_success)
qed

lemma R_pool_run: "\<forall>ev\<in>set evs. good ev \<Longrightarrow> R x (on_pool (fold pool_step evs) x)"
proof (induction evs arbitrary: x)
  case Nil
  then show ?case using refl [of x] by (simp add: on_pool_def)
next
  case (Cons ev evs)
  have "on_pool (fold pool_step (ev # evs)) x = on_pool (fold pool_step evs) (on_pool (pool_step ev) x)"
    by (simp add: on_pool_def)
  moreover have "R (on_pool (pool_step ev) x) (on_pool (fold pool_step evs) (on_pool (pool_step ev) x))"
    using Cons by simp
  moreover have "R x (on_pool (pool_step ev) x)" using Cons.prems by (intro pool) simp
  ultimately show ?case by (simp only:) (rule trans)
qed

lemma R_up_run: "R x (on_up (fold upstream_step uevs) x)"
proof (induction uevs arbitrary: x)
  case Nil
  then show ?case using refl [of x] by (simp add: on_up_def)
next
  case (Cons ev evs)
  have "on_up (fold upstream_step (ev # evs)) x = on_up (fold upstream_step evs) (on_up (upstream_step ev) x)"
    by (simp add: on_up_def)
  then show ?case by (simp only:) (rule trans [OF up Cons])
qed

end

section \<open>How a request starts\<close>

text \<open>The body that goes upstream: read, and rectified if the provider says so.\<close>

definition sent_body :: "request \<Rightarrow> ProviderConfig \<Rightarrow> bytes option" where
  "sent_body rq pc =
     map_option (\<lambda>bb. if c_ThinkingMode pc = ''rectify''
         then fst (Process (NewThinkingRectifier True (c_RectifyThinkingMapTo pc)) bb) else bb)
       (readRequestBody (rq_readable rq) (rq_body rq))"

definition sent_target :: "libs \<Rightarrow> request \<Rightarrow> ProviderConfig \<Rightarrow> string" where
  "sent_target L rq pc =
     buildTargetURL (lb_parseURL L) (lb_urlString L) (c_TargetBase pc) (rq_path rq) (rq_rawQuery rq)"

lemma Execute_cases:
  obtains (bad_body) "sent_body rq (ps_pc (x_ps x)) = None"
      "Execute L up env rq x = Returned () (recordProxyMetrics (rq_method rq) ''4xx'' ''''
         (respond (ProxyError 400 ErrorBadRequest) x))"
  | (hung) b where "sent_body rq (ps_pc (x_ps x)) = Some b" "header_get ''Authorization'' (rq_header rq) \<noteq> ''''"
      "MaskSensitiveData (take 1024 b) 1024 = None" "Execute L up env rq x = Hung x"
  | (runs) b rect where "sent_body rq (ps_pc (x_ps x)) = Some b"
      "Execute L up env rq x = rounds L up env rq (sent_target L rq (ps_pc (x_ps x))) b rect (nat (c_MaxRetries (ps_pc (x_ps x)))) 0 x"
proof (cases "readRequestBody (rq_readable rq) (rq_body rq)")
  case None
  then show ?thesis by (intro bad_body) (simp_all add: sent_body_def Execute_def)
next
  case (Some bb)
  obtain b rect where p: "(if c_ThinkingMode (ps_pc (x_ps x)) = ''rectify''
      then Process (NewThinkingRectifier True (c_RectifyThinkingMapTo (ps_pc (x_ps x)))) bb else (bb, False)) = (b, rect)"
    by force
  then have b: "sent_body rq (ps_pc (x_ps x)) = Some b"
    using Some by (auto simp: sent_body_def split: if_splits)
  define target where "target = sent_target L rq (ps_pc (x_ps x))"
  define go where "go = (\<lambda>(_::unit) y. rounds L up env rq target b rect (nat (c_MaxRetries (ps_pc (x_ps x)))) 0 y)"
  have e: "Execute L up env rq x = (if header_get ''Authorization'' (rq_header rq) \<noteq> '''' \<and> b \<noteq> []
      then and_then (log_preview (take 1024 b) () x) go else go () x)"
    using Some p by (simp add: Execute_def Let_def target_def sent_target_def go_def)
  show ?thesis
  proof (cases "Execute L up env rq x = go () x")
    case True
    then show ?thesis by (intro runs [OF b, of rect]) (simp add: go_def target_def)
  next
    case False
    with e have "header_get ''Authorization'' (rq_header rq) \<noteq> ''''"
        "MaskSensitiveData (take 1024 b) 1024 = None" "Execute L up env rq x = Hung x"
      by (auto simp: log_preview_def split: if_splits option.splits)
    with b show ?thesis by (rule hung)
  qed
qed

section \<open>Requests\<close>

locale request_steps = handler_steps R good fine
  for R :: "exec \<Rightarrow> exec \<Rightarrow> bool" and good :: "pool_event \<Rightarrow> bool" and fine :: "metric \<Rightarrow> bool" +
  fixes ok :: "string \<Rightarrow> up_request \<Rightarrow> bool"
  assumes sent: "ok key q \<Longrightarrow> R x (x\<lparr>x_sent := x_sent x @ [(idx, key, q)]\<rparr>)"
begin

lemma R_select: "SelectKey now (x_pool x) = (sel, p) \<Longrightarrow> R x (on_pool (\<lambda>_. p) x)"
  by (rule R_pool_eq [of "PSelect now"]) simp_all

lemma R_allow: "U_Allow now (ps_upCB (x_ps x)) = (b, cb) \<Longrightarrow> R x (on_up (\<lambda>_. cb) x)"
  using up [of x "UAllow now"] by (simp add: on_up_def)

lemma R_network:
  "R x (on_pool (Release (int idx)) x)"
  "R x (on_up (U_RecordFailure t) (record_metric (UpstreamErrors ''network'') (on_pool (Release (int idx)) x)))"
proof -
  show a: "R x (on_pool (Release (int idx)) x)"
    using own_pool [of "PRelease (int idx)" x] by (simp add: on_pool_def)
  show "R x (on_up (U_RecordFailure t) (record_metric (UpstreamErrors ''network'') (on_pool (Release (int idx)) x)))"
    using trans [OF metric_after [OF a] up [of _ "UFailure t"], of "UpstreamErrors ''network''"]
    by (simp add: on_up_def)
qed

lemma R_one_round:
  assumes "\<And>key. ok key (upstream_request rq target bb key)" and "\<forall>ev\<in>set (re_pool (env rnd)). good ev"
  shows "R x (final (one_round L up env rq target bb rect rnd x))"
proof -
  let ?e = "env rnd"
  obtain b cb where u: "U_Allow (re_allowAt ?e) (ps_upCB (x_ps x)) = (b, cb)" by force
  let ?x1 = "on_up (\<lambda>_. cb) x"
  obtain sel p where s: "SelectKey (re_selectAt ?e) (x_pool ?x1) = (sel, p)" by force
  let ?x2 = "on_pool (\<lambda>_. p) ?x1"
  have x1: "R x ?x1" by (rule R_allow [OF u])
  then have x2: "R x ?x2" by (rule trans [OF _ R_select [OF s]])
  consider "\<not> b" | "b" "sel = None" | idx key where "b" "sel = Some (idx, key)" by (cases sel) auto
  then show ?thesis
  proof cases
    case 1
    with u x1 show ?thesis by (simp add: one_round_def)
  next
    case 2
    with u s trans [OF x2 R_exhausted]
      trans [OF x2 trans [OF respond R_recordProxyMetrics [of "rq_method rq" "''429''" "''''"]]]
    show ?thesis by (simp add: one_round_def Let_def)
  next
    case 3
    let ?q = "upstream_request rq target bb key"
    let ?x3 = "?x2\<lparr>x_sent := x_sent ?x2 @ [(idx, key, ?q)]\<rparr>"
    let ?x4 = "on_up (fold upstream_step (re_up ?e)) (on_pool (fold pool_step (re_pool ?e)) ?x3)"
    have x4: "R x ?x4"
      by (rule trans [OF trans [OF trans [OF x2 sent] R_pool_run] R_up_run]) (rule assms)+
    have build: "R x (recordProxyMetrics m ''5xx'' k (respond r (record_metric (UpstreamErrors ''network'') ?x2)))" for m k r
      by (rule trans [OF trans [OF trans [OF x2 metric] respond] R_recordProxyMetrics]) simp_all
    show ?thesis
      using u s 3 build trans [OF x4 R_network(1)] trans [OF x4 R_network(2)] trans [OF x4 R_dispatch]
      by (simp add: one_round_def Let_def split: upstream_result.split)
  qed
qed

lemma R_rounds:
  assumes "\<And>key. ok key (upstream_request rq target bb key)" and "\<And>r. \<forall>ev\<in>set (re_pool (env r)). good ev"
    and "\<And>p n. lb_counterAdd L n \<Longrightarrow> fine (RetryCount p n)"
  shows "R x (final (rounds L up env rq target bb rect n rnd x))"
proof (induction n arbitrary: rnd x)
  case 0
  let ?m = "RetryCount (x_name x) (c_MaxRetries (ps_pc (x_ps x)))"
  let ?x = "respond (ProxyError 503 ErrorExhaustedRetries) x"
  have "R x (recordProxyMetrics (rq_method rq) ''5xx'' '''' (record_metric ?m ?x))"
    if "lb_counterAdd L (c_MaxRetries (ps_pc (x_ps x)))"
    using assms(3) [OF that] by (intro trans [OF trans [OF respond fine_metric] R_recordProxyMetrics]) simp_all
  with respond [of x "ProxyError 503 ErrorExhaustedRetries"] show ?case by (simp add: Let_def step_defs)
next
  case (Suc n)
  show ?case
    by (simp only: rounds.simps) (rule R_and_then [OF R_one_round [OF assms(1,2)]], simp_all add: Suc refl)
qed

lemma R_Execute:
  assumes "\<And>b key. sent_body rq (ps_pc (x_ps x)) = Some b \<Longrightarrow>
      ok key (upstream_request rq (sent_target L rq (ps_pc (x_ps x))) b key)"
    and "\<And>r. \<forall>ev\<in>set (re_pool (env r)). good ev"
    and "\<And>p n. lb_counterAdd L n \<Longrightarrow> fine (RetryCount p n)"
  shows "R x (final (Execute L up env rq x))"
proof (cases rule: Execute_cases [of rq x L up env])
  case bad_body
  then show ?thesis using trans [OF respond R_recordProxyMetrics [of "rq_method rq" "''4xx''" "''''"]] by simp
next
  case (hung b)
  then show ?thesis by (simp add: refl)
next
  case (runs b rect)
  then show ?thesis using R_rounds [OF assms(1) [OF runs(1)] assms(2,3)] by simp
qed

end

end
