(* ===== verification/RequestSafety.thy ===== *)
theory RequestSafety
  imports RequestSteps
begin

text \<open>
  What a proxied request keeps and what it sends, as instances of \<open>request_steps\<close>; what it answers;
  when it can neither panic nor hang; and which key it takes after a 429.
\<close>

section \<open>Invariants\<close>

definition x_valid :: "exec \<Rightarrow> bool" where
  "x_valid x \<longleftrightarrow> pool_wf (x_pool x) \<and> upstream_inv (ps_upCB (x_ps x)) \<and> cal_inv (x_cal x)"

definition keeps :: "exec \<Rightarrow> exec \<Rightarrow> bool" where
  "keeps x y \<longleftrightarrow> (x_valid x \<longrightarrow> x_valid y) \<and> ps_config (x_ps y) = ps_config (x_ps x) \<and>
     x_name y = x_name x \<and> ps_clientTimeout (x_ps y) = ps_clientTimeout (x_ps x)"

interpretation kept: request_steps keeps "\<lambda>ev. True" "\<lambda>m. True" "\<lambda>key q. True"
  by unfold_locales
     (auto simp: keeps_def x_valid_def step_defs pool_step_wf upstream_step_inv RecordCalibration_inv)

section \<open>What is sent\<close>

definition sends_only :: "(string \<Rightarrow> up_request \<Rightarrow> bool) \<Rightarrow> exec \<Rightarrow> exec \<Rightarrow> bool" where
  "sends_only ok x y \<longleftrightarrow> (\<exists>ss. x_sent y = x_sent x @ ss \<and> list_all (\<lambda>(i, k, q). ok k q) ss)"

lemma sends_only_trans: "sends_only ok x y \<Longrightarrow> sends_only ok y z \<Longrightarrow> sends_only ok x z"
  unfolding sends_only_def by force

interpretation sending: request_steps "sends_only ok" "\<lambda>ev. True" "\<lambda>m. True" ok for ok
proof
  show "sends_only ok x x" for x by (auto simp: sends_only_def)
  show "sends_only ok x y \<Longrightarrow> sends_only ok y z \<Longrightarrow> sends_only ok x z" for x y z
    by (rule sends_only_trans)
  show "ok key q \<Longrightarrow> sends_only ok x (x\<lparr>x_sent := x_sent x @ [(idx, key, q)]\<rparr>)" for q x idx key
    by (auto simp: sends_only_def)
qed (auto simp: sends_only_def step_defs)

interpretation silent: handler_steps "\<lambda>x y. x_sent y = x_sent x" "\<lambda>ev. True" "\<lambda>m. True"
  by unfold_locales (auto simp: step_defs)

lemma one_round_sent:
  assumes "pool_wf (x_pool x)"
  shows "x_sent (final (one_round L up env rq target bb rect rnd x)) = x_sent x \<or>
    (\<exists>idx. idx < length (p_keys (x_pool x)) \<and> Allow (re_selectAt (env rnd)) (p_cbs (x_pool x) ! idx) \<and>
       x_sent (final (one_round L up env rq target bb rect rnd x)) =
         x_sent x @ [(idx, p_keys (x_pool x) ! idx, upstream_request rq target bb (p_keys (x_pool x) ! idx))])"
proof -
  let ?e = "env rnd"
  obtain b cb where u: "U_Allow (re_allowAt ?e) (ps_upCB (x_ps x)) = (b, cb)" by force
  obtain sel p where s: "SelectKey (re_selectAt ?e) (x_pool x) = (sel, p)" by force
  show ?thesis
  proof (cases sel)
    case None
    with u s show ?thesis
      by (simp add: one_round_def Let_def step_defs writeAllKeysExhausted_def recordProxyMetrics_def)
  next
    case (Some ik)
    obtain idx key where ik: "ik = (idx, key)" by force
    have "idx < length (p_keys (x_pool x)) \<and> key = p_keys (x_pool x) ! idx \<and> Allow (re_selectAt ?e) (p_cbs (x_pool x) ! idx)"
      using selecting.sound [OF assms, of "re_selectAt ?e" idx key] s Some ik by simp
    with u s Some ik silent.R_dispatch show ?thesis
      by (auto simp: one_round_def Let_def step_defs recordProxyMetrics_def split: upstream_result.split)
  qed
qed

lemma one_round_sent_length:
  "length (x_sent (final (one_round L up env rq target bb rect rnd x))) \<le> Suc (length (x_sent x))"
proof -
  obtain b cb where u: "U_Allow (re_allowAt (env rnd)) (ps_upCB (x_ps x)) = (b, cb)" by force
  obtain sel p where s: "SelectKey (re_selectAt (env rnd)) (x_pool x) = (sel, p)" by force
  from u s silent.R_dispatch show ?thesis
    by (cases sel)
       (auto simp: one_round_def Let_def step_defs recordProxyMetrics_def writeAllKeysExhausted_def
         split: upstream_result.split)
qed

lemma final_and_then:
  "final (and_then m f) = (case m of Returned a x \<Rightarrow> final (f a x) | Panicked x \<Rightarrow> x | Hung x \<Rightarrow> x)"
  by (cases m) auto

lemma rounds_sent_length:
  "length (x_sent (final (rounds L up env rq target bb rect n rnd x))) \<le> n + length (x_sent x)"
proof (induction n arbitrary: rnd x)
  case 0
  show ?case by (simp add: Let_def step_defs recordProxyMetrics_def)
next
  case (Suc n)
  let ?m = "one_round L up env rq target bb rect rnd x"
  have "length (x_sent (final ?m)) \<le> Suc (length (x_sent x))" by (rule one_round_sent_length)
  moreover have "length (x_sent (final (rounds L up env rq target bb rect n (Suc rnd) (final ?m))))
      \<le> n + length (x_sent (final ?m))" by (rule Suc)
  ultimately show ?case
    by (cases ?m) (auto simp: final_and_then)
qed

section \<open>What is answered\<close>

lemma and_then_Returned: "and_then m f = Returned a x \<longleftrightarrow> (\<exists>b y. m = Returned b y \<and> f b y = Returned a x)"
  by (cases m) auto

lemma log_preview_Returned:
  "log_preview body a x = Returned b y \<longleftrightarrow> b = a \<and> y = x \<and> MaskSensitiveData body 1024 \<noteq> None"
  by (auto simp: log_preview_def split: option.splits)

lemmas result_simps = and_then_Returned log_preview_Returned step_defs recordProxyMetrics_def
  writeAllKeysExhausted_def

lemma rate_limited_result:
  "handleRateLimited e idx resp method x = Returned b y \<Longrightarrow>
     x_resp y = (if b then Some (ProxyError 503 ErrorAllKeysInvalid) else x_resp x) \<and>
     (b \<longrightarrow> ActiveCount (x_pool y) = 0)"
  by (auto simp: handleRateLimited_def Let_def result_simps split: prod.splits option.splits if_splits)

lemma auth_rejected_result:
  "handleAuthRejected L e idx resp method x = Returned b y \<Longrightarrow>
     x_resp y = (if b then Some (ProxyError 503 ErrorAllKeysInvalid) else x_resp x) \<and>
     (b \<longleftrightarrow> ActiveCount (x_pool y) = 0)"
  by (auto simp: handleAuthRejected_def Let_def result_simps split: prod.splits option.splits if_splits)

lemma server_error_result:
  "handleServerError e resp x = Returned b y \<Longrightarrow> \<not> b \<and> x_resp y = x_resp x"
  by (auto simp: handleServerError_def result_simps)

lemma non_retryable_result:
  "handleNonRetryable e idx resp method target bb att rect x = Returned u y \<Longrightarrow>
     x_resp y = Some (Forwarded (a_status resp) (copyHeaders [] (a_header resp)) (a_body resp)) \<and>
     x_ps y = x_ps x"
  by (auto simp: handleNonRetryable_def Let_def result_simps split: if_splits)

lemma metrics_frame [simp]:
  "x_resp (recordMetricsAndLog idx resp method i out att x) = x_resp x"
  "x_ps (recordMetricsAndLog idx resp method i out att x) = x_ps x"
  by (simp_all add: recordMetricsAndLog_def Let_def step_defs recordProxyMetrics_def)

lemma commit_result:
  "commit_success e idx resp method i out att x = Returned b y \<Longrightarrow> b \<and> x_resp y = x_resp x"
  by (auto simp: commit_success_def step_defs split: option.splits)

lemma success_result:
  assumes "handleSuccess L e idx resp method bb att x = Returned b y"
  shows "if b then \<exists>body. x_resp y = Some (Forwarded (a_status resp) (copyHeaders [] (a_header resp)) body) \<and>
      (\<not> is_sse resp \<longrightarrow> body = (if a_readOk resp then a_body resp else [])) \<and>
      (is_sse resp \<and> c_BufferMode (ps_pc (x_ps x)) \<longrightarrow> body = a_body resp \<and> has_terminal body) \<and>
      (is_sse resp \<and> \<not> c_BufferMode (ps_pc (x_ps x)) \<longrightarrow> body = ss_out (streamSSE (re_writes e) (a_body resp)))
    else y = x \<and> is_sse resp \<and> c_BufferMode (ps_pc (x_ps x))"
proof -
  have out: "fst (streamSSEAndEstimateTokens tk w body bb mo) = ss_out (streamSSE w body)" for tk w body mo
    by (simp add: streamSSEAndEstimateTokens_def Let_def)
  then have out: "streamSSEAndEstimateTokens tk w body bb mo = (o1, o2, o3, o4) \<Longrightarrow> o1 = ss_out (streamSSE w body)"
    for tk w body mo o1 o2 o3 o4 by (metis fst_conv)
  show ?thesis
    using assms
    by (auto simp: handleSuccess_def Let_def isCompleteStream_def forward_def respond_def
        dest!: commit_result out split: prod.splits if_splits)
qed

text \<open>The statuses that reach a client: neither those of a key nor those of a failing server.\<close>

definition final_status :: "int \<Rightarrow> bool" where
  "final_status s \<longleftrightarrow> s \<notin> set [429, 401, 403] \<and> (s < 500 \<or> s = 501)"

definition valid_response :: "upstream \<Rightarrow> response \<Rightarrow> bool" where
  "valid_response up r \<longleftrightarrow>
     (case r of
        ProxyError s c \<Rightarrow> (s, c) \<in> set [(400, ErrorBadRequest), (503, ErrorAllKeysInvalid),
            (429, ErrorAllKeysCooling), (500, ErrorUpstreamError), (503, ErrorExhaustedRetries)]
      | Forwarded s h body \<Rightarrow> (\<exists>rnd q a. up rnd q = Answer a \<and> a_status a = s \<and> final_status s \<and>
            h = copyHeaders [] (a_header a)))"

lemma dispatch_result:
  assumes "dispatch L e idx resp method target bb rnd rect x = Returned b y"
  shows "if b then x_resp y = Some (ProxyError 503 ErrorAllKeysInvalid) \<or>
      (\<exists>body. x_resp y = Some (Forwarded (a_status resp) (copyHeaders [] (a_header resp)) body) \<and> final_status (a_status resp))
    else x_resp y = x_resp x"
  using assms
  by (auto simp: dispatch_def Let_def and_then_Returned final_status_def categorizeError_def
      dest!: rate_limited_result auth_rejected_result server_error_result non_retryable_result success_result
      split: if_splits)

lemma one_round_result:
  assumes "one_round L up env rq target bb rect rnd x = Returned b y" and "x_resp x = None"
  shows "if b then (case x_resp y of None \<Rightarrow> \<exists>q. up rnd q = NetworkError True | Some r \<Rightarrow> valid_response up r)
    else x_resp y = None"
proof -
  let ?e = "env rnd"
  obtain al cb where u: "U_Allow (re_allowAt ?e) (ps_upCB (x_ps x)) = (al, cb)" by force
  obtain sel p where s: "SelectKey (re_selectAt ?e) (x_pool x) = (sel, p)" by force
  show ?thesis
  proof (cases "\<exists>idx key. sel = Some (idx, key) \<and> al \<and> re_buildOk ?e")
    case False
    with u s assms show ?thesis
      by (auto simp: one_round_def Let_def result_simps valid_response_def split: option.splits if_splits)
  next
    case True
    then obtain idx key where sel: "sel = Some (idx, key)" "al" "re_buildOk ?e" by blast
    let ?q = "upstream_request rq target bb key"
    show ?thesis
    proof (cases "up rnd ?q")
      case (NetworkError c)
      with u s sel assms show ?thesis
        by (auto simp: one_round_def Let_def step_defs categorizeError_def split: if_splits)
    next
      case (Answer a)
      with u s sel assms show ?thesis
        by (auto simp: one_round_def Let_def step_defs valid_response_def dest!: dispatch_result
            intro!: exI [of _ rnd] exI [of _ ?q] exI [of _ a] split: if_splits)
    qed
  qed
qed

lemma rounds_result:
  assumes "rounds L up env rq target bb rect n rnd x = Returned () y" and "x_resp x = None"
  shows "case x_resp y of None \<Rightarrow> \<exists>r q. up r q = NetworkError True | Some r \<Rightarrow> valid_response up r"
  using assms
proof (induction n arbitrary: rnd x)
  case 0
  then show ?case by (auto simp: Let_def result_simps valid_response_def split: if_splits)
next
  case (Suc n)
  then obtain b z where r: "one_round L up env rq target bb rect rnd x = Returned b z"
      "(if b then Returned () z else rounds L up env rq target bb rect n (Suc rnd) z) = Returned () y"
    by (auto simp: and_then_Returned)
  note o = one_round_result [OF r(1) Suc.prems(2)]
  show ?case
  proof (cases b)
    case True
    with o r(2) show ?thesis by (auto split: option.splits)
  next
    case False
    with o r(2) show ?thesis by (intro Suc.IH [of "Suc rnd" z]) simp_all
  qed
qed

lemma Execute_result:
  assumes "Execute L up env rq x = Returned () y" and "x_resp x = None"
  shows "case x_resp y of None \<Rightarrow> \<exists>r q. up r q = NetworkError True | Some r \<Rightarrow> valid_response up r"
proof (cases rule: Execute_cases [of rq x L up env, case_names bad_body hung runs])
  case bad_body
  with assms show ?thesis by (auto simp: step_defs recordProxyMetrics_def valid_response_def)
next
  case (hung b)
  with assms show ?thesis by simp
next
  case (runs b rect)
  with assms rounds_result show ?thesis by metis
qed

section \<open>No panic\<close>

fun panics :: "'a outcome \<Rightarrow> bool" where
  "panics (Panicked x) = True"
| "panics _ = False"

fun hangs :: "'a outcome \<Rightarrow> bool" where
  "hangs (Hung x) = True"
| "hangs _ = False"

lemma panics_and_then: "panics (and_then m f) \<longleftrightarrow> panics m \<or> (\<exists>a x. m = Returned a x \<and> panics (f a x))"
  by (cases m) auto

lemma hangs_and_then: "hangs (and_then m f) \<longleftrightarrow> hangs m \<or> (\<exists>a x. m = Returned a x \<and> hangs (f a x))"
  by (cases m) auto

lemma log_preview_outcome [simp]:
  "\<not> panics (log_preview body a x)" "hangs (log_preview body a x) \<longleftrightarrow> MaskSensitiveData body 1024 = None"
  by (simp_all add: log_preview_def split: option.splits)

lemma returns_iff: "(\<exists>a x. m = Returned a x) \<longleftrightarrow> \<not> panics m \<and> \<not> hangs m"
  by (cases m) auto

text \<open>The key's index is one of the pool.\<close>

definition fits :: "nat \<Rightarrow> KeyPool \<Rightarrow> bool" where
  "fits idx p \<longleftrightarrow> pool_wf p \<and> idx < length (p_keys p)"

lemma delivered_keys: "pool_wf p \<Longrightarrow> delivered ev \<noteq> None \<Longrightarrow> p_keys (pool_step ev p) = p_keys p"
  by (auto simp: pool_step_delivered update_cb_def)

lemma delivered_fits: "fits idx p \<Longrightarrow> delivered ev \<noteq> None \<Longrightarrow> fits idx (pool_step ev p)"
  by (simp add: fits_def delivered_keys pool_step_wf)

lemma fits_CB: "fits idx p \<Longrightarrow> CB (int idx) p = Some (p_cbs p ! idx)"
  by (simp add: fits_def CB_wf in_range_def)

lemma fits_increment: "fits idx p \<Longrightarrow> IncrementRequestCount t (int idx) p \<noteq> None"
  by (simp add: fits_def IncrementRequestCount_wf in_range_def)

lemma rate_limited_no_panic:
  assumes "fits idx (x_pool x)"
  shows "\<not> panics (handleRateLimited e idx resp method x)"
proof -
  let ?p = "pool_step (PFailure (re_failAt e) (re_draw e) (int idx)) (x_pool x)"
  have "fits idx (pool_step (PCooldown t (int idx) d) ?p)" for t d
    using assms by (intro delivered_fits) simp_all
  then have "fits idx (snd (Cooldown t (int idx) d (snd (P_RecordFailure (re_failAt e) (re_draw e) (int idx) (x_pool x)))))" for t d
    by simp
  then show ?thesis
    by (simp add: handleRateLimited_def Let_def split_beta on_pool_def fits_CB panics_and_then)
qed

lemma auth_rejected_no_panic:
  assumes "fits idx (x_pool x)"
  shows "\<not> panics (handleAuthRejected L e idx resp method x)"
proof -
  have "fits idx (pool_step (PAuthFailure (re_failAt e) (int idx)) (x_pool x))"
    using assms by (intro delivered_fits) simp_all
  then have "fits idx (snd (P_RecordAuthFailure (re_failAt e) (int idx) (x_pool x)))" by simp
  then show ?thesis
    by (simp add: handleAuthRejected_def Let_def split_beta step_defs fits_CB panics_and_then)
qed

lemma success_no_panic:
  assumes "fits idx (x_pool x)"
  shows "\<not> panics (handleSuccess L e idx resp method bb att x)"
proof -
  have "fits idx (pool_step (PSuccess (int idx)) (x_pool x))"
    using assms by (intro delivered_fits) simp_all
  then have "fits idx (P_RecordSuccess (int idx) (x_pool x))" by simp
  then have c: "\<not> panics (commit_success e idx resp method i out att y)"
    if "x_pool y = P_RecordSuccess (int idx) (x_pool x)" for i out y
    using that fits_increment by (auto simp: commit_success_def split: option.splits)
  show ?thesis
    by (auto simp: handleSuccess_def Let_def split_beta forward_def respond_def record_success_def
        on_pool_def on_up_def intro!: c)
qed

lemma dispatch_no_panic:
  "fits idx (x_pool x) \<Longrightarrow> \<not> panics (dispatch L e idx resp method target bb rnd rect x)"
  by (simp add: dispatch_def Let_def rate_limited_no_panic auth_rejected_no_panic success_no_panic
      handleServerError_def handleNonRetryable_def panics_and_then)

text \<open>A pool that is not shrunk keeps its indexes.\<close>

fun removes :: "pool_event \<Rightarrow> bool" where
  "removes (PRemove idx) = True"
| "removes _ = False"

lemma fits_step:
  assumes "fits idx p" and "\<not> removes ev"
  shows "fits idx (pool_step ev p)"
proof (cases "delivered ev")
  case None
  have "length (p_keys p) \<le> length (p_keys (pool_step ev p))"
    using assms None
    by (cases ev) (auto simp: fits_def SetSelectionMode_def AdvanceCounter_def Release_def ConfigureCBs_def AddKey_def
        CleanupOldRequests_wf IncrementRequestCount_wf GetKeyDetails_def cleanup_all_def Let_def)
  with assms show ?thesis by (simp add: fits_def pool_step_wf)
next
  case (Some d)
  with assms show ?thesis by (simp add: delivered_fits)
qed

lemma fits_run: "fits idx p \<Longrightarrow> \<not> list_ex removes evs \<Longrightarrow> fits idx (fold pool_step evs p)"
  by (induction evs arbitrary: p) (simp_all add: fits_step)

lemma one_round_no_panic:
  assumes "pool_wf (x_pool x)" and "\<not> list_ex removes (re_pool (env rnd))"
  shows "\<not> panics (one_round L up env rq target bb rect rnd x)"
proof -
  let ?e = "env rnd"
  obtain al cb where u: "U_Allow (re_allowAt ?e) (ps_upCB (x_ps x)) = (al, cb)" by force
  obtain sel p where s: "SelectKey (re_selectAt ?e) (x_pool x) = (sel, p)" by force
  have p: "pool_wf p" "p_keys p = p_keys (x_pool x)"
    using SelectKey_frame [of "re_selectAt ?e" "x_pool x"] s assms(1) by simp_all
  show ?thesis
  proof (cases sel)
    case None
    with u s show ?thesis by (simp add: one_round_def Let_def step_defs)
  next
    case (Some ik)
    obtain idx key where ik: "ik = (idx, key)" by force
    have "idx < length (p_keys (x_pool x))"
      using selecting.sound [OF assms(1), of "re_selectAt ?e" idx key] s Some ik by simp
    then have "fits idx (fold pool_step (re_pool ?e) p)"
      using p assms(2) by (intro fits_run) (simp_all add: fits_def)
    with u s Some ik show ?thesis
      by (simp add: one_round_def Let_def step_defs dispatch_no_panic split: upstream_result.split)
  qed
qed

lemma rounds_no_panic:
  assumes "x_valid x" and "\<And>r. \<not> list_ex removes (re_pool (env r))"
    and "lb_counterAdd L (c_MaxRetries (ps_pc (x_ps x)))"
  shows "\<not> panics (rounds L up env rq target bb rect n rnd x)"
  using assms(1,3)
proof (induction n arbitrary: rnd x)
  case (Suc n)
  have "\<not> panics (one_round L up env rq target bb rect rnd x)"
    using Suc.prems assms(2) by (intro one_round_no_panic) (simp_all add: x_valid_def)
  moreover have "x_valid y \<and> ps_pc (x_ps y) = ps_pc (x_ps x)"
    if "one_round L up env rq target bb rect rnd x = Returned b y" for b y
    using kept.R_one_round [of env rnd x L up rq target bb rect] that Suc.prems by (simp add: keeps_def)
  ultimately have "\<not> panics (rounds L up env rq target bb rect n (Suc rnd) y)"
    if "one_round L up env rq target bb rect rnd x = Returned b y" for b y
    using that Suc.IH [of y "Suc rnd"] Suc.prems(2) by simp
  with \<open>\<not> panics (one_round L up env rq target bb rect rnd x)\<close> show ?case by (auto simp: panics_and_then)
qed (simp add: Let_def step_defs)

lemma Execute_no_panic:
  assumes "x_valid x" and "\<And>r. \<not> list_ex removes (re_pool (env r))"
    and "lb_counterAdd L (c_MaxRetries (ps_pc (x_ps x)))"
  shows "\<not> panics (Execute L up env rq x)"
  by (cases rule: Execute_cases [of rq x L up env]) (simp_all add: rounds_no_panic [OF assms])

section \<open>No hang\<close>

definition loggable :: "upstream \<Rightarrow> bool" where
  "loggable up \<longleftrightarrow> (\<forall>rnd q a. up rnd q = Answer a \<longrightarrow> 400 \<le> a_status a \<longrightarrow>
     MaskSensitiveData (a_body a) 1024 \<noteq> None)"

lemma commit_no_hang: "\<not> hangs (commit_success e idx resp method i out att x)"
  by (simp add: commit_success_def split: option.split)

lemma dispatch_no_hang:
  assumes "400 \<le> a_status resp \<Longrightarrow> MaskSensitiveData (a_body resp) 1024 \<noteq> None"
  shows "\<not> hangs (dispatch L e idx resp method target bb rnd rect x)"
proof (cases "400 \<le> a_status resp")
  case True
  with assms show ?thesis
    by (auto simp: dispatch_def Let_def handleRateLimited_def handleAuthRejected_def handleServerError_def
        handleNonRetryable_def hangs_and_then split_beta split: option.splits)
next
  case False
  then have "dispatch L e idx resp method target bb rnd rect x = handleSuccess L e idx resp method bb rnd x"
    by (simp add: dispatch_def Let_def categorizeError_def)
  then show ?thesis by (simp add: handleSuccess_def Let_def split_beta commit_no_hang)
qed

lemma one_round_no_hang:
  assumes "loggable up"
  shows "\<not> hangs (one_round L up env rq target bb rect rnd x)"
  using assms dispatch_no_hang
  by (auto simp: one_round_def Let_def split_beta loggable_def split: option.split upstream_result.split)

lemma rounds_no_hang: "loggable up \<Longrightarrow> \<not> hangs (rounds L up env rq target bb rect n rnd x)"
  by (induction n arbitrary: rnd x) (auto simp: Let_def hangs_and_then one_round_no_hang)

lemma Execute_no_hang:
  assumes "loggable up" and "\<And>b. sent_body rq (ps_pc (x_ps x)) = Some b \<Longrightarrow> MaskSensitiveData (take 1024 b) 1024 \<noteq> None"
  shows "\<not> hangs (Execute L up env rq x)"
  by (cases rule: Execute_cases [of rq x L up env]) (use assms in \<open>auto simp: rounds_no_hang\<close>)

end
