(* ===== verification/Background.thy ===== *)
theory Background
  imports Providers ProxyExecutor
begin

text \<open>
  The background tasks (internal/server/lifecycle.go): the active health check of the upstream, the
  probes of the keys, the calibration requests and the gauges. One tick of a task is one step; a task
  is its list of ticks until the stop signal. The HTTP requests of a tick are arguments: the status
  of an answer, or no answer.
\<close>

section \<open>The active health check\<close>

datatype gauge =
    HealthProbe string string
  | UpstreamState string int
  | PoolKeys string string nat
  | Uptime duration

definition health_target :: "ProviderConfig \<Rightarrow> string" where
  "health_target pc = c_TargetBase pc @ c_HealthCheckPath pc"

text \<open>
  One tick. The configuration is the one that the task was started with. \<open>now\<close> is read by the
  breaker and by the record of the check.
\<close>

definition health_check ::
    "(string \<Rightarrow> int option) \<Rightarrow> time \<times> time \<Rightarrow> ProviderConfig \<Rightarrow> ProviderState \<Rightarrow> gauge list \<times> ProviderState" where
  "health_check head now pc ps =
     (let (ok, ps) = (case head (health_target pc) of
                        Some status \<Rightarrow>
                          (if status < 500 then (True, SetLastHealthCheck (snd now) True (RecordUpstreamSuccess ps))
                           else (False, SetLastHealthCheck (snd now) False (RecordUpstreamFailure (fst now) ps)))
                      | None \<Rightarrow> (False, SetLastHealthCheck (snd now) False (RecordUpstreamFailure (fst now) ps)))
      in ([HealthProbe (ps_name ps) (if ok then ''ok'' else ''fail''),
           UpstreamState (ps_name ps) (state_code (u_state (ps_upCB ps)))], ps))"

section \<open>Key probes\<close>

definition probe_url :: "string \<Rightarrow> string" where
  "probe_url target = TrimRight slash target @ ''/models''"

text \<open>\<open>probe url key\<close> is the status of a GET with that key; \<open>build\<close> says whether the request can be built.\<close>

definition startup_probe_one ::
    "bool \<Rightarrow> (string \<Rightarrow> string \<Rightarrow> int option) \<Rightarrow> string \<Rightarrow> nat \<Rightarrow> KeyPool \<Rightarrow> KeyPool" where
  "startup_probe_one build probe target i p =
     (if IsDisabled (int i) p then p
      else if \<not> build then p
      else (case probe (probe_url target) (Keys p ! i) of
              None \<Rightarrow> p
            | Some status \<Rightarrow> if status = 401 \<or> status = 403 then snd (Disable (int i) p) else p))"

definition StartupKeyProbe ::
    "bool \<Rightarrow> (string \<Rightarrow> string \<Rightarrow> int option) \<Rightarrow> string \<Rightarrow> KeyPool \<Rightarrow> KeyPool" where
  "StartupKeyProbe build probe target p =
     fold (startup_probe_one build probe target) [0..<length (p_keys p)] p"

definition periodic_probe_one ::
    "bool \<Rightarrow> (string \<Rightarrow> string \<Rightarrow> int option) \<Rightarrow> string \<Rightarrow> nat \<Rightarrow> KeyPool \<Rightarrow> KeyPool" where
  "periodic_probe_one build probe target i p =
     (case CB (int i) p of
        None \<Rightarrow> p
      | Some cb \<Rightarrow>
          (if k_state cb \<noteq> Permanent then p
           else if k_trippedReason cb \<noteq> ''quota_exhausted'' \<and> k_trippedReason cb \<noteq> ''preserved'' then p
           else if \<not> build then p
           else (case probe (probe_url target) (Keys p ! i) of
                   None \<Rightarrow> p
                 | Some status \<Rightarrow> if status = 200 then snd (Enable (int i) p) else p)))"

definition PeriodicKeyProbe ::
    "bool \<Rightarrow> (string \<Rightarrow> string \<Rightarrow> int option) \<Rightarrow> string \<Rightarrow> KeyPool \<Rightarrow> KeyPool" where
  "PeriodicKeyProbe build probe target p =
     fold (periodic_probe_one build probe target) [0..<length (p_keys p)] p"

section \<open>Calibration\<close>

definition calibration_body :: "string \<Rightarrow> bytes" where
  "calibration_body model =
     ''{'' @ [CHR 0x22] @ ''model'' @ [CHR 0x22] @ '':'' @ [CHR 0x22] @ model @ [CHR 0x22] @ '','' @
     [CHR 0x22] @ ''max_tokens'' @ [CHR 0x22] @ '':1,'' @ [CHR 0x22] @ ''messages'' @ [CHR 0x22] @ '':[{'' @
     [CHR 0x22] @ ''role'' @ [CHR 0x22] @ '':'' @ [CHR 0x22] @ ''user'' @ [CHR 0x22] @ '','' @
     [CHR 0x22] @ ''content'' @ [CHR 0x22] @ '':'' @ [CHR 0x22] @ ''Hi'' @ [CHR 0x22] @ ''}]}''"

text \<open>
  \<open>post url key body\<close> is the status and the whole body of the answer; \<open>None\<close> is a request that could
  not be built or sent, or a body that could not be read.
\<close>

definition sendCalibrationRequest ::
    "tiktoken \<Rightarrow> (string \<Rightarrow> string \<Rightarrow> bytes \<Rightarrow> (int \<times> bytes) option) \<Rightarrow> time \<Rightarrow> string \<Rightarrow> string \<Rightarrow>
      Calibrator \<times> KeyPool \<Rightarrow> Calibrator \<times> KeyPool" where
  "sendCalibrationRequest tk post now targetBase model cp =
     (let (cal, p) = cp
      in if model = '''' then (cal, p)
         else
           (let body = calibration_body model
            in case Next now p of
                 (None, p) \<Rightarrow> (cal, p)
               | (Some (idx, key), p) \<Rightarrow>
                   (let p = Release (int idx) p
                    in case post (calibrationTarget targetBase) key body of
                         None \<Rightarrow> (cal, p)
                       | Some (status, respBody) \<Rightarrow>
                           (if status \<noteq> 200 then (cal, p)
                            else
                              (let (actualInput, actualOutput, respText) = ProcessResponse respBody
                               in if actualInput = 0 \<and> actualOutput = 0 then (cal, p)
                                  else (RecordCalibration model (EstimateInput tk body model) actualInput
                                          (EstimateOutput tk respText model) actualOutput cal, p))))))"

text \<open>\<open>PeriodicCalibrator\<close>: at once, then at every tick; nothing without a model and an interval.\<close>

definition PeriodicCalibrator ::
    "tiktoken \<Rightarrow> (nat \<Rightarrow> string \<Rightarrow> string \<Rightarrow> bytes \<Rightarrow> (int \<times> bytes) option) \<Rightarrow> string \<Rightarrow> string \<Rightarrow> duration \<Rightarrow>
      time list \<Rightarrow> Calibrator \<times> KeyPool \<Rightarrow> Calibrator \<times> KeyPool" where
  "PeriodicCalibrator tk post targetBase model interval ticks cp =
     (if model = '''' \<or> interval \<le> 0 then cp
      else fold (\<lambda>(i, now). sendCalibrationRequest tk (post i) now targetBase model)
             (List.enumerate 0 ticks) cp)"

section \<open>Gauges\<close>

definition RefreshKeyPoolGauge :: "time \<Rightarrow> KeyPool \<Rightarrow> string \<Rightarrow> gauge list" where
  "RefreshKeyPoolGauge now p name =
     [PoolKeys name ''active'' (ActiveCount p), PoolKeys name ''cooling'' (CoolingCount now p),
      PoolKeys name ''disabled'' (DisabledCount p)]"

definition uptime_tick :: "time \<Rightarrow> time \<Rightarrow> gauge" where
  "uptime_tick startTime now = Uptime (now - startTime)"

section \<open>What the tasks can do to a pool\<close>

text \<open>
  A round of the periodic probe touches no key but those whose quota ran out (or whose reason was
  lost in a reconfiguration): a key that was disabled by hand or for its credentials stays disabled.
\<close>

definition probed :: "KeyCircuitBreaker \<Rightarrow> bool" where
  "probed cb \<longleftrightarrow> k_state cb = Permanent \<and>
     (k_trippedReason cb = ''quota_exhausted'' \<or> k_trippedReason cb = ''preserved'')"

lemma periodic_probe_one_eq:
  assumes "pool_wf p" and "i < length (p_keys p)"
  shows "periodic_probe_one build probe target i p =
    (if build \<and> probed (p_cbs p ! i) \<and> probe (probe_url target) (p_keys p ! i) = Some 200
     then update_cb i Reset p else p)"
  using assms
  by (auto simp: periodic_probe_one_def CB_wf in_range_def probed_def Keys_def Enable_def validateIndex_wf
      split: option.split)

lemma Reset_wf: "pool_wf p \<Longrightarrow> i < length (p_keys p) \<Longrightarrow> pool_wf (update_cb i Reset p)"
  using update_cb_wf [of p i EReset] by (simp add: ext [of "key_step EReset" Reset])

lemma PeriodicKeyProbe_cbs:
  assumes "pool_wf p"
  shows "PeriodicKeyProbe build probe target p = p\<lparr>p_cbs := map (\<lambda>i.
      if build \<and> probed (p_cbs p ! i) \<and> probe (probe_url target) (p_keys p ! i) = Some 200
      then Reset (p_cbs p ! i) else p_cbs p ! i) [0..<length (p_keys p)]\<rparr>"
proof -
  let ?g = "\<lambda>i. if build \<and> probed (p_cbs p ! i) \<and> probe (probe_url target) (p_keys p ! i) = Some 200
      then Reset (p_cbs p ! i) else p_cbs p ! i"
  let ?after = "\<lambda>m. p\<lparr>p_cbs := map (\<lambda>i. if i < m then ?g i else p_cbs p ! i) [0..<length (p_keys p)]\<rparr>"
  have len: "length (p_cbs p) = length (p_keys p)" using assms by (simp add: pool_wf_lengths)
  have "fold (periodic_probe_one build probe target) [0..<m] p = ?after m \<and> pool_wf (?after m)"
    if "m \<le> length (p_keys p)" for m
    using that
  proof (induction m)
    case 0
    have "?after 0 = p" by (simp add: len [symmetric] map_nth)
    with assms show ?case by simp
  next
    case (Suc m)
    then have IH: "fold (periodic_probe_one build probe target) [0..<m] p = ?after m" "pool_wf (?after m)"
      and m: "m < length (p_keys p)" by simp_all
    have step: "periodic_probe_one build probe target m (?after m) = ?after (Suc m)"
      using periodic_probe_one_eq [OF IH(2), of m build probe target] m
      by (auto simp: update_cb_def nth_list_update less_Suc_eq
          intro!: arg_cong [of _ _ "\<lambda>cbs. p\<lparr>p_cbs := cbs\<rparr>"] nth_equalityI)
    have "pool_wf (periodic_probe_one build probe target m (?after m))"
      using periodic_probe_one_eq [OF IH(2), of m build probe target] m IH(2) Reset_wf [OF IH(2), of m]
      by (simp split: if_splits)
    with step IH(1) show ?case by simp
  qed
  from this [of "length (p_keys p)"] show ?thesis by (simp add: PeriodicKeyProbe_def cong: map_cong)
qed

end
