(* ===== verification/Server.thy ===== *)
theory Server
  imports AdminSafety RequestSafety Background
begin

text \<open>
  The running process: the providers with the management API, the proxied requests
  (internal/server/proxy_handler.go, router.go) and the background tasks as steps of one state, from
  listening to the end of serving. Handlers and ticks are steps of their own here; what other requests
  do to the pool and the breaker while one waits for its upstream is part of the environment of that
  request's rounds.
\<close>

section \<open>State and steps\<close>

text \<open>
  A background task of a provider holds what it was started with: a pointer to the pool, a pointer to
  the configuration, and the values of three settings. A reload gives the provider a new pool and a
  new configuration, but not its task. \<open>None\<close> is a pointer that the task still shares with the provider.
\<close>

record task =
  ta_config :: "ProviderConfig option"
  ta_pool :: "KeyPool option"
  ta_target :: string
  ta_model :: string
  ta_interval :: duration

record process =
  pr_server :: server
  pr_cal :: Calibrator
  pr_dumps :: dump_dir
  pr_metrics :: "metric list"
  pr_tasks :: "(string \<times> task) list"
  pr_uptime :: "time option"
  pr_gauges :: "gauge list"
  pr_serving :: bool

text \<open>\<open>NewProviderRouter\<close>: no provider yet, a calibrator with a window of 15 samples, nothing started.\<close>

definition router_of :: "server \<Rightarrow> dump_dir \<Rightarrow> process" where
  "router_of s dumps =
     \<lparr>pr_server = s, pr_cal = NewCalibrator 15, pr_dumps = dumps, pr_metrics = [], pr_tasks = [],
      pr_uptime = None, pr_gauges = [], pr_serving = False\<rparr>"

definition NewProviderRouter :: "string \<Rightarrow> time \<Rightarrow> store_state \<Rightarrow> dump_dir \<Rightarrow> process" where
  "NewProviderRouter dash now st dumps =
     router_of \<lparr>sv_pm = NewProviderManager now dash, sv_lm = NewLogManager, sv_store = st, sv_defaultName = ''''\<rparr> dumps"

section \<open>Starting and stopping\<close>

text \<open>
  Listening, and the end of it. The goroutine that serves is not part of the state: requests are served
  while \<open>pr_serving\<close> holds.
\<close>

definition StartWithListener :: "process \<Rightarrow> process" where
  "StartWithListener pr = pr\<lparr>pr_serving := True\<rparr>"

definition Start :: "(string \<Rightarrow> int \<Rightarrow> bool) \<Rightarrow> string \<Rightarrow> int \<Rightarrow> process \<Rightarrow> process option" where
  "Start listens host port pr = (if listens host port then Some (StartWithListener pr) else None)"

definition Shutdown :: "process \<Rightarrow> process" where
  "Shutdown pr = pr\<lparr>pr_serving := False\<rparr>"

definition StopTasks :: "process \<Rightarrow> process" where
  "StopTasks pr = pr\<lparr>pr_tasks := [], pr_uptime := None\<rparr>"

text \<open>
  The tasks of one provider. \<open>time.NewTicker\<close> panics when the interval is not positive; no one recovers
  in the goroutine of a task, so the process ends: \<open>None\<close>.
\<close>

definition StartHealthCheck :: "ProviderState \<Rightarrow> task option" where
  "StartHealthCheck ps =
     (let pc = ps_pc ps
      in if seconds (c_HealthCheckIntervalSec pc) \<le> 0 then None
         else Some \<lparr>ta_config = None, ta_pool = None, ta_target = c_TargetBase pc, ta_model = c_GenaiModel pc,
                    ta_interval = seconds (c_CalibrationIntervalSec pc)\<rparr>)"

definition StartBackgroundTasks :: "time \<Rightarrow> process \<Rightarrow> process option" where
  "StartBackgroundTasks now pr =
     map_option (\<lambda>ts. pr\<lparr>pr_tasks := ts, pr_uptime := Some now\<rparr>)
       (those (map (\<lambda>(name, ps). map_option (Pair name) (StartHealthCheck ps)) (sv_providers (pr_server pr))))"

definition exec_of :: "ProviderState \<Rightarrow> process \<Rightarrow> exec" where
  "exec_of ps pr =
     \<lparr>x_ps = ps, x_store = sv_store (pr_server pr), x_cal = pr_cal pr, x_dumps = pr_dumps pr,
      x_metrics = pr_metrics pr, x_resp = None, x_sent = []\<rparr>"

definition put_exec :: "string \<Rightarrow> exec \<Rightarrow> process \<Rightarrow> process" where
  "put_exec name x pr = pr
     \<lparr>pr_server := (set_provider name (x_ps x) (pr_server pr))\<lparr>sv_store := x_store x\<rparr>,
      pr_cal := x_cal x, pr_dumps := x_dumps x, pr_metrics := x_metrics x\<rparr>"

text \<open>The answer of the proxy handler: an error of its own, or the outcome of the executor.\<close>

datatype proxied = NoProviderInPath | UnknownProvider string | Executed "unit outcome"

definition proxyHandler ::
    "libs \<Rightarrow> upstream \<Rightarrow> (nat \<Rightarrow> round_env) \<Rightarrow> request \<Rightarrow> process \<Rightarrow> proxied \<times> process" where
  "proxyHandler L up env rq pr =
     (let (providerName, restPath) = extractProvider (rq_path rq)
      in if providerName = '''' then (NoProviderInPath, pr)
         else (case LookupProvider providerName (sv_pm (pr_server pr)) of
                 None \<Rightarrow> (UnknownProvider providerName, pr)
               | Some ps \<Rightarrow>
                   (let r = Execute L up env (rq\<lparr>rq_path := restPath\<rparr>) (exec_of ps pr)
                    in (Executed r, put_exec providerName (final r) pr))))"

section \<open>Ticks of the tasks\<close>

definition with_task :: "string \<Rightarrow> (task \<Rightarrow> ProviderState \<Rightarrow> process) \<Rightarrow> process \<Rightarrow> process" where
  "with_task name f pr =
     (case (map_of (pr_tasks pr) name, LookupProvider name (sv_pm (pr_server pr))) of
        (Some t, Some ps) \<Rightarrow> f t ps | _ \<Rightarrow> pr)"

definition task_config :: "task \<Rightarrow> ProviderState \<Rightarrow> ProviderConfig" where
  "task_config t ps = (case ta_config t of None \<Rightarrow> ps_pc ps | Some pc \<Rightarrow> pc)"

definition task_pool :: "task \<Rightarrow> ProviderState \<Rightarrow> KeyPool" where
  "task_pool t ps = (case ta_pool t of None \<Rightarrow> ps_pool ps | Some p \<Rightarrow> p)"

definition put_task_pool :: "string \<Rightarrow> task \<Rightarrow> ProviderState \<Rightarrow> KeyPool \<Rightarrow> process \<Rightarrow> process" where
  "put_task_pool name t ps p pr =
     (if ta_pool t = None then pr\<lparr>pr_server := set_provider name (ps\<lparr>ps_pool := p\<rparr>) (pr_server pr)\<rparr>
      else pr\<lparr>pr_tasks := AList.update name (t\<lparr>ta_pool := Some p\<rparr>) (pr_tasks pr)\<rparr>)"

definition health_tick :: "string \<Rightarrow> (string \<Rightarrow> int option) \<Rightarrow> time \<times> time \<Rightarrow> process \<Rightarrow> process" where
  "health_tick name head now pr = with_task name (\<lambda>t ps.
     let (gs, ps) = health_check head now (task_config t ps) ps
     in pr\<lparr>pr_server := set_provider name ps (pr_server pr), pr_gauges := pr_gauges pr @ gs\<rparr>) pr"

definition probe_tick :: "string \<Rightarrow> bool \<Rightarrow> (string \<Rightarrow> string \<Rightarrow> int option) \<Rightarrow> process \<Rightarrow> process" where
  "probe_tick name build probe pr = with_task name (\<lambda>t ps.
     put_task_pool name t ps (PeriodicKeyProbe build probe (ta_target t) (task_pool t ps)) pr) pr"

definition calibration_tick ::
    "string \<Rightarrow> tiktoken \<Rightarrow> (string \<Rightarrow> string \<Rightarrow> bytes \<Rightarrow> (int \<times> bytes) option) \<Rightarrow> time \<Rightarrow> process \<Rightarrow> process" where
  "calibration_tick name tk post now pr = with_task name (\<lambda>t ps.
     if ta_model t = '''' \<or> ta_interval t \<le> 0 then pr
     else (let (cal, p) = sendCalibrationRequest tk post now (ta_target t) (ta_model t) (pr_cal pr, task_pool t ps)
           in (put_task_pool name t ps p pr)\<lparr>pr_cal := cal\<rparr>)) pr"

definition gauge_tick :: "string \<Rightarrow> time \<Rightarrow> process \<Rightarrow> process" where
  "gauge_tick name now pr = with_task name (\<lambda>t ps.
     pr\<lparr>pr_gauges := pr_gauges pr @ RefreshKeyPoolGauge now (task_pool t ps) (ps_name ps)\<rparr>) pr"

section \<open>Requests to the API\<close>

text \<open>The providers whose pool and configuration a request replaces: those that a reload finds in the file.\<close>

definition reloaded_names :: "senv \<Rightarrow> endpoint \<Rightarrow> api_request \<Rightarrow> server \<Rightarrow> string list" where
  "reloaded_names E ep r s =
     (if ep = Reload \<and> checkAnyAdminToken r s
      then (case XDGConfigPath (s_world (sv_store s)) of
              None \<Rightarrow> []
            | Some path \<Rightarrow>
                (case LoadAllTomlProviders (read_file (s_world (sv_store s))) (en_tomlDecode E) path of
                   (Inl e, def) \<Rightarrow> [] | (Inr providers, def) \<Rightarrow> map fst providers))
      else [])"

text \<open>The tasks of those providers go on with the pool and the configuration from before.\<close>

definition keep_pointers :: "string list \<Rightarrow> server \<Rightarrow> string \<Rightarrow> task \<Rightarrow> task" where
  "keep_pointers names s name t =
     (case (if name \<in> set names then LookupProvider name (sv_pm s) else None) of
        None \<Rightarrow> t
      | Some ps \<Rightarrow> t\<lparr>ta_config := Some (task_config t ps), ta_pool := Some (task_pool t ps)\<rparr>)"

definition detach :: "string list \<Rightarrow> server \<Rightarrow> (string \<times> task) list \<Rightarrow> (string \<times> task) list" where
  "detach names s = map (\<lambda>(name, t). (name, keep_pointers names s name t))"

definition serve_api ::
    "senv \<Rightarrow> time \<Rightarrow> (string \<Rightarrow> time option) \<Rightarrow> endpoint \<Rightarrow> api_request \<Rightarrow> process \<Rightarrow> process" where
  "serve_api E now pt ep r pr =
     (case api_serve E now pt ep r (pr_server pr) of
        None \<Rightarrow> pr
      | Some (resp, s) \<Rightarrow>
          pr\<lparr>pr_server := s, pr_tasks := detach (reloaded_names E ep r (pr_server pr)) (pr_server pr) (pr_tasks pr)\<rparr>)"

section \<open>The steps of the process\<close>

datatype process_event =
    Listen
  | StartTasks time
  | ApiRequest senv time "string \<Rightarrow> time option" endpoint api_request
  | ProxyRequest libs upstream "nat \<Rightarrow> round_env" request
  | HealthTick string "string \<Rightarrow> int option" "time \<times> time"
  | ProbeTick string bool "string \<Rightarrow> string \<Rightarrow> int option"
  | CalibrationTick string tiktoken "string \<Rightarrow> string \<Rightarrow> bytes \<Rightarrow> (int \<times> bytes) option" time
  | GaugeTick string time
  | UptimeTick time
  | EndServing

fun process_step :: "process_event \<Rightarrow> process \<Rightarrow> process" where
  "process_step Listen pr = StartWithListener pr"
| "process_step (StartTasks now) pr =
     (case StartBackgroundTasks now pr of None \<Rightarrow> StopTasks (Shutdown pr) | Some pr \<Rightarrow> pr)"
| "process_step (ApiRequest E now pt ep r) pr = (if pr_serving pr then serve_api E now pt ep r pr else pr)"
| "process_step (ProxyRequest L up env rq) pr = (if pr_serving pr then snd (proxyHandler L up env rq pr) else pr)"
| "process_step (HealthTick name head now) pr = health_tick name head now pr"
| "process_step (ProbeTick name build probe) pr = probe_tick name build probe pr"
| "process_step (CalibrationTick name tk post now) pr = calibration_tick name tk post now pr"
| "process_step (GaugeTick name now) pr = gauge_tick name now pr"
| "process_step (UptimeTick now) pr =
     (case pr_uptime pr of None \<Rightarrow> pr | Some start \<Rightarrow> pr\<lparr>pr_gauges := pr_gauges pr @ [uptime_tick start now]\<rparr>)"
| "process_step EndServing pr = StopTasks (Shutdown pr)"

section \<open>The invariant of the process\<close>

definition task_ok :: "task \<Rightarrow> bool" where
  "task_ok t \<longleftrightarrow> (case ta_pool t of None \<Rightarrow> True | Some p \<Rightarrow> pool_wf p)"

definition process_inv :: "process \<Rightarrow> bool" where
  "process_inv pr \<longleftrightarrow> all_ok provider_ok (pr_server pr) \<and> cal_inv (pr_cal pr) \<and> list_all (task_ok \<circ> snd) (pr_tasks pr)"

lemma process_inv_provider:
  "process_inv pr \<Longrightarrow> LookupProvider name (sv_pm (pr_server pr)) = Some ps \<Longrightarrow> provider_ok name ps"
  by (simp add: process_inv_def all_ok_def)

lemma task_ok_pool: "task_ok t \<Longrightarrow> provider_ok name ps \<Longrightarrow> pool_wf (task_pool t ps)"
  by (cases "ta_pool t") (simp_all add: task_ok_def task_pool_def provider_ok_def)

lemma task_pool_wf:
  assumes "process_inv pr" and "map_of (pr_tasks pr) name = Some t"
    and "LookupProvider name (sv_pm (pr_server pr)) = Some ps"
  shows "pool_wf (task_pool t ps)"
proof -
  have "task_ok t" using assms(1) map_of_SomeD [OF assms(2)] by (auto simp: process_inv_def list_all_iff)
  then show ?thesis using process_inv_provider [OF assms(1,3)] by (rule task_ok_pool)
qed

lemma put_task_pool_inv:
  assumes "process_inv pr" and "LookupProvider name (sv_pm (pr_server pr)) = Some ps" and "pool_wf p"
  shows "process_inv (put_task_pool name t ps p pr)"
proof -
  have "list_all (task_ok \<circ> snd) ts \<Longrightarrow> list_all (task_ok \<circ> snd) (AList.update name (t\<lparr>ta_pool := Some p\<rparr>) ts)" for ts
    using assms(3) by (induction ts) (auto simp: task_ok_def)
  with assms process_inv_provider [OF assms(1,2)] show ?thesis
    by (auto simp: put_task_pool_def process_inv_def provider_ok_def intro!: all_ok_set_provider)
qed

lemma with_task_inv:
  assumes "process_inv pr"
    and "\<And>t ps. map_of (pr_tasks pr) name = Some t \<Longrightarrow>
      LookupProvider name (sv_pm (pr_server pr)) = Some ps \<Longrightarrow> process_inv (f t ps)"
  shows "process_inv (with_task name f pr)"
  using assms by (simp add: with_task_def split: option.split)

lemma process_inv_frame:
  "process_inv (pr\<lparr>pr_gauges := g\<rparr>) = process_inv pr" "process_inv (pr\<lparr>pr_serving := b\<rparr>) = process_inv pr"
  "process_inv (pr\<lparr>pr_uptime := u\<rparr>) = process_inv pr" "process_inv pr \<Longrightarrow> process_inv (pr\<lparr>pr_tasks := []\<rparr>)"
  "process_inv pr \<Longrightarrow> cal_inv c \<Longrightarrow> process_inv (pr\<lparr>pr_cal := c\<rparr>)"
  by (simp_all add: process_inv_def)

lemma those_Some_map: "those (map f xs) = Some ys \<Longrightarrow> y \<in> set ys \<Longrightarrow> \<exists>x\<in>set xs. f x = Some y"
  by (induction xs arbitrary: ys) (auto split: option.splits)

lemma started_tasks_shared:
  assumes "StartBackgroundTasks now pr = Some pr'" and "t \<in> snd ` set (pr_tasks pr')"
  shows "ta_pool t = None \<and> ta_config t = None"
proof -
  obtain ps where "StartHealthCheck ps = Some t"
    using assms by (auto simp: StartBackgroundTasks_def dest!: those_Some_map)
  then show ?thesis by (auto simp: StartHealthCheck_def Let_def split: if_splits)
qed

lemma StartBackgroundTasks_inv:
  assumes "process_inv pr" and "StartBackgroundTasks now pr = Some pr'"
  shows "process_inv pr'"
proof -
  have "pr_server pr' = pr_server pr" "pr_cal pr' = pr_cal pr"
    using assms(2) by (auto simp: StartBackgroundTasks_def)
  moreover have "task_ok t" if "t \<in> snd ` set (pr_tasks pr')" for t
    using started_tasks_shared [OF assms(2) that] by (simp add: task_ok_def)
  then have "list_all (task_ok \<circ> snd) (pr_tasks pr')" by (auto simp: list_all_iff)
  ultimately show ?thesis using assms(1) by (simp add: process_inv_def)
qed

lemma detach_inv:
  assumes "process_inv pr"
  shows "list_all (task_ok \<circ> snd) (detach names (pr_server pr) (pr_tasks pr))"
proof -
  have "task_ok (keep_pointers names (pr_server pr) name t)" if t: "(name, t) \<in> set (pr_tasks pr)" for name t
  proof -
    have old: "task_ok t" using assms t by (auto simp: process_inv_def list_all_iff)
    have "task_ok (t\<lparr>ta_config := c, ta_pool := Some (task_pool t ps)\<rparr>)"
      if "LookupProvider name (sv_pm (pr_server pr)) = Some ps" for ps c
      using task_ok_pool [OF old process_inv_provider [OF assms that]] by (simp add: task_ok_def)
    with old show ?thesis by (cases "LookupProvider name (sv_pm (pr_server pr))") (simp_all add: keep_pointers_def)
  qed
  then show ?thesis by (auto simp: detach_def list_all_iff)
qed

lemma exec_of_valid:
  "process_inv pr \<Longrightarrow> LookupProvider name (sv_pm (pr_server pr)) = Some ps \<Longrightarrow> x_valid (exec_of ps pr)"
  using process_inv_provider by (simp add: x_valid_def exec_of_def provider_ok_def process_inv_def)

lemma proxyHandler_inv:
  assumes "process_inv pr"
  shows "process_inv (snd (proxyHandler L up env rq pr))"
proof -
  obtain name rest where e: "extractProvider (rq_path rq) = (name, rest)" by force
  show ?thesis
  proof (cases "name = '''' \<or> LookupProvider name (sv_pm (pr_server pr)) = None")
    case True
    with assms e show ?thesis by (auto simp: proxyHandler_def split: option.split)
  next
    case False
    then obtain ps where ps: "LookupProvider name (sv_pm (pr_server pr)) = Some ps" by blast
    let ?y = "final (Execute L up env (rq\<lparr>rq_path := rest\<rparr>) (exec_of ps pr))"
    have "keeps (exec_of ps pr) ?y" by (rule kept.R_Execute) simp_all
    with exec_of_valid [OF assms ps] process_inv_provider [OF assms ps]
    have "provider_ok name (x_ps ?y)" "cal_inv (x_cal ?y)"
      by (auto simp: keeps_def x_valid_def provider_ok_def exec_of_def)
    with assms False ps e show ?thesis
      by (simp add: proxyHandler_def Let_def put_exec_def process_inv_def all_ok_simps all_ok_set_provider)
  qed
qed

lemma health_check_ok: "provider_ok name ps \<Longrightarrow> provider_ok name (snd (health_check head now pc ps))"
  using upstream_step_inv [of "ps_upCB ps" "UFailure (fst now)"] upstream_step_inv [of "ps_upCB ps" USuccess]
  by (simp add: provider_ok_def health_check_def SetLastHealthCheck_def RecordUpstreamSuccess_def
      RecordUpstreamFailure_def split: option.split)

lemma PeriodicKeyProbe_wf: "pool_wf p \<Longrightarrow> pool_wf (PeriodicKeyProbe build probe target p)"
proof -
  assume wf: "pool_wf p"
  have "key_inv (Reset (p_cbs p ! i))" if "i < length (p_keys p)" for i
    using key_step_inv [OF pool_wf_breaker [OF wf that], of EReset] by simp
  then show ?thesis
    using wf pool_wf_breaker [OF wf] by (simp add: PeriodicKeyProbe_cbs pool_wf_def list_all_length)
qed

lemma sendCalibrationRequest_inv:
  assumes "sendCalibrationRequest tk post now target model (cal, p) = (cal', q)" and "cal_inv cal" and "pool_wf p"
  shows "cal_inv cal' \<and> pool_wf q"
proof -
  have n: "pool_wf p'" if "Next now p = (r, p')" for r p'
    using pool_step_wf [OF assms(3), of "PNext now"] that by simp
  have "pool_wf (Release i p')" if "Next now p = (r, p')" for r p' i
    using pool_step_wf [OF n [OF that], of "PRelease i"] by simp
  with n assms show ?thesis
    by (auto simp: sendCalibrationRequest_def Let_def RecordCalibration_inv
        split: if_splits prod.splits option.splits)
qed

lemma serve_api_inv: "process_inv pr \<Longrightarrow> process_inv (serve_api E now pt ep r pr)"
  using well_formed.api_serve_ok [of "{}" "pr_server pr" E now pt ep r] detach_inv [of pr "reloaded_names E ep r (pr_server pr)"]
  by (auto simp: serve_api_def process_inv_def split: option.split)

lemma health_tick_inv: "process_inv pr \<Longrightarrow> process_inv (health_tick name head now pr)"
proof -
  assume inv: "process_inv pr"
  have "process_inv (let (gs, ps) = health_check head now (task_config t ps) ps
      in pr\<lparr>pr_server := set_provider name ps (pr_server pr), pr_gauges := pr_gauges pr @ gs\<rparr>)"
    if "LookupProvider name (sv_pm (pr_server pr)) = Some ps" for t ps
    using health_check_ok [OF process_inv_provider [OF inv that], of head now "task_config t ps"] inv
    by (auto simp: process_inv_def intro!: all_ok_set_provider split: prod.split)
  then show ?thesis unfolding health_tick_def by (intro with_task_inv inv) simp_all
qed

lemma probe_tick_inv: "process_inv pr \<Longrightarrow> process_inv (probe_tick name build probe pr)"
  unfolding probe_tick_def by (intro with_task_inv put_task_pool_inv PeriodicKeyProbe_wf task_pool_wf)

lemma calibration_tick_inv: "process_inv pr \<Longrightarrow> process_inv (calibration_tick name tk post now pr)"
proof -
  assume inv: "process_inv pr"
  have "process_inv (let (cal, p) = sendCalibrationRequest tk post now (ta_target t) (ta_model t) (pr_cal pr, task_pool t ps)
      in (put_task_pool name t ps p pr)\<lparr>pr_cal := cal\<rparr>)"
    if t: "map_of (pr_tasks pr) name = Some t" and ps: "LookupProvider name (sv_pm (pr_server pr)) = Some ps" for t ps
  proof -
    obtain cal p where c: "sendCalibrationRequest tk post now (ta_target t) (ta_model t) (pr_cal pr, task_pool t ps) = (cal, p)"
      by force
    have "cal_inv cal \<and> pool_wf p"
      using sendCalibrationRequest_inv [OF c] task_pool_wf [OF inv t ps] inv by (simp add: process_inv_def)
    with put_task_pool_inv [OF inv ps] c show ?thesis by (simp add: process_inv_frame)
  qed
  with inv show ?thesis unfolding calibration_tick_def by (intro with_task_inv) simp_all
qed

lemma gauge_tick_inv: "process_inv pr \<Longrightarrow> process_inv (gauge_tick name now pr)"
  unfolding gauge_tick_def by (intro with_task_inv) (simp_all add: process_inv_frame)

lemma stopped_inv: "process_inv pr \<Longrightarrow> process_inv (StopTasks (Shutdown pr))"
  by (simp add: process_inv_def StopTasks_def Shutdown_def)

lemma process_step_inv:
  assumes "process_inv pr"
  shows "process_inv (process_step e pr)"
  using assms serve_api_inv proxyHandler_inv health_tick_inv probe_tick_inv calibration_tick_inv gauge_tick_inv stopped_inv
  by (cases e) (auto simp: process_inv_frame StartWithListener_def dest: StartBackgroundTasks_inv split: option.split)

interpretation process_machine: event_machine process_step process_inv
  by unfold_locales (rule process_step_inv)

lemma NewProviderRouter_inv: "process_inv (NewProviderRouter dash now st dumps)"
  by (simp add: process_inv_def NewProviderRouter_def router_of_def all_ok_def NewProviderManager_def LookupProvider_def
      cal_inv_new)

end
