(* ===== verification/Failover.thy ===== *)
theory Failover
  imports RequestSafety
begin

text \<open>
  Failover between keys: a key that the upstream rate-limits is not taken again before its
  \<open>Retry-After\<close> is over, the other keys keep their breakers, and so a request reaches a key that the
  upstream accepts if there is one and the rounds suffice.
\<close>

section \<open>After a 429\<close>

interpretation pool_only: handler_steps "\<lambda>x y. pool_wf (x_pool x) \<longrightarrow> pool_wf (x_pool y)" "\<lambda>ev. True" "\<lambda>m. True"
  by unfold_locales (auto simp: step_defs pool_step_wf)

definition retry_after :: "answer \<Rightarrow> duration option" where
  "retry_after resp =
     map_option (\<lambda>secs. wrap64 (wrap64 (secs + 2) * 1000000000)) (Atoi (header_get ''Retry-After'' (a_header resp)))"

lemma rate_limit_cooldown_ge: "retry_after resp = Some r \<Longrightarrow> r \<le> rate_limit_cooldown resp d"
  by (cases "header_get ''Retry-After'' (a_header resp) = []")
     (auto simp: retry_after_def rate_limit_cooldown_def Let_def Atoi_def)

lemma ForceCooldown_blocks: "t \<le> now + d \<Longrightarrow> \<not> Allow t (ForceCooldown now d k)"
  by (auto simp: ForceCooldown_def Allow_def Let_def)

text \<open>The pool after the two operations of the handler.\<close>

lemma rate_limited_pool:
  assumes "fits idx (x_pool x)" and "handleRateLimited e idx resp method x = Returned b y"
  obtains d where "x_pool y = update_cb idx (\<lambda>k. ForceCooldown (re_coolAt e) (rate_limit_cooldown resp d)
      (snd (RecordFailure (re_failAt e) (re_draw e) k))) (x_pool x)"
proof -
  let ?p = "x_pool x" and ?f = "\<lambda>k. snd (RecordFailure (re_failAt e) (re_draw e) k)"
  have i: "in_range (int idx) ?p" "CB (int idx) ?p = Some (p_cbs ?p ! idx)" "idx < length (p_cbs ?p)"
    using assms(1) fits_CB by (simp_all add: fits_def in_range_def pool_wf_lengths)
  have wf: "pool_wf (update_cb idx ?f ?p)"
    using assms(1) pool_step_wf [of ?p "PFailure (re_failAt e) (re_draw e) (int idx)"] i
    by (simp add: fits_def P_RecordFailure_def)
  have "x_pool y = update_cb idx (ForceCooldown (re_coolAt e) (rate_limit_cooldown resp
      (fst (RecordFailure (re_failAt e) (re_draw e) (p_cbs ?p ! idx))))) (update_cb idx ?f ?p)"
    using assms(2) i wf
    by (auto simp: handleRateLimited_def Let_def P_RecordFailure_def Cooldown_def validateIndex_wf in_range_def
        result_simps update_cb_def split: option.splits if_splits)
  then show ?thesis using i by (intro that) (simp_all add: update_cb_def)
qed

lemma rate_limited_effect:
  assumes "fits idx (x_pool x)" and "handleRateLimited e idx resp method x = Returned b y"
  shows "p_keys (x_pool y) = p_keys (x_pool x)"
    and "j \<noteq> idx \<Longrightarrow> p_cbs (x_pool y) ! j = p_cbs (x_pool x) ! j"
    and "retry_after resp = Some s \<Longrightarrow> t \<le> re_coolAt e + s \<Longrightarrow> \<not> Allow t (p_cbs (x_pool y) ! idx)"
proof -
  obtain d where d: "x_pool y = update_cb idx (\<lambda>k. ForceCooldown (re_coolAt e) (rate_limit_cooldown resp d)
      (snd (RecordFailure (re_failAt e) (re_draw e) k))) (x_pool x)"
    using rate_limited_pool [OF assms(1,2)] by blast
  have len: "idx < length (p_cbs (x_pool x))" using assms(1) by (simp add: fits_def pool_wf_lengths)
  show "p_keys (x_pool y) = p_keys (x_pool x)"
    and "j \<noteq> idx \<Longrightarrow> p_cbs (x_pool y) ! j = p_cbs (x_pool x) ! j"
    by (simp_all add: d(1) update_cb_def)
  assume "retry_after resp = Some s" and "t \<le> re_coolAt e + s"
  with rate_limit_cooldown_ge [of resp s d]
  have "t \<le> re_coolAt e + rate_limit_cooldown resp d" by simp
  with len ForceCooldown_blocks show "\<not> Allow t (p_cbs (x_pool y) ! idx)"
    by (simp add: d(1) update_cb_def)
qed

lemma rate_limited_frame:
  assumes "handleRateLimited e idx resp method x = Returned b y"
  shows "ps_upCB (x_ps y) = ps_upCB (x_ps x)"
    and "x_resp x = None \<Longrightarrow> 0 < ActiveCount (x_pool y) \<Longrightarrow> \<not> b \<and> x_resp y = None"
  using assms
  by (auto simp: handleRateLimited_def Let_def result_simps split: prod.splits option.splits if_splits)

lemma handler_keeps_wf:
  assumes "pool_wf (x_pool x)" and "dispatch L e idx a md tgt bb rnd rect x = Returned b y"
  shows "pool_wf (x_pool y)"
  using pool_only.R_dispatch [of x L e idx a md tgt bb rnd rect] assms by simp

section \<open>Reaching an accepted key\<close>

text \<open>
  The upstream accepts some keys, with a plain answer, and rate-limits the others; nothing else
  happens to the pool and the breaker meanwhile, and the rounds are over before the time \<open>T\<close> up to
  which every rate-limited key is cooled.
\<close>

definition accepts :: "answer \<Rightarrow> bool" where
  "accepts a \<longleftrightarrow> 200 \<le> a_status a \<and> a_status a < 400 \<and> \<not> is_sse a"

definition picky_upstream ::
    "(string \<Rightarrow> bool) \<Rightarrow> time \<Rightarrow> time \<Rightarrow> (nat \<Rightarrow> round_env) \<Rightarrow> (nat \<Rightarrow> string \<Rightarrow> upstream_result) \<Rightarrow> bool" where
  "picky_upstream good t0 T env answers \<longleftrightarrow>
     (\<forall>r. re_pool (env r) = [] \<and> re_up (env r) = [] \<and> re_buildOk (env r) \<and>
        t0 \<le> re_selectAt (env r) \<and> re_selectAt (env r) \<le> T \<and>
        (\<forall>key. if good key then (\<exists>a. answers r key = Answer a \<and> accepts a)
               else (\<exists>a. answers r key = Answer a \<and> a_status a = 429 \<and>
                       MaskSensitiveData (a_body a) 1024 \<noteq> None \<and>
                       (\<exists>s. retry_after a = Some s \<and> T \<le> re_coolAt (env r) + s))))"

definition refusing :: "(string \<Rightarrow> bool) \<Rightarrow> time \<Rightarrow> KeyPool \<Rightarrow> nat set" where
  "refusing good T p = {i. i < length (p_keys p) \<and> \<not> good (p_keys p ! i) \<and> Allow T (p_cbs p ! i)}"

lemma accepted_answer:
  assumes "fits idx (x_pool x)" and "accepts a"
  shows "\<exists>y body. dispatch L e idx a method target bb rnd rect x = Returned True y \<and>
    x_resp y = Some (Forwarded (a_status a) (copyHeaders [] (a_header a)) body)"
proof -
  have "dispatch L e idx a method target bb rnd rect x = handleSuccess L e idx a method bb rnd x"
    using assms(2) by (auto simp: dispatch_def Let_def accepts_def categorizeError_def)
  moreover have "\<not> hangs (handleSuccess L e idx a method bb rnd x)"
    by (simp add: handleSuccess_def Let_def split_beta commit_no_hang)
  ultimately obtain b y where y: "dispatch L e idx a method target bb rnd rect x = Returned b y"
      "handleSuccess L e idx a method bb rnd x = Returned b y"
    using success_no_panic [OF assms(1)] returns_iff by metis
  from success_result [OF y(2)] assms(2) y(1) show ?thesis
    by (cases b) (auto simp: accepts_def)
qed

lemma refused_answer:
  assumes "fits idx (x_pool x)" and "a_status a = 429" and "MaskSensitiveData (a_body a) 1024 \<noteq> None"
    and "retry_after a = Some s" and "T \<le> re_coolAt e + s"
    and "j < length (p_keys (x_pool x))" and "j \<noteq> idx" and "Allow t (p_cbs (x_pool x) ! j)" and "x_resp x = None"
  obtains y where "dispatch L e idx a method target bb rnd rect x = Returned False y" and "x_resp y = None"
    and "ps_upCB (x_ps y) = ps_upCB (x_ps x)" and "p_keys (x_pool y) = p_keys (x_pool x)"
    and "\<And>i. i \<noteq> idx \<Longrightarrow> p_cbs (x_pool y) ! i = p_cbs (x_pool x) ! i" and "\<not> Allow T (p_cbs (x_pool y) ! idx)"
    and "pool_wf (x_pool y)"
proof -
  have "\<not> hangs (dispatch L e idx a method target bb rnd rect x)"
    using assms(3) by (intro dispatch_no_hang)
  then obtain b y where d: "dispatch L e idx a method target bb rnd rect x = Returned b y"
    using dispatch_no_panic [OF assms(1)] returns_iff by metis
  then have h: "handleRateLimited e idx a method x = Returned b y"
    using assms(2) by (simp add: dispatch_def)
  note eff = rate_limited_effect [OF assms(1) h]
  have wf: "pool_wf (x_pool y)"
    using handler_keeps_wf [OF _ d] assms(1) by (simp add: fits_def)
  have "Allow t (p_cbs (x_pool y) ! j)" using eff(2) assms(7,8) by simp
  then have "k_state (p_cbs (x_pool y) ! j) \<noteq> Permanent" by (auto simp: Allow_def)
  moreover have "j < length (p_cbs (x_pool y))" using eff(1) assms(6) wf by (simp add: pool_wf_lengths)
  ultimately have "AnyActive (x_pool y)" by (auto simp: AnyActive_def list_ex_iff)
  then have "0 < ActiveCount (x_pool y)" using AnyActive_ActiveCount [OF wf] by simp
  with rate_limited_frame [OF h] assms(9) d eff assms(4,5) wf show ?thesis
    by (intro that [of y]) simp_all
qed

lemma refusing_shrinks:
  assumes "idx \<in> refusing good T p" and "p_keys p' = p_keys p"
    and "\<And>i. i \<noteq> idx \<Longrightarrow> p_cbs p' ! i = p_cbs p ! i" and "\<not> Allow T (p_cbs p' ! idx)"
  shows "card (refusing good T p') < card (refusing good T p)"
proof -
  have "refusing good T p' = refusing good T p - {idx}"
    using assms(2-4) by (auto simp: refusing_def) (metis assms(3))+
  moreover have "finite (refusing good T p)" by (simp add: refusing_def)
  ultimately show ?thesis using assms(1) by (metis card_Diff1_less)
qed

lemma on_ids: "on_up (\<lambda>_. ps_upCB (x_ps x)) x = x" "on_up id x = x" "on_pool id x = x"
  by (simp_all add: step_defs)

text \<open>One round: an accepted answer, or one key less that the upstream refuses.\<close>

lemma picky_round:
  assumes picky: "picky_upstream good t0 T env (\<lambda>r key. up r (upstream_request rq target bb key))"
    and wf: "pool_wf (x_pool x)" and up: "u_state (ps_upCB (x_ps x)) = Closed" and none: "x_resp x = None"
    and j: "j < length (p_keys (x_pool x))" "good (p_keys (x_pool x) ! j)" "Allow t0 (p_cbs (x_pool x) ! j)"
  obtains (accepted) y s h body where "one_round L up env rq target bb rect rnd x = Returned True y"
      "x_resp y = Some (Forwarded s h body)" "200 \<le> s" "s < 400"
  | (refused) y where "one_round L up env rq target bb rect rnd x = Returned False y"
      "x_resp y = None" "pool_wf (x_pool y)" "u_state (ps_upCB (x_ps y)) = Closed"
      "p_keys (x_pool y) = p_keys (x_pool x)" "p_cbs (x_pool y) ! j = p_cbs (x_pool x) ! j"
      "card (refusing good T (x_pool y)) < card (refusing good T (x_pool x))"
proof -
  let ?e = "env rnd"
  have e: "re_pool ?e = []" "re_up ?e = []" "re_buildOk ?e" "t0 \<le> re_selectAt ?e" "re_selectAt ?e \<le> T"
    using picky by (simp_all add: picky_upstream_def)
  have u: "U_Allow (re_allowAt ?e) (ps_upCB (x_ps x)) = (True, ps_upCB (x_ps x))"
    using up by (simp add: U_Allow_def)
  have "Allow (re_selectAt ?e) (p_cbs (x_pool x) ! j)" using Allow_mono [OF j(3) e(4)] .
  then have "fst (SelectKey (re_selectAt ?e) (x_pool x)) \<noteq> None"
    using selecting.complete [OF wf, of "re_selectAt ?e" j] j(1) by blast
  then obtain idx key p where s: "SelectKey (re_selectAt ?e) (x_pool x) = (Some (idx, key), p)"
    by (cases "SelectKey (re_selectAt ?e) (x_pool x)") auto
  have i: "idx < length (p_keys (x_pool x))" "key = p_keys (x_pool x) ! idx" "Allow (re_selectAt ?e) (p_cbs (x_pool x) ! idx)"
    using selecting.sound [OF wf, of "re_selectAt ?e" idx key] s by simp_all
  have p: "pool_wf p" "p_keys p = p_keys (x_pool x)" "p_cbs p = p_cbs (x_pool x)"
    using SelectKey_frame [of "re_selectAt ?e" "x_pool x"] s wf by simp_all
  let ?q = "upstream_request rq target bb key"
  let ?x = "(on_pool (\<lambda>_. p) x)\<lparr>x_sent := x_sent x @ [(idx, key, ?q)]\<rparr>"
  have x: "x_pool ?x = p" "ps_upCB (x_ps ?x) = ps_upCB (x_ps x)" "x_resp ?x = None" "x_sent (on_pool (\<lambda>_. p) x) = x_sent x"
    using none by (simp_all add: step_defs)
  have fit: "fits idx (x_pool ?x)" using p i(1) x(1) by (simp add: fits_def)
  have run: "one_round L up env rq target bb rect rnd x = dispatch L ?e idx a (rq_method rq) target bb rnd rect ?x"
    if "up rnd ?q = Answer a" for a
    using that u s e x(4) by (simp add: one_round_def Let_def on_ids)
  show ?thesis
  proof (cases "good key")
    case True
    then obtain a where a: "up rnd ?q = Answer a" "accepts a"
      using picky unfolding picky_upstream_def by metis
    obtain y body where "dispatch L ?e idx a (rq_method rq) target bb rnd rect ?x = Returned True y"
        "x_resp y = Some (Forwarded (a_status a) (copyHeaders [] (a_header a)) body)"
      using accepted_answer [OF fit a(2)] by blast
    with run [OF a(1)] a(2) show ?thesis by (intro accepted [of y "a_status a" "copyHeaders [] (a_header a)" body]) (simp_all add: accepts_def)
  next
    case False
    then obtain a sec where a: "up rnd ?q = Answer a" "a_status a = 429" "MaskSensitiveData (a_body a) 1024 \<noteq> None"
        "retry_after a = Some sec" "T \<le> re_coolAt ?e + sec"
      using picky unfolding picky_upstream_def by metis
    have "j \<noteq> idx" using False i(2) j(2) by blast
    with j p x(1) have j': "j < length (p_keys (x_pool ?x))" "j \<noteq> idx" "Allow t0 (p_cbs (x_pool ?x) ! j)" by simp_all
    obtain y where y: "dispatch L ?e idx a (rq_method rq) target bb rnd rect ?x = Returned False y" "x_resp y = None"
        "ps_upCB (x_ps y) = ps_upCB (x_ps ?x)" "p_keys (x_pool y) = p_keys p"
        "\<And>i. i \<noteq> idx \<Longrightarrow> p_cbs (x_pool y) ! i = p_cbs p ! i" "\<not> Allow T (p_cbs (x_pool y) ! idx)" "pool_wf (x_pool y)"
      using refused_answer [OF fit a(2-5) j' x(3)] x(1) by metis
    have "idx \<in> refusing good T (x_pool x)"
      using i False Allow_mono [OF i(3) e(5)] by (simp add: refusing_def)
    then have "card (refusing good T (x_pool y)) < card (refusing good T (x_pool x))"
      using y(4-6) p by (intro refusing_shrinks [of idx]) simp_all
    then show ?thesis
      using y run [OF a(1)] up x p \<open>j \<noteq> idx\<close> by (intro refused [of y]) simp_all
  qed
qed

lemma rounds_failover:
  assumes "picky_upstream good t0 T env (\<lambda>r key. up r (upstream_request rq target bb key))"
    and "pool_wf (x_pool x)" and "u_state (ps_upCB (x_ps x)) = Closed" and "x_resp x = None"
    and "j < length (p_keys (x_pool x))" "good (p_keys (x_pool x) ! j)" "Allow t0 (p_cbs (x_pool x) ! j)"
    and "card (refusing good T (x_pool x)) < n"
  shows "\<exists>y s h body. rounds L up env rq target bb rect n rnd x = Returned () y \<and>
    x_resp y = Some (Forwarded s h body) \<and> 200 \<le> s \<and> s < 400"
  using assms(2-)
proof (induction n arbitrary: rnd x)
  case (Suc n)
  show ?case
  proof (cases rule: picky_round [OF assms(1) Suc.prems(1-6), of L rect rnd, case_names accepted refused])
    case (accepted y s h body)
    then show ?thesis by simp
  next
    case (refused y)
    then have "\<exists>z s h body. rounds L up env rq target bb rect n (Suc rnd) y = Returned () z \<and>
        x_resp z = Some (Forwarded s h body) \<and> 200 \<le> s \<and> s < 400"
      using Suc.prems by (intro Suc.IH) simp_all
    with refused(1) show ?thesis by simp
  qed
qed simp

section \<open>A key that is disabled\<close>

text \<open>It stays disabled while a request runs, provided that nobody enables it or moves it.\<close>

definition held :: "(KeyCircuitBreaker \<Rightarrow> bool) \<Rightarrow> nat \<Rightarrow> string \<Rightarrow> exec \<Rightarrow> bool" where
  "held Q i key x \<longleftrightarrow> pool_wf (x_pool x) \<and> entry_at Q key i (entries (x_pool x))"

abbreviation off :: "nat \<Rightarrow> string \<Rightarrow> exec \<Rightarrow> bool" where
  "off \<equiv> held permanent"

lemma held_pool: "held Q i key x \<longleftrightarrow>
    pool_wf (x_pool x) \<and> i < length (p_keys (x_pool x)) \<and> p_keys (x_pool x) ! i = key \<and> Q (p_cbs (x_pool x) ! i)"
  using entry_at_pool [of "x_pool x" Q key i] by (auto simp: held_def)

lemma own_spares: "own ev \<Longrightarrow> spares i ev"
  by (cases ev) (simp_all add: own_def spares_def)

context lasting begin

lemma held_step: "held Q i key x \<Longrightarrow> spares i ev \<Longrightarrow> held Q i key (on_pool (pool_step ev) x)"
  by (simp add: held_def on_pool_def pool_step_wf entries_step entry_step_lasts)

end

sublocale lasting < keeping: request_steps "\<lambda>x y. held Q i key x \<longrightarrow> held Q i key y" "spares i" "\<lambda>m. True" "\<lambda>k q. True"
  for i key
proof
  show "own ev \<Longrightarrow> spares i ev" for ev i by (rule own_spares)
  show "spares i ev \<Longrightarrow> held Q i key x \<longrightarrow> held Q i key (on_pool (pool_step ev) x)" for ev x i key
    using held_step by blast
qed (auto simp: held_def step_defs)

text \<open>No round picks it, so nothing is sent with it.\<close>

context lasting begin

lemma not_sent_round:
  assumes "held Q i key x"
  shows "\<exists>ss. x_sent (final (one_round L up env rq target bb rect rnd x)) = x_sent x @ ss \<and>
    list_all (\<lambda>s. fst s \<noteq> i) ss"
proof -
  have off: "pool_wf (x_pool x)" "k_state (p_cbs (x_pool x) ! i) = Permanent" using assms Q_permanent by (auto simp: held_pool)
  have "j \<noteq> i" if "Allow t (p_cbs (x_pool x) ! j)" for j t using that off(2) by (auto simp: Allow_def)
  with one_round_sent [OF off(1), of L up env rq target bb rect rnd] show ?thesis by fastforce
qed

lemma not_sent_rounds:
  assumes "held Q i key x" and "\<And>r. \<forall>ev\<in>set (re_pool (env r)). spares i ev"
  shows "\<exists>ss. x_sent (final (rounds L up env rq target bb rect n rnd x)) = x_sent x @ ss \<and>
    list_all (\<lambda>s. fst s \<noteq> i) ss"
  using assms(1)
proof (induction n arbitrary: rnd x)
  case 0
  show ?case by (simp add: Let_def step_defs recordProxyMetrics_def)
next
  case (Suc n)
  let ?o = "one_round L up env rq target bb rect rnd x"
  obtain ss where ss: "x_sent (final ?o) = x_sent x @ ss" "list_all (\<lambda>s. fst s \<noteq> i) ss"
    using not_sent_round [OF Suc.prems] by blast
  have off: "held Q i key (final ?o)" using keeping.R_one_round [of env rnd i key x] assms(2) Suc.prems by blast
  show ?case
  proof (cases ?o)
    case (Returned over y)
    show ?thesis
    proof (cases over)
      case True
      with ss Returned show ?thesis by auto
    next
      case False
      from Suc.IH [of y "Suc rnd"] off Returned obtain ts where
          "x_sent (final (rounds L up env rq target bb rect n (Suc rnd) y)) = x_sent y @ ts"
          "list_all (\<lambda>s. fst s \<noteq> i) ts" by auto
      with ss Returned False show ?thesis by (intro exI [of _ "ss @ ts"]) simp
    qed
  qed (use ss in auto)
qed

lemma not_sent:
  assumes "held Q i key x" and "\<And>r. \<forall>ev\<in>set (re_pool (env r)). spares i ev" and "x_sent x = []"
  shows "list_all (\<lambda>s. fst s \<noteq> i) (x_sent (final (Execute L up env rq x)))"
proof (cases rule: Execute_cases [of rq x L up env, case_names bad_body hung runs])
  case (runs b rect)
  with not_sent_rounds [OF assms(1,2)] assms(3) show ?thesis by fastforce
qed (simp_all add: assms(3) step_defs recordProxyMetrics_def)

end

end
