(* ===== verification/DisabledKeys.thy ===== *)
theory DisabledKeys
  imports Server Failover
begin

text \<open>
  Keys that are put aside: disabled by hand, or for rejected credentials. How the API, the proxied
  requests and the background tasks keep such a key disabled, and so the whole process does.
\<close>

section \<open>The operations of the API\<close>

lemma runtime_write_pool:
  assumes "runtime_write key v ps ps'"
  shows "ps_pool ps' = ps_pool ps \<or> (\<exists>b c m. ps_pool ps' = pool_step (PConfigure b c m) (ps_pool ps))"
  using assms unfolding runtime_write_def
  by (elim disjE exE)
     (auto simp: apply_cooldown_def apply_backoff_cap_def apply_multiplier_def setter_defs Let_def)

definition kept_at :: "(KeyCircuitBreaker \<Rightarrow> bool) \<Rightarrow> string \<Rightarrow> nat \<Rightarrow> string \<Rightarrow> string \<Rightarrow> ProviderState \<Rightarrow> bool" where
  "kept_at Q n i key name ps \<longleftrightarrow>
     provider_ok name ps \<and> (name = n \<longrightarrow> entry_at Q key i (entries (ps_pool ps)))"

definition spares_at :: "string \<Rightarrow> nat \<Rightarrow> string \<Rightarrow> pool_event \<Rightarrow> bool" where
  "spares_at n i name ev \<longleftrightarrow> (name = n \<longrightarrow> spares i ev)"

context lasting begin

lemma kept_at_pool:
  "spares_at n i name ev \<Longrightarrow> kept_at Q n i key name ps \<Longrightarrow>
     kept_at Q n i key name (ps\<lparr>ps_pool := pool_step ev (ps_pool ps)\<rparr>)"
  by (auto simp: kept_at_def spares_at_def provider_ok_def pool_step_wf entries_step entry_step_lasts)

lemma kept_at_same_pool:
  "kept_at Q n i key name ps \<Longrightarrow> provider_ok name ps' \<Longrightarrow> ps_pool ps' = ps_pool ps \<Longrightarrow> kept_at Q n i key name ps'"
  by (simp add: kept_at_def)

lemma kept_at_runtime:
  assumes "kept_at Q n i key name ps" and "setRuntimeConfigField k v ps = Inr (nv, ps')"
  shows "kept_at Q n i key name ps'"
proof -
  have ok: "provider_ok name ps'"
    using provider_ok_runtime [OF _ setRuntimeConfigField_write [OF assms(2)]] assms(1) by (simp add: kept_at_def)
  consider "ps_pool ps' = ps_pool ps" | b c m where "ps_pool ps' = pool_step (PConfigure b c m) (ps_pool ps)"
    using runtime_write_pool [OF setRuntimeConfigField_write [OF assms(2)]] by blast
  then show ?thesis
  proof cases
    case 1
    with assms(1) ok show ?thesis by (rule kept_at_same_pool)
  next
    case 2
    have "spares_at n i name (PConfigure b c m)" by (simp add: spares_at_def spares_def)
    from kept_at_pool [OF this assms(1)] have "name = n \<longrightarrow> entry_at Q key i (entries (ps_pool ps'))"
      by (simp add: kept_at_def 2 del: pool_step.simps)
    with ok show ?thesis by (simp add: kept_at_def)
  qed
qed

end

sublocale lasting < asking: gentle_predicate "kept_at Q n i key" "spares_at n i" for n i key
proof
  show "spares_at n i name e \<Longrightarrow> kept_at Q n i key name ps \<Longrightarrow>
      kept_at Q n i key name (ps\<lparr>ps_pool := pool_step e (ps_pool ps)\<rparr>)" for name e ps n i key
    by (rule kept_at_pool)
  show "mild e \<Longrightarrow> spares_at n i name e" for e n i name
    by (cases e) (simp_all add: mild_def spares_at_def spares_def)
  show "kept_at Q n i key name (ResetUpstreamCB ps)" if "kept_at Q n i key name ps" for name ps n i key
    using that upstream_step_inv [of _ UReset]
    by (simp add: kept_at_def provider_ok_def ResetUpstreamCB_def)
  show "kept_at Q n i key name ps \<Longrightarrow> setRuntimeConfigField k v ps = Inr (nv, ps') \<Longrightarrow> kept_at Q n i key name ps'"
    for name ps k v nv ps' n i key by (rule kept_at_runtime)
qed

section \<open>The whole process\<close>

text \<open>
  Key \<open>i\<close> of provider \<open>n\<close> is put aside, and the steps that leave it so: requests to the API that do
  not reload the file and neither enable the key nor remove a key at or before it, proxied requests
  during which nobody does so, and all others.
\<close>

definition aside :: "string \<Rightarrow> nat \<Rightarrow> string \<Rightarrow> process \<Rightarrow> bool" where
  "aside n i key pr \<longleftrightarrow> process_inv pr \<and> all_in {n} (kept_at put_aside n i key) (pr_server pr)"

definition leaves :: "string \<Rightarrow> nat \<Rightarrow> process_event \<Rightarrow> bool" where
  "leaves n i e \<longleftrightarrow>
     (case e of
        ApiRequest E now pt ep r \<Rightarrow>
          ep \<noteq> Reload \<and> (query_get ''provider'' r \<notin> {'''', n} \<or> gentle_op (spares i) ep r)
      | ProxyRequest L up env rq \<Rightarrow>
          fst (extractProvider (rq_path rq)) \<noteq> n \<or> (\<forall>k. \<forall>ev\<in>set (re_pool (env k)). spares i ev)
      | _ \<Rightarrow> True)"

lemma leaves_gentle:
  assumes "query_get ''provider'' r \<notin> {'''', n} \<or> gentle_op (spares i) ep r"
  shows "gentle (spares_at n i) ep r s"
proof -
  have other: "gentle_op (spares_at n i name) ep r" if "name \<noteq> n" for name
    using that by (simp add: gentle_op_def spares_at_def split: endpoint.split key_op.split option.split)
  have "spares_at n i n = spares i" by (simp add: fun_eq_iff spares_at_def)
  with other assms show ?thesis
    by (auto simp: gentle_def resolveProvider_def resolveProviderByName_def named_provider_def Let_def
        split: sum.split option.splits if_splits) (metis other)+
qed

lemma aside_provider:
  assumes "aside n i key pr" and "LookupProvider name (sv_pm (pr_server pr)) = Some ps"
  shows "kept_at put_aside n i key name ps"
  using assms by (simp add: aside_def all_in_def)

lemma aside_set:
  assumes "aside n i key pr" and "kept_at put_aside n i key name ps"
    and "process_inv pr'" and "pr_server pr' = (set_provider name ps (pr_server pr))\<lparr>sv_store := st\<rparr>"
  shows "aside n i key pr'"
  using assms all_ok_set_provider by (simp add: aside_def all_ok_simps)

lemma aside_same:
  "aside n i key pr \<Longrightarrow> process_inv pr' \<Longrightarrow> pr_server pr' = pr_server pr \<Longrightarrow> aside n i key pr'"
  by (simp add: aside_def)

lemma serve_api_aside:
  assumes "aside n i key pr" and "ep \<noteq> Reload" and "gentle (spares_at n i) ep r (pr_server pr)"
  shows "aside n i key (serve_api E now pt ep r pr)"
  using assms serve_api_inv [of pr E now pt ep r]
    setting_aside.asking.api_serve_gentle [of "{n}" n i key "pr_server pr" E now pt ep r]
  by (auto simp: aside_def serve_api_def split: option.splits)

lemma proxyHandler_aside:
  assumes "aside n i key pr"
    and "fst (extractProvider (rq_path rq)) \<noteq> n \<or> (\<forall>k. \<forall>ev\<in>set (re_pool (env k)). spares i ev)"
  shows "aside n i key (snd (proxyHandler L up env rq pr))"
proof -
  obtain name rest where e: "extractProvider (rq_path rq) = (name, rest)" by force
  have inv: "process_inv (snd (proxyHandler L up env rq pr))"
    using assms(1) by (intro proxyHandler_inv) (simp add: aside_def)
  show ?thesis
  proof (cases "name = '''' \<or> LookupProvider name (sv_pm (pr_server pr)) = None")
    case True
    with assms(1) e show ?thesis by (auto simp: proxyHandler_def split: option.split)
  next
    case False
    then obtain ps where ps: "LookupProvider name (sv_pm (pr_server pr)) = Some ps" by blast
    let ?y = "final (Execute L up env (rq\<lparr>rq_path := rest\<rparr>) (exec_of ps pr))"
    have k: "kept_at put_aside n i key name ps" by (rule aside_provider [OF assms(1) ps])
    have server: "pr_server (snd (proxyHandler L up env rq pr)) =
        (set_provider name (x_ps ?y) (pr_server pr))\<lparr>sv_store := x_store ?y\<rparr>"
      using False ps e by (simp add: proxyHandler_def Let_def put_exec_def)
    then have "LookupProvider name (sv_pm (pr_server (snd (proxyHandler L up env rq pr)))) = Some (x_ps ?y)"
      by (simp add: set_provider_def)
    then have ok: "provider_ok name (x_ps ?y)" by (rule process_inv_provider [OF inv])
    have "entry_at put_aside key i (entries (ps_pool (x_ps ?y)))" if "name = n"
    proof -
      have "held put_aside i key (exec_of ps pr)"
        using k that by (simp add: held_def kept_at_def exec_of_def provider_ok_def)
      with setting_aside.keeping.R_Execute [of "rq\<lparr>rq_path := rest\<rparr>" "exec_of ps pr" env i L key up] assms(2) that e
      show ?thesis by (simp add: held_def)
    qed
    with ok have "kept_at put_aside n i key name (x_ps ?y)" by (simp add: kept_at_def)
    then show ?thesis by (rule aside_set [OF assms(1) _ inv server])
  qed
qed

lemma PeriodicKeyProbe_aside:
  assumes "pool_wf p" and "entry_at put_aside key i (entries p)"
  shows "entry_at put_aside key i (entries (PeriodicKeyProbe build probe target p))"
  using assms PeriodicKeyProbe_wf [OF assms(1), of build probe target]
  by (simp add: entry_at_pool) (simp add: PeriodicKeyProbe_cbs put_aside_def probed_def)

lemma sendCalibrationRequest_aside:
  assumes "sendCalibrationRequest tk post now target model (cal, p) = (cal', q)" and "pool_wf p"
    and "entry_at put_aside key i (entries p)"
  shows "entry_at put_aside key i (entries q)"
proof -
  have "entry_at put_aside key i (entries p') \<and> pool_wf p'" if "Next now p = (r, p')" for r p'
    using setting_aside.entry_step_lasts [OF assms(3), of "PNext now"] entries_step [OF assms(2), of "PNext now"]
      pool_step_wf [OF assms(2), of "PNext now"] that by (simp add: spares_def)
  moreover have "entry_at put_aside key i (entries (Release idx p'))"
    if "entry_at put_aside key i (entries p') \<and> pool_wf p'" for idx p'
    using that setting_aside.entry_step_lasts [of key i "entries p'" "PRelease idx"] entries_step [of p' "PRelease idx"]
    by (simp add: spares_def)
  ultimately show ?thesis
    using assms(1,3) by (auto simp: sendCalibrationRequest_def Let_def split: if_splits prod.splits option.splits)
qed

lemma with_task_aside:
  assumes "aside n i key pr"
    and "\<And>t ps. map_of (pr_tasks pr) name = Some t \<Longrightarrow> LookupProvider name (sv_pm (pr_server pr)) = Some ps \<Longrightarrow>
      kept_at put_aside n i key name ps \<Longrightarrow> pool_wf (task_pool t ps) \<Longrightarrow> aside n i key (f t ps)"
  shows "aside n i key (with_task name f pr)"
  using assms aside_provider [OF assms(1)] task_pool_wf [of pr]
  by (simp add: with_task_def aside_def split: option.split)

lemma put_task_pool_server:
  "pr_server (put_task_pool name t ps p pr) =
     (if ta_pool t = None then set_provider name (ps\<lparr>ps_pool := p\<rparr>) (pr_server pr) else pr_server pr)"
  by (simp add: put_task_pool_def)

text \<open>A task that works on the provider's own pool.\<close>

lemma put_task_pool_aside:
  assumes "aside n i key pr" and "kept_at put_aside n i key name ps" and "pool_wf p" and "process_inv pr'"
    and "pr_server pr' = pr_server (put_task_pool name t ps p pr)"
    and "ta_pool t = None \<Longrightarrow> name = n \<Longrightarrow> entry_at put_aside key i (entries p)"
  shows "aside n i key pr'"
proof (cases "ta_pool t")
  case None
  have "kept_at put_aside n i key name (ps\<lparr>ps_pool := p\<rparr>)"
    using assms(2,3) assms(6) [OF None] by (simp add: kept_at_def provider_ok_def)
  moreover have "pr_server pr' = (set_provider name (ps\<lparr>ps_pool := p\<rparr>) (pr_server pr))\<lparr>sv_store := sv_store (pr_server pr)\<rparr>"
    using assms(5) None by (simp add: put_task_pool_server set_provider_def)
  ultimately show ?thesis by (rule aside_set [OF assms(1) _ assms(4)])
next
  case (Some q)
  with assms show ?thesis by (intro aside_same [OF assms(1,4)]) (simp add: put_task_pool_server)
qed

lemma health_tick_aside: "aside n i key pr \<Longrightarrow> aside n i key (health_tick name head now pr)"
proof -
  assume a: "aside n i key pr"
  have "aside n i key (let (gs, ps) = health_check head now (task_config t ps) ps
      in pr\<lparr>pr_server := set_provider name ps (pr_server pr), pr_gauges := pr_gauges pr @ gs\<rparr>)"
    if k: "kept_at put_aside n i key name ps" for t ps
  proof -
    obtain gs ps' where h: "health_check head now (task_config t ps) ps = (gs, ps')" by force
    let ?pr' = "pr\<lparr>pr_server := set_provider name ps' (pr_server pr), pr_gauges := pr_gauges pr @ gs\<rparr>"
    have ok: "provider_ok name ps'"
      using health_check_ok [of name ps head now "task_config t ps"] k h by (simp add: kept_at_def)
    have "ps_pool ps' = ps_pool ps"
      using h by (auto simp: health_check_def Let_def SetLastHealthCheck_def RecordUpstreamSuccess_def
          RecordUpstreamFailure_def split: option.splits if_splits)
    then have "kept_at put_aside n i key name ps'" by (rule setting_aside.kept_at_same_pool [OF k ok])
    moreover have "process_inv ?pr'"
      using a ok all_ok_set_provider by (simp add: aside_def process_inv_def)
    moreover have "pr_server ?pr' = (set_provider name ps' (pr_server pr))\<lparr>sv_store := sv_store (pr_server pr)\<rparr>"
      by (simp add: set_provider_def)
    ultimately have "aside n i key ?pr'" by (rule aside_set [OF a])
    then show ?thesis by (simp add: h)
  qed
  then show ?thesis unfolding health_tick_def by (intro with_task_aside a) simp_all
qed

lemma probe_tick_aside: "aside n i key pr \<Longrightarrow> aside n i key (probe_tick name build probe pr)"
proof -
  assume a: "aside n i key pr"
  have "aside n i key (put_task_pool name t ps (PeriodicKeyProbe build probe (ta_target t) (task_pool t ps)) pr)"
    if ps: "LookupProvider name (sv_pm (pr_server pr)) = Some ps" and k: "kept_at put_aside n i key name ps"
      and wf: "pool_wf (task_pool t ps)" for t ps
  proof (rule put_task_pool_aside [OF a k PeriodicKeyProbe_wf [OF wf] _ refl])
    show "process_inv (put_task_pool name t ps (PeriodicKeyProbe build probe (ta_target t) (task_pool t ps)) pr)"
      using a by (intro put_task_pool_inv [OF _ ps] PeriodicKeyProbe_wf wf) (simp add: aside_def)
    show "entry_at put_aside key i (entries (PeriodicKeyProbe build probe (ta_target t) (task_pool t ps)))"
      if "ta_pool t = None" "name = n"
      using that k by (intro PeriodicKeyProbe_aside wf) (simp add: kept_at_def task_pool_def)
  qed
  then show ?thesis unfolding probe_tick_def by (intro with_task_aside a) simp_all
qed

lemma calibration_tick_aside: "aside n i key pr \<Longrightarrow> aside n i key (calibration_tick name tk post now pr)"
proof -
  assume a: "aside n i key pr"
  have inv: "process_inv (calibration_tick name tk post now pr)"
    using a by (intro calibration_tick_inv) (simp add: aside_def)
  have "aside n i key ((put_task_pool name t ps p pr)\<lparr>pr_cal := cal\<rparr>)"
    if c: "sendCalibrationRequest tk post now (ta_target t) (ta_model t) (pr_cal pr, task_pool t ps) = (cal, p)"
      and ps: "LookupProvider name (sv_pm (pr_server pr)) = Some ps" and k: "kept_at put_aside n i key name ps"
      and wf: "pool_wf (task_pool t ps)" for t ps cal p
  proof -
    have q: "cal_inv cal" "pool_wf p"
      using sendCalibrationRequest_inv [OF c _ wf] a by (simp_all add: aside_def process_inv_def)
    have "process_inv ((put_task_pool name t ps p pr)\<lparr>pr_cal := cal\<rparr>)"
      using put_task_pool_inv [OF _ ps q(2)] a q(1) by (simp add: aside_def process_inv_frame)
    moreover have "entry_at put_aside key i (entries p)" if "ta_pool t = None" "name = n"
      using sendCalibrationRequest_aside [OF c wf] that k by (simp add: kept_at_def task_pool_def)
    ultimately show ?thesis by (intro put_task_pool_aside [OF a k q(2)]) simp_all
  qed
  with a show ?thesis unfolding calibration_tick_def by (intro with_task_aside) (auto simp: Let_def split: prod.split)
qed

lemma process_step_aside:
  assumes "aside n i key pr" and "leaves n i e"
  shows "aside n i key (process_step e pr)"
proof -
  have inv: "process_inv (process_step e pr)" using assms(1) by (intro process_step_inv) (simp add: aside_def)
  note same = aside_same [OF assms(1) inv]
  show ?thesis
  proof (cases e)
    case (ApiRequest E now pt ep r)
    with assms serve_api_aside [OF assms(1) _ leaves_gentle] show ?thesis by (simp add: leaves_def)
  next
    case (ProxyRequest L up env rq)
    with assms proxyHandler_aside [OF assms(1)] show ?thesis by (simp add: leaves_def)
  next
    case (HealthTick name head now)
    with assms(1) show ?thesis by (simp add: health_tick_aside)
  next
    case (ProbeTick name build probe)
    with assms(1) show ?thesis by (simp add: probe_tick_aside)
  next
    case (CalibrationTick name tk post now)
    with assms(1) show ?thesis by (simp add: calibration_tick_aside)
  next
    case (GaugeTick name now)
    have "pr_server (process_step e pr) = pr_server pr"
      by (simp add: GaugeTick gauge_tick_def with_task_def split: option.split)
    then show ?thesis by (rule same)
  next
    case (StartTasks now)
    have "pr_server (process_step e pr) = pr_server pr"
      by (auto simp: StartTasks StartBackgroundTasks_def StopTasks_def Shutdown_def split: option.split)
    then show ?thesis by (rule same)
  next
    case (UptimeTick now)
    then have "pr_server (process_step e pr) = pr_server pr" by (simp split: option.split)
    then show ?thesis by (rule same)
  qed (rule same, simp add: StartWithListener_def StopTasks_def Shutdown_def)+
qed

lemma process_run_aside:
  "aside n i key pr \<Longrightarrow> list_all (leaves n i) es \<Longrightarrow> aside n i key (fold process_step es pr)"
  by (induction es arbitrary: pr) (simp_all add: process_step_aside)

end
