(* ===== verification/Samples.thy ===== *)
theory Samples
  imports Server
begin

text \<open>
  Concrete inputs for the witnesses: a provider with two keys that are configured and closed, a world
  with an empty configuration directory, a codec that satisfies what the code relies on, and an
  upstream that accepts only the second key and rate-limits the first one for a minute.
\<close>

definition sample_config :: Config where
  "sample_config = DefaultConfig\<lparr>cf_Provider := DefaultProviderConfig
     \<lparr>c_TargetBase := ''http://up'', c_MaxRetries := 2, c_Keys := [''key-a'', ''key-b''],
      c_KeyNames := [''a'', ''b'']\<rparr>\<rparr>"

definition sample_provider :: ProviderState where
  "sample_provider =
     NewProviderState ''p'' sample_config (NewKeyPool 0 [''key-a'', ''key-b''] [''a'', ''b'']) '''' ''''"

definition sample_world :: world where
  "sample_world =
     \<lparr>w_configDir = Some ''/c'', w_files = (\<lambda>p. None), w_canWrite = (\<lambda>p. True), w_canRename = (\<lambda>p. True),
      w_canMkdir = True, w_keyring = None, w_keyringWritable = False\<rparr>"

definition sample_exec :: exec where
  "sample_exec =
     \<lparr>x_ps = sample_provider, x_store = \<lparr>s_world = sample_world, s_master = None\<rparr>, x_cal = NewCalibrator 15,
      x_dumps = [], x_metrics = [], x_resp = None, x_sent = []\<rparr>"

definition sample_codec :: codec where
  "sample_codec = \<lparr>seal = (\<lambda>k n p. rev p), unseal = (\<lambda>k n c. Some (rev c))\<rparr>"

definition sample_libs :: libs where
  "sample_libs = \<lparr>lb_tk = (\<lambda>m. None), lb_codec = sample_codec, lb_parseURL = (\<lambda>u. None), lb_urlString = url_Path,
     lb_counterAdd = (\<lambda>n. 0 \<le> n)\<rparr>"

definition sample_request :: request where
  "sample_request =
     \<lparr>rq_method = ''POST'', rq_path = ''/v1/messages'', rq_rawQuery = '''',
      rq_header = [(''Accept'', [''a'', ''b'']), (''Authorization'', [''Bearer mine'']), (''Cookie'', [''c''])],
      rq_body = None, rq_readable = True\<rparr>"

definition sample_env :: "nat \<Rightarrow> round_env" where
  "sample_env r =
     \<lparr>re_allowAt = 10, re_selectAt = 10, re_buildOk = True, re_pool = [], re_up = [], re_failAt = 10, re_draw = 0,
      re_coolAt = 10, re_countAt = 10, re_writes = (\<lambda>n. None), re_fresh = [], re_nonce = [],
      re_dumpEnv = \<lparr>de_mkdir = True, de_writable = (\<lambda>n. True), de_removable = (\<lambda>n. True),
                    de_renamable = (\<lambda>n. True), de_now = 0\<rparr>,
      re_stamps = ('''', '''', '''')\<rparr>"

definition sample_answer :: "int \<Rightarrow> headers \<Rightarrow> answer" where
  "sample_answer s h = \<lparr>a_status = s, a_header = h, a_body = ''{}'', a_readOk = True\<rparr>"

definition sample_upstream :: upstream where
  "sample_upstream r q =
     (if values_of ''Authorization'' (uq_header q) = [''Bearer key-b''] then Answer (sample_answer 200 [])
      else Answer (sample_answer 429 [(''Retry-After'', [''60''])]))"

lemma sample_provider_facts:
  "pool_wf (ps_pool sample_provider)" "p_keys (ps_pool sample_provider) = [''key-a'', ''key-b'']"
  "p_names (ps_pool sample_provider) = [''a'', ''b'']" "length (p_cbs (ps_pool sample_provider)) = 2"
  "ps_config sample_provider = sample_config" "ps_name sample_provider = ''p''"
  "ps_upCB sample_provider = NewUpstreamCircuitBreaker 5 (seconds 30)"
  "p_cbs (ps_pool sample_provider) ! Suc 0 = reconfigured (seconds 15) (seconds 120) (Fin 2) zeroBreaker"
  "p_cbs (ps_pool sample_provider) ! 0 = reconfigured (seconds 15) (seconds 120) (Fin 2) zeroBreaker"
  by (simp_all add: sample_provider_def NewProviderState_def Let_def sample_config_def DefaultConfig_def
      DefaultProviderConfig_def zeroProviderConfig_def float_le_zero_def
      ConfigureCBs_wf SetSelectionMode_wf NewKeyPool_wf)
     (simp_all add: ConfigureCBs_def SetSelectionMode_def NewKeyPool_simps)

lemma sample_exec_facts:
  "x_ps sample_exec = sample_provider" "x_resp sample_exec = None" "x_sent sample_exec = []"
  "x_valid sample_exec"
  by (simp_all add: sample_exec_def x_valid_def sample_provider_facts upstream_inv_new cal_inv_new)

lemma sample_sends:
  "sent_body sample_request (ps_pc sample_provider) = Some []"
  "nat (c_MaxRetries (ps_pc sample_provider)) = 2"
  and sample_retries: "c_MaxRetries (ps_pc sample_provider) = 2"
  by (simp_all add: sent_body_def sample_request_def readRequestBody_def sample_exec_facts sample_provider_facts
      sample_config_def DefaultConfig_def DefaultProviderConfig_def zeroProviderConfig_def)

definition sample_senv :: senv where
  "sample_senv =
     \<lparr>en_codec = sample_codec, en_fresh = replicate 32 (CHR ''k''), en_nonce = (\<lambda>p. replicate 12 (CHR ''n'')),
      en_counter = (\<lambda>p. 0), en_noColor = True, en_terminal = False, en_tomlDecode = (\<lambda>b. None),
      en_tomlEncode = (\<lambda>t. None)\<rparr>"

definition sample_server :: "ProviderState \<Rightarrow> store_state \<Rightarrow> server" where
  "sample_server ps st =
     \<lparr>sv_pm = put_provider ''p'' ps (NewProviderManager 0 ''''), sv_lm = NewLogManager, sv_store = st,
      sv_defaultName = ''''\<rparr>"

lemma sample_server_lookup:
  "LookupProvider n (sv_pm (sample_server ps st)) = (if n = ''p'' then Some ps else None)"
  by (simp add: sample_server_def) (simp add: LookupProvider_def NewProviderManager_def)

lemma sample_codec_ok: "codec_ok sample_codec"
  by (simp add: codec_ok_def sample_codec_def)

definition sample_store :: KeyStore where
  "sample_store =
     [\<lparr>e_Key = ''key-a'', e_Name = ''a'', e_Disabled = True, e_Deleted = False\<rparr>,
      \<lparr>e_Key = ''key-b'', e_Name = ''b'', e_Disabled = False, e_Deleted = True\<rparr>]"

lemma sample_store_valid: "list_all valid_entry sample_store"
  by (simp add: sample_store_def valid_entry_def clean_ascii)

text \<open>Saving into the sample world succeeds and leaves no plain file.\<close>

definition saved :: "KeyStore \<Rightarrow> store_state" where
  "saved store = snd (SaveKeys sample_codec (replicate 32 (CHR ''k'')) (replicate 12 (CHR ''n'')) ''p'' store
     \<lparr>s_world = sample_world, s_master = None\<rparr>)"

lemma saved_result:
  "SaveKeys sample_codec (replicate 32 (CHR ''k'')) (replicate 12 (CHR ''n'')) ''p'' store
     \<lparr>s_world = sample_world, s_master = None\<rparr> = (None, saved store)"
  "loadInsecureFile ''p'' (s_world (saved store)) = Inr None"
proof -
  note defs = SaveKeys_def SaveEncrypted_def getMasterKey_def setup_master_def master_to_file_def ensureKeysDir_def
    write_file_def rename_file_def remove_file_def removeFromKeyring_def encrypt_def cipher_error_def
    encryptedFilePath_def masterKeyFile_def keys_path_def sample_world_def
  let ?r = "SaveKeys sample_codec (replicate 32 (CHR ''k'')) (replicate 12 (CHR ''n'')) ''p'' store
     \<lparr>s_world = sample_world, s_master = None\<rparr>"
  have "fst ?r = None" by (simp add: defs Let_def)
  then show "?r = (None, saved store)" by (simp add: saved_def prod_eq_iff)
  show "loadInsecureFile ''p'' (s_world (saved store)) = Inr None"
    by (simp add: saved_def loadInsecureFile_def insecureKeysPath_def LoadFullStore_def defs Let_def)
qed

lemma saved_world:
  "s_master (saved store) = Some (Inr (replicate 32 (CHR ''k'')))" "w_configDir (s_world (saved store)) = Some ''/c''"
  "w_canMkdir (s_world (saved store))" "w_canWrite (s_world (saved store)) = (\<lambda>p. True)"
  by (simp_all add: saved_def SaveKeys_def SaveEncrypted_def getMasterKey_def setup_master_def master_to_file_def
      ensureKeysDir_def write_file_def rename_file_def remove_file_def removeFromKeyring_def encrypt_def
      cipher_error_def encryptedFilePath_def masterKeyFile_def keys_path_def sample_world_def Let_def)

end
