(* ===== verification/RequestProperties.thy ===== *)
theory RequestProperties
  imports DisabledKeys Samples
begin

text \<open>
  The properties of proxied requests: that the request returns and is answered, what is sent
  upstream and how often, which breaker learns of which failure, the failover between keys, what a
  client of a stream receives, and the invariant of the whole process.
\<close>

section \<open>The process\<close>

text \<open>
  C1 (invariant). Whatever sequence of starts and stops, API requests, proxied requests and ticks of
  the background tasks a freshly made router goes through, every provider is registered under its own
  name, its pool's parallel slices stay aligned with sound breakers, its upstream breaker is sound,
  every calibration window stays within its size, and so do the pools that tasks kept from before a
  reload stay aligned.
\<close>

theorem process_invariant:
  "process_inv (fold process_step es (NewProviderRouter dash now st dumps))"
  by (rule process_machine.run_inv) (rule NewProviderRouter_inv)

section \<open>Returning and answering\<close>

text \<open>
  C3 (termination). If masking returns on every error body of the upstream and on the preview of the
  request body, nobody removes a key while the request runs and the provider's number of retries is
  not negative, the request ends: it neither panics nor hangs, whatever the upstream answers.
\<close>

theorem request_returns:
  assumes "x_valid x" and "\<And>r. \<not> list_ex removes (re_pool (env r))" and "loggable up"
    and "\<And>b. sent_body rq (ps_pc (x_ps x)) = Some b \<Longrightarrow> MaskSensitiveData (take 1024 b) 1024 \<noteq> None"
    and "\<And>n. 0 \<le> n \<Longrightarrow> lb_counterAdd L n" and "0 \<le> c_MaxRetries (ps_pc (x_ps x))"
  shows "\<exists>y. Execute L up env rq x = Returned () y"
  using Execute_no_panic [OF assms(1,2) assms(5) [OF assms(6)]] Execute_no_hang [OF assms(3,4)] returns_iff [of "Execute L up env rq x"]
  by auto

lemma mask_plain: "\<exists>r. MaskSensitiveData ''{}'' 1024 = Some r" "\<exists>r. MaskSensitiveData [] 1024 = Some r"
  by (simp_all add: MaskSensitiveData_def keyPrefixes_def mask_loop.simps ToLower_def lower_char_def HasPrefix_def)

lemma sample_loggable: "loggable sample_upstream"
  by (auto simp: loggable_def sample_upstream_def sample_answer_def mask_plain split: if_splits)

theorem request_returns_witness:
  "\<exists>y. Execute sample_libs sample_upstream sample_env sample_request sample_exec = Returned () y"
  by (rule request_returns)
     (simp_all add: sample_exec_facts sample_env_def sample_loggable sample_sends sample_retries mask_plain sample_libs_def)

text \<open>
  A negative number of retries, which the configuration file and \<open>provider add\<close> accept: every request
  is given up without an attempt, and the handler panics after it has written its answer, because the
  counter of retries cannot be decreased.
\<close>

theorem negative_retries_panic:
  assumes "\<And>n. n < 0 \<Longrightarrow> \<not> lb_counterAdd L n" and "c_MaxRetries (ps_pc (x_ps x)) < 0"
    and "sent_body rq (ps_pc (x_ps x)) = Some b" and "MaskSensitiveData (take 1024 b) 1024 \<noteq> None"
  shows "Execute L up env rq x = Panicked (respond (ProxyError 503 ErrorExhaustedRetries) x)"
  by (cases rule: Execute_cases [of rq x L up env]) (use assms in \<open>simp_all add: Let_def step_defs\<close>)

definition negative_exec :: exec where
  "negative_exec = sample_exec\<lparr>x_ps := sample_provider
     \<lparr>ps_config := sample_config\<lparr>cf_Provider := (cf_Provider sample_config)\<lparr>c_MaxRetries := - 1\<rparr>\<rparr>\<rparr>\<rparr>"

theorem negative_retries_panic_witness:
  "\<exists>y. Execute sample_libs sample_upstream sample_env sample_request negative_exec = Panicked y"
  using negative_retries_panic [of sample_libs negative_exec sample_request "[]" sample_upstream sample_env]
  by (simp add: sample_libs_def negative_exec_def mask_plain sent_body_def sample_request_def readRequestBody_def
      sample_config_def DefaultConfig_def DefaultProviderConfig_def zeroProviderConfig_def)

text \<open>
  C2 (error). A request that returns has been answered, unless the client went away: with one of the
  proxy's five errors, or with the status and copied headers of an answer that the upstream really
  gave. A 429, 401, 403 or a 5xx other than 501 is never passed on.
\<close>

theorem request_answered:
  assumes "Execute L up env rq x = Returned () y" and "x_resp x = None"
  shows "case x_resp y of None \<Rightarrow> \<exists>r q. up r q = NetworkError True | Some r \<Rightarrow> valid_response up r"
  using assms by (rule Execute_result)

lemma sample_answers: "sample_upstream r q \<noteq> NetworkError c"
  by (simp add: sample_upstream_def)

lemma sample_returned: "\<exists>y. Execute sample_libs sample_upstream sample_env sample_request sample_exec = Returned () y"
proof -
  let ?m = "Execute sample_libs sample_upstream sample_env sample_request sample_exec"
  have "\<not> panics ?m" by (rule Execute_no_panic) (simp_all add: sample_exec_facts sample_env_def sample_retries sample_libs_def)
  moreover have "\<not> hangs ?m"
    by (rule Execute_no_hang [OF sample_loggable]) (simp add: sample_exec_facts sample_sends mask_plain)
  ultimately show ?thesis using returns_iff [of ?m] by auto
qed

theorem request_answered_witness:
  "\<exists>y r. Execute sample_libs sample_upstream sample_env sample_request sample_exec = Returned () y \<and>
     x_resp y = Some r \<and> valid_response sample_upstream r"
proof -
  obtain y where y: "Execute sample_libs sample_upstream sample_env sample_request sample_exec = Returned () y"
    using sample_returned by blast
  then show ?thesis
    using request_answered [OF y sample_exec_facts(2)] sample_answers by (auto split: option.splits)
qed

section \<open>What is sent\<close>

definition faithful :: "libs \<Rightarrow> request \<Rightarrow> ProviderConfig \<Rightarrow> string \<Rightarrow> up_request \<Rightarrow> bool" where
  "faithful L rq pc key q \<longleftrightarrow>
     uq_method q = rq_method rq \<and> uq_url q = sent_target L rq pc \<and> Some (uq_body q) = sent_body rq pc \<and>
     (\<forall>h. values_of h (uq_header q) =
        (if h = ''Authorization'' then [''Bearer '' @ key]
         else if sensitive h then [] else values_of h (rq_header rq)))"

lemma values_of_set: "values_of h (header_set k v hs) = (if h = k then [v] else values_of h hs)"
  by (simp add: values_of_def header_set_def update_conv')

text \<open>
  C4 (safety). Every request that goes upstream has the client's method, the target built from the
  provider's base, the client's body (rectified where the provider says so), and exactly one
  \<open>Authorization\<close>, the bearer token of the key it is booked to: the client's own token, cookies,
  admin token and proxy credentials are never sent, and all other headers are sent unchanged.
\<close>

theorem sent_requests_faithful:
  assumes "distinct (map fst (rq_header rq))" and "x_sent x = []"
  shows "list_all (\<lambda>(i, key, q). faithful L rq (ps_pc (x_ps x)) key q) (x_sent (final (Execute L up env rq x)))"
proof -
  have "faithful L rq (ps_pc (x_ps x)) key (upstream_request rq (sent_target L rq (ps_pc (x_ps x))) b key)"
    if "sent_body rq (ps_pc (x_ps x)) = Some b" for b key
    using that values_of_copy [OF assms(1), of _ "[]"]
    by (simp add: faithful_def upstream_request_def values_of_set) (simp add: values_of_def)
  then have "sends_only (faithful L rq (ps_pc (x_ps x))) x (final (Execute L up env rq x))"
    by (rule sending.R_Execute) simp_all
  with assms(2) show ?thesis by (auto simp: sends_only_def)
qed

theorem sent_requests_faithful_witness:
  "list_all (\<lambda>(i, key, q). faithful sample_libs sample_request (ps_pc (x_ps sample_exec)) key q)
     (x_sent (final (Execute sample_libs sample_upstream sample_env sample_request sample_exec)))"
  by (rule sent_requests_faithful) (simp_all add: sample_request_def sample_exec_facts)

text \<open>
  C24 (bounds). A request makes at most \<open>max_retries\<close> attempts upstream.
\<close>

theorem at_most_max_retries:
  "length (x_sent (final (Execute L up env rq x))) \<le> length (x_sent x) + nat (c_MaxRetries (ps_pc (x_ps x)))"
proof (cases rule: Execute_cases [of rq x L up env, case_names bad_body hung runs])
  case bad_body
  then show ?thesis by (simp add: step_defs recordProxyMetrics_def)
next
  case (hung b)
  then show ?thesis by simp
next
  case (runs b rect)
  then show ?thesis
    using rounds_sent_length [of L up env rq "sent_target L rq (ps_pc (x_ps x))" b rect
        "nat (c_MaxRetries (ps_pc (x_ps x)))" 0 x] by simp
qed

section \<open>Failures\<close>

text \<open>
  C6 (safety). After a 429 with \<open>Retry-After: n\<close> the key is refused until \<open>n + 2\<close> seconds after the
  answer was handled, whatever its breaker computed; the breakers of the other keys, the keys
  themselves and the upstream breaker stay as they were.
\<close>

theorem rate_limited_key_rests:
  assumes "pool_wf (x_pool x)" and "idx < length (p_keys (x_pool x))"
    and "handleRateLimited e idx resp method x = Returned b y"
    and "header_get ''Retry-After'' (a_header resp) = Itoa n" and "0 \<le> n" and "(n + 2) * 1000000000 < 2 ^ 63"
  shows "(t \<le> re_coolAt e + (n + 2) * 1000000000 \<longrightarrow> \<not> Allow t (p_cbs (x_pool y) ! idx)) \<and>
    (j \<noteq> idx \<longrightarrow> p_cbs (x_pool y) ! j = p_cbs (x_pool x) ! j) \<and> p_keys (x_pool y) = p_keys (x_pool x) \<and>
    ps_upCB (x_ps y) = ps_upCB (x_ps x)"
proof -
  have "in_int64 n" "in_int64 (n + 2)" "in_int64 ((n + 2) * 1000000000)"
    using assms(5,6) by (auto simp: in_int64_def)
  then have "retry_after resp = Some ((n + 2) * 1000000000)"
    by (simp add: retry_after_def assms(4) Atoi_Itoa wrap64_id)
  moreover have "fits idx (x_pool x)" using assms(1,2) by (simp add: fits_def)
  ultimately show ?thesis
    using rate_limited_effect [OF _ assms(3)] rate_limited_frame(1) [OF assms(3)] by blast
qed

lemma sample_429: "sample_upstream r (upstream_request sample_request target b ''key-a'') =
    Answer (sample_answer 429 [(''Retry-After'', [''60''])])"
  by (simp add: sample_upstream_def upstream_request_def values_of_set)

lemma retry_60: "header_get ''Retry-After'' (a_header (sample_answer 429 [(''Retry-After'', [''60''])])) = Itoa 60"
proof -
  have "Itoa 60 = ''60''" by code_simp
  then show ?thesis by (simp add: header_get_def sample_answer_def)
qed

theorem rate_limited_key_rests_witness:
  "\<exists>b y. handleRateLimited (sample_env 0) 0 (sample_answer 429 [(''Retry-After'', [''60''])]) ''POST'' sample_exec
       = Returned b y \<and> \<not> Allow 62000000010 (p_cbs (x_pool y) ! 0)"
proof -
  let ?a = "sample_answer 429 [(''Retry-After'', [''60''])]"
  let ?m = "handleRateLimited (sample_env 0) 0 ?a ''POST'' sample_exec"
  have "\<not> panics ?m"
    by (rule rate_limited_no_panic) (simp add: fits_def sample_exec_facts sample_provider_facts)
  moreover have "\<not> hangs ?m"
    by (auto simp: handleRateLimited_def Let_def split_beta hangs_and_then sample_answer_def mask_plain
        split: option.split)
  ultimately obtain b y where y: "?m = Returned b y" using returns_iff [of ?m] by blast
  have "\<not> Allow 62000000010 (p_cbs (x_pool y) ! 0)"
    using rate_limited_key_rests [OF _ _ y retry_60, of 62000000010 0]
    by (simp add: sample_exec_facts sample_provider_facts sample_env_def)
  with y show ?thesis by blast
qed

text \<open>
  C7 (functional). Each failure is booked where it belongs: key failures (429, 401, 403) leave the
  upstream breaker alone; server failures (every 5xx but 501) are one failure of the upstream breaker
  and leave the pool alone; the other errors of the client's request (other 4xx, 501) change neither,
  and end the request with the upstream's own answer.
\<close>

theorem failures_booked:
  assumes "dispatch L e idx resp method target bb rnd rect x = Returned b y"
  shows "(a_status resp \<in> set [429, 401, 403] \<longrightarrow> ps_upCB (x_ps y) = ps_upCB (x_ps x)) \<and>
    (500 \<le> a_status resp \<and> a_status resp \<noteq> 501 \<longrightarrow>
       \<not> b \<and> x_pool y = x_pool x \<and> ps_upCB (x_ps y) = U_RecordFailure (re_failAt e) (ps_upCB (x_ps x))) \<and>
    ((400 \<le> a_status resp \<and> a_status resp < 500 \<and> a_status resp \<notin> set [429, 401, 403] \<or> a_status resp = 501) \<longrightarrow>
       b \<and> x_ps y = x_ps x \<and>
       x_resp y = Some (Forwarded (a_status resp) (copyHeaders [] (a_header resp)) (a_body resp)))"
proof -
  have auth: "handleAuthRejected L e idx resp method x = Returned b y \<Longrightarrow> ps_upCB (x_ps y) = ps_upCB (x_ps x)"
    by (auto simp: handleAuthRejected_def Let_def result_simps split: prod.splits option.splits if_splits)
  have server: "handleServerError e resp x = Returned b y \<Longrightarrow> \<not> b \<and> x_pool y = x_pool x \<and>
      ps_upCB (x_ps y) = U_RecordFailure (re_failAt e) (ps_upCB (x_ps x))"
    by (auto simp: handleServerError_def result_simps)
  have "a_status resp \<in> set [429, 401, 403] \<Longrightarrow> ps_upCB (x_ps y) = ps_upCB (x_ps x)"
    using assms auth rate_limited_frame(1) by (auto simp: dispatch_def Let_def split: if_splits)
  moreover have "500 \<le> a_status resp \<Longrightarrow> a_status resp \<noteq> 501 \<Longrightarrow> handleServerError e resp x = Returned b y"
    using assms by (auto simp: dispatch_def Let_def categorizeError_def split: if_splits)
  moreover have "400 \<le> a_status resp \<and> a_status resp < 500 \<and> a_status resp \<notin> set [429, 401, 403] \<or> a_status resp = 501 \<Longrightarrow>
      b \<and> handleNonRetryable e idx resp method target bb rnd rect x = Returned () y"
    using assms by (auto simp: dispatch_def Let_def categorizeError_def and_then_Returned split: if_splits)
  ultimately show ?thesis using server non_retryable_result by blast
qed

theorem failures_booked_witness:
  "\<exists>y. dispatch sample_libs (sample_env 0) 1 (sample_answer 404 []) ''POST'' ''u'' [] 0 False sample_exec
       = Returned True y \<and> x_resp y = Some (Forwarded 404 [] ''{}'') \<and> x_ps y = sample_provider"
proof -
  let ?m = "dispatch sample_libs (sample_env 0) 1 (sample_answer 404 []) ''POST'' ''u'' [] 0 False sample_exec"
  have "\<not> panics ?m"
    by (rule dispatch_no_panic) (simp add: fits_def sample_exec_facts sample_provider_facts)
  moreover have "\<not> hangs ?m"
    by (rule dispatch_no_hang) (simp add: sample_answer_def mask_plain)
  ultimately obtain b y where y: "?m = Returned b y" using returns_iff [of ?m] by blast
  show ?thesis
    using failures_booked [OF y] y by (simp add: sample_answer_def sample_exec_facts copyHeaders_def)
qed



section \<open>Streams\<close>

text \<open>
  C25 (safety). Whichever writes to the client fail, it receives the beginning of one and the same
  stream: the upstream's lines, followed by an error and a stop event exactly when the upstream
  broke off without a terminal mark. If no write fails it receives all of it, and any stream with
  some content then ends up with a terminal mark.
\<close>

theorem stream_relayed:
  "(\<exists>rest. (if list_ex has_terminal (scan_lines body) \<or> scan_lines body = [] then relayed body
            else relayed body @ errorEvent @ stopEvent) = ss_out (streamSSE fails body) @ rest \<and>
      (fails = (\<lambda>n. None) \<longrightarrow> rest = [])) \<and>
   (fails = (\<lambda>n. None) \<and> scan_lines body \<noteq> [] \<longrightarrow> has_terminal (ss_out (streamSSE fails body)))"
proof (cases "fails = (\<lambda>n. None)")
  case True
  then show ?thesis using streamSSE_terminal [of body] by (auto simp: streamSSE_complete)
next
  case False
  then show ?thesis using streamSSE_prefix [of body fails] by (simp add: streamSSE_complete)
qed

theorem stream_relayed_witness:
  "has_terminal (ss_out (streamSSE (\<lambda>n. None) ''data: x''))"
proof -
  have "scan_lines ''data: x'' \<noteq> []" by (simp add: scan_lines_def Let_def)
  then show ?thesis using stream_relayed [of "''data: x''" "\<lambda>n. None"] by blast
qed

section \<open>Disabled keys\<close>

text \<open>
  C9 (invariant). A key that was disabled by hand or for rejected credentials stays so, at its index,
  through every run of the process: requests to the API, changes of settings, proxied requests, rounds
  of the probes that find it working, starts and stops; and no request is sent with it. Only a reload,
  enabling it, or removing a key at or before it are excepted.
\<close>

theorem key_put_aside_stays:
  assumes "process_inv pr" and "LookupProvider n (sv_pm (pr_server pr)) = Some ps" and "i < length (p_keys (ps_pool ps))"
    and "put_aside (p_cbs (ps_pool ps) ! i)" and "list_all (leaves n i) es"
  shows "\<exists>ps'. LookupProvider n (sv_pm (pr_server (fold process_step es pr))) = Some ps' \<and>
    i < length (p_keys (ps_pool ps')) \<and> p_keys (ps_pool ps') ! i = p_keys (ps_pool ps) ! i \<and>
    put_aside (p_cbs (ps_pool ps') ! i) \<and>
    ((\<forall>k. \<forall>ev\<in>set (re_pool (env k)). spares i ev) \<longrightarrow>
       list_all (\<lambda>s. fst s \<noteq> i) (x_sent (final (Execute L up env rq (exec_of ps' (fold process_step es pr))))))"
proof -
  let ?key = "p_keys (ps_pool ps) ! i" and ?pr = "fold process_step es pr"
  have "kept_at put_aside n i ?key name qs" if "LookupProvider name (sv_pm (pr_server pr)) = Some qs" for name qs
    using process_inv_provider [OF assms(1) that] assms(2-4) that
    by (auto simp: kept_at_def provider_ok_def entry_at_pool)
  with assms(1,2) have "aside n i ?key pr" by (auto simp: aside_def all_in_def)
  then have a: "aside n i ?key ?pr" using assms(5) by (rule process_run_aside)
  then obtain ps' where ps': "LookupProvider n (sv_pm (pr_server ?pr)) = Some ps'"
    by (auto simp: aside_def all_in_def)
  from aside_provider [OF a this] have k: "pool_wf (ps_pool ps')" "entry_at put_aside ?key i (entries (ps_pool ps'))"
    by (simp_all add: kept_at_def provider_ok_def)
  have "held put_aside i ?key (exec_of ps' ?pr)" "x_sent (exec_of ps' ?pr) = []"
    using k by (simp_all add: held_def exec_of_def)
  with setting_aside.not_sent [of i ?key "exec_of ps' ?pr" env L up rq] k ps' show ?thesis
    by (auto simp: entry_at_pool)
qed

text \<open>
  The first key of the sample is disabled by hand. A request, a probe that finds every key working and
  enabling the other key leave it so.
\<close>

definition aside_process :: process where
  "aside_process = router_of (sample_server (sample_provider\<lparr>ps_pool := pool_step (PDisable 0) (ps_pool sample_provider)\<rparr>)
     \<lparr>s_world = sample_world, s_master = None\<rparr>) []"

definition aside_run :: "process_event list" where
  "aside_run =
     [Listen, StartTasks 1, ProxyRequest sample_libs sample_upstream sample_env sample_request,
      ProbeTick ''p'' True (\<lambda>url key. Some 200),
      ApiRequest sample_senv 20 (\<lambda>s. None) (KeyOp OpEnable ''2'')
        \<lparr>aq_method = ''POST'', aq_path = ''/api/keys/2/enable'', aq_query = [], aq_header = [], aq_body = []\<rparr>,
      EndServing]"

theorem key_put_aside_stays_witness:
  "\<exists>ps. LookupProvider ''p'' (sv_pm (pr_server (fold process_step aside_run aside_process))) = Some ps \<and>
     put_aside (p_cbs (ps_pool ps) ! 0)"
proof -
  let ?ps = "sample_provider\<lparr>ps_pool := pool_step (PDisable 0) (ps_pool sample_provider)\<rparr>"
  have ps: "LookupProvider n (sv_pm (pr_server aside_process)) = (if n = ''p'' then Some ?ps else None)" for n
    by (simp add: aside_process_def router_of_def sample_server_lookup)
  have wf: "pool_wf (ps_pool ?ps)" using pool_step_wf [OF sample_provider_facts(1), of "PDisable 0"] by simp
  have inv: "process_inv aside_process"
    using wf sample_provider_facts ps
    by (simp add: process_inv_def all_ok_def provider_ok_def upstream_inv_new)
       (simp add: aside_process_def router_of_def cal_inv_new)
  have keys: "p_keys (ps_pool ?ps) = [''key-a'', ''key-b'']"
    using delivered_keys [of "ps_pool sample_provider" "PDisable 0"] sample_provider_facts by simp
  have "put_aside (p_cbs (ps_pool ?ps) ! 0)"
    by (simp add: put_aside_def Disable_def validateIndex_wf sample_provider_facts in_range_def update_cb_def RecordPerma_def)
  moreover have index: "parseKeyIndex ''2'' = Some 1" by code_simp
  have "list_all (leaves ''p'' 0) aside_run"
    by (simp add: aside_run_def leaves_def gentle_op_def sample_env_def index) (simp add: spares_def)
  ultimately show ?thesis
    using key_put_aside_stays [OF inv, of "''p''" ?ps 0 aside_run sample_env sample_libs sample_upstream sample_request]
      ps keys by auto
qed

text \<open>
  C10 (safety). A key that is disabled is sent upstream by no request, however many attempts it takes and
  whatever other requests, ticks and the API do to the pool meanwhile, as long as nobody enables the
  key or removes a key at or before it; and it is still disabled, at its index, when the request ends.
\<close>

theorem disabled_key_never_sent:
  assumes "x_valid x" and "i < length (p_keys (x_pool x))" and "k_state (p_cbs (x_pool x) ! i) = Permanent"
    and "x_sent x = []" and "\<And>r. \<forall>ev\<in>set (re_pool (env r)). spares i ev"
  shows "list_all (\<lambda>s. fst s \<noteq> i) (x_sent (final (Execute L up env rq x))) \<and>
    off i (p_keys (x_pool x) ! i) (final (Execute L up env rq x))"
proof -
  have off: "off i (p_keys (x_pool x) ! i) x" using assms(1-3) by (simp add: held_pool x_valid_def permanent_def)
  with disabling.keeping.R_Execute [of rq x env i] assms(5)
  have "off i (p_keys (x_pool x) ! i) (final (Execute L up env rq x))" by blast
  with disabling.not_sent [OF off, of env, OF assms(5,4)] show ?thesis by blast
qed

text \<open>The first key of the sample is disabled: the request goes out with the second one only.\<close>

definition off_exec :: exec where
  "off_exec = on_pool (pool_step (PDisable 0)) sample_exec"

theorem disabled_key_never_sent_witness:
  "list_all (\<lambda>s. fst s \<noteq> 0) (x_sent (final (Execute sample_libs sample_upstream sample_env sample_request off_exec)))"
proof -
  have "p_keys (pool_step (PDisable 0) (ps_pool sample_provider)) = [''key-a'', ''key-b'']"
    by (subst delivered_keys) (simp_all add: sample_provider_facts)
  then have v: "x_valid off_exec" "x_sent off_exec = []" "p_keys (x_pool off_exec) = [''key-a'', ''key-b'']"
    using kept.pool [of sample_exec "PDisable 0"] sample_exec_facts
    by (simp_all add: off_exec_def keeps_def on_pool_def)
  have "k_state (p_cbs (x_pool off_exec) ! 0) = Permanent"
    by (simp add: off_exec_def on_pool_def sample_exec_facts Disable_def validateIndex_wf sample_provider_facts in_range_def
        update_cb_def RecordPerma_def)
  moreover have "\<forall>ev\<in>set (re_pool (sample_env r)). spares 0 ev" for r by (simp add: sample_env_def)
  ultimately show ?thesis
    using disabled_key_never_sent [OF v(1) _ _ v(2), of 0 sample_env sample_libs sample_upstream sample_request] v(3)
    by simp
qed

end
