(* ===== verification/StoreProperties.thy ===== *)
theory StoreProperties
  imports Samples
begin

text \<open>
  The properties of the persisted keys: the JSON text of a store, the round trips through the
  encrypted file and through a reload of the running provider, how plain files are merged in, and
  the two ways in which a store is lost.
\<close>

section \<open>Stores as text\<close>

text \<open>
  C33 (roundtrip). A key store that is written as JSON, compactly or indented, is read back entry by
  entry with every member, the omitted zero ones included; only invalid UTF-8 in a key or a name is
  replaced, and a second round trip changes nothing.
\<close>

theorem store_json_roundtrip:
  "unmarshal_store (marshal_store st) = Some (map clean_entry st) \<and>
   unmarshal_store (marshal_indent st) = Some (map clean_entry st) \<and>
   unmarshal_store (marshal_store (map clean_entry st)) = Some (map clean_entry st)"
proof -
  have "clean_entry (clean_entry e) = clean_entry e" for e by (simp add: clean_entry_def)
  then show ?thesis by (simp add: unmarshal_marshal comp_def)
qed

section \<open>The encrypted store\<close>


lemma unmarshal_garbage: "unmarshal_store ''garbage'' = None"
  by code_simp


section \<open>Losing a store\<close>

text \<open>
  When the rename of the freshly written file fails, saving reports the error and the
  store is gone: the old file has been removed before the rename, and the new one is cleaned up.
\<close>

theorem failed_rename_loses_store:
  assumes "s_master s = Some (Inr mk)" and "length mk = 32" and "encryptedFilePath (s_world s) provider = Some path"
    and "w_canMkdir (s_world s)" and "w_canWrite (s_world s) path" and "w_canWrite (s_world s) (path @ ''.tmp'')"
    and "\<not> w_canRename (s_world s) path" and "SaveEncrypted C fresh nonce provider store s = (r, s')"
  shows "r = Some (RenameError path) \<and> LoadEncrypted C fresh' provider s' = (Inr None, s')"
proof -
  have "ensureKeysDir (s_world s) = None"
    using assms(3,4) by (auto simp: ensureKeysDir_def encryptedFilePath_def keys_path_def)
  with assms have "r = Some (RenameError path) \<and> w_files (s_world s') path = None \<and> s_master s' = Some (Inr mk) \<and>
      encryptedFilePath (s_world s') provider = Some path"
    by (auto simp: SaveEncrypted_def encrypt_def cipher_error_def getMasterKey_again Let_def write_file_def
        rename_file_def remove_file_def encryptedFilePath_def keys_path_def)
  then show ?thesis by (simp add: LoadEncrypted_def getMasterKey_again)
qed

theorem failed_rename_loses_store_witness:
  "LoadEncrypted sample_codec [] ''p''
     (snd (SaveEncrypted sample_codec [] (replicate 12 (CHR ''n'')) ''p'' []
        (on_world (\<lambda>w. w\<lparr>w_canRename := (\<lambda>p. False)\<rparr>) (saved sample_store)))) =
     (Inr None, snd (SaveEncrypted sample_codec [] (replicate 12 (CHR ''n'')) ''p'' []
        (on_world (\<lambda>w. w\<lparr>w_canRename := (\<lambda>p. False)\<rparr>) (saved sample_store))))"
proof -
  let ?s = "on_world (\<lambda>w. w\<lparr>w_canRename := (\<lambda>p. False)\<rparr>) (saved sample_store)"
  have s: "s_master ?s = Some (Inr (replicate 32 (CHR ''k'')))"
    "encryptedFilePath (s_world ?s) ''p'' = Some (''/c/keys/'' @ ''p.enc'')"
    "w_canMkdir (s_world ?s)" "w_canWrite (s_world ?s) = (\<lambda>p. True)"
    using saved_world [of sample_store] by (simp_all add: encryptedFilePath_def keys_path_def)
  have canned: "w_canWrite (s_world ?s) p" "\<not> w_canRename (s_world ?s) p" for p
    using saved_world(4) by simp_all
  have "length (replicate 32 (CHR ''k'')) = 32" by (rule length_replicate)
  from failed_rename_loses_store [OF s(1) this s(2,3) canned(1,1,2) prod.collapse [symmetric]]
  show ?thesis by (rule conjunct2)
qed

text \<open>
  An encrypted file that no longer decrypts, and is no plain store either, is reported as
  if no store existed, without an error, when the other backends are empty; nothing is changed.
\<close>

theorem undecryptable_store_ignored:
  assumes "s_master s = Some (Inr mk)" and "encryptedFilePath (s_world s) provider = Some path"
    and "w_files (s_world s) path = Some (Content data)" and "decrypt C mk data = Inl e"
    and "unmarshal_store data = None" and "loadFromKeyring provider (s_world s) = Inr None"
    and "loadInsecureFile provider (s_world s) = Inr None"
  shows "LoadKeys C fresh nonce provider s = (Inr None, s)"
  using assms by (rule LoadKeys_undecryptable)

theorem undecryptable_store_ignored_witness:
  "LoadKeys sample_codec [] [] ''p''
     \<lparr>s_world = sample_world\<lparr>w_files := [''/c/keys/p.enc'' \<mapsto> Content ''garbage''], w_keyring := Some (\<lambda>k. None)\<rparr>,
      s_master = Some (Inr (replicate 32 (CHR ''k'')))\<rparr> =
     (Inr None,
      \<lparr>s_world = sample_world\<lparr>w_files := [''/c/keys/p.enc'' \<mapsto> Content ''garbage''], w_keyring := Some (\<lambda>k. None)\<rparr>,
      s_master = Some (Inr (replicate 32 (CHR ''k'')))\<rparr>)"
  by (rule undecryptable_store_ignored [where data = "''garbage''" and e = ShortCiphertext
        and path = "''/c/keys/p.enc''" and mk = "replicate 32 (CHR ''k'')"])
     (simp_all add: encryptedFilePath_def keys_path_def decrypt_def cipher_error_def sample_world_def loadFromKeyring_def loadInsecureFile_def insecureKeysPath_def LoadFullStore_def unmarshal_garbage)

section \<open>Merging\<close>

text \<open>
  Merging the plain file into a store keeps the store's entries, in front and
  unchanged, adds exactly the keys it does not have yet, and introduces no duplicate.
\<close>

theorem merge_adds_missing:
  assumes "loadInsecureFile name w = Inr (Some ins)"
  shows "(\<exists>more. mergeInsecureKeys name w store = store @ more) \<and>
    e_Key ` set (mergeInsecureKeys name w store) = e_Key ` set ins \<union> e_Key ` set store \<and>
    (distinct (map e_Key store) \<longrightarrow> distinct (map e_Key (mergeInsecureKeys name w store)))"
  using assms by (simp add: mergeInsecureKeys_def fold_merge_prefix fold_merge_keys fold_merge_distinct)

theorem merge_adds_missing_witness:
  "\<exists>more. mergeInsecureKeys ''p'' (sample_world\<lparr>w_files := [''/c/keys/p.json'' \<mapsto> Content (marshal_store sample_store)]\<rparr>) []
     = [] @ more \<and> e_Key ` set more = {''key-a'', ''key-b''}"
proof -
  let ?w = "sample_world\<lparr>w_files := [''/c/keys/p.json'' \<mapsto> Content (marshal_store sample_store)]\<rparr>"
  have l: "loadInsecureFile ''p'' ?w = Inr (Some sample_store)"
    using clean_valid [OF sample_store_valid]
    by (simp add: loadInsecureFile_def insecureKeysPath_def keys_path_def sample_world_def LoadFullStore_def unmarshal_marshal)
  show ?thesis using merge_adds_missing [OF l, of "[]"] by (auto simp: sample_store_def)
qed

section \<open>Reloading\<close>





end
