(* ===== verification/SettingsProperties.thy ===== *)
theory SettingsProperties
  imports Samples
begin

text \<open>
  The properties of the settings: how a provider's configuration is layered from the file, the types
  of the fields, that settings which are written can be read back, that breakers and clients run with
  the values that the configuration shows through every sequence of runtime changes; and of the
  token calibration, whose window and ratio are those of the recent samples.
\<close>

section \<open>Layers\<close>

definition layered_settings :: "Config option \<Rightarrow> Config option \<Rightarrow> ProviderConfig \<Rightarrow> bool" where
  "layered_settings d p pc \<longleftrightarrow>
     c_CooldownSec pc = layered 0 15 c_CooldownSec d p \<and> c_MaxRetries pc = layered 0 1 c_MaxRetries d p \<and>
     c_BackoffCapSec pc = layered 0 120 c_BackoffCapSec d p \<and>
     c_BackoffMultiplier pc = layered (Fin 0) (Fin 2) c_BackoffMultiplier d p \<and>
     c_CBResetSec pc = layered 0 30 c_CBResetSec d p \<and>
     c_UpstreamCBThreshold pc = layered 0 5 c_UpstreamCBThreshold d p \<and>
     c_HTTPTimeoutSec pc = layered 0 30 c_HTTPTimeoutSec d p \<and>
     c_LogLevel pc = layered '''' ''info'' c_LogLevel d p \<and>
     c_HealthCheckIntervalSec pc = layered 0 30 c_HealthCheckIntervalSec d p \<and>
     c_KeySelection pc = layered '''' ''polling'' c_KeySelection d p \<and>
     c_Host pc = layered '''' ''127.0.0.1'' c_Host d p"

text \<open>
  C37 (functional). In every provider that is loaded from the file each of these settings is the
  provider's own value if it is not zero, else the default section's if that is not zero, else the
  built-in default; the port is the file's. The top-level host of the file has no effect at all.
\<close>

theorem loaded_settings_layered:
  assumes "readFile path = Some data" and "unmarshal data = Some tc" and "t_Provider tc \<noteq> []"
    and "default_section tc = (d, sections)"
  shows "\<exists>ps. LoadAllTomlProviders readFile unmarshal path = (Inr ps, Some (t_DefaultProvider tc)) \<and>
    list_all2 (\<lambda>(n, c) (m, p). n = m \<and> layered_settings d p (cf_Provider c) \<and>
       c_Port (cf_Provider c) = (if t_Port tc = 0 then 4000 else t_Port tc)) ps sections \<and>
    LoadAllTomlProviders readFile (map_option (t_Host_update (\<lambda>_. host)) \<circ> unmarshal) path =
      (Inr ps, Some (t_DefaultProvider tc))"
proof -
  have d: "default_section (tc\<lparr>t_Host := host\<rparr>) = (d, sections)"
    using assms(4) by (auto simp: default_section_def split: option.splits)
  have port: "c_Port DefaultProviderConfig = 4000" by (simp add: DefaultProviderConfig_def zeroProviderConfig_def)
  let ?port = "if t_Port tc = 0 then 4000 else t_Port tc"
  let ?ps = "map (\<lambda>(n, p). (n, load_provider tc ?port (c_Host DefaultProviderConfig) d p)) sections"
  have "LoadAllTomlProviders readFile unmarshal path = (Inr ?ps, Some (t_DefaultProvider tc))"
    using assms by (auto simp: LoadAllTomlProviders_def port Let_def intro!: load_provider_host)
  moreover have "LoadAllTomlProviders readFile (map_option (t_Host_update (\<lambda>_. host)) \<circ> unmarshal) path =
      (Inr ?ps, Some (t_DefaultProvider tc))"
    using assms d
    by (auto simp: LoadAllTomlProviders_def port load_provider_toml_host Let_def intro!: load_provider_host)
  moreover have "list_all2 (\<lambda>(n, c) (m, p). n = m \<and> layered_settings d p (cf_Provider c) \<and> c_Port (cf_Provider c) = ?port)
      ?ps sections"
    unfolding list_all2_map1 by (rule list_all2_refl)
      (auto simp: layered_settings_def load_provider_layers simp del: cf_Provider_load)
  ultimately show ?thesis by blast
qed

definition sample_toml :: TomlConfig where
  "sample_toml =
     \<lparr>t_Port = 0, t_Host = ''0.0.0.0'', t_DefaultProvider = ''p'',
      t_Default = Some (DefaultConfig\<lparr>cf_Provider := zeroProviderConfig\<lparr>c_MaxRetries := 4\<rparr>\<rparr>),
      t_CredentialsDir = '''', t_LogFile = '''', t_LogMaxSize = 0, t_LogMaxAge = 0, t_ErrorDumpMaxAge = 0,
      t_Provider = [(''p'', None)]\<rparr>"

theorem loaded_settings_layered_witness:
  "\<exists>c. LoadAllTomlProviders (\<lambda>p. Some []) (\<lambda>b. Some sample_toml) ''f'' = (Inr [(''p'', c)], Some ''p'') \<and>
     c_MaxRetries (cf_Provider c) = 4 \<and> c_Host (cf_Provider c) = ''127.0.0.1'' \<and> c_Port (cf_Provider c) = 4000"
proof -
  let ?d = "Some (DefaultConfig\<lparr>cf_Provider := zeroProviderConfig\<lparr>c_MaxRetries := 4\<rparr>\<rparr>)"
  have d: "default_section sample_toml = (?d, [(''p'', None)])"
    by (simp add: default_section_def sample_toml_def)
  obtain ps where "LoadAllTomlProviders (\<lambda>p. Some []) (\<lambda>b. Some sample_toml) ''f'' = (Inr ps, Some ''p'')"
      "list_all2 (\<lambda>(n, c) (m, p). n = m \<and> layered_settings ?d p (cf_Provider c) \<and> c_Port (cf_Provider c) = 4000)
        ps [(''p'', None)]"
    using loaded_settings_layered [of "\<lambda>p. Some []" "''f''" "[]" "\<lambda>b. Some sample_toml" sample_toml ?d "[(''p'', None)]", OF refl refl _ d]
    by (auto simp: sample_toml_def)
  then show ?thesis
    by (auto simp: list_all2_Cons2 layered_settings_def layered_def zeroProviderConfig_def)
qed

section \<open>Fields\<close>

text \<open>
  C40 (type). Every field of the table has a default that parses to the field's type, and whatever
  else is parsed for the field has its type.
\<close>

theorem fields_typed:
  assumes "d \<in> set reflectBuildDescriptors"
  shows "(\<exists>v. ParseDefault d = Inr v \<and> value_type v = fd_Type d) \<and>
    (case Parse d s of Inl e \<Rightarrow> True | Inr v \<Rightarrow> value_type v = fd_Type d)"
  using table_default_types [OF assms] Parse_type [OF assms] by (simp split: sum.split)

lemma sample_field: "hd reflectBuildDescriptors \<in> set reflectBuildDescriptors"
  by (rule list.set_sel(1)) (use table_keys in auto)

theorem fields_typed_witness:
  "\<exists>v. ParseDefault (hd reflectBuildDescriptors) = Inr v \<and> value_type v = fd_Type (hd reflectBuildDescriptors)"
  using fields_typed [OF sample_field, of "''''"] by (rule conjunct1)

text \<open>
  A value that is parsed for a provider field other than a float is formatted to a
  text that parses to the same value again, and once it is persisted into a configuration, it is what
  the field holds there; the runtime part of the configuration is not touched.
\<close>

theorem parsed_fields_persist:
  assumes "d \<in> set reflectBuildDescriptors" and "fd_Type d \<noteq> FieldTypeFloat64"
    and "fd_Scope d = FieldScopeProvider" and "Parse d s = Inr v"
  shows "(\<exists>u. Format d v = Some u \<and> Parse d u = Inr v) \<and>
    (\<exists>c'. Persist d v tc (Some c) = Some (tc, Some c') \<and>
       get_field (fd_StructField d) (cf_Provider c') = Some v \<and> cf_Runtime c' = cf_Runtime c)"
  using Format_Parse [OF assms(1,2,4)] Persist_parsed [OF assms(1,3,4)] ..

theorem parsed_fields_persist_witness:
  "\<exists>d v u. FindField ''max_retries'' = Some d \<and> Parse d ''7'' = Inr v \<and> Format d v = Some u \<and> Parse d u = Inr v"
proof -
  have "map_option (\<lambda>d. (fd_Type d, fd_Scope d, Parse d ''7'')) (FindField ''max_retries'') =
      Some (FieldTypeInt, FieldScopeProvider, Inr (VInt 7))"
    by code_simp
  then obtain d where d: "FindField ''max_retries'' = Some d" "fd_Type d = FieldTypeInt"
      "fd_Scope d = FieldScopeProvider" "Parse d ''7'' = Inr (VInt 7)" by auto
  have "d \<in> set reflectBuildDescriptors" using d(1) FindField_Some by blast
  then show ?thesis using parsed_fields_persist [of d "''7''" "VInt 7"] d by auto
qed

section \<open>Runtime changes\<close>

text \<open>
  A runtime change that is accepted changes exactly the setting that it names among
  those shown, to the value that it reports, and keeps the provider's name, keys and key names; the
  settings shown are exactly the fields of the table that may be changed at run time.
\<close>

theorem runtime_change_shown:
  assumes "setRuntimeConfigField key s ps = Inr (v, ps')"
  shows "map_of (getRuntimeParams ps') = (map_of (getRuntimeParams ps))(key \<mapsto> v) \<and>
    ps_name ps' = ps_name ps \<and> p_keys (ps_pool ps') = p_keys (ps_pool ps) \<and>
    p_names (ps_pool ps') = p_names (ps_pool ps) \<and>
    set (map fst (getRuntimeParams ps')) = set (map fd_Key (filter fd_RuntimeEditable reflectBuildDescriptors))"
proof -
  have a: "ApplyRuntime key s ps = Some (Inr (v, ps'))"
    using assms by (auto simp: setRuntimeConfigField_def split: option.splits if_splits)
  have "ps_name ps' = ps_name ps \<and> p_keys (ps_pool ps') = p_keys (ps_pool ps) \<and> p_names (ps_pool ps') = p_names (ps_pool ps)"
    using ApplyRuntime_write [OF a] unfolding runtime_write_def
    by (elim disjE exE) (simp_all add: apply_cooldown_def apply_backoff_cap_def apply_multiplier_def setter_defs
        ConfigureCBs_def Let_def)
  with set_then_get [OF a] params_are_runtime [of ps'] show ?thesis by blast
qed

theorem runtime_change_shown_witness:
  "\<exists>ps'. setRuntimeConfigField ''max_retries'' ''7'' sample_provider = Inr (VInt 7, ps') \<and>
     map_of (getRuntimeParams ps') ''max_retries'' = Some (VInt 7)"
proof -
  have f: "map_option fd_RuntimeEditable (FindField ''max_retries'') = Some True" "Atoi ''7'' = Some 7"
    by code_simp+
  then have s: "setRuntimeConfigField ''max_retries'' ''7'' sample_provider = Inr (VInt 7, SetMaxRetries 7 sample_provider)"
    by (auto simp: setRuntimeConfigField_def ApplyRuntime_def apply_int_def)
  from runtime_change_shown [OF s] s show ?thesis by simp
qed

text \<open>
  C17 (invariant). A provider made from a validated configuration runs with the values that its
  configuration shows, and it still does after any sequence of runtime changes, accepted or refused:
  every key's breaker has the base cooldown, cap and multiplier, the upstream breaker its threshold
  and reset timeout, and the HTTP client its timeout.
\<close>

theorem settings_in_effect:
  assumes "validateConfig c = (None, c')"
  shows "in_sync (fold (\<lambda>(key, v). set_one key v) changes (NewProviderState name c' pool dash kf))"
proof -
  have step: "in_sync ps \<Longrightarrow> in_sync (set_one key v ps)" for key v ps
    by (auto simp: set_one_def dest: in_sync_set split: sum.split)
  have "in_sync (fold (\<lambda>(key, v). set_one key v) changes ps)" if "in_sync ps" for ps
    using that by (induction changes arbitrary: ps) (auto simp: step)
  with NewProviderState_in_sync [OF assms] show ?thesis by blast
qed

theorem settings_in_effect_witness:
  "in_sync (fold (\<lambda>(key, v). set_one key v) [(''cooldown_sec'', ''20''), (''max_retries'', ''x''), (''cb_reset_sec'', ''9'')]
     (NewProviderState ''p'' (snd (validateConfig sample_config)) (NewKeyPool 0 [''key-a'', ''key-b''] []) '''' ''''))"
proof (rule settings_in_effect)
  show "validateConfig sample_config = (None, snd (validateConfig sample_config))"
    by (simp add: sample_config_def validateConfig_def validateProvider_def validateRuntime_def syncRuntimeConfig_def
        DefaultConfig_def DefaultProviderConfig_def zeroProviderConfig_def zeroRuntimeConfig_def)
qed

section \<open>Calibration\<close>

text \<open>
  C38 (equivalence). However the measurements of different models are interleaved, the calibrator
  keeps for each model exactly the last \<open>windowSize\<close> (at least 3) of its positive measurements, and
  from three of them on its ratio is a median of theirs: at least half of them are at most the
  ratio, and at least half are at least it.
\<close>

theorem calibration_window:
  assumes "c = fold (\<lambda>(m', e, a). Record m' e a) rs (NewCalibrator w)"
  shows "samples_of m c = last_n (nat (max 3 w)) (valid_samples m rs) \<and>
    (3 \<le> length (valid_samples m rs) \<longrightarrow>
       SampleCount m c \<le> 2 * length (filter (\<lambda>s. float_rank (sm_ratio s) \<le> float_rank (Ratio m c)) (samples_of m c)) \<and>
       SampleCount m c \<le> 2 * length (filter (\<lambda>s. float_rank (Ratio m c) \<le> float_rank (sm_ratio s)) (samples_of m c)))"
proof -
  have w: "cal_windowSize (NewCalibrator w) = max 3 w" by (simp add: NewCalibrator_def)
  have "samples_of m (NewCalibrator w) = last_n (nat (max 3 w)) []"
    by (simp add: NewCalibrator_def samples_of_def last_n_def)
  then have s: "samples_of m c = last_n (nat (max 3 w)) (valid_samples m rs)"
    using records_window [of "NewCalibrator w" m "[]" rs] unfolding w assms by simp
  have "3 \<le> length (valid_samples m rs) \<Longrightarrow> 3 \<le> length (samples_of m c)"
    unfolding s last_n_def length_drop by linarith
  with s Ratio_median [of m c] show ?thesis by (simp add: SampleCount_def)
qed

theorem calibration_window_witness:
  "SampleCount ''m'' (fold (\<lambda>(m', e, a). Record m' e a)
     [(''m'', 10, 20), (''n'', 1, 1), (''m'', 10, 30), (''m'', 0, 5), (''m'', 10, 10), (''m'', 10, 40)] (NewCalibrator 0)) = 3"
  unfolding SampleCount_def
  by (subst conjunct1 [OF calibration_window [OF refl]]) (simp add: last_n_def valid_samples_def)

end
