(* ===== verification/KeyImport.thy ===== *)
theory KeyImport
  imports KeyStore
begin

text \<open>
  Reading key lists for \<open>key import\<close> (internal/cli/key.go): JSON arrays, JSON lines and CSV; the
  removal of keys that are already stored; and the numbering of repeated names. Lower-casing and
  trimming are those of ASCII text, as in GoStrings.
\<close>

datatype import_error =
    JsonlLine
  | JsonlNoKey string
  | JsonlEmpty
  | CsvOnlyComments
  | CsvNoKeyColumn
  | CsvColumns nat nat
  | CsvEmpty
  | UnknownFormat

section \<open>JSON lines\<close>

record jsonl_entry =
  jl_Key :: string
  jl_KeyAlt :: string
  jl_Name :: string

definition dec_jsonl :: "jsonl_entry decoder" where
  "dec_jsonl = dec_struct
     [(''api_key'', \<lambda>j e. let (v, ok) = dec_string j (jl_Key e) in (e\<lparr>jl_Key := v\<rparr>, ok)),
      (''api_key_plain'', \<lambda>j e. let (v, ok) = dec_string j (jl_KeyAlt e) in (e\<lparr>jl_KeyAlt := v\<rparr>, ok)),
      (''api_key_name'', \<lambda>j e. let (v, ok) = dec_string j (jl_Name e) in (e\<lparr>jl_Name := v\<rparr>, ok))]"

definition jsonl_line :: "string \<Rightarrow> import_error + KeyEntry" where
  "jsonl_line line =
     (case Unmarshal dec_entry zeroEntry line of
        Some entry \<Rightarrow>
          (if e_Key entry \<noteq> '''' then Inr entry
           else (case Unmarshal dec_jsonl \<lparr>jl_Key = '''', jl_KeyAlt = '''', jl_Name = ''''\<rparr> line of
                   None \<Rightarrow> Inl JsonlLine
                 | Some e \<Rightarrow> (let key = (if jl_Key e = '''' then jl_KeyAlt e else jl_Key e)
                             in if key = '''' then Inl (JsonlNoKey line)
                                else Inr (zeroEntry\<lparr>e_Key := key, e_Name := jl_Name e\<rparr>))))
      | None \<Rightarrow>
          (case Unmarshal dec_jsonl \<lparr>jl_Key = '''', jl_KeyAlt = '''', jl_Name = ''''\<rparr> line of
             None \<Rightarrow> Inl JsonlLine
           | Some e \<Rightarrow> (let key = (if jl_Key e = '''' then jl_KeyAlt e else jl_Key e)
                       in if key = '''' then Inl (JsonlNoKey line)
                          else Inr (zeroEntry\<lparr>e_Key := key, e_Name := jl_Name e\<rparr>))))"

fun jsonl_lines :: "string list \<Rightarrow> import_error + KeyStore" where
  "jsonl_lines [] = Inr []"
| "jsonl_lines (l # ls) =
     (let line = TrimSpace l
      in if line = '''' then jsonl_lines ls
         else (case jsonl_line line of
                 Inl e \<Rightarrow> Inl e
               | Inr entry \<Rightarrow> map_sum id (Cons entry) (jsonl_lines ls)))"

definition parseJSONL :: "bytes \<Rightarrow> import_error + KeyStore" where
  "parseJSONL data =
     (case jsonl_lines (split_on (CHR 0x0A) data) of
        Inl e \<Rightarrow> Inl e | Inr entries \<Rightarrow> if entries = [] then Inl JsonlEmpty else Inr entries)"

section \<open>CSV\<close>

definition keyColNames :: "string list" where
  "keyColNames = [''key'', ''api_key'', ''api key'', ''token'', ''secret'', ''apikey'']"

text \<open>The last name is the Chinese word for a remark, in UTF-8.\<close>

definition nameColNames :: "string list" where
  "nameColNames = [''name'', ''key_name'', ''account_name'', ''username'', ''user'', ''account'',
     [CHR 0xE5, CHR 0xA4, CHR 0x87, CHR 0xE6, CHR 0xB3, CHR 0xA8]]"

definition csv_skipped :: "string \<Rightarrow> bool" where
  "csv_skipped line \<longleftrightarrow> TrimSpace line = '''' \<or> HasPrefix (TrimSpace line) ''#''"

definition csv_cells :: "string \<Rightarrow> string list" where
  "csv_cells line = map TrimSpace (split_on (CHR '','') (TrimSpace line))"

text \<open>The last column with one of the names; \<open>None\<close> stands for -1.\<close>

definition last_column :: "string list \<Rightarrow> string list \<Rightarrow> nat option" where
  "last_column names cols =
     fold (\<lambda>(i, c) col. if ToLower c \<in> set names then Some i else col) (enumerate 0 cols) None"

text \<open>The rows below a header, and the rows of a file without one; \<open>n\<close> is the index of the line.\<close>

definition csv_header_rows :: "nat \<Rightarrow> nat option \<Rightarrow> string list \<Rightarrow> KeyStore" where
  "csv_header_rows keyCol nameCol lines =
     List.map_filter (\<lambda>line.
       let cells = csv_cells line
       in if csv_skipped line \<or> length cells \<le> keyCol then None
          else Some (zeroEntry\<lparr>e_Key := cells ! keyCol,
                 e_Name := (case nameCol of
                    Some i \<Rightarrow> if i < length cells then cells ! i else ''''
                  | None \<Rightarrow> '''')\<rparr>)) lines"

fun csv_plain_rows :: "nat \<Rightarrow> string list \<Rightarrow> import_error + KeyStore" where
  "csv_plain_rows n [] = Inr []"
| "csv_plain_rows n (line # lines) =
     (if csv_skipped line then csv_plain_rows (Suc n) lines
      else (case csv_cells line of
              [key] \<Rightarrow> map_sum id (Cons (zeroEntry\<lparr>e_Key := key\<rparr>)) (csv_plain_rows (Suc n) lines)
            | [name, key] \<Rightarrow>
                map_sum id (Cons (zeroEntry\<lparr>e_Key := key, e_Name := name\<rparr>)) (csv_plain_rows (Suc n) lines)
            | cells \<Rightarrow> Inl (CsvColumns (n + 1) (length cells))))"

definition csv_found :: "KeyStore \<Rightarrow> import_error + KeyStore" where
  "csv_found entries = (if entries = [] then Inl CsvEmpty else Inr entries)"

definition parseCSV :: "bytes \<Rightarrow> import_error + KeyStore" where
  "parseCSV data =
     (let lines = split_on (CHR 0x0A) (TrimSpace data);
          contentStart = length (takeWhile csv_skipped lines)
      in if length lines \<le> contentStart then Inl CsvOnlyComments
         else
           (let cols = csv_cells (lines ! contentStart);
                isHeader = list_ex (\<lambda>c. ToLower c \<in> set keyColNames \<or> ToLower c \<in> set nameColNames) cols
            in if isHeader
               then (case last_column keyColNames cols of
                       None \<Rightarrow> Inl CsvNoKeyColumn
                     | Some keyCol \<Rightarrow>
                         csv_found (csv_header_rows keyCol (last_column nameColNames cols)
                                      (drop (contentStart + 1) lines)))
               else (case csv_plain_rows contentStart (drop contentStart lines) of
                       Inl e \<Rightarrow> Inl e | Inr entries \<Rightarrow> csv_found entries)))"

section \<open>All formats\<close>

definition parseKeyEntries :: "bytes \<Rightarrow> import_error + KeyStore" where
  "parseKeyEntries data =
     (case Unmarshal (dec_list dec_string '''') [] data of
        Some keys \<Rightarrow> Inr (map (\<lambda>k. zeroEntry\<lparr>e_Key := k\<rparr>) keys)
      | None \<Rightarrow>
          (case Unmarshal (dec_list dec_entry zeroEntry) [] data of
             Some entries \<Rightarrow> Inr entries
           | None \<Rightarrow>
               (case (if data \<noteq> [] \<and> hd data = CHR 0x7B then parseJSONL data else Inl UnknownFormat) of
                  Inr entries \<Rightarrow> Inr entries
                | Inl e \<Rightarrow>
                    (case (if data \<noteq> [] then parseCSV data else Inl UnknownFormat) of
                       Inr entries \<Rightarrow> Inr entries
                     | Inl e \<Rightarrow> Inl UnknownFormat))))"

section \<open>Keys that are stored already\<close>

text \<open>Deleted entries do not count as stored.\<close>

fun dedup_loop :: "string set \<Rightarrow> KeyStore \<Rightarrow> KeyStore \<times> nat" where
  "dedup_loop existing [] = ([], 0)"
| "dedup_loop existing (e # es) =
     (if e_Key e \<in> existing then (let (new, skipped) = dedup_loop existing es in (new, skipped + 1))
      else (let (new, skipped) = dedup_loop (insert (e_Key e) existing) es in (e # new, skipped)))"

definition dedupEntries :: "KeyStore \<Rightarrow> KeyStore \<Rightarrow> KeyStore \<times> nat" where
  "dedupEntries entries store =
     dedup_loop (set (map e_Key (filter (\<lambda>e. \<not> e_Deleted e) store))) entries"

section \<open>Numbering names\<close>

text \<open>A name with a number: the part before the last dash, and the number after it.\<close>

definition numbered :: "string \<Rightarrow> (string \<times> int) option" where
  "numbered name =
     (case LastIndexByte name (CHR ''-'') of
        None \<Rightarrow> None
      | Some i \<Rightarrow>
          (if 0 < i then map_option (\<lambda>n. (take i name, n)) (Atoi (drop (i + 1) name)) else None))"

definition max_suffix :: "KeyStore \<Rightarrow> string \<Rightarrow> int" where
  "max_suffix store base =
     fold (\<lambda>e m. case (if e_Name e = '''' then None else numbered (e_Name e)) of
                   None \<Rightarrow> m
                 | Some (b, n) \<Rightarrow> if b = base \<and> m < n then n else m) store 0"

definition name_count :: "KeyStore \<Rightarrow> string \<Rightarrow> nat" where
  "name_count entries name = length (filter (\<lambda>e. e_Name e \<noteq> '''' \<and> e_Name e = name) entries)"

fun number_loop :: "(string \<Rightarrow> nat) \<Rightarrow> (string \<Rightarrow> int) \<Rightarrow> KeyStore \<Rightarrow> KeyStore" where
  "number_loop count index [] = []"
| "number_loop count index (e # es) =
     (if e_Name e \<noteq> '''' \<and> 1 < count (e_Name e)
      then (let n = wrap64 (index (e_Name e) + 1)
            in e\<lparr>e_Name := e_Name e @ ''-'' @ Itoa n\<rparr> # number_loop count (index(e_Name e := n)) es)
      else e # number_loop count index es)"

definition autoNumberNames :: "KeyStore \<Rightarrow> KeyStore \<Rightarrow> KeyStore" where
  "autoNumberNames entries store = number_loop (name_count entries) (max_suffix store) entries"

section \<open>What the imported keys become\<close>

lemma dedup_loop_spec:
  "dedup_loop ex es = (new, skipped) \<Longrightarrow>
     e_Key ` set new = e_Key ` set es - ex \<and> distinct (map e_Key new) \<and> length new + skipped = length es \<and>
     set new \<subseteq> set es"
proof (induction ex es arbitrary: new skipped rule: dedup_loop.induct)
  case (2 ex e es)
  show ?case
  proof (cases "e_Key e \<in> ex")
    case True
    obtain new' sk where r: "dedup_loop ex es = (new', sk)" by force
    with 2 True show ?thesis by auto
  next
    case False
    obtain new' sk where r: "dedup_loop (insert (e_Key e) ex) es = (new', sk)" by force
    from 2(2) [OF False r] 2(3) r False
    have "e_Key ` set new' = e_Key ` set es - insert (e_Key e) ex" "distinct (map e_Key new')"
      "length new' + sk = length es" "set new' \<subseteq> set es" "new = e # new'" "skipped = sk" by simp_all
    then show ?thesis using False by (simp add: insert_Diff_if) blast
  qed
qed simp

lemma dedupEntries_spec:
  assumes "dedupEntries es store = (new, skipped)"
  shows "e_Key ` set new = e_Key ` set es - set (fst (keysFromStore store))" and "distinct (map e_Key new)"
    and "length new + skipped = length es" and "set new \<subseteq> set es"
proof -
  have "set (map e_Key (filter (\<lambda>e. \<not> e_Deleted e) store)) = set (fst (keysFromStore store))"
    by (simp add: keysFromStore_def Let_def)
  with dedup_loop_spec [OF assms [unfolded dedupEntries_def]]
  show "e_Key ` set new = e_Key ` set es - set (fst (keysFromStore store))" "distinct (map e_Key new)"
    "length new + skipped = length es" "set new \<subseteq> set es" by simp_all
qed

lemma number_loop_length [simp]: "length (number_loop count index es) = length es"
  by (induction es arbitrary: index) (simp_all add: Let_def)

lemma number_loop_same:
  fixes count :: "string \<Rightarrow> nat"
  shows "i < length es \<Longrightarrow> \<not> (e_Name (es ! i) \<noteq> [] \<and> 1 < count (e_Name (es ! i))) \<Longrightarrow>
    number_loop count index es ! i = es ! i"
proof (induction es arbitrary: i index)
  case (Cons e es)
  then show ?case by (cases i) (simp_all add: Let_def)
qed simp

lemma number_loop_keys: "map e_Key (number_loop count index es) = map e_Key es"
  by (induction es arbitrary: index) (simp_all add: Let_def)

lemma autoNumberNames_keys: "map e_Key (autoNumberNames es store) = map e_Key es"
  by (simp add: autoNumberNames_def number_loop_keys)

lemma LastIndexByte_None: "c \<notin> set s \<Longrightarrow> LastIndexByte s c = None"
  by (induction s) auto

text \<open>A numbered name is read back as its base and its number.\<close>

lemma numbered_name:
  assumes "base \<noteq> ''''" and "0 \<le> n" and "in_int64 n"
  shows "numbered (base @ ''-'' @ Itoa n) = Some (base, n)"
proof -
  have "CHR ''-'' \<notin> set (Itoa n)"
    using assms(2) nat_digits_all_digits [of "nat n"] by (auto simp: Itoa_def digit_val_def)
  then have "LastIndexByte (Itoa n) (CHR ''-'') = None" by (rule LastIndexByte_None)
  then have "LastIndexByte (base @ ''-'' @ Itoa n) (CHR ''-'') = Some (length base)"
    by (induction base) simp_all
  then show ?thesis using assms by (simp add: numbered_def Atoi_Itoa)
qed

text \<open>
  Where the numbers stay in the range of the machine, the \<open>k\<close>-th entry of a repeated name gets the
  \<open>k\<close>-th number after the ones that are taken.
\<close>

lemma number_loop_name:
  assumes "i < length es" and "e_Name (es ! i) \<noteq> ''''" and "1 < count (e_Name (es ! i))"
    and "\<And>b. 0 \<le> index b \<and> index b + int (length es) < 2 ^ 63"
  shows "e_Name (number_loop count index es ! i) =
    e_Name (es ! i) @ ''-'' @ Itoa (index (e_Name (es ! i)) +
      int (length (filter (\<lambda>e. e_Name e = e_Name (es ! i)) (take (Suc i) es))))"
  using assms
proof (induction es arbitrary: i index)
  case (Cons e es)
  let ?n = "index (e_Name e) + 1"
  have w: "wrap64 ?n = ?n"
    using Cons.prems(4) [of "e_Name e"] by (intro wrap64_id in_int64I) simp_all
  show ?case
  proof (cases i)
    case 0
    with Cons.prems w show ?thesis by (simp add: Let_def)
  next
    case (Suc j)
    let ?index = "if e_Name e \<noteq> '''' \<and> 1 < count (e_Name e) then index(e_Name e := ?n) else index"
    have "number_loop count index (e # es) ! i = number_loop count ?index es ! j"
      using Suc w by (simp add: Let_def)
    moreover have "0 \<le> ?index b \<and> ?index b + int (length es) < 2 ^ 63" for b
      using Cons.prems(4) [of b] by auto
    ultimately show ?thesis
      using Cons.IH [of j ?index] Cons.prems(1-3) Suc by (auto simp: fun_upd_def add.assoc)
  qed
qed simp

lemma max_suffix_ge:
  assumes "e \<in> set store" and "e_Name e \<noteq> ''''" and "numbered (e_Name e) = Some (b, n)"
  shows "n \<le> max_suffix store b"
proof -
  let ?f = "\<lambda>e m. case (if e_Name e = '''' then None else numbered (e_Name e)) of
      None \<Rightarrow> m | Some (b', n) \<Rightarrow> if b' = b \<and> m < n then n else m"
  have mono: "m \<le> fold ?f es m" for es :: KeyStore and m :: int
  proof (induction es arbitrary: m)
    case (Cons e es)
    have "m \<le> ?f e m" by (auto split: option.split)
    with Cons [of "?f e m"] show ?case by simp
  qed simp
  obtain xs ys where s: "store = xs @ e # ys" using assms(1) by (meson split_list)
  have "n \<le> ?f e (fold ?f xs 0)" using assms(2,3) by simp
  also have "\<dots> \<le> fold ?f ys (?f e (fold ?f xs 0))" by (rule mono)
  finally show ?thesis by (simp add: max_suffix_def s)
qed

lemma max_suffix_nonneg: "0 \<le> max_suffix store b"
proof -
  let ?f = "\<lambda>e m. case (if e_Name e = '''' then None else numbered (e_Name e)) of
      None \<Rightarrow> m | Some (b', n) \<Rightarrow> if b' = b \<and> m < n then n else m"
  have "0 \<le> m \<Longrightarrow> 0 \<le> fold ?f es m" for es :: KeyStore and m :: int
  proof (induction es arbitrary: m)
    case (Cons e es)
    have "0 \<le> ?f e m" using Cons.prems by (auto split: option.split)
    with Cons.IH [of "?f e m"] show ?case by simp
  qed simp
  then show ?thesis by (simp add: max_suffix_def)
qed

text \<open>A number that was given is new: neither a stored name nor an earlier entry of that name has it.\<close>

lemma autoNumberNames_new:
  assumes "i < length es" and "e_Name (es ! i) \<noteq> ''''" and "1 < name_count es (e_Name (es ! i))"
    and small: "\<And>b. max_suffix store b + int (length es) < 2 ^ 63"
  shows "e_Name (autoNumberNames es store ! i) \<notin> e_Name ` set store"
    and "j < length es \<Longrightarrow> e_Name (es ! j) = e_Name (es ! i) \<Longrightarrow>
      e_Name (autoNumberNames es store ! j) = e_Name (autoNumberNames es store ! i) \<Longrightarrow> j = i"
proof -
  let ?b = "e_Name (es ! i)"
  let ?k = "\<lambda>i. max_suffix store ?b + int (length (filter (\<lambda>e. e_Name e = ?b) (take (Suc i) es)))"
  have name: "e_Name (autoNumberNames es store ! j) = ?b @ ''-'' @ Itoa (?k j)"
    if "j < length es" "e_Name (es ! j) = ?b" for j
    using number_loop_name [of j es "name_count es" "max_suffix store"] that assms(2,3) small max_suffix_nonneg
    by (simp add: autoNumberNames_def)
  have step: "?k m < ?k l" if "m < l" "l < length es" "e_Name (es ! l) = ?b" for m l
  proof -
    have "take (Suc l) es = take l es @ [es ! l]" using that(2) by (rule take_Suc_conv_app_nth)
    moreover have "take l es = take (Suc m) es @ drop (Suc m) (take l es)"
      using that(1) append_take_drop_id [of "Suc m" "take l es"] by (simp add: min_def)
    then have "filter P (take l es) = filter P (take (Suc m) es) @ filter P (drop (Suc m) (take l es))" for P
      by (metis filter_append)
    ultimately show ?thesis using that(3) by simp
  qed
  have pos: "max_suffix store ?b < ?k i"
    using assms(1) by (simp add: take_Suc_conv_app_nth)
  have range: "0 \<le> ?k m" "in_int64 (?k m)" if "m < length es" for m
  proof -
    have "length (filter (\<lambda>e. e_Name e = ?b) (take (Suc m) es)) \<le> length es"
      by (rule order_trans [OF length_filter_le]) simp
    then show "0 \<le> ?k m" "in_int64 (?k m)"
      using small [of ?b] max_suffix_nonneg [of store ?b] by (simp_all add: in_int64_def)
  qed
  have num: "numbered (e_Name (autoNumberNames es store ! m)) = Some (?b, ?k m)"
    if "m < length es" "e_Name (es ! m) = ?b" for m
    unfolding name [OF that] using assms(2) range [OF that(1)] by (rule numbered_name)
  have own: "numbered (e_Name (autoNumberNames es store ! i)) = Some (?b, ?k i)"
    by (rule num [OF assms(1) refl])
  have nonempty: "e_Name (autoNumberNames es store ! i) \<noteq> ''''" by (simp add: name [OF assms(1) refl])
  show "e_Name (autoNumberNames es store ! i) \<notin> e_Name ` set store"
  proof
    assume "e_Name (autoNumberNames es store ! i) \<in> e_Name ` set store"
    then obtain e where "e \<in> set store" "e_Name (autoNumberNames es store ! i) = e_Name e" by blast
    with max_suffix_ge [of e store ?b "?k i"] own nonempty have "?k i \<le> max_suffix store ?b" by simp
    with pos show False by simp
  qed
  assume j: "j < length es" "e_Name (es ! j) = ?b"
    "e_Name (autoNumberNames es store ! j) = e_Name (autoNumberNames es store ! i)"
  then have "?k j = ?k i" using num [OF j(1,2)] own by simp
  then show "j = i" using step [of j i] step [of i j] assms(1) j(1,2) by (cases j i rule: linorder_cases) auto
qed

end
