(* ===== verification/Commands.thy ===== *)
theory Commands
  imports Providers KeyImport
begin

text \<open>
  What the commands of the command line share (internal/cli/root.go, admin_client.go, reload.go,
  loglevel.go, and loadAdminToken and callKeyRuntimeAPI's answers in key.go): their state, their
  errors, printing, the configuration file, and the client of the management API. A command is a
  step on the state with an error or a result. What is printed is the format with its arguments;
  rendering it is left to the library. The running server is an argument: a request and the world,
  which both processes share, give an answer, or none, and the world after it.
\<close>

section \<open>Errors and messages\<close>

text \<open>
  \<open>Errorf\<close> carries the format and the arguments; the answers of the server have constructors of
  their own, since one caller tells them apart. \<open>Panicked\<close> is a command that panics.
\<close>

datatype cmd_error =
    Errorf string "parg list"
  | NotReachable
  | AuthFailed int
  | ApiError int bytes
  | Panicked
and parg =
    PInt int
  | PStr string
  | PFloat float64
  | PJson "json option"
  | PErr cmd_error
  | PStore store_error
  | PConfig config_error
  | PSave save_error
  | PField field_error
  | PImport import_error
  | NoPath

type_synonym message = "string \<times> parg list"

section \<open>State\<close>

record api_call =
  ac_method :: string
  ac_url :: string
  ac_type :: string
  ac_token :: string
  ac_body :: "bytes option"
  ac_timeout :: int

record cli =
  cl_store :: store_state
  cl_defaultName :: string
  cl_out :: "message list"
  cl_err :: "message list"
  cl_sent :: "api_call list"

text \<open>
  The random bytes are a fresh master key, the nonce that loading may need to write a store that it
  moves, and the nonce of the command's own save.
\<close>

record cli_env =
  ce_codec :: codec
  ce_fresh :: bytes
  ce_loadNonce :: bytes
  ce_saveNonce :: bytes
  ce_tomlDecode :: "bytes \<Rightarrow> TomlConfig option"
  ce_tomlEncode :: "TomlConfig \<Rightarrow> bytes option"
  ce_server :: "api_call \<Rightarrow> world \<Rightarrow> (int \<times> bytes) option \<times> world"
  ce_args :: "string list"
  ce_stdin :: "bytes option"

type_synonym 'a cmd = "cli \<Rightarrow> (cmd_error + 'a) \<times> cli"

abbreviation cl_world :: "cli \<Rightarrow> world" where
  "cl_world c \<equiv> s_world (cl_store c)"

definition on_cl_world :: "(world \<Rightarrow> world) \<Rightarrow> cli \<Rightarrow> cli" where
  "on_cl_world f c = c\<lparr>cl_store := (cl_store c)\<lparr>s_world := f (cl_world c)\<rparr>\<rparr>"

definition ret :: "'a \<Rightarrow> 'a cmd" where
  "ret x c = (Inr x, c)"

definition fail :: "cmd_error \<Rightarrow> 'a cmd" where
  "fail e c = (Inl e, c)"

definition after :: "'a cmd \<Rightarrow> ('a \<Rightarrow> 'b cmd) \<Rightarrow> 'b cmd" where
  "after m f c = (case m c of (Inl e, c') \<Rightarrow> (Inl e, c') | (Inr x, c') \<Rightarrow> f x c')"

text \<open>One step after the other, for every element of a list.\<close>

fun each :: "('a \<Rightarrow> unit cmd) \<Rightarrow> 'a list \<Rightarrow> unit cmd" where
  "each f [] = ret ()"
| "each f (x # xs) = after (f x) (\<lambda>_. each f xs)"

definition Printf :: "string \<Rightarrow> parg list \<Rightarrow> unit cmd" where
  "Printf fmt args c = (Inr (), c\<lparr>cl_out := cl_out c @ [(fmt, args)]\<rparr>)"

definition Eprintf :: "string \<Rightarrow> parg list \<Rightarrow> unit cmd" where
  "Eprintf fmt args c = (Inr (), c\<lparr>cl_err := cl_err c @ [(fmt, args)]\<rparr>)"

definition the_world :: "world cmd" where
  "the_world c = (Inr (cl_world c), c)"

lemma ret_simp [simp]: "ret x c = (Inr x, c)"
  by (simp add: ret_def)

lemma fail_simp [simp]: "fail e c = (Inl e, c)"
  by (simp add: fail_def)

lemma the_world_simp [simp]: "the_world c = (Inr (cl_world c), c)"
  by (simp add: the_world_def)

lemma Printf_simp [simp]: "Printf fmt args c = (Inr (), c\<lparr>cl_out := cl_out c @ [(fmt, args)]\<rparr>)"
  by (simp add: Printf_def)

lemma Eprintf_simp [simp]: "Eprintf fmt args c = (Inr (), c\<lparr>cl_err := cl_err c @ [(fmt, args)]\<rparr>)"
  by (simp add: Eprintf_def)

lemma after_Inr: "m c = (Inr x, c') \<Longrightarrow> after m f c = f x c'"
  by (simp add: after_def)

lemma after_Inl: "m c = (Inl e, c') \<Longrightarrow> after m f c = (Inl e, c')"
  by (simp add: after_def)

lemma after_simps [simp]:
  "after (ret x) f c = f x c"
  "after (fail e) f c = (Inl e, c)"
  "after the_world g c = g (cl_world c) c"
  "after (Printf fmt args) h c = h () (c\<lparr>cl_out := cl_out c @ [(fmt, args)]\<rparr>)"
  "after (Eprintf fmt args) h c = h () (c\<lparr>cl_err := cl_err c @ [(fmt, args)]\<rparr>)"
  by (simp_all add: after_def)

lemma after_ResultE:
  assumes "after m f c = (Inr y, c'')"
  obtains x c' where "m c = (Inr x, c')" "f x c' = (Inr y, c'')"
  using assms by (auto simp: after_def split: prod.splits sum.splits)

section \<open>Key stores and the configuration file\<close>

definition load_keys :: "cli_env \<Rightarrow> string \<Rightarrow> KeyStore option cmd" where
  "load_keys E provider c =
     (let (r, s) = LoadKeys (ce_codec E) (ce_fresh E) (ce_loadNonce E) provider (cl_store c)
      in (case r of
            Inl e \<Rightarrow> Inl (Errorf ''failed to load keys for %q: %w'' [PStr provider, PStore e])
          | Inr st \<Rightarrow> Inr st, c\<lparr>cl_store := s\<rparr>))"

text \<open>The formats of the error differ between the callers.\<close>

definition save_with :: "cli_env \<Rightarrow> (store_error \<Rightarrow> cmd_error) \<Rightarrow> string \<Rightarrow> KeyStore \<Rightarrow> unit cmd" where
  "save_with E err provider store c =
     (let (r, s) = SaveKeys (ce_codec E) (ce_fresh E) (ce_saveNonce E) provider store (cl_store c)
      in (case r of Some e \<Rightarrow> Inl (err e) | None \<Rightarrow> Inr (), c\<lparr>cl_store := s\<rparr>))"

definition save_keys :: "cli_env \<Rightarrow> string \<Rightarrow> KeyStore \<Rightarrow> unit cmd" where
  "save_keys E provider =
     save_with E (\<lambda>e. Errorf ''failed to save keys for %q: %w'' [PStr provider, PStore e]) provider"

definition config_path :: "string \<Rightarrow> string cmd" where
  "config_path fmt c =
     (case XDGConfigPath (cl_world c) of
        None \<Rightarrow> (Inl (Errorf fmt [NoPath]), c)
      | Some path \<Rightarrow> (Inr path, c))"

text \<open>\<open>os.Stat\<close> succeeds on files that cannot be read; a missing file is what \<open>os.IsNotExist\<close> tests.\<close>

definition file_exists :: "string \<Rightarrow> world \<Rightarrow> bool" where
  "file_exists path w \<longleftrightarrow> w_files w path \<noteq> None"

definition load_toml :: "cli_env \<Rightarrow> string \<Rightarrow> (config_error + TomlConfig) cmd" where
  "load_toml E path c =
     (Inr (LoadTomlConfig (read_file (cl_world c)) (ce_tomlDecode E) path), c)"

text \<open>Loading the providers also writes the package variable \<open>DefaultProviderName\<close>.\<close>

definition load_providers :: "cli_env \<Rightarrow> string \<Rightarrow> (config_error + (string \<times> Config) list) cmd" where
  "load_providers E path c =
     (let (r, def) = LoadAllTomlProviders (read_file (cl_world c)) (ce_tomlDecode E) path
      in (Inr r, (case def of None \<Rightarrow> c | Some d \<Rightarrow> c\<lparr>cl_defaultName := d\<rparr>)))"

definition save_toml :: "cli_env \<Rightarrow> (save_error \<Rightarrow> cmd_error) \<Rightarrow> TomlConfig \<Rightarrow> string \<Rightarrow> unit cmd" where
  "save_toml E err tc path c =
     (let (r, w) = SaveTomlConfig (ce_tomlEncode E) tc path (cl_world c)
      in (case r of Some e \<Rightarrow> Inl (err e) | None \<Rightarrow> Inr (), on_cl_world (\<lambda>_. w) c))"

definition or_fail :: "(config_error \<Rightarrow> cmd_error) \<Rightarrow> config_error + 'a \<Rightarrow> 'a cmd" where
  "or_fail err r = (case r of Inl e \<Rightarrow> fail (err e) | Inr x \<Rightarrow> ret x)"

definition load_failed :: "config_error \<Rightarrow> cmd_error" where
  "load_failed e = Errorf ''failed to load config: %w'' [PConfig e]"

section \<open>Finding the server\<close>

definition adminPort :: int where
  "adminPort = 4000"

definition adminHost :: string where
  "adminHost = ''127.0.0.1''"

definition detectServerPort :: "cli_env \<Rightarrow> int cmd" where
  "detectServerPort E = after the_world (\<lambda>w.
     case XDGConfigPath w of
       None \<Rightarrow> ret adminPort
     | Some path \<Rightarrow> after (load_providers E path) (\<lambda>_.
         let p = FindServerPort (read_file w) (ce_tomlDecode E) path
         in ret (if 0 < p then p else adminPort)))"

definition detectServerHost :: "cli_env \<Rightarrow> string cmd" where
  "detectServerHost E = after the_world (\<lambda>w.
     case XDGConfigPath w of
       None \<Rightarrow> ret adminHost
     | Some path \<Rightarrow> after (load_providers E path) (\<lambda>_.
         let h = FindServerHost (read_file w) (ce_tomlDecode E) path
         in ret (if h \<noteq> '''' then h else adminHost)))"

text \<open>
  The token of a provider, or the first one that any provider has; a provider that is nil panics.
\<close>

fun any_token :: "(string \<times> Config option) list \<Rightarrow> string option" where
  "any_token [] = Some ''''"
| "any_token ((n, None) # ps) = None"
| "any_token ((n, Some p) # ps) =
     (if c_AdminToken (cf_Provider p) \<noteq> '''' then Some (c_AdminToken (cf_Provider p)) else any_token ps)"

datatype token_result = TokenPanic | TokenError "config_error option" | Token string

definition loadAdminToken :: "cli_env \<Rightarrow> string \<Rightarrow> world \<Rightarrow> token_result" where
  "loadAdminToken E provider w =
     (case XDGConfigPath w of
        None \<Rightarrow> TokenError None
      | Some path \<Rightarrow>
          (case LoadTomlConfig (read_file w) (ce_tomlDecode E) path of
             Inl e \<Rightarrow> (if \<not> file_exists path w then Token '''' else TokenError (Some e))
           | Inr tc \<Rightarrow>
               (if provider \<noteq> ''''
                then (case map_of (t_Provider tc) provider of
                        None \<Rightarrow> Token ''''
                      | Some None \<Rightarrow> TokenPanic
                      | Some (Some p) \<Rightarrow> Token (c_AdminToken (cf_Provider p)))
                else (case any_token (t_Provider tc) of None \<Rightarrow> TokenPanic | Some t \<Rightarrow> Token t))))"

section \<open>The client of the management API\<close>

record AdminClient =
  ad_timeout :: int
  ad_baseURL :: string
  ad_token :: string

definition base_url :: "string \<Rightarrow> int \<Rightarrow> string" where
  "base_url host port = ''http://'' @ host @ '':'' @ Itoa port"

definition NewAdminClient :: "cli_env \<Rightarrow> int \<Rightarrow> string \<Rightarrow> AdminClient cmd" where
  "NewAdminClient E timeout provider =
     after (detectServerPort E) (\<lambda>port.
     after (detectServerHost E) (\<lambda>host.
     after the_world (\<lambda>w.
       let client = (\<lambda>token. \<lparr>ad_timeout = timeout, ad_baseURL = base_url host port, ad_token = token\<rparr>)
       in case loadAdminToken E provider w of
            TokenPanic \<Rightarrow> fail Panicked
          | Token t \<Rightarrow> ret (client t)
          | TokenError e \<Rightarrow>
              after (Eprintf ''warning: failed to load admin token: %v''
                       [case e of None \<Rightarrow> NoPath | Some e \<Rightarrow> PConfig e])
                (\<lambda>_. ret (client '''')))))"

text \<open>
  A request that cannot be built, since its URL is malformed, counts as one without an answer; so do
  its callers. The token is set when there is one.
\<close>

definition Do_call :: "cli_env \<Rightarrow> AdminClient \<Rightarrow> api_call \<Rightarrow> (int \<times> bytes) option cmd" where
  "Do_call E client req c =
     (let call = (if ad_token client \<noteq> '''' then req\<lparr>ac_token := ad_token client\<rparr> else req);
          (r, w) = ce_server E call (cl_world c)
      in (Inr r, on_cl_world (\<lambda>_. w) c\<lparr>cl_sent := cl_sent c @ [call]\<rparr>))"

definition new_request :: "AdminClient \<Rightarrow> string \<Rightarrow> string \<Rightarrow> string \<Rightarrow> bytes option \<Rightarrow> api_call" where
  "new_request client verb path contentType body =
     \<lparr>ac_method = verb, ac_url = ad_baseURL client @ path, ac_type = contentType, ac_token = '''',
      ac_body = body, ac_timeout = ad_timeout client\<rparr>"

definition Get_path :: "cli_env \<Rightarrow> AdminClient \<Rightarrow> string \<Rightarrow> (int \<times> bytes) option cmd" where
  "Get_path E client path = Do_call E client (new_request client ''GET'' path '''' None)"

definition Post_path ::
    "cli_env \<Rightarrow> AdminClient \<Rightarrow> string \<Rightarrow> string \<Rightarrow> bytes option \<Rightarrow> (int \<times> bytes) option cmd" where
  "Post_path E client path contentType body =
     Do_call E client (new_request client ''POST'' path contentType body)"

text \<open>What most commands make of an answer: no answer, 401 or 403, another status, or 200.\<close>

definition answered :: "(int \<times> bytes) option \<Rightarrow> bytes cmd" where
  "answered r =
     (case r of
        None \<Rightarrow> fail NotReachable
      | Some (status, body) \<Rightarrow>
          (if status = 401 \<or> status = 403 then fail (AuthFailed status)
           else if status \<noteq> 200 then fail (ApiError status body)
           else ret body))"

text \<open>\<open>url.QueryEscape\<close> of the standard library.\<close>

definition unreserved :: "char \<Rightarrow> bool" where
  "unreserved c \<longleftrightarrow> (let n = of_char c :: nat in
     48 \<le> n \<and> n \<le> 57 \<or> 65 \<le> n \<and> n \<le> 90 \<or> 97 \<le> n \<and> n \<le> 122 \<or> c \<in> set ''-_.~'')"

definition upper_hex :: "nat \<Rightarrow> char" where
  "upper_hex n = (if n < 10 then char_of (48 + n) else char_of (55 + n))"

definition escape_byte :: "char \<Rightarrow> string" where
  "escape_byte c =
     (if unreserved c then [c]
      else if c = CHR '' '' then ''+''
      else [CHR ''%'', upper_hex (of_char c div 16), upper_hex (of_char c mod 16)])"

definition QueryEscape :: "string \<Rightarrow> string" where
  "QueryEscape s = concat (map escape_byte s)"

section \<open>Reloading\<close>

text \<open>A dash, in UTF-8.\<close>

definition long_dash :: string where
  "long_dash = [CHR 0xE2, CHR 0x80, CHR 0x94]"

text \<open>The result is whether the server has accepted the signal.\<close>

definition triggerReload :: "cli_env \<Rightarrow> bool cmd" where
  "triggerReload E =
     after (NewAdminClient E 3 '''') (\<lambda>client.
     after (Post_path E client ''/api/reload'' ''application/json'' None) (\<lambda>r.
       case r of
         None \<Rightarrow> ret False
       | Some (status, body) \<Rightarrow>
           (if status = 401 \<or> status = 403
            then after (Eprintf ''reload auth failed (HTTP %d): check X-Admin-Token in server config'' [PInt status])
                   (\<lambda>_. ret False)
            else if status \<noteq> 200
            then after (Eprintf ''reload failed (HTTP %d): %s'' [PInt status, PStr body]) (\<lambda>_. ret False)
            else ret True)))"

definition reloadCmd :: "cli_env \<Rightarrow> unit cmd" where
  "reloadCmd E = after (triggerReload E) (\<lambda>ok.
     if ok then Printf ''reload signal sent'' []
     else Eprintf (''server not running '' @ long_dash @ '' nothing to reload'') [])"

section \<open>The log level\<close>

definition dec_level_answer :: "string decoder" where
  "dec_level_answer = dec_struct [(''level'', dec_string)]"

definition show_level :: "int \<times> bytes \<Rightarrow> unit cmd" where
  "show_level r =
     (case Unmarshal dec_level_answer '''' (snd r) of
        None \<Rightarrow> fail (Errorf ''failed to parse response: %w'' [])
      | Some level \<Rightarrow> Printf ''%s'' [PStr level])"

definition logLevelCmd :: "cli_env \<Rightarrow> string option \<Rightarrow> unit cmd" where
  "logLevelCmd E arg =
     after (NewAdminClient E 5 '''') (\<lambda>client.
     let unreachable = fail (Errorf ''server not reachable at %s: %w'' [PStr (ad_baseURL client)])
     in case arg of
          None \<Rightarrow>
            after (Get_path E client ''/api/log-level'') (\<lambda>r.
              case r of None \<Rightarrow> unreachable | Some a \<Rightarrow> show_level a)
        | Some word \<Rightarrow>
            (let level = TrimSpace (ToLower word)
             in if \<not> IsValidLogLevel level
                then fail (Errorf ''invalid log level %q, use: debug, info, warn, error'' [PStr word])
                else
                  after (Post_path E client ''/api/log-level'' ''application/json''
                          (Some ([CHR ''{'', CHR 0x22] @ ''level'' @ [CHR 0x22, CHR '':'', CHR 0x22] @ level @
                                 [CHR 0x22, CHR ''}'']))) (\<lambda>r.
                    case r of None \<Rightarrow> unreachable | Some a \<Rightarrow> show_level a)))"

section \<open>What a command keeps\<close>

definition through :: "(cli \<Rightarrow> cli \<Rightarrow> bool) \<Rightarrow> 'a cmd \<Rightarrow> bool" where
  "through R m \<longleftrightarrow> (\<forall>c. R c (snd (m c)))"

lemma throughD: "through R m \<Longrightarrow> m c = (r, c') \<Longrightarrow> R c c'"
  by (auto simp: through_def dest: spec [of _ c])

text \<open>A relation between states that every composition of commands keeps.\<close>

locale command_relation =
  fixes R :: "cli \<Rightarrow> cli \<Rightarrow> bool"
  assumes same: "R c c"
    and chain: "R a b \<Longrightarrow> R b c \<Longrightarrow> R a c"
    and printing: "R c (c\<lparr>cl_out := out\<rparr>)" "R c (c\<lparr>cl_err := err\<rparr>)"
    and naming: "R c (c\<lparr>cl_defaultName := name\<rparr>)"
begin

lemma pure: "through R (ret x)" "through R (fail e)" "through R the_world"
  by (simp_all add: through_def same)

lemma printed: "through R (Printf fmt args)" "through R (Eprintf fmt args)"
  by (simp_all add: through_def printing)

lemma seq:
  assumes "through R m" and "\<And>x. through R (f x)"
  shows "through R (after m f)"
proof -
  have "R c (snd (after m f c))" for c
    using assms by (auto simp: through_def after_def split: prod.splits sum.splits)
      (metis snd_conv, metis chain snd_conv)
  then show ?thesis by (simp add: through_def)
qed

lemma loop: "(\<And>x. through R (f x)) \<Longrightarrow> through R (each f xs)"
  by (induction xs) (simp_all add: pure seq del: ret_simp)

lemma reading: "through R (load_toml E path)" "through R (load_providers E path)" "through R (config_path fmt)"
  "through R (or_fail err r)"
  by (auto simp: through_def load_toml_def load_providers_def config_path_def or_fail_def Let_def same naming
      split: prod.splits option.splits sum.splits)

lemma detecting: "through R (detectServerPort E)" "through R (detectServerHost E)"
  by (auto simp: detectServerPort_def detectServerHost_def Let_def split: option.splits
      intro!: seq pure reading)

lemma client: "through R (NewAdminClient E timeout provider)"
  by (auto simp: NewAdminClient_def Let_def split: token_result.splits intro!: seq pure printed detecting)

end

text \<open>Commands that send nothing and write no file.\<close>

interpretation store_kept: command_relation "\<lambda>c c'. cl_store c' = cl_store c"
  by unfold_locales simp_all

interpretation sent_kept: command_relation "\<lambda>c c'. cl_sent c' = cl_sent c"
  by unfold_locales simp_all

text \<open>
  Talking to the server leaves the store alone, but for what the server itself does to the files; with
  a server that does not write, what remains is the command's own effect.
\<close>

definition quiet_server :: "cli_env \<Rightarrow> bool" where
  "quiet_server E \<longleftrightarrow> (\<forall>q w. snd (ce_server E q w) = w)"

lemma on_cl_world_simps [simp]:
  "cl_store (on_cl_world f c) = on_world f (cl_store c)" "cl_out (on_cl_world f c) = cl_out c"
  "cl_err (on_cl_world f c) = cl_err c" "cl_sent (on_cl_world f c) = cl_sent c"
  "cl_defaultName (on_cl_world f c) = cl_defaultName c"
  by (simp_all add: on_cl_world_def)

lemma quiet_call: "quiet_server E \<Longrightarrow> through (\<lambda>c c'. cl_store c' = cl_store c) (Do_call E client q)"
  by (simp add: through_def Do_call_def Let_def quiet_server_def case_prod_beta)

lemma quiet_reload: "quiet_server E \<Longrightarrow> through (\<lambda>c c'. cl_store c' = cl_store c) (triggerReload E)"
  unfolding triggerReload_def Post_path_def
  by (intro store_kept.seq store_kept.client quiet_call)
    (simp_all add: store_kept.pure store_kept.printed store_kept.seq split: option.split prod.split)

end
