(* ===== verification/KeyCommands.thy ===== *)
theory KeyCommands
  imports Commands
begin

text \<open>
  The commands on keys (internal/cli/key.go). Arguments and flags come parsed by the cobra library:
  an absent optional argument or an unchanged flag is \<open>None\<close>. A store that does not exist is \<open>None\<close>.
\<close>

section \<open>Finding a key\<close>

definition findKeyIndexByName :: "KeyStore \<Rightarrow> string \<Rightarrow> cmd_error + nat" where
  "findKeyIndexByName store name =
     (case find_indices (\<lambda>e. e_Name e = name) store of
        [] \<Rightarrow> Inl (Errorf ''no key found with name %q'' [PStr name])
      | [i] \<Rightarrow> Inr i
      | is \<Rightarrow> Inl (Errorf ''multiple keys (%d) found with name %q, use index instead''
                     [PInt (int (length is)), PStr name]))"

definition resolveKeyIndex :: "KeyStore option \<Rightarrow> string \<Rightarrow> cmd_error + nat" where
  "resolveKeyIndex store keyID =
     (case store of
        None \<Rightarrow> Inl (Errorf ''no keys found for provider'' [])
      | Some st \<Rightarrow>
          (case findKeyIndexByName st keyID of
             Inr i \<Rightarrow> Inr i
           | Inl _ \<Rightarrow>
               (case Atoi keyID of
                  Some i \<Rightarrow>
                    (if i < 0 \<or> int (length st) \<le> i
                     then Inl (Errorf ''key index %d out of range (0-%d)'' [PInt i, PInt (int (length st) - 1)])
                     else Inr (nat i))
                | None \<Rightarrow> Inl (Errorf ''key %q not found by name or index'' [PStr keyID]))))"

text \<open>The index among the keys that are not deleted, which are the ones the server has.\<close>

definition storeIndexToPoolIndex :: "KeyStore \<Rightarrow> nat \<Rightarrow> nat" where
  "storeIndexToPoolIndex store idx = length (filter (\<lambda>e. \<not> e_Deleted e) (take idx store))"

definition lift_sum :: "cmd_error + 'a \<Rightarrow> 'a cmd" where
  "lift_sum r = (case r of Inl e \<Rightarrow> fail e | Inr x \<Rightarrow> ret x)"

definition key_desc :: "KeyEntry \<Rightarrow> string" where
  "key_desc e = MaskKey (e_Key e) @ (if e_Name e \<noteq> '''' then '' (name: '' @ e_Name e @ '')'' else '''')"

definition no_keys_for :: "string \<Rightarrow> cmd_error" where
  "no_keys_for provider = Errorf ''no keys found for provider %q'' [PStr provider]"

definition out_of_range :: "string \<Rightarrow> int \<Rightarrow> KeyStore \<Rightarrow> cmd_error" where
  "out_of_range provider idx store =
     Errorf ''index %d out of range: provider %q has %d keys (valid: 0-%d)''
       [PInt idx, PStr provider, PInt (int (length store)), PInt (int (length store) - 1)]"

definition is_deleted :: "int \<Rightarrow> cmd_error" where
  "is_deleted idx = Errorf ''key [%d] is deleted, use 'key restore' to recover it first'' [PInt idx]"

definition plain_save_failed :: "store_error \<Rightarrow> cmd_error" where
  "plain_save_failed e = Errorf ''failed to save keys: %w'' [PStore e]"

definition done_reload :: "cli_env \<Rightarrow> unit cmd" where
  "done_reload E = after (triggerReload E) (\<lambda>_. ret ())"

section \<open>Enabling and disabling\<close>

datatype KeyMutation = KeyEnable | KeyDisable

definition mutated :: "KeyMutation \<Rightarrow> KeyEntry \<Rightarrow> KeyEntry" where
  "mutated mut e = (case mut of KeyEnable \<Rightarrow> e\<lparr>e_Disabled := False\<rparr> | KeyDisable \<Rightarrow> e\<lparr>e_Disabled := True\<rparr>)"

definition mutation_message :: "KeyMutation \<Rightarrow> string" where
  "mutation_message mut =
     (case mut of KeyEnable \<Rightarrow> ''Enabled key [%d] %s for provider %q''
      | KeyDisable \<Rightarrow> ''Disabled key [%d] %s for provider %q'')"

definition updateKey :: "cli_env \<Rightarrow> string \<Rightarrow> int \<Rightarrow> KeyMutation \<Rightarrow> unit cmd" where
  "updateKey E provider idx mut =
     after (load_keys E provider) (\<lambda>st.
       case st of
         None \<Rightarrow> fail (no_keys_for provider)
       | Some store \<Rightarrow>
           (if idx < 0 \<or> int (length store) \<le> idx then fail (out_of_range provider idx store)
            else
              (let entry = store ! nat idx
               in if e_Deleted entry then fail (is_deleted idx)
                  else
                    after (save_keys E provider (store[nat idx := mutated mut entry])) (\<lambda>_.
                    after (Printf (mutation_message mut) [PInt idx, PStr (key_desc entry), PStr provider]) (\<lambda>_.
                    done_reload E)))))"

definition mutate_named :: "KeyMutation \<Rightarrow> cli_env \<Rightarrow> string \<Rightarrow> string \<Rightarrow> unit cmd" where
  "mutate_named mut E provider keyID =
     after (load_keys E provider) (\<lambda>st.
     after (lift_sum (resolveKeyIndex st keyID)) (\<lambda>idx. updateKey E provider (int idx) mut))"

definition keyDisableCmd :: "cli_env \<Rightarrow> string \<Rightarrow> string \<Rightarrow> unit cmd" where
  "keyDisableCmd = mutate_named KeyDisable"

definition keyEnableCmd :: "cli_env \<Rightarrow> string \<Rightarrow> string \<Rightarrow> unit cmd" where
  "keyEnableCmd = mutate_named KeyEnable"

section \<open>Adding and updating\<close>

definition warn_insecure :: "bool \<Rightarrow> unit cmd" where
  "warn_insecure insecure =
     (if insecure
      then after (Eprintf ''WARNING: API keys will be stored in plaintext (not encrypted).'' []) (\<lambda>_.
           after (Eprintf ''Use this only in CI or environments without a system keyring.'' []) (\<lambda>_.
           Eprintf ''Do not use this on a shared machine.'' []))
      else ret ())"

definition save_plain :: "string \<Rightarrow> KeyStore \<Rightarrow> unit cmd" where
  "save_plain provider store c =
     (let (r, w) = SaveKeysInsecure provider store (cl_world c)
      in (case r of
            Some e \<Rightarrow> Inl (Errorf ''failed to save keys for %q: %w'' [PStr provider, PStore e])
          | None \<Rightarrow> Inr (), on_cl_world (\<lambda>_. w) c))"

definition save_either :: "cli_env \<Rightarrow> bool \<Rightarrow> string \<Rightarrow> KeyStore \<Rightarrow> unit cmd" where
  "save_either E insecure provider store =
     (if insecure then save_plain provider store else save_keys E provider store)"

definition keyAddCmd :: "cli_env \<Rightarrow> string \<Rightarrow> string \<Rightarrow> string \<Rightarrow> bool \<Rightarrow> unit cmd" where
  "keyAddCmd E provider apiKey name insecure =
     after (warn_insecure insecure) (\<lambda>_.
     after (load_keys E provider) (\<lambda>st.
     let store = (case st of None \<Rightarrow> [] | Some s \<Rightarrow> s) @ [zeroEntry\<lparr>e_Key := apiKey, e_Name := name\<rparr>]
     in after (save_either E insecure provider store) (\<lambda>_.
        after (Printf ''Key added to provider %q (total: %d keys)'' [PStr provider, PInt (int (length store))]) (\<lambda>_.
        done_reload E))))"

definition keyUpdateCmd :: "cli_env \<Rightarrow> string \<Rightarrow> string \<Rightarrow> string option \<Rightarrow> string option \<Rightarrow> unit cmd" where
  "keyUpdateCmd E provider keyID newKey newName =
     after (load_keys E provider) (\<lambda>st.
       case st of
         None \<Rightarrow> fail (no_keys_for provider)
       | Some store \<Rightarrow>
           after (lift_sum (resolveKeyIndex st keyID)) (\<lambda>idx.
             if length store \<le> idx then fail (out_of_range provider (int idx) store)
             else if e_Deleted (store ! idx) then fail (is_deleted (int idx))
             else
               (let entry = store ! idx;
                    keyed = (case newKey of None \<Rightarrow> entry | Some k \<Rightarrow> entry\<lparr>e_Key := k\<rparr>);
                    named = (case newName of None \<Rightarrow> keyed | Some n \<Rightarrow> keyed\<lparr>e_Name := n\<rparr>)
                in after (case newKey of
                            None \<Rightarrow> ret ()
                          | Some k \<Rightarrow> Printf ''Updated key [%d] %s -> %s for provider %q''
                                       [PInt (int idx), PStr (MaskKey (e_Key entry)), PStr (MaskKey k), PStr provider]) (\<lambda>_.
                   after (case newName of
                            None \<Rightarrow> ret ()
                          | Some n \<Rightarrow> Printf ''Renamed key [%d] from %q to %q for provider %q''
                                       [PInt (int idx), PStr (e_Name entry), PStr n, PStr provider]) (\<lambda>_.
                   if newKey = None \<and> newName = None
                   then fail (Errorf ''nothing to update: provide a new key value or --name'' [])
                   else after (save_keys E provider (store[idx := named])) (\<lambda>_. done_reload E))))))"

section \<open>Importing\<close>

text \<open>
  The keys of a file, of the arguments, or of standard input; only those of standard input take the
  name of the flag when they have none.
\<close>

definition import_entries ::
    "cli_env \<Rightarrow> string list \<Rightarrow> string \<Rightarrow> string \<Rightarrow> world \<Rightarrow> cmd_error + KeyStore" where
  "import_entries E keyArgs filePath name w =
     (if filePath \<noteq> ''''
      then (case read_file w filePath of
              None \<Rightarrow> Inl (Errorf ''failed to read %q: %w'' [PStr filePath])
            | Some data \<Rightarrow>
                (case parseKeyEntries data of
                   Inl e \<Rightarrow> Inl (Errorf ''failed to parse %q: %w'' [PStr filePath, PImport e])
                 | Inr es \<Rightarrow> Inr es))
      else if keyArgs \<noteq> [] then Inr (map (\<lambda>k. zeroEntry\<lparr>e_Key := k, e_Name := name\<rparr>) keyArgs)
      else (case ce_stdin E of
              None \<Rightarrow> Inl (Errorf ''failed to read stdin: %w'' [])
            | Some data \<Rightarrow>
                (if data = []
                 then Inl (Errorf ''no input provided: specify keys as arguments, use --file, or pipe to stdin'' [])
                 else (case parseKeyEntries data of
                         Inl e \<Rightarrow> Inl (Errorf ''failed to parse stdin: %w'' [PImport e])
                       | Inr es \<Rightarrow>
                           Inr (if name \<noteq> ''''
                                then map (\<lambda>e. if e_Name e = '''' then e\<lparr>e_Name := name\<rparr> else e) es
                                else es)))))"

definition emptyToml :: TomlConfig where
  "emptyToml =
     \<lparr>t_Port = 0, t_Host = '''', t_DefaultProvider = '''', t_Default = None, t_CredentialsDir = '''',
      t_LogFile = '''', t_LogMaxSize = 0, t_LogMaxAge = 0, t_ErrorDumpMaxAge = 0, t_Provider = []\<rparr>"

definition put_toml_provider :: "string \<Rightarrow> Config option \<Rightarrow> TomlConfig \<Rightarrow> TomlConfig" where
  "put_toml_provider name p tc = tc\<lparr>t_Provider := AList.update name p (t_Provider tc)\<rparr>"

definition new_provider :: "string \<Rightarrow> Config" where
  "new_provider target =
     \<lparr>cf_Provider = zeroProviderConfig\<lparr>c_TargetBase := target\<rparr>, cf_Runtime = zeroRuntimeConfig\<rparr>"

definition add_created :: "cli_env \<Rightarrow> string \<Rightarrow> string \<Rightarrow> string \<Rightarrow> TomlConfig \<Rightarrow> unit cmd" where
  "add_created E provider target path tc =
     (if target = ''''
      then fail (Errorf ''--target is required when --create creates a new provider'' [])
      else
        after (save_toml E (\<lambda>e. Errorf ''failed to save config with new provider: %w'' [PSave e])
                 (put_toml_provider provider (Some (new_provider target)) tc) path) (\<lambda>_.
        Printf ''Created provider %q with target %q'' [PStr provider, PStr target]))"

definition create_provider :: "cli_env \<Rightarrow> string \<Rightarrow> string \<Rightarrow> unit cmd" where
  "create_provider E provider target =
     after (config_path ''failed to determine config path: %w'') (\<lambda>path.
     after the_world (\<lambda>w.
     after (load_toml E path) (\<lambda>r.
       case r of
         Inl e \<Rightarrow>
           (if file_exists path w then fail (load_failed e)
            else add_created E provider target path emptyToml)
       | Inr tc \<Rightarrow>
           (if map_of (t_Provider tc) provider \<noteq> None then ret ()
            else add_created E provider target path tc))))"

text \<open>The two marks of the report, in UTF-8, and the names in brackets.\<close>

definition tick_mark :: string where
  "tick_mark = [CHR 0xE2, CHR 0x9C, CHR 0x85]"

definition skip_mark :: string where
  "skip_mark = [CHR 0xE2, CHR 0x8F, CHR 0xAD, CHR 0xEF, CHR 0xB8, CHR 0x8F]"

fun joined :: "string \<Rightarrow> string list \<Rightarrow> string" where
  "joined sep [] = ''''"
| "joined sep [t] = t"
| "joined sep (t # ts) = t @ sep @ joined sep ts"

definition name_list :: "KeyStore \<Rightarrow> string" where
  "name_list new =
     (let names = filter (\<lambda>n. n \<noteq> '''') (map e_Name new)
      in if names \<noteq> [] then '' ('' @ joined '', '' names @ '')'' else '''')"

definition import_report :: "string \<Rightarrow> KeyStore \<Rightarrow> KeyStore \<Rightarrow> nat \<Rightarrow> KeyStore \<Rightarrow> unit cmd" where
  "import_report provider found new skipped store =
     after (Printf ''Imported %d key(s) to provider %q'' [PInt (int (length found)), PStr provider]) (\<lambda>_.
     after (Printf (''  '' @ tick_mark @ '' Added: %d%s'') [PInt (int (length new)), PStr (name_list new)]) (\<lambda>_.
     after (if 0 < skipped
            then Printf (''  '' @ skip_mark @ ''  Skipped: %d (already exists)'') [PInt (int skipped)]
            else ret ()) (\<lambda>_.
     Printf ''  Total: %d keys'' [PInt (int (length store))])))"

definition import_found :: "cli_env \<Rightarrow> string \<Rightarrow> bool \<Rightarrow> KeyStore \<Rightarrow> unit cmd" where
  "import_found E provider insecure found =
     after (load_keys E provider) (\<lambda>st.
     let store = (case st of None \<Rightarrow> [] | Some s \<Rightarrow> s);
         found = autoNumberNames found store;
         (new, skipped) = dedupEntries found store
     in after (save_either E insecure provider (store @ new)) (\<lambda>_.
        after (import_report provider found new skipped (store @ new)) (\<lambda>_.
        done_reload E)))"

definition keyImportCmd ::
    "cli_env \<Rightarrow> string \<Rightarrow> string list \<Rightarrow> string \<Rightarrow> string \<Rightarrow> bool \<Rightarrow> string \<Rightarrow> bool \<Rightarrow> unit cmd" where
  "keyImportCmd E provider keyArgs filePath name insecure target create =
     after the_world (\<lambda>w.
     after (lift_sum (import_entries E keyArgs filePath name w)) (\<lambda>found.
       if found = [] then fail (Errorf ''no keys to import'' [])
       else
         after (warn_insecure insecure) (\<lambda>_.
         after (if create then create_provider E provider target else ret ()) (\<lambda>_.
         import_found E provider insecure found))))"

section \<open>Removing, restoring, purging\<close>

definition no_such_index :: "nat \<Rightarrow> cmd_error" where
  "no_such_index idx = Errorf ''index %d out of range'' [PInt (int idx)]"

definition keyRemoveCmd :: "cli_env \<Rightarrow> string \<Rightarrow> string \<Rightarrow> unit cmd" where
  "keyRemoveCmd E provider keyID =
     after (load_keys E provider) (\<lambda>st.
     after (lift_sum (resolveKeyIndex st keyID)) (\<lambda>idx.
       case st of
         None \<Rightarrow> fail (no_such_index idx)
       | Some store \<Rightarrow>
           (if length store \<le> idx then fail (no_such_index idx)
            else
              after (save_with E plain_save_failed provider (store[idx := (store ! idx)\<lparr>e_Deleted := True\<rparr>])) (\<lambda>_.
              after (Printf ''Deleted key [%d] %s for provider %q (use 'key restore' to undo)''
                       [PInt (int idx), PStr (key_desc (store ! idx)), PStr provider]) (\<lambda>_.
              done_reload E)))))"

definition keyRestoreCmd :: "cli_env \<Rightarrow> string \<Rightarrow> string \<Rightarrow> unit cmd" where
  "keyRestoreCmd E provider keyID =
     after (load_keys E provider) (\<lambda>st.
     after (lift_sum (resolveKeyIndex st keyID)) (\<lambda>idx.
       case st of
         None \<Rightarrow> fail (no_such_index idx)
       | Some store \<Rightarrow>
           (if length store \<le> idx then fail (no_such_index idx)
            else if \<not> e_Deleted (store ! idx)
            then fail (Errorf ''key [%d] is not deleted'' [PInt (int idx)])
            else
              after (save_with E plain_save_failed provider (store[idx := (store ! idx)\<lparr>e_Deleted := False\<rparr>])) (\<lambda>_.
              after (Printf ''Restored key [%d] %s for provider %q''
                       [PInt (int idx), PStr (key_desc (store ! idx)), PStr provider]) (\<lambda>_.
              done_reload E)))))"

definition keyPurgeCmd :: "cli_env \<Rightarrow> string \<Rightarrow> unit cmd" where
  "keyPurgeCmd E provider =
     after (load_keys E provider) (\<lambda>st.
       case st of
         None \<Rightarrow> fail (no_keys_for provider)
       | Some store \<Rightarrow>
           (let remaining = filter (\<lambda>e. \<not> e_Deleted e) store;
                purged = length (filter e_Deleted store)
            in if purged = 0 then Printf ''No deleted keys to purge for provider %q'' [PStr provider]
               else
                 after (save_with E plain_save_failed provider remaining) (\<lambda>_.
                 after (Printf ''Purged %d deleted key(s) from provider %q (remaining: %d)''
                          [PInt (int purged), PStr provider, PInt (int (length remaining))]) (\<lambda>_.
                 done_reload E))))"

section \<open>Showing and exporting\<close>

definition key_status :: "KeyEntry \<Rightarrow> string" where
  "key_status e = (if e_Deleted e then ''deleted'' else if e_Disabled e then ''disabled'' else ''active'')"

definition named_line :: "string \<Rightarrow> string" where
  "named_line name = (if name \<noteq> '''' then ''  name: '' @ name else '''')"

definition list_line :: "nat \<times> KeyEntry \<Rightarrow> unit cmd" where
  "list_line ie =
     Printf ''  [%d] %s  (%s)%s''
       [PInt (int (fst ie)), PStr (MaskKey (e_Key (snd ie))), PStr (key_status (snd ie)),
        PStr (named_line (e_Name (snd ie)))]"

definition list_store :: "cli_env \<Rightarrow> string \<Rightarrow> bool \<Rightarrow> unit cmd" where
  "list_store E provider showAll =
     after (load_keys E provider) (\<lambda>st.
       case st of
         None \<Rightarrow> Printf ''No keys found for provider %q'' [PStr provider]
       | Some store \<Rightarrow>
           (if store = [] then Printf ''No keys found for provider %q'' [PStr provider]
            else
              after (Printf ''Keys for provider %q:'' [PStr provider]) (\<lambda>_.
              each list_line (filter (\<lambda>(i, e). \<not> e_Deleted e \<or> showAll) (enumerate 0 store)))))"

definition write_out :: "string \<Rightarrow> bytes \<Rightarrow> unit cmd" where
  "write_out path data c =
     (let (r, w) = write_file path data (cl_world c)
      in (case r of Some e \<Rightarrow> Inl (Errorf ''failed to write %q: %w'' [PStr path, PStore e]) | None \<Rightarrow> Inr (),
          on_cl_world (\<lambda>_. w) c))"

definition keyExportCmd :: "cli_env \<Rightarrow> string \<Rightarrow> string \<Rightarrow> unit cmd" where
  "keyExportCmd E provider outputPath =
     after (load_keys E provider) (\<lambda>st.
       case st of
         None \<Rightarrow> fail (no_keys_for provider)
       | Some store \<Rightarrow>
           (if store = [] then fail (no_keys_for provider)
            else if outputPath \<noteq> ''''
            then
              after the_world (\<lambda>w.
              after (if file_exists outputPath w
                     then Eprintf ''WARNING: %s already exists, overwriting'' [PStr outputPath] else ret ()) (\<lambda>_.
              after (write_out outputPath (marshal_indent store)) (\<lambda>_.
              Printf ''Exported %d keys for provider %q to %s''
                [PInt (int (length store)), PStr provider, PStr outputPath])))
            else Printf ''%s'' [PStr (marshal_indent store)]))"

section \<open>Commands that the server carries out\<close>

definition on_error :: "'a cmd \<Rightarrow> (cmd_error \<Rightarrow> 'a cmd) \<Rightarrow> 'a cmd" where
  "on_error m h c =
     (case m c of
        (Inl e, c') \<Rightarrow> (if e = Panicked then (Inl e, c') else h e c')
      | r \<Rightarrow> r)"

definition resetUpstreamCB :: "cli_env \<Rightarrow> string \<Rightarrow> unit cmd" where
  "resetUpstreamCB E provider =
     after (NewAdminClient E 5 provider) (\<lambda>client.
     after (Post_path E client (''/api/stats/reset-upstream-cb?provider='' @ QueryEscape provider)
              ''application/json'' None) (\<lambda>r.
     after (answered r) (\<lambda>_. ret ())))"

definition keyUpstreamCBResetCmd :: "cli_env \<Rightarrow> string \<Rightarrow> unit cmd" where
  "keyUpstreamCBResetCmd E provider =
     after (Eprintf ''WARNING: 'key upstream-cb-reset' is deprecated, use 'provider upstream-cb-reset' instead'' [])
       (\<lambda>_. resetUpstreamCB E provider)"

text \<open>The path of an operation on the key with a number; the numbers start at 1.\<close>

definition key_path :: "string \<Rightarrow> int \<Rightarrow> string \<Rightarrow> string" where
  "key_path provider idx operation =
     ''/api/keys/'' @ Itoa idx @ ''/'' @ operation @ ''?provider='' @ QueryEscape provider"

definition callKeyRuntimeAPI :: "cli_env \<Rightarrow> string \<Rightarrow> int \<Rightarrow> string \<Rightarrow> unit cmd" where
  "callKeyRuntimeAPI E provider idx operation =
     after (NewAdminClient E 5 provider) (\<lambda>client.
     after (Do_call E client
              (if operation = ''cooldown''
               then new_request client ''PUT'' (key_path provider idx operation) ''application/json'' (Some ''{}'')
               else new_request client ''POST'' (key_path provider idx operation) ''application/json'' None)) (\<lambda>r.
     after (answered r) (\<lambda>_. ret ())))"

definition keyCooldownCmd :: "cli_env \<Rightarrow> string \<Rightarrow> string \<Rightarrow> unit cmd" where
  "keyCooldownCmd E provider keyID =
     after (load_keys E provider) (\<lambda>st.
     after (lift_sum (resolveKeyIndex st keyID)) (\<lambda>idx.
       case st of
         None \<Rightarrow> fail Panicked
       | Some store \<Rightarrow>
           (if length store \<le> idx then fail (out_of_range provider (int idx) store)
            else if e_Deleted (store ! idx) then fail (is_deleted (int idx))
            else
              on_error (callKeyRuntimeAPI E provider (int (storeIndexToPoolIndex store idx) + 1) ''cooldown'')
                (\<lambda>e. fail (Errorf (''server not running '' @ long_dash @
                                   '' start akswitch to use runtime cooldown: %w'') [PErr e])))))"

section \<open>Live status\<close>

text \<open>\<open>[]map[string]interface{}\<close>: null is the nil slice, and a null element a nil map.\<close>

definition dec_objects :: "bytes \<Rightarrow> (string \<times> json) list list option" where
  "dec_objects body =
     (case Option.bind (json_parse body) to_interface of
        Some (JArr js) \<Rightarrow>
          those (map (\<lambda>j. case j of JObj ms \<Rightarrow> Some ms | JNull \<Rightarrow> Some [] | _ \<Rightarrow> None) js)
      | Some JNull \<Rightarrow> Some []
      | _ \<Rightarrow> None)"

definition obj_string :: "string \<Rightarrow> (string \<times> json) list \<Rightarrow> string" where
  "obj_string k ms = (case map_of ms k of Some (JStr s) \<Rightarrow> s | _ \<Rightarrow> '''')"

definition obj_float :: "string \<Rightarrow> (string \<times> json) list \<Rightarrow> float64 option" where
  "obj_float k ms = (case map_of ms k of Some (JNum lit) \<Rightarrow> ParseFloat lit | _ \<Rightarrow> None)"

definition runtime_line :: "(string \<times> json) list \<Rightarrow> unit cmd" where
  "runtime_line k =
     (case (obj_float ''index'' k, obj_float ''requests_1m'' k) of
        (Some idx, Some rpm) \<Rightarrow>
          Printf ''  [%d] %s  (%s, %d rpm)%s''
            [PInt (wrap64 (float_to_int64 idx - 1)), PStr (obj_string ''key'' k), PStr (obj_string ''status'' k),
             PInt (float_to_int64 rpm), PStr (named_line (obj_string ''name'' k))]
      | _ \<Rightarrow> ret ())"

definition keyListRuntime :: "cli_env \<Rightarrow> string \<Rightarrow> unit cmd" where
  "keyListRuntime E provider =
     after (NewAdminClient E 5 provider) (\<lambda>client.
     after (Get_path E client (''/api/keys?provider='' @ QueryEscape provider)) (\<lambda>r.
     after (answered r) (\<lambda>body.
       case dec_objects body of
         None \<Rightarrow> fail (Errorf ''failed to parse response: %w'' [])
       | Some keys \<Rightarrow>
           (if keys = [] then Printf ''No keys found for provider %q'' [PStr provider]
            else after (Printf ''Keys for provider %q (runtime):'' [PStr provider]) (\<lambda>_.
                 each runtime_line keys)))))"

definition keyListCmd :: "cli_env \<Rightarrow> string \<Rightarrow> bool \<Rightarrow> bool \<Rightarrow> unit cmd" where
  "keyListCmd E provider runtime showAll =
     (if runtime then keyListRuntime E provider else list_store E provider showAll)"

end
