(* ===== verification/CommandEffects.thy ===== *)
theory CommandEffects
  imports KeyCommands
begin

text \<open>
  What the commands on keys do to the stored keys. A command line whose store reads as a certain list
  of entries \<open>holds\<close> it; each command that changes the store is described by the list it leaves behind
  when it succeeds. The server that it signals is one that writes no files itself.
\<close>

section \<open>The stored keys\<close>

definition holds :: "cli_env \<Rightarrow> string \<Rightarrow> KeyStore \<Rightarrow> cli \<Rightarrow> bool" where
  "holds E provider store c \<longleftrightarrow>
     LoadEncrypted (ce_codec E) (ce_fresh E) provider (cl_store c) = (Inr (Some store), cl_store c)"

definition cli_ready :: "cli_env \<Rightarrow> bool" where
  "cli_ready E \<longleftrightarrow> codec_ok (ce_codec E) \<and> length (ce_saveNonce E) = 12 \<and> quiet_server E"

lemma LoadEncrypted_state: "snd (LoadEncrypted C fresh provider s) = snd (getMasterKey fresh s)"
  by (auto simp: LoadEncrypted_def split: prod.split sum.split option.split node.split)

lemma LoadEncrypted_cached:
  assumes "LoadEncrypted C fresh provider s = (r, s)"
  shows "LoadEncrypted C fresh' provider s = (r, s)"
proof -
  have "snd (getMasterKey fresh s) = s" using assms LoadEncrypted_state [of C fresh provider s] by simp
  then obtain m where m: "s_master s = Some m"
    using getMasterKey_cached [OF refl, of fresh s] by auto
  then show ?thesis using assms by (simp add: LoadEncrypted_def getMasterKey_again)
qed

lemma holds_any: "holds E provider store c \<Longrightarrow>
    LoadEncrypted (ce_codec E) fresh provider (cl_store c) = (Inr (Some store), cl_store c)"
  by (auto simp: holds_def intro: LoadEncrypted_cached)

lemma holds_load: "holds E provider store c \<Longrightarrow> load_keys E provider c = (Inr (Some store), c)"
  by (simp add: holds_def load_keys_def LoadKeys_def)

lemma holds_after: "holds E provider store c \<Longrightarrow> after (load_keys E provider) f c = f (Some store) c"
  by (simp add: after_def holds_load)

lemma holds_store: "cl_store c' = cl_store c \<Longrightarrow> holds E provider store c' = holds E provider store c"
  by (simp add: holds_def)

lemma save_holds_clean:
  assumes "cli_ready E" and "save_with E err provider store c = (Inr (), c')"
  shows "holds E provider (map clean_entry store) c'"
proof -
  have "SaveKeys (ce_codec E) (ce_fresh E) (ce_saveNonce E) provider store (cl_store c) = (None, cl_store c')"
    using assms(2) by (auto simp: save_with_def Let_def split: prod.splits option.splits)
  with SaveKeys_LoadEncrypted [of "ce_codec E" "ce_saveNonce E"] assms(1)
  show ?thesis by (simp add: holds_def cli_ready_def)
qed

lemma save_holds:
  "cli_ready E \<Longrightarrow> list_all valid_entry store \<Longrightarrow> save_with E err provider store c = (Inr (), c') \<Longrightarrow>
     holds E provider store c'"
  using save_holds_clean [of E err provider store c c'] by (simp add: clean_valid)

lemma done_reload_keeps:
  assumes "cli_ready E" and "done_reload E c = (r, c')"
  shows "cl_store c' = cl_store c"
proof -
  have "through (\<lambda>c c'. cl_store c' = cl_store c) (done_reload E)"
    unfolding done_reload_def using assms(1)
    by (intro store_kept.seq quiet_reload store_kept.pure) (simp add: cli_ready_def)
  with assms(2) show ?thesis by (rule throughD [rotated])
qed

text \<open>How every editing command ends: it saves, prints and signals the server.\<close>

lemma saved_and_signalled:
  assumes "cli_ready E" and "list_all valid_entry store"
    and "after (save_with E err provider store) (\<lambda>_. after (Printf fmt args) (\<lambda>_. done_reload E)) c = (Inr (), c')"
  shows "holds E provider store c'"
proof -
  obtain c1 where c1: "save_with E err provider store c = (Inr (), c1)"
      "done_reload E (c1\<lparr>cl_out := cl_out c1 @ [(fmt, args)]\<rparr>) = (Inr (), c')"
    using assms(3) by (auto elim!: after_ResultE)
  from done_reload_keeps [OF assms(1) c1(2)] save_holds [OF assms(1,2) c1(1)]
  show ?thesis by (simp add: holds_def)
qed

section \<open>Finding a key\<close>

lemma findKeyIndexByName_Inr:
  assumes "findKeyIndexByName store name = Inr i"
  shows "i < length store" and "e_Name (store ! i) = name"
    and "j < length store \<Longrightarrow> e_Name (store ! j) = name \<Longrightarrow> j = i"
proof -
  have "find_indices (\<lambda>e. e_Name e = name) store = [i]"
    using assms by (auto simp: findKeyIndexByName_def split: list.splits)
  then have s: "{k. k < length store \<and> e_Name (store ! k) = name} = {i}"
    using set_find_indices [of "\<lambda>e. e_Name e = name" store] by simp
  from s show "i < length store" "e_Name (store ! i) = name" by blast+
  from s show "j < length store \<Longrightarrow> e_Name (store ! j) = name \<Longrightarrow> j = i" by blast
qed

lemma resolveKeyIndex_bound: "resolveKeyIndex (Some store) keyID = Inr i \<Longrightarrow> i < length store"
  by (auto simp: resolveKeyIndex_def dest: findKeyIndexByName_Inr(1) split: sum.splits option.splits if_splits)

lemma resolveKeyIndex_names:
  "map e_Name store' = map e_Name store \<Longrightarrow> resolveKeyIndex (Some store') keyID = resolveKeyIndex (Some store) keyID"
proof -
  assume m: "map e_Name store' = map e_Name store"
  have names: "find_indices (\<lambda>e. e_Name e = n) st = find_indices (\<lambda>x. x = n) (map e_Name st)" for n st
    by (auto simp: find_indices_def intro!: filter_cong)
  have len: "length store' = length store" using m by (rule map_eq_imp_length_eq)
  show ?thesis unfolding resolveKeyIndex_def findKeyIndexByName_def names m option.case len ..
qed

lemma resolveKeyIndex_update:
  "e_Name e = e_Name (store ! i) \<Longrightarrow> resolveKeyIndex (Some (store[i := e])) keyID = resolveKeyIndex (Some store) keyID"
  by (rule resolveKeyIndex_names) (metis list_update_id map_update)

text \<open>The index on the server is the one of the same key.\<close>

lemma storeIndexToPoolIndex_key:
  assumes "i < length store" and "\<not> e_Deleted (store ! i)"
  shows "storeIndexToPoolIndex store i < length (fst (keysFromStore store))"
    and "fst (keysFromStore store) ! storeIndexToPoolIndex store i = e_Key (store ! i)"
    and "snd (keysFromStore store) ! storeIndexToPoolIndex store i = e_Name (store ! i)"
proof -
  let ?P = "\<lambda>e. \<not> e_Deleted e"
  have "filter ?P store = filter ?P (take i store) @ store ! i # filter ?P (drop (Suc i) store)"
    using assms by (metis append_Cons append_Nil append_take_drop_id Cons_nth_drop_Suc filter.simps(2) filter_append)
  then show "storeIndexToPoolIndex store i < length (fst (keysFromStore store))"
    and "fst (keysFromStore store) ! storeIndexToPoolIndex store i = e_Key (store ! i)"
    and "snd (keysFromStore store) ! storeIndexToPoolIndex store i = e_Name (store ! i)"
    by (simp_all add: keysFromStore_def storeIndexToPoolIndex_def Let_def nth_append)
qed

lemma lift_sum_after: "after (lift_sum r) f c = (Inr y, c') \<longleftrightarrow> (\<exists>x. r = Inr x \<and> f x c = (Inr y, c'))"
  by (cases r) (simp_all add: lift_sum_def)

lemma valid_update: "list_all valid_entry store \<Longrightarrow> valid_entry e \<Longrightarrow> list_all valid_entry (store[i := e])"
  using set_update_subset_insert [of store i e] by (auto simp: list_all_iff)

lemma valid_entry_flags [simp]:
  "valid_entry (e\<lparr>e_Disabled := b\<rparr>) = valid_entry e" "valid_entry (e\<lparr>e_Deleted := b\<rparr>) = valid_entry e"
  by (simp_all add: valid_entry_def)

lemma valid_mutated [simp]: "valid_entry (mutated mut e) = valid_entry e"
  by (cases mut) (simp_all add: mutated_def)

lemma valid_nth: "list_all valid_entry store \<Longrightarrow> i < length store \<Longrightarrow> valid_entry (store ! i)"
  by (simp add: list_all_length)

section \<open>The effect of the commands\<close>

lemma mutate_effect:
  assumes "cli_ready E" and "list_all valid_entry store" and "holds E provider store c"
    and "mutate_named mut E provider keyID c = (Inr (), c')"
  obtains i where "resolveKeyIndex (Some store) keyID = Inr i" and "i < length store"
    and "\<not> e_Deleted (store ! i)" and "holds E provider (store[i := mutated mut (store ! i)]) c'"
proof -
  obtain i where i: "resolveKeyIndex (Some store) keyID = Inr i" "updateKey E provider (int i) mut c = (Inr (), c')"
    using assms(4) by (auto simp: mutate_named_def holds_after [OF assms(3)] lift_sum_after)
  have b: "i < length store" using i(1) by (rule resolveKeyIndex_bound)
  have nd: "\<not> e_Deleted (store ! i)"
    using i(2) b by (auto simp: updateKey_def holds_after [OF assms(3)] Let_def split: if_splits)
  let ?store = "store[i := mutated mut (store ! i)]"
  have "after (save_keys E provider ?store)
      (\<lambda>_. after (Printf (mutation_message mut) [PInt (int i), PStr (key_desc (store ! i)), PStr provider]) (\<lambda>_. done_reload E)) c
      = (Inr (), c')"
    using i(2) b nd by (simp add: updateKey_def holds_after [OF assms(3)] Let_def)
  then have "holds E provider ?store c'"
    unfolding save_keys_def
    by (rule saved_and_signalled [OF assms(1), rotated]) (simp add: valid_update valid_nth assms(2) b)
  with i(1) b nd show ?thesis by (rule that)
qed

lemma remove_effect:
  assumes "cli_ready E" and "list_all valid_entry store" and "holds E provider store c"
    and "keyRemoveCmd E provider keyID c = (Inr (), c')"
  obtains i where "resolveKeyIndex (Some store) keyID = Inr i" and "i < length store"
    and "holds E provider (store[i := (store ! i)\<lparr>e_Deleted := True\<rparr>]) c'"
proof -
  note l = holds_after [OF assms(3)]
  obtain i where i: "resolveKeyIndex (Some store) keyID = Inr i"
    using assms(4) by (auto simp: keyRemoveCmd_def l lift_sum_after)
  have b: "i < length store" using i(1) by (rule resolveKeyIndex_bound)
  have "holds E provider (store[i := (store ! i)\<lparr>e_Deleted := True\<rparr>]) c'"
    using assms(4) i b by (intro saved_and_signalled [OF assms(1)])
      (auto simp: keyRemoveCmd_def l lift_sum_def valid_update valid_nth assms(2))
  with i b show ?thesis by (rule that)
qed

lemma restore_effect:
  assumes "cli_ready E" and "list_all valid_entry store" and "holds E provider store c"
    and "keyRestoreCmd E provider keyID c = (Inr (), c')"
  obtains i where "resolveKeyIndex (Some store) keyID = Inr i" and "i < length store" and "e_Deleted (store ! i)"
    and "holds E provider (store[i := (store ! i)\<lparr>e_Deleted := False\<rparr>]) c'"
proof -
  note l = holds_after [OF assms(3)]
  obtain i where i: "resolveKeyIndex (Some store) keyID = Inr i"
    using assms(4) by (auto simp: keyRestoreCmd_def l lift_sum_after)
  have b: "i < length store" using i(1) by (rule resolveKeyIndex_bound)
  have d: "e_Deleted (store ! i)"
    using assms(4) i b by (auto simp: keyRestoreCmd_def l lift_sum_def split: if_splits)
  have "holds E provider (store[i := (store ! i)\<lparr>e_Deleted := False\<rparr>]) c'"
    using assms(4) i b d by (intro saved_and_signalled [OF assms(1)])
      (auto simp: keyRestoreCmd_def l lift_sum_def valid_update valid_nth assms(2))
  with i b d show ?thesis by (rule that)
qed

lemma purge_effect:
  assumes "cli_ready E" and "list_all valid_entry store" and "holds E provider store c"
    and "keyPurgeCmd E provider c = (Inr (), c')"
  shows "holds E provider (filter (\<lambda>e. \<not> e_Deleted e) store) c'"
proof (cases "filter e_Deleted store = []")
  case True
  then have "filter (\<lambda>e. \<not> e_Deleted e) store = store" by (simp add: filter_empty_conv)
  with assms(3,4) True show ?thesis
    by (auto simp: keyPurgeCmd_def holds_after [OF assms(3)] Let_def holds_def)
next
  case False
  then show ?thesis
    using assms(2,4) by (intro saved_and_signalled [OF assms(1)])
      (auto simp: keyPurgeCmd_def holds_after [OF assms(3)] Let_def list_all_iff)
qed

section \<open>Adding and importing\<close>

lemma through_keeps: "through (\<lambda>c c'. cl_store c' = cl_store c) m \<Longrightarrow> m c = (r, c') \<Longrightarrow> cl_store c' = cl_store c"
  by (rule throughD)

lemma warn_keeps: "through (\<lambda>c c'. cl_store c' = cl_store c) (warn_insecure insecure)"
  by (simp add: warn_insecure_def store_kept.seq store_kept.printed store_kept.pure)

lemma report_keeps: "through (\<lambda>c c'. cl_store c' = cl_store c) (import_report provider es new skipped store)"
  by (simp add: import_report_def store_kept.seq store_kept.printed store_kept.pure)

lemma add_effect:
  assumes "cli_ready E" and "load_keys E provider c = (Inr st, c1)"
    and "keyAddCmd E provider apiKey name False c = (Inr (), c')"
  shows "holds E provider (map clean_entry ((case st of None \<Rightarrow> [] | Some s \<Rightarrow> s) @
           [zeroEntry\<lparr>e_Key := apiKey, e_Name := name\<rparr>])) c'"
proof -
  let ?store = "(case st of None \<Rightarrow> [] | Some s \<Rightarrow> s) @ [zeroEntry\<lparr>e_Key := apiKey, e_Name := name\<rparr>]"
  obtain c2 out where c2: "save_keys E provider ?store c1 = (Inr (), c2)"
      "done_reload E (c2\<lparr>cl_out := out\<rparr>) = (Inr (), c')"
    using assms(2,3) by (auto simp: keyAddCmd_def warn_insecure_def save_either_def Let_def elim!: after_ResultE)
  from done_reload_keeps [OF assms(1) c2(2)] save_holds_clean [OF assms(1) c2(1) [unfolded save_keys_def]]
  show ?thesis by (simp add: holds_def)
qed

text \<open>Writing the configuration file does not touch the keys.\<close>

lemma LoadEncrypted_other_file:
  assumes "s_master s = Some r" and "encryptedFilePath (s_world s) provider \<noteq> Some path"
  shows "LoadEncrypted C fresh provider (on_world (\<lambda>w. w\<lparr>w_files := (w_files w)(path := f)\<rparr>) s) =
    (fst (LoadEncrypted C fresh provider s), on_world (\<lambda>w. w\<lparr>w_files := (w_files w)(path := f)\<rparr>) s)"
proof -
  have "encryptedFilePath (s_world s\<lparr>w_files := (w_files (s_world s))(path := f)\<rparr>) provider =
      encryptedFilePath (s_world s) provider" by (simp add: encryptedFilePath_def keys_path_def)
  with assms show ?thesis
    by (cases r) (auto simp: LoadEncrypted_def getMasterKey_again split: option.splits node.splits sum.splits)
qed

lemma config_write_holds:
  assumes "holds E provider store c" and "XDGConfigPath (cl_world c) = Some path"
    and "save_toml E err tc path c = (Inr (), c')"
  shows "holds E provider store c'"
proof -
  obtain dir where dir: "w_configDir (cl_world c) = Some dir" "path = dir @ ''/config.toml''"
    using assms(2) by (auto simp: XDGConfigPath_def)
  obtain data where d: "cl_store c' = on_world (\<lambda>w. w\<lparr>w_files := (w_files w)(path := Some (Content data))\<rparr>) (cl_store c)"
    using assms(3) by (auto simp: save_toml_def SaveTomlConfig_def write_file_def Let_def split: option.splits if_splits)
  obtain r where r: "s_master (cl_store c) = Some r"
    using assms(1) LoadEncrypted_state [of "ce_codec E" "ce_fresh E" provider "cl_store c"]
      getMasterKey_cached [OF refl, of "ce_fresh E" "cl_store c"] by (auto simp: holds_def)
  have "encryptedFilePath (cl_world c) provider \<noteq> Some path"
    using dir by (simp add: encryptedFilePath_def keys_path_def)
  with assms(1) d LoadEncrypted_other_file [OF r this, of "ce_codec E" "ce_fresh E" "Some (Content data)"]
  show ?thesis by (simp add: holds_def)
qed

lemma create_keeps:
  assumes "holds E provider store c" and "create_provider E name target c = (Inr (), c')"
  shows "holds E provider store c'"
proof -
  obtain path where path: "XDGConfigPath (cl_world c) = Some path"
    using assms(2) by (auto simp: create_provider_def config_path_def elim!: after_ResultE split: option.splits)
  have add: "holds E provider store c'" if "add_created E name target path tc c = (Inr (), c')" for tc
  proof -
    have "target \<noteq> ''''" using that by (auto simp: add_created_def)
    with that have "after (save_toml E (\<lambda>e. Errorf ''failed to save config with new provider: %w'' [PSave e])
        (put_toml_provider name (Some (new_provider target)) tc) path)
        (\<lambda>_. Printf ''Created provider %q with target %q'' [PStr name, PStr target]) c = (Inr (), c')"
      by (simp add: add_created_def)
    then obtain c1 where c1: "save_toml E (\<lambda>e. Errorf ''failed to save config with new provider: %w'' [PSave e])
        (put_toml_provider name (Some (new_provider target)) tc) path c = (Inr (), c1)" "cl_store c' = cl_store c1"
      by (rule after_ResultE) auto
    from config_write_holds [OF assms(1) path c1(1)] c1(2) show ?thesis by (simp add: holds_def)
  qed
  have "create_provider E name target c = (case LoadTomlConfig (read_file (cl_world c)) (ce_tomlDecode E) path of
         Inl e \<Rightarrow> (if file_exists path (cl_world c) then fail (load_failed e) c
                   else add_created E name target path emptyToml c)
       | Inr tc \<Rightarrow> (if map_of (t_Provider tc) name \<noteq> None then ret () c else add_created E name target path tc c))"
    using path by (auto simp: create_provider_def config_path_def load_toml_def after_def split: sum.split)
  with assms add show ?thesis by (auto split: sum.splits if_splits)
qed

lemma import_effect:
  assumes "cli_ready E" and "holds E provider store c"
    and "keyImportCmd E provider keyArgs filePath name False target create c = (Inr (), c')"
  obtains found new skipped where "import_entries E keyArgs filePath name (cl_world c) = Inr found"
    and "dedupEntries (autoNumberNames found store) store = (new, skipped)"
    and "holds E provider (map clean_entry (store @ new)) c'"
proof -
  obtain found where found: "import_entries E keyArgs filePath name (cl_world c) = Inr found" "found \<noteq> []"
    using assms(3) by (auto simp: keyImportCmd_def lift_sum_after split: if_splits)
  obtain new skipped where d: "dedupEntries (autoNumberNames found store) store = (new, skipped)" by force
  have "after (if create then create_provider E provider target else ret ()) (\<lambda>_. import_found E provider False found) c
      = (Inr (), c')"
    using assms(3) found by (simp add: keyImportCmd_def lift_sum_def warn_insecure_def)
  then obtain c1 where c1: "(if create then create_provider E provider target else ret ()) c = (Inr (), c1)"
      "import_found E provider False found c1 = (Inr (), c')" by (rule after_ResultE) simp
  have h: "holds E provider store c1"
    using c1(1) assms(2) create_keeps [OF assms(2), of provider target c1] by (auto split: if_splits)
  have "after (save_keys E provider (store @ new)) (\<lambda>_.
      after (import_report provider (autoNumberNames found store) new skipped (store @ new)) (\<lambda>_. done_reload E)) c1
      = (Inr (), c')"
    using c1(2) by (simp add: import_found_def holds_after [OF h] d save_either_def Let_def)
  then obtain c2 c3 where s: "save_keys E provider (store @ new) c1 = (Inr (), c2)"
      "import_report provider (autoNumberNames found store) new skipped (store @ new) c2 = (Inr (), c3)"
      "done_reload E c3 = (Inr (), c')" by (elim after_ResultE) simp
  have "holds E provider (map clean_entry (store @ new)) c'"
    using save_holds_clean [OF assms(1) s(1) [unfolded save_keys_def]]
      through_keeps [OF report_keeps s(2)] done_reload_keeps [OF assms(1) s(3)] by (simp add: holds_def)
  with found(1) d show ?thesis by (rule that)
qed

text \<open>A change of the flags other than \<open>deleted\<close> does not show in the pool's keys.\<close>

lemma keysFromStore_update:
  "i < length store \<Longrightarrow> e_Deleted e = e_Deleted (store ! i) \<Longrightarrow> e_Key e = e_Key (store ! i) \<Longrightarrow>
     e_Name e = e_Name (store ! i) \<Longrightarrow> keysFromStore (store[i := e]) = keysFromStore store"
proof (induction store arbitrary: i)
  case (Cons a store)
  then show ?case by (cases i) (auto simp: keysFromStore_def Let_def)
qed simp

section \<open>The plain file\<close>

lemma SaveKeys_other_file:
  assumes "s_master s = Some m" and "encryptedFilePath (s_world s) provider = Some path"
    and "other \<noteq> path" and "other \<noteq> path @ ''.tmp''"
  shows "w_files (s_world (snd (SaveKeys C fresh nonce provider store s))) other = w_files (s_world s) other"
    and "w_configDir (s_world (snd (SaveKeys C fresh nonce provider store s))) = w_configDir (s_world s)"
  using assms by (auto simp: SaveKeys_def SaveEncrypted_def getMasterKey_again write_file_def rename_file_def
      remove_file_def removeFromKeyring_def Let_def split: sum.split option.split)

lemma SaveKeys_plain:
  assumes "s_master s = Some m"
  shows "loadInsecureFile provider (s_world (snd (SaveKeys C fresh nonce provider store s))) =
    loadInsecureFile provider (s_world s)"
proof (cases "w_configDir (s_world s)")
  case None
  then have "s_world (snd (SaveKeys C fresh nonce provider store s)) = s_world s"
    by (simp add: SaveKeys_def SaveEncrypted_def getMasterKey_again [OF assms] encryptedFilePath_def keys_path_def
        split: sum.split)
  then show ?thesis by simp
next
  case (Some dir)
  then have path: "encryptedFilePath (s_world s) provider = Some (dir @ ''/keys/'' @ provider @ ''.enc'')"
    by (simp add: encryptedFilePath_def keys_path_def)
  show ?thesis
    using SaveKeys_other_file [OF assms path, of "dir @ ''/keys/'' @ provider @ ''.json''" C fresh nonce store] Some
    by (simp add: loadInsecureFile_def insecureKeysPath_def keys_path_def LoadFullStore_def)
qed

lemma holds_master: "holds E provider store c \<Longrightarrow> \<exists>m. s_master (cl_store c) = Some m"
  using LoadEncrypted_state [of "ce_codec E" "ce_fresh E" provider "cl_store c"]
    getMasterKey_cached [OF refl, of "ce_fresh E" "cl_store c"] by (auto simp: holds_def)

lemma purge_plain:
  assumes "cli_ready E" and "holds E name store c" and "keyPurgeCmd E name c = (Inr (), c')"
  shows "loadInsecureFile name (cl_world c') = loadInsecureFile name (cl_world c)"
proof (cases "filter e_Deleted store = []")
  case True
  with assms(2,3) show ?thesis by (auto simp: keyPurgeCmd_def holds_after [OF assms(2)] Let_def)
next
  case False
  obtain m where m: "s_master (cl_store c) = Some m" using holds_master [OF assms(2)] by blast
  obtain c1 out where c1: "save_with E plain_save_failed name (filter (\<lambda>e. \<not> e_Deleted e) store) c = (Inr (), c1)"
      "done_reload E (c1\<lparr>cl_out := out\<rparr>) = (Inr (), c')"
    using assms(3) False by (auto simp: keyPurgeCmd_def holds_after [OF assms(2)] Let_def elim!: after_ResultE)
  have "loadInsecureFile name (cl_world c1) = loadInsecureFile name (cl_world c)"
    using c1(1) SaveKeys_plain [OF m, of name "ce_codec E" "ce_fresh E" "ce_saveNonce E" "filter (\<lambda>e. \<not> e_Deleted e) store"]
    by (auto simp: save_with_def Let_def split: prod.splits option.splits)
  with done_reload_keeps [OF assms(1) c1(2)] show ?thesis by simp
qed

end
