(* ===== verification/ConfigCommands.thy ===== *)
theory ConfigCommands
  imports CommandEffects
begin

text \<open>
  The commands on the configuration file (internal/cli/config.go): \<open>config init\<close>, \<open>view\<close>, \<open>list\<close>, \<open>get\<close>
  and \<open>set\<close>. Arguments and flags come parsed; an argument that is absent is \<open>None\<close>.
\<close>

section \<open>Values of fields\<close>

definition at_least_minus_one :: "ConfigFieldDescriptor \<Rightarrow> int" where
  "at_least_minus_one fd = (if 0 \<le> fd_MinInt fd then fd_MinInt fd else - 1)"

definition validateFieldRange :: "ConfigFieldDescriptor \<Rightarrow> string \<Rightarrow> cmd_error + unit" where
  "validateFieldRange fd valueStr =
     (case Parse fd valueStr of
        Inl e \<Rightarrow> Inl (Errorf ''validateFieldRange: invalid --%s value: %w'' [PStr (fd_Key fd), PField e])
      | Inr v \<Rightarrow>
          (case v of
             VInt i \<Rightarrow>
               (if i < at_least_minus_one fd
                then Inl (Errorf ''--%s must be >= %d'' [PStr (fd_Key fd), PInt (at_least_minus_one fd)]) else Inr ())
           | VFloat f \<Rightarrow>
               (if float_lt f (Fin 1) then Inl (Errorf ''--%s must be >= %g'' [PStr (fd_Key fd), PFloat (Fin 1)])
                else Inr ())
           | _ \<Rightarrow> Inr ()))"

text \<open>The keys that the source maps to fields; \<open>buffer_mode\<close> is none of them.\<close>

definition readFieldFromProviderConfig :: "ProviderConfig \<Rightarrow> ConfigFieldDescriptor \<Rightarrow> field_error + fvalue" where
  "readFieldFromProviderConfig p fd =
     (case map_of
        [(''target'', VStr (c_TargetBase p)), (''cooldown_sec'', VInt (c_CooldownSec p)),
         (''max_retries'', VInt (c_MaxRetries p)), (''backoff_cap_sec'', VInt (c_BackoffCapSec p)),
         (''backoff_multiplier'', VFloat (c_BackoffMultiplier p)), (''cb_reset_sec'', VInt (c_CBResetSec p)),
         (''upstream_cb_threshold'', VInt (c_UpstreamCBThreshold p)),
         (''http_timeout_sec'', VInt (c_HTTPTimeoutSec p)), (''log_level'', VStr (c_LogLevel p)),
         (''health_check_interval_sec'', VInt (c_HealthCheckIntervalSec p)),
         (''admin_token'', VStr (c_AdminToken p)), (''genai_model'', VStr (c_GenaiModel p)),
         (''keys_file'', VStr (c_KeysFile p)), (''key_selection'', VStr (c_KeySelection p)),
         (''rectify_thinking_map_to'', VStr (c_RectifyThinkingMapTo p)),
         (''thinking_mode'', VStr (c_ThinkingMode p))] (fd_Key fd) of
        Some v \<Rightarrow> Inr v
      | None \<Rightarrow> ParseDefault fd)"

definition getMergedFieldValue ::
    "(string \<times> Config) list \<Rightarrow> string \<Rightarrow> ConfigFieldDescriptor \<Rightarrow> field_error + fvalue" where
  "getMergedFieldValue providers provider fd =
     (case map_of providers provider of
        Some p \<Rightarrow> readFieldFromProviderConfig (cf_Provider p) fd
      | None \<Rightarrow> ParseDefault fd)"

definition getGlobalFieldValue :: "TomlConfig \<Rightarrow> ConfigFieldDescriptor \<Rightarrow> field_error + fvalue" where
  "getGlobalFieldValue tc fd =
     (if fd_Key fd = ''port'' then Inr (VInt (t_Port tc))
      else if fd_Key fd = ''log_file'' then Inr (VStr (t_LogFile tc))
      else ParseDefault fd)"

text \<open>A value of the wrong type panics, as does formatting the nil that comes with an error.\<close>

definition maskSensitiveValue :: "ConfigFieldDescriptor \<Rightarrow> field_error + fvalue \<Rightarrow> string option" where
  "maskSensitiveValue fd v =
     (if fd_Key fd = ''admin_token''
      then Some (case v of Inr (VStr s) \<Rightarrow> if s \<noteq> '''' then ''(set)'' else ''(not set)'' | _ \<Rightarrow> ''(not set)'')
      else (case v of Inr x \<Rightarrow> Format fd x | Inl e \<Rightarrow> None))"

definition show_value :: "string \<Rightarrow> parg list \<Rightarrow> ConfigFieldDescriptor \<Rightarrow> field_error + fvalue \<Rightarrow> unit cmd" where
  "show_value fmt args fd v =
     (case maskSensitiveValue fd v of None \<Rightarrow> fail Panicked | Some t \<Rightarrow> Printf fmt (args @ [PStr t]))"

definition show_field :: "ConfigFieldDescriptor \<Rightarrow> field_error + fvalue \<Rightarrow> unit cmd" where
  "show_field fd v = show_value ''  %-30s %s'' [PStr (fd_DisplayName fd @ '':'')] fd v"

definition fields_of :: "FieldScope \<Rightarrow> ConfigFieldDescriptor list" where
  "fields_of scope = filter (\<lambda>fd. fd_Scope fd = scope) reflectBuildDescriptors"

definition show_provider :: "(string \<times> Config) list \<Rightarrow> string \<Rightarrow> unit cmd" where
  "show_provider providers name =
     each (\<lambda>fd. show_field fd (getMergedFieldValue providers name fd)) (fields_of FieldScopeProvider)"

section \<open>Creating and showing the file\<close>

definition example_provider :: "string \<Rightarrow> int \<Rightarrow> int \<Rightarrow> Config" where
  "example_provider target cooldown retries =
     \<lparr>cf_Provider = zeroProviderConfig\<lparr>c_TargetBase := target, c_CooldownSec := cooldown, c_MaxRetries := retries\<rparr>,
      cf_Runtime = zeroRuntimeConfig\<rparr>"

definition example_toml :: TomlConfig where
  "example_toml = emptyToml
     \<lparr>t_Port := 4000,
      t_Provider := [(''example-a'', Some (example_provider ''https://api.example-a.com/v1'' 60 3)),
                     (''example-b'', Some (example_provider ''https://api.example-b.com/v1'' 30 5))],
      t_Default := Some \<lparr>cf_Provider = zeroProviderConfig\<lparr>c_MaxRetries := 2, c_CooldownSec := 15,
                           c_LogLevel := ''info''\<rparr>, cf_Runtime = zeroRuntimeConfig\<rparr>\<rparr>"

text \<open>\<open>filepath.Dir\<close> of a clean path.\<close>

definition dir_of :: "string \<Rightarrow> string" where
  "dir_of path =
     (case LastIndexByte path (CHR ''/'') of
        None \<Rightarrow> ''.'' | Some i \<Rightarrow> if i = 0 then ''/'' else take i path)"

definition make_dir :: "string \<Rightarrow> unit cmd" where
  "make_dir path =
     after the_world (\<lambda>w.
       if w_canMkdir w then ret ()
       else fail (Errorf ''failed to create config directory %s: %w'' [PStr (dir_of path), PStore MkdirError]))"

definition configInitCmd :: "cli_env \<Rightarrow> string \<Rightarrow> unit cmd" where
  "configInitCmd E pathFlag =
     after (if pathFlag = '''' then config_path ''failed to determine XDG config path: %w'' else ret pathFlag) (\<lambda>path.
     after the_world (\<lambda>w.
       if file_exists path w
       then fail (Errorf ''config file already exists at %s (remove it first or use --path to specify a different location)''
                    [PStr path])
       else
         after (make_dir path) (\<lambda>_.
         after (save_toml E (\<lambda>e. Errorf ''failed to write config file: %w'' [PSave e]) example_toml path) (\<lambda>_.
         after (Printf ''Example configuration written to %s'' [PStr path]) (\<lambda>_.
         after (Printf ''Edit the file to add your providers, then run:'' []) (\<lambda>_.
         after (Printf ''  akswitch key add <provider> <api-key>  # to add API keys'' []) (\<lambda>_.
         Printf ''  akswitch start                         # to start the proxy'' [])))))))"

definition loading_failed :: "config_error \<Rightarrow> cmd_error" where
  "loading_failed e = Errorf ''failed to load configuration: %w'' [PConfig e]"

definition configViewCmd :: "cli_env \<Rightarrow> unit cmd" where
  "configViewCmd E =
     after (config_path ''failed to determine XDG config path: %w'') (\<lambda>path.
     after the_world (\<lambda>w.
       if \<not> file_exists path w then fail (Errorf ''no configuration file found (looked at %s)'' [PStr path])
       else
         after (load_toml E path) (\<lambda>r. after (or_fail loading_failed r) (\<lambda>tc.
         after (load_providers E path) (\<lambda>r. after (or_fail loading_failed r) (\<lambda>providers.
         after (Printf ''Configuration source: %s'' [PStr path]) (\<lambda>_.
         after (each (\<lambda>fd. show_field fd (getGlobalFieldValue tc fd)) (fields_of FieldScopeGlobal)) (\<lambda>_.
         each (\<lambda>(name, p). after (Printf ''--- Provider: %s ---'' [PStr name]) (\<lambda>_. show_provider providers name))
           providers))))))))"

definition no_providers :: cmd_error where
  "no_providers = Errorf ''no providers configured'' []"

definition list_names :: "bool \<Rightarrow> string option \<Rightarrow> (string \<times> Config) list \<Rightarrow> cmd_error + string list" where
  "list_names all target merged =
     (let names = sort (map fst merged)
      in if all then (if names = [] then Inl no_providers else Inr names)
         else (case target of
                 Some t \<Rightarrow>
                   (if t \<noteq> '''' then Inr [t] else if names = [] then Inl no_providers else Inr [hd names])
               | None \<Rightarrow> (if names = [] then Inl no_providers else Inr [hd names])))"

definition configListCmd :: "cli_env \<Rightarrow> string option \<Rightarrow> bool \<Rightarrow> unit cmd" where
  "configListCmd E target all =
     after (config_path ''failed to determine config path: %w'') (\<lambda>path.
     after the_world (\<lambda>w.
     after (if file_exists path w
            then after (load_providers E path) (or_fail (\<lambda>e. Errorf ''failed to load providers: %w'' [PConfig e]))
            else ret []) (\<lambda>merged.
     after (lift_sum (list_names all target merged)) (\<lambda>names.
     each (\<lambda>name.
       after (Printf ''Provider: %s'' [PStr name]) (\<lambda>_. after (Printf '''' []) (\<lambda>_. show_provider merged name)))
       names))))"

definition unknown_key :: "string \<Rightarrow> cmd_error" where
  "unknown_key key = Errorf ''unknown config key %q (use 'config list' to see available keys)'' [PStr key]"

definition needs_provider :: "string \<Rightarrow> cmd_error" where
  "needs_provider key = Errorf ''%s requires a provider name (or --all)'' [PStr key]"

definition merged_failed :: "config_error \<Rightarrow> cmd_error" where
  "merged_failed e = Errorf ''failed to load merged providers: %w'' [PConfig e]"

text \<open>
  With \<open>--all\<close> the names are those in the file, the section \<open>default\<close> among them, while the values are
  those of the merged providers.
\<close>

definition configGetCmd :: "cli_env \<Rightarrow> string \<Rightarrow> string option \<Rightarrow> bool \<Rightarrow> unit cmd" where
  "configGetCmd E key provider all =
     (case FindField key of
        None \<Rightarrow> fail (unknown_key key)
      | Some fd \<Rightarrow>
          (if all
           then
             after (config_path ''failed to determine config path: %w'') (\<lambda>path.
             after (load_toml E path) (\<lambda>r. after (or_fail load_failed r) (\<lambda>tc.
             after (load_providers E path) (\<lambda>r. after (or_fail merged_failed r) (\<lambda>merged.
             each (\<lambda>p. show_value ''%s: %s'' [PStr p] fd (getMergedFieldValue merged p fd))
               (sort (map fst (t_Provider tc))))))))
           else if fd_Scope fd = FieldScopeProvider
           then (case provider of
                   None \<Rightarrow> fail (needs_provider key)
                 | Some p \<Rightarrow>
                     after (config_path ''failed to determine config path: %w'') (\<lambda>path.
                     after (load_providers E path) (\<lambda>r. after (or_fail merged_failed r) (\<lambda>merged.
                     show_value ''%s'' [] fd (getMergedFieldValue merged p fd)))))
           else
             after (config_path ''failed to determine config path: %w'') (\<lambda>path.
             after (load_toml E path) (\<lambda>r. after (or_fail load_failed r) (\<lambda>tc.
             show_value ''%s'' [] fd (getGlobalFieldValue tc fd))))))"

section \<open>Setting a value\<close>

definition persist_into ::
    "cli_env \<Rightarrow> string \<Rightarrow> string \<Rightarrow> ConfigFieldDescriptor \<Rightarrow> fvalue \<Rightarrow> TomlConfig \<Rightarrow> unit cmd" where
  "persist_into E path provider fd v tc =
     (case (case fd_Scope fd of
              FieldScopeProvider \<Rightarrow>
                (let targetConfig = (case map_of (t_Provider tc) provider of
                        None \<Rightarrow> Some \<lparr>cf_Provider = zeroProviderConfig, cf_Runtime = zeroRuntimeConfig\<rparr> | Some p \<Rightarrow> p)
                 in map_option (\<lambda>(tc', c'). put_toml_provider provider c' (case tc' of Some t \<Rightarrow> t | None \<Rightarrow> tc))
                      (Persist fd v (Some tc) targetConfig))
            | FieldScopeGlobal \<Rightarrow>
                map_option (\<lambda>(tc', c'). case tc' of Some t \<Rightarrow> t | None \<Rightarrow> tc) (Persist fd v (Some tc) None)) of
        None \<Rightarrow> fail Panicked
      | Some tc' \<Rightarrow>
          after (make_dir path) (\<lambda>_. save_toml E (\<lambda>e. Errorf ''%w'' [PSave e]) tc' path))"

definition persistFieldToToml :: "cli_env \<Rightarrow> string \<Rightarrow> ConfigFieldDescriptor \<Rightarrow> fvalue \<Rightarrow> unit cmd" where
  "persistFieldToToml E provider fd v =
     after (config_path ''persistFieldToToml: %w'') (\<lambda>path.
     after the_world (\<lambda>w.
     after (load_toml E path) (\<lambda>r.
       case r of
         Inl e \<Rightarrow>
           (if file_exists path w then fail (Errorf ''persistFieldToToml: %w'' [PConfig e])
            else persist_into E path provider fd v emptyToml)
       | Inr tc \<Rightarrow> persist_into E path provider fd v tc)))"

text \<open>
  The value as \<open>json.Marshal\<close> writes it: integers go through float64. A value that JSON cannot express
  makes the body empty, since the error is ignored.
\<close>

definition float_json :: "float64 \<Rightarrow> string option" where
  "float_json f =
     (case f of
        Fin x \<Rightarrow>
          (let sign = (if x < 0 then ''-'' else ''''); (ds, dp) = shortest \<bar>x\<bar>
           in Some (if x = 0 then ''0''
                    else if \<bar>x\<bar> < Rectifier.pow10 (- 6) \<or> Rectifier.pow10 21 \<le> \<bar>x\<bar> then sign @ layout_exp ds dp
                    else sign @ layout_fixed ds dp))
      | _ \<Rightarrow> None)"

definition value_json :: "fvalue \<Rightarrow> json option" where
  "value_json v =
     (case v of
        VInt i \<Rightarrow> map_option JNum (float_json (float_of_int i))
      | VFloat f \<Rightarrow> map_option JNum (float_json f)
      | VStr s \<Rightarrow> Some (JStr s)
      | VBool b \<Rightarrow> Some (JBool b))"

definition runtime_payload :: "ConfigFieldDescriptor \<Rightarrow> fvalue \<Rightarrow> bytes" where
  "runtime_payload fd v =
     (case value_json v of
        None \<Rightarrow> [] | Some j \<Rightarrow> json_print (JObj [(''key'', JStr (fd_Key fd)), (''value'', j)]))"

definition runtime_path :: "string \<Rightarrow> string" where
  "runtime_path provider =
     ''/api/runtime-config'' @
     (if provider \<noteq> '''' \<and> provider \<noteq> ''all'' then ''?provider='' @ QueryEscape provider
      else if provider = ''all'' then ''?provider=all'' else '''')"

definition applyRuntimeField :: "cli_env \<Rightarrow> string \<Rightarrow> ConfigFieldDescriptor \<Rightarrow> fvalue \<Rightarrow> unit cmd" where
  "applyRuntimeField E provider fd v =
     after (NewAdminClient E 5 provider) (\<lambda>client.
     after (Post_path E client (runtime_path provider) ''application/json'' (Some (runtime_payload fd v))) (\<lambda>r.
     after (answered r) (\<lambda>_. ret ())))"

text \<open>
  Whether the text of an error contains \<open>not reachable\<close>; the body of an answer may contain it, too.
\<close>

fun mentions_unreachable :: "cmd_error \<Rightarrow> bool" where
  "mentions_unreachable NotReachable = True"
| "mentions_unreachable (ApiError status body) = Contains body ''not reachable''"
| "mentions_unreachable _ = False"

definition apply_or_warn :: "cli_env \<Rightarrow> ConfigFieldDescriptor \<Rightarrow> fvalue \<Rightarrow> string \<Rightarrow> unit cmd" where
  "apply_or_warn E fd v provider =
     on_error (applyRuntimeField E provider fd v) (\<lambda>e.
       if mentions_unreachable e
       then Eprintf (''warning: TOML updated but server not reachable '' @ long_dash @
                     '' runtime change will apply on next start'') []
       else fail e)"

definition set_target :: "ConfigFieldDescriptor \<Rightarrow> string \<Rightarrow> string option \<Rightarrow> bool \<Rightarrow> cmd_error + string" where
  "set_target fd key provider all =
     (if fd_Scope fd = FieldScopeProvider
      then (if all then Inr ''all''
            else (case provider of Some p \<Rightarrow> Inr p | None \<Rightarrow> Inl (needs_provider key)))
      else Inr '''')"

definition set_providers :: "cli_env \<Rightarrow> ConfigFieldDescriptor \<Rightarrow> string \<Rightarrow> string list cmd" where
  "set_providers E fd provider =
     (if provider = ''all''
      then
        after (config_path ''failed to determine config path: %w'') (\<lambda>path.
        after (load_toml E path) (\<lambda>r. after (or_fail load_failed r) (\<lambda>tc.
          if t_Provider tc = [] then fail (Errorf ''no providers configured for --all'' [])
          else ret (sort (map fst (t_Provider tc))))))
      else if fd_Scope fd = FieldScopeProvider
      then
        after (config_path ''failed to determine config path: %w'') (\<lambda>path.
        after (load_toml E path) (\<lambda>r. after (or_fail load_failed r) (\<lambda>tc.
          if map_of (t_Provider tc) provider = None
          then fail (Errorf (''provider %q not found in config '' @ long_dash @ '' run 'provider add' first'')
                       [PStr provider])
          else ret [provider])))
      else ret [provider])"

definition configSetCmd :: "cli_env \<Rightarrow> string \<Rightarrow> string \<Rightarrow> string option \<Rightarrow> bool \<Rightarrow> bool \<Rightarrow> unit cmd" where
  "configSetCmd E key valueStr provider all runtimeOnly =
     (case FindField key of
        None \<Rightarrow> fail (unknown_key key)
      | Some fd \<Rightarrow>
          (case Parse fd valueStr of
             Inl e \<Rightarrow> fail (Errorf ''invalid value for %s: %w'' [PStr key, PField e])
           | Inr parsed \<Rightarrow>
               after (lift_sum (validateFieldRange fd valueStr)) (\<lambda>_.
                 if fd_ReadOnly fd
                 then fail (Errorf (''%s cannot be changed at runtime '' @ long_dash @
                                    '' edit the TOML config file and reload'') [PStr key])
                 else
                   after (lift_sum (set_target fd key provider all)) (\<lambda>target.
                   after (set_providers E fd target) (\<lambda>ps.
                   after (if runtimeOnly then ret () else each (\<lambda>p. persistFieldToToml E p fd parsed) ps) (\<lambda>_.
                   after (if fd_Scope fd = FieldScopeProvider \<and> fd_RuntimeEditable fd
                          then each (apply_or_warn E fd parsed) ps else ret ()) (\<lambda>_.
                   (case Format fd parsed of
                      None \<Rightarrow> fail Panicked
                    | Some t \<Rightarrow>
                        after (Printf ''set %s = %s'' [PStr key, PStr t]) (\<lambda>_.
                        Printf (if runtimeOnly then '' (runtime only)'' else '' (persisted)'') [])))))))))"

end
