(* ===== verification/ProviderCommands.thy ===== *)
theory ProviderCommands
  imports ConfigCommands
begin

text \<open>
  The commands on providers (internal/cli/provider.go): \<open>provider add\<close>, \<open>list\<close>, \<open>remove\<close>, \<open>default\<close>,
  \<open>update\<close> and \<open>info\<close>. Some flags are read off the command line itself, \<open>ce_args\<close>, rather than from the
  parser.
\<close>

section \<open>Flags on the command line\<close>

definition flagShortName :: "string \<Rightarrow> string" where
  "flagShortName name =
     (if name = ''target'' then ''t'' else if name = ''cooldown-sec'' then ''c''
      else if name = ''max-retries'' then ''r'' else '''')"

text \<open>The value of an argument of the form \<open>--name=value\<close>.\<close>

definition inline_value :: "string \<Rightarrow> string \<Rightarrow> string option" where
  "inline_value name a =
     (if length name + 2 < length a \<and> take 2 a = ''--''
      then (case split2 (CHR ''='') (drop 2 a) of
              (n, Some v) \<Rightarrow> if n \<noteq> '''' \<and> n = name then Some v else None
            | (n, None) \<Rightarrow> None)
      else None)"

definition hasCLIFlag :: "string list \<Rightarrow> string \<Rightarrow> bool" where
  "hasCLIFlag args name \<longleftrightarrow>
     list_ex (\<lambda>a. a = ''--'' @ name \<or> a = ''-'' @ flagShortName name \<or> inline_value name a \<noteq> None) args"

fun flag_value :: "string \<Rightarrow> string list \<Rightarrow> string" where
  "flag_value name [] = ''''"
| "flag_value name (a # rest) =
     (case inline_value name a of
        Some v \<Rightarrow> v
      | None \<Rightarrow>
          (if (a = ''--'' @ name \<or> a = ''-'' @ flagShortName name) \<and> rest \<noteq> [] then hd rest
           else flag_value name rest))"

definition getCLIFlagValue :: "string list \<Rightarrow> string \<Rightarrow> string" where
  "getCLIFlagValue args name = flag_value name args"

definition default_flag :: "cli_env \<Rightarrow> bool" where
  "default_flag E \<longleftrightarrow> ''--default'' \<in> set (ce_args E)"

section \<open>Adding, removing, choosing\<close>

definition no_xdg :: string where
  "no_xdg = ''failed to determine XDG config path: %w''"

definition provider_missing :: "string \<Rightarrow> string \<Rightarrow> cmd_error" where
  "provider_missing name source = Errorf ''provider %q not found in %s'' [PStr name, PStr source]"

definition save_failed :: "save_error \<Rightarrow> cmd_error" where
  "save_failed e = Errorf ''failed to save config: %w'' [PSave e]"

definition set_default_name :: "string \<Rightarrow> unit cmd" where
  "set_default_name name c = (Inr (), c\<lparr>cl_defaultName := name\<rparr>)"

text \<open>The port of the file after a provider is added; the first provider has to bring one.\<close>

definition add_port :: "int \<Rightarrow> TomlConfig \<Rightarrow> cmd_error + TomlConfig" where
  "add_port port tc =
     (if port = 0
      then (if t_Port tc = 0 then Inl (Errorf ''--port/-p is required for the first provider'' []) else Inr tc)
      else if t_Port tc = 0 then Inr (tc\<lparr>t_Port := port\<rparr>) else Inr tc)"

definition add_into ::
    "cli_env \<Rightarrow> string \<Rightarrow> string \<Rightarrow> int \<Rightarrow> int \<Rightarrow> int \<Rightarrow> string \<Rightarrow> TomlConfig \<Rightarrow> unit cmd" where
  "add_into E name target port cooldown maxRetries source tc =
     (if map_of (t_Provider tc) name \<noteq> None
      then fail (Errorf ''provider %q already exists in %s'' [PStr name, PStr source])
      else
        after (lift_sum (add_port port tc)) (\<lambda>tc.
        let tc = put_toml_provider name (Some (example_provider target cooldown maxRetries)) tc;
            tc = (if default_flag E then tc\<lparr>t_DefaultProvider := name\<rparr> else tc)
        in after (make_dir source) (\<lambda>_.
           after (if default_flag E then set_default_name name else ret ()) (\<lambda>_.
           after (save_toml E save_failed tc source) (\<lambda>_.
           Printf (if default_flag E then ''Provider %q added to %s (default)'' else ''Provider %q added to %s'')
             [PStr name, PStr source])))))"

definition providerAddCmd :: "cli_env \<Rightarrow> string \<Rightarrow> string \<Rightarrow> int \<Rightarrow> int \<Rightarrow> int \<Rightarrow> unit cmd" where
  "providerAddCmd E name target port cooldown maxRetries =
     (if target = '''' then fail (Errorf ''--target/-t is required'' [])
      else
        after (config_path ''cannot determine XDG config path: %w'') (\<lambda>source.
        after the_world (\<lambda>w.
        after (load_toml E source) (\<lambda>r.
          case r of
            Inl e \<Rightarrow>
              (if file_exists source w then fail (load_failed e)
               else add_into E name target port cooldown maxRetries source emptyToml)
          | Inr tc \<Rightarrow> add_into E name target port cooldown maxRetries source tc))))"

text \<open>The path of a configuration file that has to exist, and what it holds.\<close>

definition existing_config :: "string cmd" where
  "existing_config =
     after (config_path no_xdg) (\<lambda>source.
     after the_world (\<lambda>w.
       if file_exists source w then ret source
       else fail (Errorf ''no configuration file found at %s'' [PStr source])))"

definition loaded_config :: "cli_env \<Rightarrow> (string \<times> TomlConfig) cmd" where
  "loaded_config E =
     after existing_config (\<lambda>source.
     after (load_toml E source) (\<lambda>r. after (or_fail load_failed r) (\<lambda>tc. ret (source, tc))))"

definition list_row :: "TomlConfig \<Rightarrow> string \<Rightarrow> unit cmd" where
  "list_row tc n =
     (case map_of (t_Provider tc) n of
        Some (Some p) \<Rightarrow>
          Printf ''  %-12s %-50s %d%s''
            [PStr n, PStr (c_TargetBase (cf_Provider p)), PInt (t_Port tc),
             PStr (if n = t_DefaultProvider tc then ''  (default)'' else '''')]
      | _ \<Rightarrow> fail Panicked)"

definition providerListCmd :: "cli_env \<Rightarrow> unit cmd" where
  "providerListCmd E =
     after (loaded_config E) (\<lambda>(source, tc).
       if t_Provider tc = [] then Printf ''No providers configured in %s'' [PStr source]
       else
         after (Printf ''Providers (from %s):'' [PStr source]) (\<lambda>_.
         after (Printf ''  %-12s %-50s %s'' [PStr ''NAME'', PStr ''TARGET'', PStr ''PORT'']) (\<lambda>_.
         each (list_row tc) (sort (map fst (t_Provider tc))))))"

definition providerRemoveCmd :: "cli_env \<Rightarrow> string \<Rightarrow> unit cmd" where
  "providerRemoveCmd E name =
     after (loaded_config E) (\<lambda>(source, tc).
       if map_of (t_Provider tc) name = None then fail (provider_missing name source)
       else
         (let was = (t_DefaultProvider tc = name);
              tc = tc\<lparr>t_Provider := AList.delete name (t_Provider tc),
                      t_DefaultProvider := (if was then '''' else t_DefaultProvider tc)\<rparr>
          in after (if was
                    then after (set_default_name '''') (\<lambda>_.
                         Printf ''Default provider cleared (was %q)'' [PStr name])
                    else ret ()) (\<lambda>_.
             after (save_toml E save_failed tc source) (\<lambda>_.
             after (Printf ''Provider %q removed from %s'' [PStr name, PStr source]) (\<lambda>_.
             Printf ''Note: the keys file for this provider was not removed (if any)'' [])))))"

definition providerDefaultCmd :: "cli_env \<Rightarrow> string \<Rightarrow> unit cmd" where
  "providerDefaultCmd E name =
     after (loaded_config E) (\<lambda>(source, tc).
       if map_of (t_Provider tc) name = None then fail (provider_missing name source)
       else
         after (set_default_name name) (\<lambda>_.
         after (save_toml E save_failed (tc\<lparr>t_DefaultProvider := name\<rparr>) source) (\<lambda>_.
         Printf ''Default provider set to %q'' [PStr name])))"

section \<open>Updating\<close>

text \<open>The flags and the fields they set. The runtime iterates over them in any order.\<close>

definition flagToFieldKey :: "(string \<times> string) list" where
  "flagToFieldKey =
     [(''target'', ''target''), (''cooldown-sec'', ''cooldown_sec''), (''max-retries'', ''max_retries''),
      (''backoff-cap-sec'', ''backoff_cap_sec''), (''backoff-multiplier'', ''backoff_multiplier''),
      (''cb-reset-sec'', ''cb_reset_sec''), (''upstream-cb-threshold'', ''upstream_cb_threshold''),
      (''http-timeout-sec'', ''http_timeout_sec''), (''health-check-interval-sec'', ''health_check_interval_sec''),
      (''admin-token'', ''admin_token''), (''genai-model'', ''genai_model''), (''keys-file'', ''keys_file''),
      (''log-level'', ''log_level'')]"

definition update_range :: "string \<Rightarrow> fvalue \<Rightarrow> cmd_error option" where
  "update_range flagName v =
     (case v of
        VInt i \<Rightarrow> if i < - 1 then Some (Errorf ''--%s must be >= -1'' [PStr flagName]) else None
      | VFloat f \<Rightarrow>
          if float_lt f (Fin 1) then Some (Errorf ''--%s must be >= %g'' [PStr flagName, PFloat (Fin 1)]) else None
      | _ \<Rightarrow> None)"

text \<open>
  What one flag asks for: nothing when it is absent, an error, or a value for a field; \<open>changed\<close> is what
  the parser says of the flag, which matters to boolean flags only. The warning for fields that take
  effect after a reload is logged, not printed.
\<close>

definition flag_setting ::
    "string list \<Rightarrow> (string \<Rightarrow> bool) \<Rightarrow> string \<times> string \<Rightarrow> cmd_error + (ConfigFieldDescriptor \<times> fvalue) option" where
  "flag_setting args changed ff =
     (if \<not> hasCLIFlag args (fst ff) then Inr None
      else (case FindField (snd ff) of
              None \<Rightarrow> Inr None
            | Some fd \<Rightarrow>
                (if fd_ReadOnly fd
                 then Inl (Errorf (''%s cannot be changed via provider update '' @ long_dash @
                                   '' edit the TOML config file and reload'') [PStr (fd_Key fd)])
                 else
                   (let given = getCLIFlagValue args (fst ff);
                        valueStr = (if given = '''' \<and> fd_Type fd = FieldTypeBool \<and> changed (fst ff) then ''true'' else given)
                    in case Parse fd valueStr of
                         Inl e \<Rightarrow> Inl (Errorf ''invalid --%s value: %w'' [PStr (fst ff), PField e])
                       | Inr v \<Rightarrow>
                           (case update_range (fst ff) v of Some e \<Rightarrow> Inl e | None \<Rightarrow> Inr (Some (fd, v)))))))"

definition update_flag ::
    "string list \<Rightarrow> (string \<Rightarrow> bool) \<Rightarrow> string \<times> string \<Rightarrow> Config option \<Rightarrow> cmd_error + (Config option \<times> nat)" where
  "update_flag args changed ff prov =
     (case flag_setting args changed ff of
        Inl e \<Rightarrow> Inl e
      | Inr None \<Rightarrow> Inr (prov, 0)
      | Inr (Some (fd, v)) \<Rightarrow>
          (case Persist fd v None prov of None \<Rightarrow> Inl Panicked | Some (tc, p) \<Rightarrow> Inr (p, 1)))"

fun update_flags ::
    "string list \<Rightarrow> (string \<Rightarrow> bool) \<Rightarrow> (string \<times> string) list \<Rightarrow> Config option \<Rightarrow> cmd_error + (Config option \<times> nat)" where
  "update_flags args changed [] prov = Inr (prov, 0)"
| "update_flags args changed (ff # ffs) prov =
     (case update_flag args changed ff prov of
        Inl e \<Rightarrow> Inl e
      | Inr (p, n) \<Rightarrow>
          (case update_flags args changed ffs p of Inl e \<Rightarrow> Inl e | Inr (q, m) \<Rightarrow> Inr (q, n + m)))"

text \<open>\<open>order\<close> is the order in which the runtime iterates over \<open>flagToFieldKey\<close>.\<close>

definition providerUpdateCmd ::
    "cli_env \<Rightarrow> (string \<Rightarrow> bool) \<Rightarrow> (string \<times> string) list \<Rightarrow> string \<Rightarrow> unit cmd" where
  "providerUpdateCmd E changed order name =
     after (loaded_config E) (\<lambda>(source, tc).
       case map_of (t_Provider tc) name of
         None \<Rightarrow> fail (provider_missing name source)
       | Some prov \<Rightarrow>
           (if hasCLIFlag (ce_args E) ''target'' \<and> getCLIFlagValue (ce_args E) ''target'' = ''''
            then fail (Errorf ''--target/-t cannot be empty'' [])
            else
              after (lift_sum (update_flags (ce_args E) changed order prov)) (\<lambda>(prov, changes).
              after (if default_flag E then set_default_name name else ret ()) (\<lambda>_.
                if changes = 0 \<and> \<not> default_flag E
                then fail (Errorf ''no fields specified to update (use --help to see available flags)'' [])
                else
                  (let tc = put_toml_provider name prov tc;
                       tc = (if default_flag E then tc\<lparr>t_DefaultProvider := name\<rparr> else tc)
                   in after (make_dir source) (\<lambda>_.
                      after (save_toml E save_failed tc source) (\<lambda>_.
                      after (Printf (if default_flag E then ''Provider %q updated in %s (default)''
                                     else ''Provider %q updated in %s'') [PStr name, PStr source]) (\<lambda>_.
                      done_reload E))))))))"

section \<open>Showing one provider\<close>

text \<open>\<open>map[string]interface{}\<close>.\<close>

definition dec_object :: "bytes \<Rightarrow> (string \<times> json) list option" where
  "dec_object body =
     (case Option.bind (json_parse body) to_interface of
        Some (JObj ms) \<Rightarrow> Some ms
      | Some JNull \<Rightarrow> Some []
      | _ \<Rightarrow> None)"

definition right_arrow :: string where
  "right_arrow = [CHR 0xE2, CHR 0x86, CHR 0x92]"

text \<open>The lines on a running server: only an answer with the provider's details prints any.\<close>

definition running_lines :: "AdminClient \<Rightarrow> string \<Rightarrow> int \<times> bytes \<Rightarrow> unit cmd" where
  "running_lines client name r =
     (case (if fst r = 200 then dec_object (snd r) else None) of
        None \<Rightarrow> ret ()
      | Some health \<Rightarrow>
          (case map_of health ''details'' of
             Some (JObj det) \<Rightarrow>
               (case map_of det name of
                  Some (JObj info) \<Rightarrow>
                    after (Printf (''  Status:  running  '' @ right_arrow @ ''  %s'') [PStr (ad_baseURL client)]) (\<lambda>_.
                    Printf ''  CB:      %s''
                      [case map_of info ''upstream_cb_state'' of None \<Rightarrow> PStr ''unknown'' | Some v \<Rightarrow> PJson (Some v)])
                | _ \<Rightarrow> ret ())
           | _ \<Rightarrow> ret ()))"

definition request_counts :: "string \<Rightarrow> (string \<times> json) list \<Rightarrow> unit cmd" where
  "request_counts fmt stats =
     Printf fmt
       [PJson (map_of stats ''total_requests''), PJson (map_of stats ''successful_requests''),
        PJson (map_of stats ''failed_requests'')]"

definition runtime_status :: "cli_env \<Rightarrow> string \<Rightarrow> unit cmd" where
  "runtime_status E name =
     after (NewAdminClient E 3 '''') (\<lambda>client.
     after (Get_path E client (''/health?provider='' @ QueryEscape name)) (\<lambda>r.
       case r of
         None \<Rightarrow> Printf ''  Status:  not running'' []
       | Some a \<Rightarrow>
           after (running_lines client name a) (\<lambda>_.
           after (Get_path E client (''/api/stats?provider='' @ QueryEscape name)) (\<lambda>sr.
             case Option.bind sr (\<lambda>b. dec_object (snd b)) of
               None \<Rightarrow> ret ()
             | Some stats \<Rightarrow> request_counts ''  Requests: %v (success: %v, failed: %v)'' stats))))"

definition config_lines :: "ProviderConfig \<Rightarrow> message list" where
  "config_lines p =
     [(''  Config:'', []), (''    Target:  %s'', [PStr (c_TargetBase p)]), (''    Port:    %d'', [PInt (c_Port p)])] @
     (if c_AdminToken p \<noteq> '''' then [(''    Admin token: (set)'', [])] else []) @
     [(''  Tuning:'', []),
      (''    Max retries:        %d'', [PInt (c_MaxRetries p)]),
      (''    Cooldown:           %ds'', [PInt (c_CooldownSec p)]),
      (''    Backoff cap:        %ds'', [PInt (c_BackoffCapSec p)]),
      (''    Backoff multiplier: %.1f'', [PFloat (c_BackoffMultiplier p)]),
      (''    CB threshold:       %d'', [PInt (c_UpstreamCBThreshold p)]),
      (''    CB reset:           %ds'', [PInt (c_CBResetSec p)]),
      (''  Health check:'', []),
      (''    Interval:  %ds'', [PInt (c_HealthCheckIntervalSec p)]),
      (''    Path:      %s'', [PStr (c_HealthCheckPath p)]),
      (''    Timeout:   %ds'', [PInt (c_HealthCheckTimeoutSec p)])]"

text \<open>Deleted keys are listed, and count as active unless they are disabled.\<close>

definition info_key :: "nat \<times> KeyEntry \<Rightarrow> message" where
  "info_key ie =
     (''    [%d] %s  (%s)%s'',
      [PInt (int (fst ie)), PStr (MaskKey (e_Key (snd ie))),
       PStr (if e_Disabled (snd ie) then ''disabled'' else ''active''), PStr (named_line (e_Name (snd ie)))])"

definition key_lines :: "KeyStore option \<Rightarrow> message list" where
  "key_lines st =
     (''  Keys:'', []) #
     (case st of
        None \<Rightarrow> [(''    (no keys configured)'', [])]
      | Some store \<Rightarrow>
          (if store = [] then [(''    (no keys configured)'', [])]
           else
             (let disabled = length (filter e_Disabled store)
              in (''    Total: %d  Active: %d  Disabled: %d'',
                  [PInt (int (length store)), PInt (int (length store - disabled)), PInt (int disabled)]) #
                 map info_key (enumerate 0 store))))"

definition print_all :: "message list \<Rightarrow> unit cmd" where
  "print_all = each (\<lambda>m. Printf (fst m) (snd m))"

text \<open>An error in loading the keys counts as no keys.\<close>

definition load_keys_or_none :: "cli_env \<Rightarrow> string \<Rightarrow> KeyStore option cmd" where
  "load_keys_or_none E name = on_error (load_keys E name) (\<lambda>_. ret None)"

definition default_mark :: "string \<Rightarrow> string cmd" where
  "default_mark name c = (Inr (if name = cl_defaultName c then ''  (default)'' else ''''), c)"

definition providerInfoCmd :: "cli_env \<Rightarrow> string \<Rightarrow> unit cmd" where
  "providerInfoCmd E name =
     after existing_config (\<lambda>source.
     after (load_providers E source) (\<lambda>r. after (or_fail loading_failed r) (\<lambda>providers.
       case map_of providers name of
         None \<Rightarrow> fail (provider_missing name source)
       | Some cfg \<Rightarrow>
           after (default_mark name) (\<lambda>mark.
           after (Printf ''Provider: %s%s'' [PStr name, PStr mark]) (\<lambda>_.
           after (runtime_status E name) (\<lambda>_.
           after (print_all (config_lines (cf_Provider (Sanitized cfg)))) (\<lambda>_.
           after (load_keys_or_none E name) (\<lambda>st.
           print_all (key_lines st)))))))))"

definition providerUpstreamCBResetCmd :: "cli_env \<Rightarrow> string \<Rightarrow> unit cmd" where
  "providerUpstreamCBResetCmd E name = resetUpstreamCB E name"

end
