(* ===== verification/UsageCommands.thy ===== *)
theory UsageCommands
  imports ProviderCommands Admin
begin

text \<open>
  The commands that only ask (internal/cli/usage.go, status.go): the remaining quota of a key, from the
  provider's portal, and the status of the running server. The portal is an argument, as the server is.
\<close>

section \<open>Credentials\<close>

record credentialEntry =
  cr_APIKey :: string
  cr_APIKeyPlain :: string
  cr_Account :: string
  cr_Password :: string
  cr_AccountName :: string
  cr_TenantID :: string

definition zeroCredential :: credentialEntry where
  "zeroCredential = \<lparr>cr_APIKey = '''', cr_APIKeyPlain = '''', cr_Account = '''', cr_Password = '''',
                    cr_AccountName = '''', cr_TenantID = ''''\<rparr>"

definition dec_credential :: "credentialEntry decoder" where
  "dec_credential = dec_struct
     [(''api_key'', \<lambda>j e. let (v, ok) = dec_string j (cr_APIKey e) in (e\<lparr>cr_APIKey := v\<rparr>, ok)),
      (''api_key_plain'', \<lambda>j e. let (v, ok) = dec_string j (cr_APIKeyPlain e) in (e\<lparr>cr_APIKeyPlain := v\<rparr>, ok)),
      (''account'', \<lambda>j e. let (v, ok) = dec_string j (cr_Account e) in (e\<lparr>cr_Account := v\<rparr>, ok)),
      (''password'', \<lambda>j e. let (v, ok) = dec_string j (cr_Password e) in (e\<lparr>cr_Password := v\<rparr>, ok)),
      (''account_name'', \<lambda>j e. let (v, ok) = dec_string j (cr_AccountName e) in (e\<lparr>cr_AccountName := v\<rparr>, ok)),
      (''tenant_id'', \<lambda>j e. let (v, ok) = dec_string j (cr_TenantID e) in (e\<lparr>cr_TenantID := v\<rparr>, ok))]"

definition credential_key :: "credentialEntry \<Rightarrow> string" where
  "credential_key e = (if cr_APIKey e = '''' then cr_APIKeyPlain e else cr_APIKey e)"

text \<open>The first line that decodes and has the key.\<close>

fun find_credential :: "string \<Rightarrow> string list \<Rightarrow> credentialEntry option" where
  "find_credential target [] = None"
| "find_credential target (l # ls) =
     (let line = TrimSpace l
      in if line = '''' then find_credential target ls
         else (case Unmarshal dec_credential zeroCredential line of
                 None \<Rightarrow> find_credential target ls
               | Some e \<Rightarrow> if credential_key e = target then Some e else find_credential target ls))"

definition findCredentialByKey :: "bytes \<Rightarrow> string \<Rightarrow> cmd_error + credentialEntry" where
  "findCredentialByKey data target =
     (case find_credential target (split_on (CHR 0x0A) data) of
        Some e \<Rightarrow> Inr e | None \<Rightarrow> Inl (Errorf ''API key not found in credentials file'' []))"

section \<open>The portal\<close>

record portal_call =
  pl_method :: string
  pl_url :: string
  pl_auth :: string
  pl_body :: "bytes option"

text \<open>A URL that cannot be used, no answer, an answer whose body breaks off, and an answer.\<close>

datatype portal_answer = Malformed | NoAnswer | Unread | Got int bytes

definition truncate :: "string \<Rightarrow> nat \<Rightarrow> string" where
  "truncate s maxLen = (if length s \<le> maxLen then s else take maxLen s @ ''...'')"

definition dec_token :: "string decoder" where
  "dec_token = dec_struct [(''access_token'', dec_string)]"

definition sensenovaLogin :: "(portal_call \<Rightarrow> portal_answer) \<Rightarrow> string \<Rightarrow> string \<Rightarrow> string \<Rightarrow> cmd_error + string" where
  "sensenovaLogin portal account password baseURL =
     (case portal \<lparr>pl_method = ''POST'', pl_url = baseURL, pl_auth = '''',
                   pl_body = Some (json_print (JObj [(''account'', JStr account), (''password'', JStr password)]))\<rparr> of
        Malformed \<Rightarrow> Inl (Errorf ''%w'' [])
      | NoAnswer \<Rightarrow> Inl (Errorf ''login request failed: %w'' [])
      | Unread \<Rightarrow> Inl (Errorf ''read login response: %w'' [])
      | Got status body \<Rightarrow>
          (if status \<noteq> 200 then Inl (Errorf ''login HTTP %d: %s'' [PInt status, PStr (truncate body 200)])
           else (case Unmarshal dec_token '''' body of
                   None \<Rightarrow> Inl (Errorf ''failed to parse login response: %w'' [])
                 | Some token \<Rightarrow>
                     (if token = '''' then Inl (Errorf ''login returned empty access_token'' []) else Inr token))))"

text \<open>\<open>map[string]float64\<close>: null is the nil map; a null member is zero.\<close>

definition dec_float :: "json \<Rightarrow> float64 \<times> bool" where
  "dec_float j =
     (case j of
        JNum lit \<Rightarrow> (case ParseFloat lit of Some f \<Rightarrow> (f, True) | None \<Rightarrow> (Fin 0, False))
      | JNull \<Rightarrow> (Fin 0, True)
      | _ \<Rightarrow> (Fin 0, False))"

definition dec_floats :: "(string \<times> float64) list option decoder" where
  "dec_floats j m =
     (case j of
        JObj ms \<Rightarrow>
          (Some (fold (\<lambda>(k, v). AList.update k (fst (dec_float v))) ms (case m of None \<Rightarrow> [] | Some x \<Rightarrow> x)),
           list_all (\<lambda>(k, v). snd (dec_float v)) ms)
      | JNull \<Rightarrow> (None, True)
      | _ \<Rightarrow> (m, False))"

definition dec_remaining :: "(string \<times> float64) list option decoder" where
  "dec_remaining = dec_struct [(''model_remaining_percent'', dec_floats)]"

definition sensenovaQueryUsage ::
    "(portal_call \<Rightarrow> portal_answer) \<Rightarrow> string \<Rightarrow> string \<Rightarrow> string \<Rightarrow> cmd_error + (string \<times> float64) list" where
  "sensenovaQueryUsage portal token tenantID baseURL =
     (case portal \<lparr>pl_method = ''GET'', pl_url = baseURL @ ''?account_id='' @ tenantID,
                   pl_auth = ''Bearer '' @ token, pl_body = None\<rparr> of
        Malformed \<Rightarrow> Inl (Errorf ''%w'' [])
      | NoAnswer \<Rightarrow> Inl (Errorf ''usage request failed: %w'' [])
      | Unread \<Rightarrow> Inl (Errorf ''read usage response: %w'' [])
      | Got status body \<Rightarrow>
          (if status \<noteq> 200 then Inl (Errorf ''usage HTTP %d: %s'' [PInt status, PStr (truncate body 200)])
           else (case Unmarshal dec_remaining None body of
                   None \<Rightarrow> Inl (Errorf ''failed to parse usage response: %w'' [])
                 | Some None \<Rightarrow> Inl (Errorf ''usage API returned empty data'' [])
                 | Some (Some usages) \<Rightarrow> Inr usages)))"

definition at_least :: "rat \<Rightarrow> float64 \<Rightarrow> bool" where
  "at_least q f = (case f of Fin x \<Rightarrow> q \<le> x | PosInf \<Rightarrow> True | _ \<Rightarrow> False)"

definition usageBar :: "float64 \<Rightarrow> string" where
  "usageBar pct =
     (if at_least (199 / 2) pct then ''[||||||||||]''
      else if at_least 80 pct then ''[||||||||| ]''
      else if at_least 50 pct then ''[||||||||  ]''
      else if at_least 20 pct then ''[||||||    ]''
      else if float_lt (Fin 0) pct then ''[||||      ]''
      else ''[          ]'')"

definition usage_line :: "string \<times> float64 \<Rightarrow> unit cmd" where
  "usage_line mp = Printf ''  %-30s %6.1f%% %s'' [PStr (fst mp), PFloat (snd mp), PStr (usageBar (snd mp))]"

definition credentials_file :: "string \<Rightarrow> string" where
  "credentials_file credsDir = credsDir @ ''/sensenova_credentials.jsonl''"

definition login_url :: string where
  "login_url = ''https://platform.sensenova.cn/api/iam/v3/user/login''"

definition usage_url :: string where
  "usage_url = ''https://platform.sensenova.cn/lite/console/v1/user/coding-plan/usages''"

definition querySensenovaUsage :: "(portal_call \<Rightarrow> portal_answer) \<Rightarrow> string \<Rightarrow> string \<Rightarrow> unit cmd" where
  "querySensenovaUsage portal apiKey credsDir =
     after the_world (\<lambda>w.
       case read_file w (credentials_file credsDir) of
         None \<Rightarrow> fail (Errorf ''failed to read credentials file %q: %w''
                        [PStr (credentials_file credsDir)])
       | Some data \<Rightarrow>
           after (lift_sum (findCredentialByKey data apiKey)) (\<lambda>e.
           after (Printf ''Found account: %s (tenant: %s)'' [PStr (cr_AccountName e), PStr (cr_TenantID e)]) (\<lambda>_.
           case sensenovaLogin portal (cr_Account e) (cr_Password e) login_url of
             Inl err \<Rightarrow> fail (Errorf ''login failed: %w'' [PErr err])
           | Inr token \<Rightarrow>
               after (lift_sum (sensenovaQueryUsage portal token (cr_TenantID e) usage_url)) (\<lambda>usages.
               after (Printf ''Remaining quota:'' []) (\<lambda>_. each usage_line usages)))))"

definition queryUsage :: "(portal_call \<Rightarrow> portal_answer) \<Rightarrow> string \<Rightarrow> string \<Rightarrow> string \<Rightarrow> unit cmd" where
  "queryUsage portal provider apiKey credsDir =
     (if provider = ''sensenova'' then querySensenovaUsage portal apiKey credsDir
      else fail (Errorf ''usage query not supported for provider %q (supported: sensenova)'' [PStr provider]))"

definition the_default_name :: "string cmd" where
  "the_default_name c = (Inr (cl_defaultName c), c)"

definition credentials_dir :: "cli_env \<Rightarrow> string \<Rightarrow> string cmd" where
  "credentials_dir E flag =
     (if flag \<noteq> '''' then ret flag
      else
        after (config_path ''cannot determine config path: %w'') (\<lambda>path.
        after (load_toml E path) (\<lambda>r. after (or_fail load_failed r) (\<lambda>tc.
        ret (if t_CredentialsDir tc = '''' then ''credentials'' else t_CredentialsDir tc)))))"

definition usageCmd ::
    "cli_env \<Rightarrow> (portal_call \<Rightarrow> portal_answer) \<Rightarrow> string \<Rightarrow> string \<Rightarrow> string \<Rightarrow> unit cmd" where
  "usageCmd E portal apiKey provider credsDir =
     (if apiKey = '''' then fail (Errorf ''--key is required'' [])
      else
        after (if provider = '''' then the_default_name else ret provider) (\<lambda>name.
          if name = '''' then fail (Errorf ''--provider is required (no default provider configured)'' [])
          else after (credentials_dir E credsDir) (\<lambda>dir. queryUsage portal name apiKey dir)))"

section \<open>Status\<close>

text \<open>
  The table that \<open>text/tabwriter\<close> lays out: the first two columns are padded to their widest cell and
  three spaces. A cell is counted in characters and holds no tab or line break.
\<close>

definition width :: "string \<Rightarrow> nat" where
  "width s = length (rune_split s)"

definition padded :: "nat \<Rightarrow> string \<Rightarrow> string" where
  "padded n s = s @ replicate (n - width s) (CHR '' '')"

definition table_text :: "(string \<times> string \<times> string) list \<Rightarrow> string" where
  "table_text rows =
     (let col = (\<lambda>f. fold (\<lambda>r m. max m (width (f r))) rows 0 + 3)
      in concat (map (\<lambda>(a, b, c). padded (col fst) a @ padded (col (\<lambda>r. fst (snd r))) b @ c @ [CHR 0x0A]) rows))"

definition value_v :: "string \<Rightarrow> (string \<times> json) list \<Rightarrow> string" where
  "value_v k ms = (case map_of ms k of None \<Rightarrow> ''<nil>'' | Some v \<Rightarrow> fmt_v v)"

definition provider_row :: "string \<times> json \<Rightarrow> (string \<times> string \<times> string) option" where
  "provider_row nj =
     (case snd nj of
        JObj info \<Rightarrow> Some (fst nj, value_v ''keys'' info, value_v ''upstream_cb_state'' info)
      | _ \<Rightarrow> None)"

definition formatProviderTable :: "(string \<times> json) list \<Rightarrow> string" where
  "formatProviderTable det =
     table_text ((''PROVIDER'', ''KEYS'', ''CB_STATE'') # List.map_filter provider_row det)"

definition filtered_path :: "string \<Rightarrow> string \<Rightarrow> string" where
  "filtered_path path name = (if name \<noteq> '''' then path @ ''?provider='' @ QueryEscape name else path)"

definition health_lines :: "AdminClient \<Rightarrow> (string \<times> json) list \<Rightarrow> unit cmd" where
  "health_lines client health =
     after (Printf ''Server: %s'' [PStr (ad_baseURL client)]) (\<lambda>_.
     after (Printf ''Status: %s'' [PJson (map_of health ''status'')]) (\<lambda>_.
     after (case map_of health ''providers'' of
              None \<Rightarrow> ret () | Some v \<Rightarrow> Printf ''Providers: %v'' [PJson (Some v)]) (\<lambda>_.
     case map_of health ''details'' of
       Some (JObj det) \<Rightarrow> Printf ''%s'' [PStr (formatProviderTable det)]
     | _ \<Rightarrow> ret ())))"

definition stats_lines :: "(string \<times> json) list \<Rightarrow> unit cmd" where
  "stats_lines stats =
     after (request_counts ''Requests: %v (success: %v, failed: %v)'' stats) (\<lambda>_.
     after (Printf ''Active keys: %v, Cooling: %v, Disabled: %v''
              [PJson (map_of stats ''active_keys''), PJson (map_of stats ''cooling_keys''),
               PJson (map_of stats ''disabled_keys'')]) (\<lambda>_.
     Printf ''Uptime: %vs'' [PJson (map_of stats ''uptime_seconds'')]))"

definition health_decoded :: "int \<times> bytes \<Rightarrow> cmd_error + (string \<times> json) list" where
  "health_decoded a =
     (let (status, body) = a
      in if status = 401 \<or> status = 403 then Inl (AuthFailed status)
         else if status \<noteq> 200
         then Inl (Errorf ''server returned (HTTP %d): %s'' [PInt status, PStr (TrimSpace body)])
         else (case dec_object body of
                 Some health \<Rightarrow> Inr health
               | None \<Rightarrow>
                   (if body \<noteq> [] \<and> hd body \<noteq> CHR ''{'' \<and> hd body \<noteq> CHR ''[''
                    then Inl (Errorf ''server not running or returned unexpected response (HTTP %d)'' [PInt status])
                    else Inl (Errorf ''failed to parse health response: %w'' []))))"

definition stats_decoded :: "int \<times> bytes \<Rightarrow> cmd_error + (string \<times> json) list option" where
  "stats_decoded a =
     (let (status, body) = a
      in if status = 401 \<or> status = 403 then Inl (AuthFailed status)
         else if status \<noteq> 200
         then Inl (Errorf ''stats endpoint returned unexpected response (HTTP %d)'' [PInt status])
         else Inr (dec_object body))"

definition reached :: "AdminClient \<Rightarrow> string \<Rightarrow> (int \<times> bytes) option \<Rightarrow> (int \<times> bytes) cmd" where
  "reached client path r =
     (case r of
        None \<Rightarrow> fail (Errorf ''server not reachable at %s: %w'' [PStr (ad_baseURL client @ path)])
      | Some a \<Rightarrow> ret a)"

definition statusCmd :: "cli_env \<Rightarrow> string \<Rightarrow> unit cmd" where
  "statusCmd E name =
     after (NewAdminClient E 3 '''') (\<lambda>client.
     after (Get_path E client (filtered_path ''/health'' name)) (\<lambda>r.
     after (reached client (filtered_path ''/health'' name) r) (\<lambda>a.
     after (lift_sum (health_decoded a)) (\<lambda>health.
     after (health_lines client health) (\<lambda>_.
     after (Get_path E client (filtered_path ''/api/stats'' name)) (\<lambda>r.
     after (reached client (filtered_path ''/api/stats'' name) r) (\<lambda>a.
     after (lift_sum (stats_decoded a)) (\<lambda>stats.
     case stats of None \<Rightarrow> ret () | Some ms \<Rightarrow> stats_lines ms))))))))"

end
