(* ===== verification/Launcher.thy ===== *)
theory Launcher
  imports AdminSafety
begin

text \<open>
  Starting the server (internal/server/server_launcher.go): the PID file, the choice of providers,
  loading their keys, validating and registering them, and the order of these steps. The network
  listener, the processes of the operating system and its kind are arguments; what follows a
  successful start is in Lifecycle.
\<close>

section \<open>The PID file\<close>

record launcher =
  sl_dashboardHTML :: string
  sl_providerFilter :: string
  sl_startAll :: bool
  sl_logFormat :: string
  sl_logLevel :: string
  sl_devMode :: bool

definition NewServerLauncher ::
    "string \<Rightarrow> string \<Rightarrow> string \<Rightarrow> string \<Rightarrow> bool \<Rightarrow> bool \<Rightarrow> launcher" where
  "NewServerLauncher dash flt logFormat logLevel startAll devMode =
     \<lparr>sl_dashboardHTML = dash, sl_providerFilter = flt, sl_startAll = startAll,
      sl_logFormat = logFormat, sl_logLevel = logLevel, sl_devMode = devMode\<rparr>"

definition PidFilePath :: "bool \<Rightarrow> world \<Rightarrow> string" where
  "PidFilePath devMode w =
     (let name = (if devMode then ''akswitch-dev.pid'' else ''akswitch.pid'')
      in case w_configDir w of None \<Rightarrow> name | Some dir \<Rightarrow> dir @ ''/'' @ name)"

text \<open>
  A handle of a process, as the \<open>os\<close> package keeps it on Unix: \<open>Release\<close> forgets the process, and
  \<open>Signal\<close> on a released handle fails without asking the system. \<open>alive\<close> is the system's answer.
\<close>

record os_process =
  op_pid :: int
  op_released :: bool

definition FindProcess :: "int \<Rightarrow> os_process" where
  "FindProcess pid = \<lparr>op_pid = pid, op_released = False\<rparr>"

definition ReleaseProcess :: "os_process \<Rightarrow> os_process" where
  "ReleaseProcess pr = pr\<lparr>op_released := True\<rparr>"

definition Signal0 :: "(int \<Rightarrow> bool) \<Rightarrow> os_process \<Rightarrow> bool" where
  "Signal0 alive pr \<longleftrightarrow> \<not> op_released pr \<and> alive (op_pid pr)"

record os_env =
  os_windows :: bool
  os_tasklist :: "int \<Rightarrow> string option"
  os_alive :: "int \<Rightarrow> bool"
  os_self :: int

definition checkPidFile :: "os_env \<Rightarrow> string \<Rightarrow> world \<Rightarrow> bool \<times> int" where
  "checkPidFile os pidFile w =
     (case read_file w pidFile of
        None \<Rightarrow> (False, 0)
      | Some data \<Rightarrow>
          (case Atoi (TrimSpace data) of
             None \<Rightarrow> (False, 0)
           | Some pid \<Rightarrow>
               (if pid \<le> 0 then (False, 0)
                else if os_windows os
                then (case os_tasklist os pid of
                        None \<Rightarrow> (False, 0) | Some out \<Rightarrow> (Contains out (Itoa pid), pid))
                else (let proc = ReleaseProcess (FindProcess pid) in (Signal0 (os_alive os) proc, pid)))))"

text \<open>Writing the file: the process identifier and a line break.\<close>

definition writePIDFile :: "os_env \<Rightarrow> bool \<Rightarrow> world \<Rightarrow> store_error option \<times> world" where
  "writePIDFile os devMode w = write_file (PidFilePath devMode w) (Itoa (os_self os) @ [CHR 0x0A]) w"

section \<open>Choosing the providers\<close>

datatype launch_error =
    NoConfig
  | LoadProvidersFailed config_error
  | NoProvidersFound
  | NoPort
  | NothingConfigured
  | ListenFailed

text \<open>\<open>--provider\<close>, then \<open>--all\<close>, then the configured default, then the first by name.\<close>

definition should_start :: "launcher \<Rightarrow> string \<Rightarrow> string list \<Rightarrow> string \<Rightarrow> bool" where
  "should_start sl defaultName names name \<longleftrightarrow>
     (if sl_providerFilter sl \<noteq> '''' then name = sl_providerFilter sl
      else if sl_startAll sl then True
      else if defaultName \<noteq> '''' then name = defaultName
      else name = hd (sort names))"

record resolved =
  rs_providers :: "(string \<times> Config) list"
  rs_port :: int
  rs_host :: string
  rs_defaultName :: string

definition resolveProviders :: "senv \<Rightarrow> world \<Rightarrow> launch_error + resolved" where
  "resolveProviders E w =
     (case XDGConfigPath w of
        None \<Rightarrow> Inl NoConfig
      | Some path \<Rightarrow>
          (case LoadAllTomlProviders (read_file w) (en_tomlDecode E) path of
             (Inl e, def) \<Rightarrow> Inl (LoadProvidersFailed e)
           | (Inr providers, def) \<Rightarrow>
               (if providers = [] then Inl NoProvidersFound
                else Inr \<lparr>rs_providers = providers,
                          rs_port = FindServerPort (read_file w) (en_tomlDecode E) path,
                          rs_host = FindServerHost (read_file w) (en_tomlDecode E) path,
                          rs_defaultName = (case def of Some n \<Rightarrow> n | None \<Rightarrow> '''')\<rparr>)))"

section \<open>Registering the providers\<close>

definition loadKeysForProvider ::
    "senv \<Rightarrow> string \<Rightarrow> Config \<Rightarrow> store_state \<Rightarrow> (string list \<times> string list) \<times> store_state" where
  "loadKeysForProvider E name cfg s =
     (case LoadKeysFromStore (en_codec E) (en_fresh E) (en_nonce E name) name (cf_Provider cfg) s of
        (Some kn, s) \<Rightarrow> (kn, s)
      | (None, s) \<Rightarrow>
          (let keys = c_Keys (cf_Provider cfg); names = c_KeyNames (cf_Provider cfg)
           in if keys \<noteq> []
              then ((keys, names), snd (SaveKeys (en_codec E) (en_fresh E) (en_nonce E name) name
                     (entries_of keys names) s))
              else ((keys, names), s)))"

definition init_provider :: "senv \<Rightarrow> (string \<Rightarrow> bool) \<Rightarrow> string \<times> Config \<Rightarrow> server \<Rightarrow> server" where
  "init_provider E shouldStart nc s =
     (let name = fst nc; cfg = snd nc
      in if \<not> shouldStart name then s
         else
           (let s = s\<lparr>sv_lm := apply_level E (c_LogLevel (cf_Provider cfg)) (sv_lm s)\<rparr>;
                ((keys, names), st) = loadKeysForProvider E name cfg (sv_store s);
                s = s\<lparr>sv_store := st\<rparr>
            in case validateConfig (set_keys keys names cfg) of
                 (Some e, cfg) \<Rightarrow> s
               | (None, cfg) \<Rightarrow>
                   (let pm = AddProvider name cfg (NewKeyPool (en_counter E name) keys names) (sv_pm s);
                        (dns, st) = LoadDisabledNames (en_codec E) (en_fresh E) name (cf_Provider cfg) (sv_store s)
                    in case LookupProvider name pm of
                         None \<Rightarrow> s
                       | Some ps \<Rightarrow>
                           s\<lparr>sv_pm := put_provider name (ps\<lparr>ps_pool := restore_disabled dns (ps_pool ps)\<rparr>) pm,
                             sv_store := st\<rparr>)))"

definition initProviders ::
    "senv \<Rightarrow> launcher \<Rightarrow> (string \<Rightarrow> bool) \<Rightarrow> (string \<times> Config) list \<Rightarrow> server \<Rightarrow> server" where
  "initProviders E sl shouldStart providers s =
     (let startedCount = length (filter (\<lambda>(name, cfg). shouldStart name) providers);
          s = s\<lparr>sv_lm := SetFormat (sl_logFormat sl = ''compact'') (startedCount \<le> 1) (sv_lm s)\<rparr>
      in fold (init_provider E shouldStart) providers s)"

section \<open>The launch\<close>

text \<open>In development mode the first of ten ports that can be listened on.\<close>

definition dev_port :: "(string \<Rightarrow> int \<Rightarrow> bool) \<Rightarrow> string \<Rightarrow> int \<Rightarrow> int option" where
  "dev_port listens host port = find (listens host) (map (\<lambda>i. port + int i) [0..<10])"

datatype launch_result =
    AlreadyRunning int
  | LaunchFailed launch_error
  | Started server string int

definition Launch ::
    "senv \<Rightarrow> os_env \<Rightarrow> (string \<Rightarrow> int \<Rightarrow> bool) \<Rightarrow> time \<Rightarrow> launcher \<Rightarrow> store_state \<Rightarrow> launch_result" where
  "Launch E os listens now sl st =
     (let w = s_world st; (running, pid) = checkPidFile os (PidFilePath (sl_devMode sl) w) w
      in if running then AlreadyRunning pid
         else (case resolveProviders E w of
                 Inl e \<Rightarrow> LaunchFailed e
               | Inr rs \<Rightarrow>
                   (case (if sl_devMode sl then dev_port listens (rs_host rs) (rs_port rs) else Some (rs_port rs)) of
                      None \<Rightarrow> LaunchFailed NoPort
                    | Some port \<Rightarrow>
                        (let pc = cf_Provider (snd (hd (rs_providers rs)));
                             lm = InitFileHandler (c_LogFile pc) (c_LogMaxSize pc) (c_LogMaxAge pc) NewLogManager;
                             lm = (if sl_logLevel sl \<noteq> '''' then apply_level E (sl_logLevel sl) lm else lm);
                             s = \<lparr>sv_pm = NewProviderManager now (sl_dashboardHTML sl), sv_lm = lm,
                                  sv_store = st, sv_defaultName = rs_defaultName rs\<rparr>;
                             s = initProviders E sl
                                   (should_start sl (rs_defaultName rs) (map fst (rs_providers rs)))
                                   (rs_providers rs) s
                         in if ProviderNames (sv_pm s) = [] then LaunchFailed NothingConfigured
                            else if \<not> sl_devMode sl \<and> \<not> listens (rs_host rs) port then LaunchFailed ListenFailed
                            else Started (s\<lparr>sv_store := (sv_store s)\<lparr>s_world :=
                                   snd (writePIDFile os (sl_devMode sl) (s_world (sv_store s)))\<rparr>\<rparr>)
                                   (rs_host rs) port))))"

section \<open>What a launch yields\<close>

text \<open>
  On Unix the check of the PID file never reports a running server: the handle is released before it
  is asked.
\<close>

lemma checkPidFile_unix: "\<not> os_windows os \<Longrightarrow> \<not> fst (checkPidFile os pidFile w)"
  by (simp add: checkPidFile_def Let_def Signal0_def ReleaseProcess_def split: option.split)

text \<open>
  A registered provider was chosen, its configuration is valid, it is well-formed, and its breakers and
  client run with the values of the configuration.
\<close>

definition started :: "(string \<Rightarrow> bool) \<Rightarrow> string \<Rightarrow> ProviderState \<Rightarrow> bool" where
  "started f name ps \<longleftrightarrow> f name \<and> provider_ok name ps \<and> in_sync ps \<and>
     (\<exists>c. validateConfig c = (None, ps_config ps))"

lemma NewProviderState_frame [simp]:
  "ps_config (NewProviderState name cfg pool dash kf) = cfg"
  "ps_name (NewProviderState name cfg pool dash kf) = name"
  by (simp_all add: NewProviderState_def Let_def)

lemma in_sync_restore:
  assumes "in_sync ps" and "pool_wf (ps_pool ps)"
  shows "in_sync (ps\<lparr>ps_pool := restore_disabled dns (ps_pool ps)\<rparr>)"
  using assms
  by (simp add: in_sync_def restore_disabled_perma list_all_length perma_at_cb RecordPerma_def)

lemma new_provider_started:
  fixes name cfg c keys names dash kf dns
  defines "ps \<equiv> NewProviderState name cfg (NewKeyPool c keys names) dash kf"
  assumes "f name" and "validateConfig cfg' = (None, cfg)"
  shows "started f name (ps\<lparr>ps_pool := restore_disabled dns (ps_pool ps)\<rparr>)"
proof -
  have new: "provider_ok name ps" unfolding ps_def by (rule well_formed.P_new)
  then have "in_sync (ps\<lparr>ps_pool := restore_disabled dns (ps_pool ps)\<rparr>)"
    using NewProviderState_in_sync [OF assms(3)] by (intro in_sync_restore) (simp_all add: ps_def provider_ok_def)
  with well_formed.P_restore [OF new] assms(2,3) show ?thesis by (auto simp: started_def ps_def)
qed

lemma init_provider_started: "all_ok (started f) s \<Longrightarrow> all_ok (started f) (init_provider E f nc s)"
  by (auto simp: init_provider_def Let_def AddProvider_def all_ok_def new_provider_started
      split: prod.splits option.splits)

lemma initProviders_started:
  assumes "all_ok (started f) s"
  shows "all_ok (started f) (initProviders E sl f providers s)"
proof -
  have "all_ok (started f) s \<Longrightarrow> all_ok (started f) (fold (init_provider E f) providers s)" for s
    by (induction providers arbitrary: s) (auto intro: init_provider_started)
  with assms show ?thesis by (simp add: initProviders_def Let_def all_ok_simps)
qed

end
