(* ===== verification/StopCommands.thy ===== *)
theory StopCommands
  imports ProviderCommands Launcher
begin

text \<open>
  Stopping the server (internal/cli/stop.go) and restarting it when its binary is replaced
  (internal/cli/selfrestart.go, start.go). The processes of the operating system and the clock are
  arguments; the loop that waits for the process to end may not end by itself, so it is a partial
  function whose \<open>None\<close> is waiting for ever.
\<close>

section \<open>Stopping\<close>

definition processRunning :: "os_env \<Rightarrow> int \<Rightarrow> bool" where
  "processRunning os pid =
     (if os_windows os
      then (case os_tasklist os pid of None \<Rightarrow> False | Some out \<Rightarrow> Contains out (Itoa pid))
      else Signal0 (os_alive os) (FindProcess pid))"

text \<open>
  The polls before the deadline: the \<open>k\<close>-th reads the clock and, if there is time left, asks for the
  process and sleeps. The result is whether the process was seen to have ended.
\<close>

partial_function (option) wait_exit :: "(nat \<Rightarrow> time) \<Rightarrow> (nat \<Rightarrow> bool) \<Rightarrow> time \<Rightarrow> nat \<Rightarrow> bool option" where
  "wait_exit clock running deadline k =
     (if clock k < deadline
      then (if \<not> running k then Some True else wait_exit clock running deadline (Suc k))
      else Some False)"

text \<open>
  \<open>sp_found\<close> is whether Windows can open the process (elsewhere that always succeeds),
  \<open>sp_signal\<close> whether the process takes the interrupt (on Windows: whether taskkill succeeds),
  \<open>sp_start\<close> the time when the waiting starts, \<open>sp_os k\<close> the system at the \<open>k\<close>-th poll.
\<close>

record stop_env =
  sp_found :: "int \<Rightarrow> bool"
  sp_signal :: "int \<Rightarrow> bool"
  sp_start :: time
  sp_clock :: "nat \<Rightarrow> time"
  sp_os :: "nat \<Rightarrow> os_env"

definition stop_hints :: "string \<Rightarrow> unit cmd" where
  "stop_hints first =
     after (Printf first []) (\<lambda>_.
     after (Printf ''  - Windows: taskkill /F /IM akswitch.exe'' []) (\<lambda>_.
     Printf ''  - Linux/macOS: kill $(pgrep akswitch)'' []))"

definition read_pid :: "string \<Rightarrow> int cmd" where
  "read_pid pidFile =
     after the_world (\<lambda>w.
       case read_file w pidFile of
         None \<Rightarrow>
           after (stop_hints ''Could not read PID file. Try:'') (\<lambda>_.
           fail (Errorf ''failed to read PID file: %w'' []))
       | Some data \<Rightarrow>
           (case Atoi (TrimSpace data) of
              Some pid \<Rightarrow>
                (if 0 < pid then ret pid
                 else after (stop_hints ''Invalid PID in file. Try:'') (\<lambda>_.
                      fail (Errorf ''invalid PID in %s'' [PStr pidFile])))
            | None \<Rightarrow>
                after (stop_hints ''Invalid PID in file. Try:'') (\<lambda>_.
                fail (Errorf ''invalid PID in %s'' [PStr pidFile]))))"

definition signal_stop :: "stop_env \<Rightarrow> int \<Rightarrow> unit cmd" where
  "signal_stop P pid =
     (if os_windows (sp_os P 0) \<and> \<not> sp_found P pid then fail (Errorf ''failed to find process: %w'' [])
      else if sp_signal P pid then ret ()
      else if os_windows (sp_os P 0)
      then after (Printf ''Failed to stop akswitch. Try:'' []) (\<lambda>_.
           after (Printf ''  taskkill /F /PID %d'' [PInt pid]) (\<lambda>_.
           fail (Errorf ''taskkill failed: %w'' [])))
      else after (Printf ''PID signal failed. Try:'' []) (\<lambda>_.
           after (Printf ''  kill %d'' [PInt pid]) (\<lambda>_.
           fail (Errorf ''failed to send interrupt: %w'' []))))"

definition remove_pid_file :: "string \<Rightarrow> unit cmd" where
  "remove_pid_file path c = (Inr (), on_cl_world (remove_file path) c)"

definition wait_deadline :: "stop_env \<Rightarrow> time" where
  "wait_deadline P = sp_start P + 10 * 10 ^ 9"

text \<open>\<open>None\<close> is a command that does not return.\<close>

definition stopCmd :: "stop_env \<Rightarrow> bool \<Rightarrow> cli \<Rightarrow> ((cmd_error + unit) \<times> cli) option" where
  "stopCmd P devMode c =
     (let pidFile = PidFilePath devMode (cl_world c)
      in case after (read_pid pidFile) (\<lambda>pid.
                after (Printf ''Stopping akswitch (PID %d)...'' [PInt pid]) (\<lambda>_.
                after (signal_stop P pid) (\<lambda>_. ret pid))) c of
           (Inl e, c') \<Rightarrow> Some (Inl e, c')
         | (Inr pid, c') \<Rightarrow>
             map_option (\<lambda>exited.
               if exited
               then after (Printf ''AK Switch stopped gracefully'' []) (\<lambda>_. remove_pid_file pidFile) c'
               else after (Printf ''Timed out waiting for graceful shutdown.'' []) (\<lambda>_.
                    after (Printf ''Try: kill -9 %d'' [PInt pid]) (\<lambda>_.
                    fail (Errorf ''shutdown timed out'' []))) c')
               (wait_exit (sp_clock P) (\<lambda>k. processRunning (sp_os P k) pid) (wait_deadline P) 0))"

section \<open>Restarting on a new binary\<close>

text \<open>The package variables, and the watch: the last modification time that was seen.\<close>

record self_restart =
  rs_exePath :: string
  rs_ticking :: bool
  rs_binaryUpdated :: bool
  rs_logFormat :: string

definition SetupSelfRestart ::
    "(string \<Rightarrow> time option) \<Rightarrow> string \<Rightarrow> self_restart \<Rightarrow> self_restart \<times> time option" where
  "SetupSelfRestart modTime exePath s =
     (if exePath = '''' then (s, None)
      else if length exePath < 4 \<or> drop (length exePath - 4) exePath \<noteq> ''.exe'' then (s, None)
      else (let s = s\<lparr>rs_exePath := exePath\<rparr>
            in case modTime exePath of
                 None \<Rightarrow> (s, None)
               | Some t \<Rightarrow> (s\<lparr>rs_ticking := True\<rparr>, Some t)))"

text \<open>
  One tick of the watch; the new last time, or \<open>None\<close> when the watch ends because the binary is newer,
  after the PID file has been removed and the restart been asked for.
\<close>

definition restart_tick ::
    "time option \<Rightarrow> time \<Rightarrow> self_restart \<times> world \<Rightarrow> time option \<times> self_restart \<times> world" where
  "restart_tick modTime lastMod sw =
     (let (s, w) = sw
      in case modTime of
           None \<Rightarrow> (Some lastMod, s, w)
         | Some m \<Rightarrow>
             (if lastMod < m then (None, s\<lparr>rs_binaryUpdated := True\<rparr>, remove_file (PidFilePath False w) w)
              else (Some m, s, w)))"

text \<open>The path and the arguments of the new process, if one is started.\<close>

definition ExecRestart ::
    "(string \<Rightarrow> bool) \<Rightarrow> string option \<Rightarrow> self_restart \<Rightarrow> self_restart \<times> (string \<times> string list) option" where
  "ExecRestart exists executable s =
     (let s = s\<lparr>rs_binaryUpdated := False\<rparr>
      in if rs_exePath s = '''' then (s, None)
         else
           (let s = s\<lparr>rs_ticking := False\<rparr>;
                exePath = (if exists (rs_exePath s) then rs_exePath s
                           else (case executable of Some p \<Rightarrow> p | None \<Rightarrow> rs_exePath s))
            in if \<not> exists (rs_exePath s) \<and> \<not> exists exePath then (s, None)
               else (s, Some (exePath, [''start'', ''--log-format'', rs_logFormat s]))))"

section \<open>Waiting ends\<close>

text \<open>When every poll sleeps at least half a second, the waiting is over after at most twenty polls.\<close>

lemma wait_exit_returns:
  assumes "\<And>k. clock k + 500000000 \<le> clock (Suc k)" and "start \<le> clock 0"
  shows "\<exists>b. wait_exit clock running (start + 10 * 10 ^ 9) k = Some b"
proof -
  have late: "start + 500000000 * int k \<le> clock k" for k
  proof (induction k)
    case (Suc k)
    with assms(1) [of k] show ?case by simp
  qed (use assms(2) in simp)
  have "\<exists>b. wait_exit clock running (start + 10 * 10 ^ 9) k = Some b" if "20 - k = n" for n k
    using that
  proof (induction n arbitrary: k)
    case 0
    then have "20 \<le> k" by simp
    then have "500000000 * 20 \<le> 500000000 * int k" by simp
    with late [of k] have "\<not> clock k < start + 10 * 10 ^ 9" by simp
    then show ?case by (intro exI [of _ False]) (subst wait_exit.simps, simp)
  next
    case (Suc n)
    then have "20 - Suc k = n" by simp
    from Suc.IH [OF this] show ?case by (subst wait_exit.simps) auto
  qed
  then show ?thesis by blast
qed

lemma wait_exit_sees:
  assumes "wait_exit clock running deadline k = Some True"
  shows "\<exists>j\<ge>k. clock j < deadline \<and> \<not> running j"
proof -
  have "True \<longrightarrow> (\<exists>j\<ge>k. clock j < deadline \<and> \<not> running j)"
  proof (rule wait_exit.raw_induct [OF _ assms, where P = "\<lambda>clock running deadline k b.
      b \<longrightarrow> (\<exists>j\<ge>k. clock j < deadline \<and> \<not> running j)"])
    fix rec and clock :: "nat \<Rightarrow> time" and running deadline k b
    assume IH: "\<And>clock running deadline k b. rec clock running deadline k = Some b \<Longrightarrow>
        b \<longrightarrow> (\<exists>j\<ge>k. clock j < deadline \<and> \<not> running j)"
      and poll: "(if clock k < deadline then if \<not> running k then Some True else rec clock running deadline (Suc k)
            else Some False) = Some b"
    show "b \<longrightarrow> (\<exists>j\<ge>k. clock j < deadline \<and> \<not> running j)"
    proof (cases "clock k < deadline \<and> running k")
      case True
      with poll have "rec clock running deadline (Suc k) = Some b" by simp
      from IH [OF this] show ?thesis using Suc_leD by blast
    next
      case False
      with poll show ?thesis by (auto split: if_splits)
    qed
  qed
  then show ?thesis by simp
qed

section \<open>What a stop keeps and finds\<close>

lemma read_pid_Inr:
  assumes "read_pid pidFile c = (Inr pid, c')"
  shows "\<exists>data. read_file (cl_world c) pidFile = Some data \<and> Atoi (TrimSpace data) = Some pid \<and> 0 < pid"
  using assms by (auto simp: read_pid_def stop_hints_def after_def split: option.splits if_splits)

lemma read_pid_keeps: "through (\<lambda>c c'. cl_store c' = cl_store c) (read_pid pidFile)"
  by (auto simp: read_pid_def stop_hints_def intro!: store_kept.seq store_kept.pure store_kept.printed
      split: option.split)

lemma signal_stop_keeps: "through (\<lambda>c c'. cl_store c' = cl_store c) (signal_stop P pid)"
  by (auto simp: signal_stop_def intro!: store_kept.seq store_kept.pure store_kept.printed)

lemma stop_signalled:
  fixes P pidFile c
  defines "r \<equiv> after (read_pid pidFile) (\<lambda>pid. after (Printf ''Stopping akswitch (PID %d)...'' [PInt pid])
      (\<lambda>_. after (signal_stop P pid) (\<lambda>_. ret pid))) c"
  shows "cl_store (snd r) = cl_store c" and "fst r = Inr pid \<Longrightarrow>
    \<exists>data. read_file (cl_world c) pidFile = Some data \<and> Atoi (TrimSpace data) = Some pid \<and> 0 < pid"
proof -
  have "through (\<lambda>c c'. cl_store c' = cl_store c) (after (read_pid pidFile) (\<lambda>pid.
      after (Printf ''Stopping akswitch (PID %d)...'' [PInt pid]) (\<lambda>_. after (signal_stop P pid) (\<lambda>_. ret pid))))"
    by (intro store_kept.seq read_pid_keeps store_kept.printed signal_stop_keeps store_kept.pure)
  then show "cl_store (snd r) = cl_store c" by (simp add: through_def r_def)
  assume "fst r = Inr pid"
  then have "after (read_pid pidFile) (\<lambda>pid. after (Printf ''Stopping akswitch (PID %d)...'' [PInt pid])
      (\<lambda>_. after (signal_stop P pid) (\<lambda>_. ret pid))) c = (Inr pid, snd r)" by (simp add: r_def prod_eq_iff)
  then obtain pid' c1 where "read_pid pidFile c = (Inr pid', c1)" "pid' = pid"
    by (elim after_ResultE) (auto elim!: after_ResultE)
  then show "\<exists>data. read_file (cl_world c) pidFile = Some data \<and> Atoi (TrimSpace data) = Some pid \<and> 0 < pid"
    using read_pid_Inr by blast
qed

end
