(* ===== verification/Wire.thy ===== *)
theory Wire
  imports UsageCommands StopCommands Launcher
begin

text \<open>
  How a request of the command line arrives at the server: the target of its URL as \<open>net/http\<close> splits it,
  its query as \<open>net/url\<close> decodes it, and its header, so that what a command sends can be followed into
  the handlers. A query that the command line escapes is read back by the server.
\<close>

section \<open>URLs\<close>

text \<open>\<open>url.QueryUnescape\<close>; a percent sign without two digits is an error.\<close>

fun QueryUnescape :: "string \<Rightarrow> string option" where
  "QueryUnescape [] = Some []"
| "QueryUnescape (c # s) =
     (if c = CHR ''%''
      then (case s of
              a # b # r \<Rightarrow>
                (case (hex_val a, hex_val b) of
                   (Some h, Some l) \<Rightarrow> map_option ((#) (char_of (16 * h + l))) (QueryUnescape r)
                 | _ \<Rightarrow> None)
            | _ \<Rightarrow> None)
      else map_option ((#) (if c = CHR ''+'' then CHR '' '' else c)) (QueryUnescape s))"

text \<open>\<open>url.ParseQuery\<close>, which skips what it cannot decode.\<close>

definition query_pair :: "string \<Rightarrow> (string \<times> string) option" where
  "query_pair t =
     (if t = '''' \<or> CHR '';'' \<in> set t then None
      else (case split2 (CHR ''='') t of
              (k, v) \<Rightarrow>
                (case (QueryUnescape k, QueryUnescape (case v of None \<Rightarrow> '''' | Some x \<Rightarrow> x)) of
                   (Some k, Some v) \<Rightarrow> Some (k, v) | _ \<Rightarrow> None)))"

definition ParseQuery :: "string \<Rightarrow> (string \<times> string) list" where
  "ParseQuery q = List.map_filter query_pair (split_on (CHR ''&'') q)"

text \<open>The path and the raw query of an absolute URL.\<close>

definition url_target :: "string \<Rightarrow> string \<times> string" where
  "url_target url =
     (let (path, q) = split2 (CHR ''?'') (dropWhile (\<lambda>c. c \<noteq> CHR ''/'') (TrimPrefix url ''http://''))
      in (path, case q of None \<Rightarrow> '''' | Some x \<Rightarrow> x))"

text \<open>A call as the handlers get it.\<close>

definition received :: "api_call \<Rightarrow> api_request" where
  "received q =
     (let (path, query) = url_target (ac_url q)
      in \<lparr>aq_method = ac_method q, aq_path = path, aq_query = ParseQuery query,
          aq_header = (if ac_type q \<noteq> '''' then [(''Content-Type'', [ac_type q])] else []) @
                      (if ac_token q \<noteq> '''' then [(''X-Admin-Token'', [ac_token q])] else []),
          aq_body = (case ac_body q of None \<Rightarrow> [] | Some b \<Rightarrow> b)\<rparr>)"

definition arrives_at :: "api_call \<Rightarrow> endpoint" where
  "arrives_at q = route (ac_method q) (aq_path (received q))"

section \<open>Escaping and unescaping\<close>

lemma hex_val_upper: "n < 16 \<Longrightarrow> hex_val (upper_hex n) = Some n"
  by (auto simp: hex_val_def upper_hex_def Let_def)

lemma unreserved_plain:
  "unreserved c \<Longrightarrow> c \<noteq> CHR ''%'' \<and> c \<noteq> CHR ''+'' \<and> c \<noteq> CHR ''&'' \<and> c \<noteq> CHR ''='' \<and> c \<noteq> CHR '';'' \<and> c \<noteq> CHR ''?''"
  by (auto simp: unreserved_def Let_def)

lemma unescape_byte: "QueryUnescape (escape_byte c @ s) = map_option ((#) c) (QueryUnescape s)"
proof -
  have n: "(of_char c :: nat) < 256" by simp
  then have "(of_char c :: nat) div 16 < 16" by (simp add: less_mult_imp_div_less)
  then have h: "hex_val (upper_hex (of_char c div 16)) = Some (of_char c div 16)"
    "hex_val (upper_hex (of_char c mod 16)) = Some (of_char c mod 16)"
    by (simp_all add: hex_val_upper)
  show ?thesis using unreserved_plain [of c] by (auto simp: escape_byte_def h)
qed

lemma QueryUnescape_escape: "QueryUnescape (QueryEscape s @ t) = map_option ((@) s) (QueryUnescape t)"
proof (induction s)
  case (Cons c s)
  then show ?case by (simp add: QueryEscape_def unescape_byte option.map_comp comp_def)
qed (simp add: QueryEscape_def option.map_ident_strong)

lemma upper_hex_plain: "n < 16 \<Longrightarrow> unreserved (upper_hex n)"
  by (auto simp: upper_hex_def unreserved_def Let_def)

lemma escaped_plain:
  assumes "c \<in> set (QueryEscape s)"
  shows "unreserved c \<or> c = CHR ''%'' \<or> c = CHR ''+''"
proof -
  obtain b where b: "c \<in> set (escape_byte b)" using assms by (auto simp: QueryEscape_def)
  have "(of_char b :: nat) div 16 < 16" by (simp add: less_mult_imp_div_less)
  with b show ?thesis by (auto simp: escape_byte_def upper_hex_plain split: if_splits)
qed

lemma escaped_separators: "CHR ''&'' \<notin> set (QueryEscape s)" "CHR ''='' \<notin> set (QueryEscape s)"
  "CHR '';'' \<notin> set (QueryEscape s)" "CHR ''?'' \<notin> set (QueryEscape s)"
  using escaped_plain [of _ s] unreserved_plain by fastforce+

lemma ParseQuery_provider: "ParseQuery (''provider='' @ QueryEscape name) = [(''provider'', name)]"
proof -
  have s: "split2 (CHR ''='') (''provider='' @ QueryEscape name) = (''provider'', Some (QueryEscape name))"
    using split2_append_sep [of "CHR ''=''" "''provider''" "QueryEscape name"] by simp
  have u: "QueryUnescape (QueryEscape name) = Some name" using QueryUnescape_escape [of name "[]"] by simp
  have "split_on (CHR ''&'') (''provider='' @ QueryEscape name) = [''provider='' @ QueryEscape name]"
    by (rule split_on_no_sep) (simp add: escaped_separators)
  then show ?thesis
    using s u by (simp add: ParseQuery_def query_pair_def escaped_separators List.map_filter_simps)
qed

lemma Itoa_chars: "digit_val c = None \<Longrightarrow> c \<noteq> CHR ''-'' \<Longrightarrow> c \<notin> set (Itoa i)"
  using nat_digits_all_digits [of "nat i"] nat_digits_all_digits [of "nat (- i)"] 
  by (auto simp: Itoa_def)

lemma Itoa_nonempty: "Itoa (int n) \<noteq> ''''"
  by (simp add: Itoa_def)

text \<open>The target of a URL on a host without a slash.\<close>

lemma url_target_base:
  assumes "CHR ''/'' \<notin> set host" and "CHR ''?'' \<notin> set path" and "path \<noteq> '''' \<Longrightarrow> hd path = CHR ''/''" and "path \<noteq> ''''"
  shows "url_target (base_url host port @ path @ CHR ''?'' # q) = (path, q)"
    and "url_target (base_url host port @ path) = (path, '''')"
proof -
  have p: "CHR ''/'' \<notin> set (Itoa port)" by (rule Itoa_chars) (simp_all add: digit_val_def)
  have d: "dropWhile (\<lambda>c. c \<noteq> CHR ''/'') (host @ '':'' @ Itoa port @ path @ r) = path @ r" for r
  proof -
    have "dropWhile (\<lambda>c. c \<noteq> CHR ''/'') ((host @ '':'' @ Itoa port) @ path @ r) = dropWhile (\<lambda>c. c \<noteq> CHR ''/'') (path @ r)"
      using assms(1) p by (intro dropWhile_append2) auto
    then show ?thesis using assms(3,4) by (cases path) auto
  qed
  show "url_target (base_url host port @ path @ CHR ''?'' # q) = (path, q)"
    using d [of "CHR ''?'' # q"] assms(2) by (simp add: url_target_def base_url_def TrimPrefix_def HasPrefix_def)
  show "url_target (base_url host port @ path) = (path, '''')"
    using d [of "[]"] assms(2) by (simp add: url_target_def base_url_def TrimPrefix_def HasPrefix_def split2_no_sep)
qed

section \<open>What the client sends\<close>

definition host_ok :: "cli_env \<Rightarrow> world \<Rightarrow> bool" where
  "host_ok E w \<longleftrightarrow>
     (case XDGConfigPath w of
        None \<Rightarrow> True | Some path \<Rightarrow> CHR ''/'' \<notin> set (FindServerHost (read_file w) (ce_tomlDecode E) path))"

lemma adminHost_ok: "CHR ''/'' \<notin> set adminHost"
  by (simp add: adminHost_def)

lemma detectServerHost_ok:
  "detectServerHost E c = (Inr host, c') \<Longrightarrow> host_ok E (cl_world c) \<Longrightarrow> CHR ''/'' \<notin> set host"
  by (auto simp: detectServerHost_def host_ok_def adminHost_ok Let_def split: option.splits if_splits elim!: after_ResultE)

text \<open>The client has the token that the configuration has for the provider.\<close>

lemma NewAdminClient_result:
  assumes "NewAdminClient E timeout provider c = (Inr client, c1)" and "host_ok E (cl_world c)"
    and "loadAdminToken E provider (cl_world c) = Token token"
  obtains host port where "CHR ''/'' \<notin> set host" and "ad_baseURL client = base_url host port"
    and "ad_token client = token" and "cl_store c1 = cl_store c" and "cl_sent c1 = cl_sent c"
proof -
  obtain port c2 where p: "detectServerPort E c = (Inr port, c2)"
      "after (detectServerHost E) (\<lambda>host. after the_world (\<lambda>w.
         let client = (\<lambda>token. \<lparr>ad_timeout = timeout, ad_baseURL = base_url host port, ad_token = token\<rparr>)
         in case loadAdminToken E provider w of
              TokenPanic \<Rightarrow> fail Panicked
            | Token t \<Rightarrow> ret (client t)
            | TokenError e \<Rightarrow>
                after (Eprintf ''warning: failed to load admin token: %v''
                         [case e of None \<Rightarrow> NoPath | Some e \<Rightarrow> PConfig e]) (\<lambda>_. ret (client '''')))) c2 = (Inr client, c1)"
    using assms(1) unfolding NewAdminClient_def by (rule after_ResultE)
  have s2: "cl_store c2 = cl_store c" using throughD [OF store_kept.detecting(1) p(1)] .
  from p(2) obtain host c3 where h: "detectServerHost E c2 = (Inr host, c3)"
      "after the_world (\<lambda>w.
         let client = (\<lambda>token. \<lparr>ad_timeout = timeout, ad_baseURL = base_url host port, ad_token = token\<rparr>)
         in case loadAdminToken E provider w of
              TokenPanic \<Rightarrow> fail Panicked
            | Token t \<Rightarrow> ret (client t)
            | TokenError e \<Rightarrow>
                after (Eprintf ''warning: failed to load admin token: %v''
                         [case e of None \<Rightarrow> NoPath | Some e \<Rightarrow> PConfig e]) (\<lambda>_. ret (client ''''))) c3 = (Inr client, c1)"
    by (rule after_ResultE)
  have s3: "cl_store c3 = cl_store c" using throughD [OF store_kept.detecting(2) h(1)] s2 by simp
  have "ad_baseURL client = base_url host port" "ad_token client = token"
    using h(2) assms(3) by (auto simp: s3)
  moreover have "CHR ''/'' \<notin> set host" using detectServerHost_ok [OF h(1)] assms(2) s2 by simp
  moreover have "cl_store c1 = cl_store c" "cl_sent c1 = cl_sent c"
    using throughD [OF store_kept.client assms(1)] throughD [OF sent_kept.client assms(1)] by simp_all
  ultimately show ?thesis using that by blast
qed

lemma Do_call_sent:
  assumes "Do_call E client (new_request client verb path type body) c = (Inr r, c')"
  shows "cl_sent c' = cl_sent c @ [(new_request client verb path type body)\<lparr>ac_token := ad_token client\<rparr>]"
proof -
  have "new_request client verb path type body =
      (new_request client verb path type body)\<lparr>ac_token := ad_token client\<rparr>" if "ad_token client = ''''"
    using that by (simp add: new_request_def)
  then show ?thesis using assms by (auto simp: Do_call_def Let_def split: prod.splits if_splits)
qed

text \<open>A call on a key and how it arrives.\<close>

lemma key_call_sent:
  assumes "callKeyRuntimeAPI E provider idx operation c = (Inr (), c')" and "host_ok E (cl_world c)"
    and "loadAdminToken E provider (cl_world c) = Token token"
  obtains q host port where "cl_sent c' = cl_sent c @ [q]" and "CHR ''/'' \<notin> set host"
    and "ac_method q = (if operation = ''cooldown'' then ''PUT'' else ''POST'')"
    and "ac_url q = base_url host port @ key_path provider idx operation" and "ac_token q = token"
    and "ac_type q = ''application/json''"
proof -
  let ?req = "\<lambda>client. if operation = ''cooldown''
      then new_request client ''PUT'' (key_path provider idx operation) ''application/json'' (Some ''{}'')
      else new_request client ''POST'' (key_path provider idx operation) ''application/json'' None"
  obtain client c1 where c1: "NewAdminClient E 5 provider c = (Inr client, c1)"
      "after (Do_call E client (?req client)) (\<lambda>r. after (answered r) (\<lambda>_. ret ())) c1 = (Inr (), c')"
    using assms(1) unfolding callKeyRuntimeAPI_def by (rule after_ResultE)
  from c1(2) obtain r c2 where c2: "Do_call E client (?req client) c1 = (Inr r, c2)"
      "after (answered r) (\<lambda>_. ret ()) c2 = (Inr (), c')" by (rule after_ResultE)
  have sent: "cl_sent c' = cl_sent c2"
    using c2(2) by (auto simp: answered_def after_def split: option.splits if_splits)
  obtain host port where hp: "CHR ''/'' \<notin> set host" "ad_baseURL client = base_url host port"
      "ad_token client = token" "cl_store c1 = cl_store c" "cl_sent c1 = cl_sent c"
    by (rule NewAdminClient_result [OF c1(1) assms(2,3)])
  have "cl_sent c2 = cl_sent c1 @ [(?req client)\<lparr>ac_token := ad_token client\<rparr>]"
    using c2(1) by (cases "operation = ''cooldown''") (simp_all add: Do_call_sent)
  with hp sent show ?thesis by (intro that [of "(?req client)\<lparr>ac_token := ad_token client\<rparr>" host port])
    (simp_all add: new_request_def)
qed

lemma key_call_received:
  assumes "CHR ''/'' \<notin> set host" and "ac_url q = base_url host port @ key_path name (int i) operation"
    and "CHR ''?'' \<notin> set operation" and "ac_type q = ''application/json''"
  shows "aq_path (received q) = ''/api/keys/'' @ Itoa (int i) @ ''/'' @ operation"
    and "aq_query (received q) = [(''provider'', name)]"
    and "aq_method (received q) = ac_method q"
    and "header_get ''X-Admin-Token'' (aq_header (received q)) = ac_token q"
proof -
  have "CHR ''?'' \<notin> set (Itoa (int i))" by (rule Itoa_chars) (simp_all add: digit_val_def)
  then have "url_target (ac_url q) = (''/api/keys/'' @ Itoa (int i) @ ''/'' @ operation, ''provider='' @ QueryEscape name)"
    using url_target_base(1) [OF assms(1), of "''/api/keys/'' @ Itoa (int i) @ ''/'' @ operation" port
        "''provider='' @ QueryEscape name"] assms(2,3) by (simp add: key_path_def)
  then show "aq_path (received q) = ''/api/keys/'' @ Itoa (int i) @ ''/'' @ operation"
    and "aq_query (received q) = [(''provider'', name)]"
    using ParseQuery_provider [of name] by (simp_all add: received_def)
  show "aq_method (received q) = ac_method q" "header_get ''X-Admin-Token'' (aq_header (received q)) = ac_token q"
    using assms(4) by (simp_all add: received_def header_get_def split: prod.split)
qed

lemma key_path_segments:
  assumes "CHR ''/'' \<notin> set operation"
  shows "split_on (CHR ''/'') (''/api/keys/'' @ Itoa (int i) @ ''/'' @ operation) =
    ['''', ''api'', ''keys'', Itoa (int i), operation]"
proof -
  have "CHR ''/'' \<notin> set (Itoa (int i))" by (rule Itoa_chars) (simp_all add: digit_val_def)
  then have "split_on (CHR ''/'') (Itoa (int i) @ CHR ''/'' # operation) = [Itoa (int i), operation]"
    using split_on_append_sep [of "CHR ''/''" "Itoa (int i)" operation] split_on_no_sep [OF assms] by simp
  then show ?thesis by simp
qed

text \<open>A client is made without a message to the user and without touching a file or the server.\<close>

definition quiet_step :: "cli \<Rightarrow> cli \<Rightarrow> bool" where
  "quiet_step c c' \<longleftrightarrow> cl_out c' = cl_out c \<and> cl_store c' = cl_store c \<and> cl_sent c' = cl_sent c"

lemma load_providers_quiet: "\<exists>r c'. load_providers E path c = (Inr r, c') \<and> quiet_step c c'"
  by (auto simp: load_providers_def quiet_step_def Let_def split: prod.split option.split)

lemma detecting_quiet:
  "\<exists>port c'. detectServerPort E c = (Inr port, c') \<and> quiet_step c c'"
  "\<exists>host c'. detectServerHost E c = (Inr host, c') \<and> quiet_step c c'"
proof -
  show "\<exists>port c'. detectServerPort E c = (Inr port, c') \<and> quiet_step c c'"
  proof (cases "XDGConfigPath (cl_world c)")
    case (Some path)
    with load_providers_quiet [of E path c] show ?thesis by (auto simp: detectServerPort_def after_def Let_def)
  qed (simp add: detectServerPort_def quiet_step_def)
  show "\<exists>host c'. detectServerHost E c = (Inr host, c') \<and> quiet_step c c'"
  proof (cases "XDGConfigPath (cl_world c)")
    case (Some path)
    with load_providers_quiet [of E path c] show ?thesis by (auto simp: detectServerHost_def after_def Let_def)
  qed (simp add: detectServerHost_def quiet_step_def)
qed

lemma NewAdminClient_succeeds:
  assumes "loadAdminToken E provider (cl_world c) \<noteq> TokenPanic"
  shows "\<exists>client c'. NewAdminClient E timeout provider c = (Inr client, c') \<and> quiet_step c c'"
proof -
  obtain port c1 where p: "detectServerPort E c = (Inr port, c1)" "quiet_step c c1" using detecting_quiet(1) by blast
  obtain host c2 where h: "detectServerHost E c1 = (Inr host, c2)" "quiet_step c1 c2" using detecting_quiet(2) by blast
  have s: "quiet_step c c2" using p(2) h(2) by (simp add: quiet_step_def)
  show ?thesis
  proof (cases "loadAdminToken E provider (cl_world c)")
    case (Token t)
    with s show ?thesis
      by (simp add: NewAdminClient_def after_def p(1) h(1) Let_def quiet_step_def)
  next
    case (TokenError e)
    with s show ?thesis
      by (simp add: NewAdminClient_def after_def p(1) h(1) Let_def quiet_step_def)
  qed (use assms in simp)
qed

lemma triggerReload_returns:
  assumes "loadAdminToken E '''' (cl_world c) \<noteq> TokenPanic"
  shows "\<exists>b c'. triggerReload E c = (Inr b, c')"
proof -
  obtain client c1 where n: "NewAdminClient E 3 '''' c = (Inr client, c1)" using NewAdminClient_succeeds [OF assms] by blast
  let ?p = "Post_path E client ''/api/reload'' ''application/json'' None c1"
  obtain r where "fst ?p = Inr r" by (simp add: Post_path_def Do_call_def Let_def case_prod_beta)
  then obtain c2 where "?p = (Inr r, c2)" by (metis prod.collapse)
  then show ?thesis by (cases r) (auto simp: triggerReload_def after_def n)
qed

end
