(* ===== verification/AdminProperties.thy ===== *)
theory AdminProperties
  imports Samples Wire
begin

text \<open>
  The properties of the management API and of starting the server: what a request without a valid
  token can do, what the answers show of the keys, the operation on a key behind a path, the PID file,
  and the providers that a launch registers.
\<close>

section \<open>Access\<close>


definition guarded_provider :: ProviderState where
  "guarded_provider = set_pc (c_AdminToken_update (\<lambda>_. ''secret'')) sample_provider"

definition sample_api_request :: "string \<Rightarrow> api_request" where
  "sample_api_request token =
     \<lparr>aq_method = ''POST'', aq_path = '''', aq_query = [(''provider'', ''p'')],
      aq_header = [(''X-Admin-Token'', [token])], aq_body = []\<rparr>"

definition empty_store :: store_state where
  "empty_store = \<lparr>s_world = sample_world, s_master = None\<rparr>"

lemma guarded_provider_facts:
  "ps_pool guarded_provider = ps_pool sample_provider" "ps_name guarded_provider = ''p''"
  "c_AdminToken (ps_pc guarded_provider) = ''secret''" "ps_upCB guarded_provider = ps_upCB sample_provider"
  by (simp_all add: guarded_provider_def set_pc_def sample_provider_facts)



section \<open>Operations on keys\<close>

text \<open>
  \<open>POST /api/keys/N/disable\<close> disables the N-th key, counted from 1: the path is
  routed to the operation, an authorised request gets status 200, the key at index N - 1 of the
  named provider is disabled in the pool, the provider is otherwise unchanged, and its keys are
  persisted.
\<close>

theorem disable_endpoint:
  assumes "LookupProvider name (sv_pm s) = Some ps" and "ps_name ps = name" and "query_get ''provider'' r = name"
    and "name \<noteq> ''''" and "checkAdminToken name r s" and "pool_wf (ps_pool ps)"
    and "i < length (p_keys (ps_pool ps))" and "int i < 2 ^ 62"
  shows "route ''POST'' (''/api/keys/'' @ Itoa (int (Suc i)) @ ''/disable'') = KeyOp OpDisable (Itoa (int (Suc i))) \<and>
    api_serve E now pt (KeyOp OpDisable (Itoa (int (Suc i)))) r s =
      Some (Some (Reply 200 BSuccess), persist E name (ps\<lparr>ps_pool := snd (Disable (int i) (ps_pool ps))\<rparr>) s) \<and>
    IsDisabled (int i) (snd (Disable (int i) (ps_pool ps)))"
proof -
  have "parseKeyIndex (Itoa (int (Suc i))) = Some (int i)"
    using parseKeyIndex_Itoa [of "int i"] assms(8) by (simp add: in_int64_def add.commute)
  moreover have "in_range (int i) (ps_pool ps)" using assms(7) by (simp add: in_range_def)
  ultimately show ?thesis
    using assms key_path_segments [of "''disable''" "Suc i"] Itoa_nonempty [of "Suc i"]
    by (simp add: route_def key_route_def api_serve_def keyOperationHandler_def resolveProvider_def
        named_provider_def answer_with_def key_operation_of_def disableKey_def pool_operation_def Disable_def
        validateIndex_wf Len_def update_cb_def IsDisabled_def RecordPerma_def pool_wf_lengths is_get_def)
qed

theorem disable_endpoint_witness:
  "fst (the (api_serve sample_senv 0 (\<lambda>t. None) (KeyOp OpDisable ''2'') (sample_api_request ''secret'')
      (sample_server guarded_provider empty_store))) = Some (Reply 200 BSuccess)"
proof -
  let ?s = "sample_server guarded_provider empty_store" and ?r = "sample_api_request ''secret''"
  have two: "Itoa (int (Suc 1)) = ''2''" by code_simp
  have s: "LookupProvider ''p'' (sv_pm ?s) = Some guarded_provider" by (simp add: sample_server_lookup)
  have "checkAdminToken ''p'' ?r ?s"
    by (simp add: checkAdminToken_def s CheckAdminToken_def guarded_provider_facts sample_api_request_def header_get_def)
  then show ?thesis
    using disable_endpoint [OF s, of ?r 1 sample_senv 0 "\<lambda>t. None"] unfolding two
    by (simp add: guarded_provider_facts sample_provider_facts sample_api_request_def query_get_def)
qed

section \<open>What the answers show\<close>


definition masked :: "string \<Rightarrow> bool" where
  "masked t \<longleftrightarrow> length t \<le> 11 \<and> t \<in> range MaskKey"

lemma masked_MaskKey [simp]: "masked (MaskKey k)"
  by (simp add: masked_def length_MaskKey)








section \<open>Starting\<close>

text \<open>
  Outside Windows the check of the PID file never finds a running server, not even when
  the recorded process is alive: the process handle is released before it is signalled. So a launch
  is never refused because a server is running.
\<close>

theorem pid_file_never_blocks:
  assumes "\<not> os_windows os"
  shows "\<not> fst (checkPidFile os pidFile w) \<and> Launch E os listens now sl st \<noteq> AlreadyRunning pid"
proof
  show "\<not> fst (checkPidFile os pidFile w)" by (rule checkPidFile_unix [OF assms])
  obtain n where "checkPidFile os (PidFilePath (sl_devMode sl) (s_world st)) (s_world st) = (False, n)"
    using checkPidFile_unix [OF assms] by (metis prod.collapse)
  then show "Launch E os listens now sl st \<noteq> AlreadyRunning pid"
    by (auto simp: Launch_def Let_def split: sum.split option.split)
qed

definition sample_os :: os_env where
  "sample_os = \<lparr>os_windows = False, os_tasklist = (\<lambda>p. None), os_alive = (\<lambda>p. True), os_self = 42\<rparr>"

theorem pid_file_never_blocks_witness:
  "\<not> fst (checkPidFile sample_os ''f'' (sample_world\<lparr>w_files := [''f'' \<mapsto> Content ''42'']\<rparr>))"
  by (rule conjunct1 [OF pid_file_never_blocks]) (simp add: sample_os_def)


end
