(* ===== verification/CommandSamples.thy ===== *)
theory CommandSamples
  imports Wire Samples
begin

text \<open>
  Concrete inputs for the witnesses on commands: a command line without a configuration file whose
  server gives one fixed answer to everything, and a world that can be written.
\<close>

definition sample_cli_env :: "(int \<times> bytes) option \<Rightarrow> cli_env" where
  "sample_cli_env answer =
     \<lparr>ce_codec = sample_codec, ce_fresh = replicate 32 (CHR ''k''), ce_loadNonce = replicate 12 (CHR ''n''),
      ce_saveNonce = replicate 12 (CHR ''n''), ce_tomlDecode = (\<lambda>b. None), ce_tomlEncode = (\<lambda>t. None),
      ce_server = (\<lambda>q w. (answer, w)), ce_args = [], ce_stdin = None\<rparr>"

definition sample_cli :: "store_state \<Rightarrow> cli" where
  "sample_cli st = \<lparr>cl_store = st, cl_defaultName = '''', cl_out = [], cl_err = [], cl_sent = []\<rparr>"

definition command_store :: KeyStore where
  "command_store = sample_store @ [\<lparr>e_Key = ''key-c'', e_Name = ''c'', e_Disabled = False, e_Deleted = False\<rparr>]"

lemma command_store_valid: "list_all valid_entry command_store"
  using sample_store_valid by (simp add: command_store_def valid_entry_def clean_ascii)

lemma sample_cli_store [simp]: "cl_store (sample_cli st) = st"
  by (simp add: sample_cli_def)

lemma sample_cli_ready: "cli_ready (sample_cli_env answer)"
  by (simp add: cli_ready_def sample_cli_env_def sample_codec_ok quiet_server_def)

lemma sample_holds:
  assumes "list_all valid_entry store"
  shows "holds (sample_cli_env answer) ''p'' store (sample_cli (saved store))"
  using SaveKeys_LoadEncrypted [OF sample_codec_ok _ saved_result(1) [of store], of "replicate 32 (CHR ''k'')"]
  by (simp add: holds_def sample_cli_env_def clean_valid [OF assms])

lemma command_store_facts:
  "keysFromStore command_store = ([''key-a'', ''key-c''], [''a'', ''c''])"
  "resolveKeyIndex (Some command_store) ''c'' = Inr 2" "resolveKeyIndex (Some command_store) ''a'' = Inr 0"
  "storeIndexToPoolIndex command_store 2 = 1" "length command_store = 3"
  "command_store ! 2 = \<lparr>e_Key = ''key-c'', e_Name = ''c'', e_Disabled = False, e_Deleted = False\<rparr>"
  "command_store ! 0 = \<lparr>e_Key = ''key-a'', e_Name = ''a'', e_Disabled = True, e_Deleted = False\<rparr>"
  by code_simp+

section \<open>Commands that succeed\<close>

definition writable :: "cli \<Rightarrow> bool" where
  "writable c \<longleftrightarrow> s_master (cl_store c) = Some (Inr (replicate 32 (CHR ''k''))) \<and>
     w_configDir (cl_world c) = Some ''/c'' \<and> w_canMkdir (cl_world c) \<and>
     w_canWrite (cl_world c) = (\<lambda>p. True) \<and> w_canRename (cl_world c) = (\<lambda>p. True)"

lemma writable_printed [simp]: "writable (c\<lparr>cl_out := out\<rparr>) = writable c" "writable (c\<lparr>cl_err := out\<rparr>) = writable c"
  by (simp_all add: writable_def)

lemma saved_writable: "writable (sample_cli (saved store))"
  using saved_world [of store]
  by (simp add: writable_def saved_def SaveKeys_def SaveEncrypted_def getMasterKey_def setup_master_def master_to_file_def
      ensureKeysDir_def write_file_def rename_file_def remove_file_def removeFromKeyring_def encrypt_def
      cipher_error_def encryptedFilePath_def masterKeyFile_def keys_path_def sample_world_def Let_def)

lemma writable_saves:
  assumes "writable c"
  shows "\<exists>c1. save_with (sample_cli_env answer) err ''p'' store c = (Inr (), c1) \<and> writable c1 \<and>
    loadInsecureFile ''p'' (cl_world c1) = loadInsecureFile ''p'' (cl_world c)"
proof -
  note defs = SaveKeys_def SaveEncrypted_def getMasterKey_again ensureKeysDir_def write_file_def rename_file_def
    remove_file_def removeFromKeyring_def encrypt_def cipher_error_def encryptedFilePath_def keys_path_def Let_def
  let ?r = "SaveKeys sample_codec (replicate 32 (CHR ''k'')) (replicate 12 (CHR ''n'')) ''p'' store (cl_store c)"
  have "fst ?r = None" "writable (c\<lparr>cl_store := snd ?r\<rparr>)"
    using assms by (simp_all add: writable_def defs split: option.split)
  moreover have "s_master (cl_store c) = Some (Inr (replicate 32 (CHR ''k'')))" using assms by (simp add: writable_def)
  from SaveKeys_plain [OF this] have "loadInsecureFile ''p'' (s_world (snd ?r)) = loadInsecureFile ''p'' (cl_world c)" .
  ultimately show ?thesis by (cases ?r) (simp add: save_with_def sample_cli_env_def)
qed

lemma sample_reloads: "\<exists>c1. done_reload (sample_cli_env answer) c = (Inr (), c1)"
proof -
  have "loadAdminToken (sample_cli_env answer) '''' w \<noteq> TokenPanic" for w
    by (simp add: loadAdminToken_def LoadTomlConfig_def sample_cli_env_def split: option.split)
  then obtain b c1 where "triggerReload (sample_cli_env answer) c = (Inr b, c1)"
    using triggerReload_returns by blast
  then show ?thesis by (simp add: done_reload_def after_def)
qed

text \<open>So every editing command succeeds, and the world can still be written.\<close>

lemma sample_edits:
  assumes "writable c"
  shows "\<exists>c1. after (save_with (sample_cli_env answer) err ''p'' store) (\<lambda>_. after (Printf fmt args) (\<lambda>_.
      done_reload (sample_cli_env answer))) c = (Inr (), c1) \<and> writable c1 \<and>
    loadInsecureFile ''p'' (cl_world c1) = loadInsecureFile ''p'' (cl_world c)"
proof -
  obtain c1 where c1: "save_with (sample_cli_env answer) err ''p'' store c = (Inr (), c1)" "writable c1"
      "loadInsecureFile ''p'' (cl_world c1) = loadInsecureFile ''p'' (cl_world c)"
    using writable_saves [OF assms] by blast
  obtain c2 where c2: "done_reload (sample_cli_env answer) (c1\<lparr>cl_out := cl_out c1 @ [(fmt, args)]\<rparr>) = (Inr (), c2)"
    using sample_reloads by blast
  have "cl_store c2 = cl_store c1" using done_reload_keeps [OF sample_cli_ready c2] by simp
  with c1(2,3) have "writable c2" "loadInsecureFile ''p'' (cl_world c2) = loadInsecureFile ''p'' (cl_world c)"
    by (simp_all add: writable_def)
  with c1(1) c2 show ?thesis by (simp add: after_def)
qed

section \<open>With a configuration file\<close>

text \<open>A configuration file with one provider, and the stored keys of the samples.\<close>

definition sample_toml :: TomlConfig where
  "sample_toml =
     \<lparr>t_Port = 4000, t_Host = '''', t_DefaultProvider = ''p'', t_Default = None, t_CredentialsDir = '''',
      t_LogFile = '''', t_LogMaxSize = 0, t_LogMaxAge = 0, t_ErrorDumpMaxAge = 0,
      t_Provider = [(''p'', Some sample_config)]\<rparr>"

definition launch_store :: store_state where
  "launch_store = on_world (\<lambda>w. w\<lparr>w_files := (w_files w)(''/c/config.toml'' := Some (Content ''toml''))\<rparr>)
     (saved command_store)"

end
