(* ===== verification/CommandProperties.thy ===== *)
theory CommandProperties
  imports CommandSamples Failover
begin

text \<open>
  The properties of the commands on keys: what they leave in the store, and what the running server
  makes of it.
\<close>

section \<open>Disabling a key takes effect\<close>



section \<open>Cooling a key down\<close>

text \<open>
  C13 (functional). When \<open>key cooldown\<close> succeeds, it has sent exactly one request, and a server that runs
  with the stored keys and the configured token routes it to the cooldown of the very key that the
  command named, although the command counts deleted keys and the server does not: the answer is 200,
  only that key's breaker changes, and the key cannot be used before the configured cooldown is over.
\<close>

theorem cooldown_command_reaches_key:
  assumes "holds E name store c" and "keyCooldownCmd E name keyID c = (Inr (), c')" and "host_ok E (cl_world c)"
    and "loadAdminToken E name (cl_world c) = Token (c_AdminToken (ps_pc ps))"
    and "LookupProvider name (sv_pm s) = Some ps" and "ps_name ps = name" and "name \<noteq> ''''"
    and "pool_wf (ps_pool ps)" and "p_keys (ps_pool ps) = fst (keysFromStore store)" and "int (length store) < 2 ^ 62"
  shows "\<exists>i q. resolveKeyIndex (Some store) keyID = Inr i \<and> cl_sent c' = cl_sent c @ [q] \<and>
    p_keys (ps_pool ps) ! storeIndexToPoolIndex store i = e_Key (store ! i) \<and>
    api_serve S now pt (arrives_at q) (received q) s =
      Some (Some (Reply 200 BSuccess),
        persist S name (ps\<lparr>ps_pool := update_cb (storeIndexToPoolIndex store i)
          (ForceCooldown now (seconds (c_CooldownSec (ps_pc ps)))) (ps_pool ps)\<rparr>) s) \<and>
    (\<forall>t\<le>now + seconds (c_CooldownSec (ps_pc ps)).
       \<not> Allow t (ForceCooldown now (seconds (c_CooldownSec (ps_pc ps))) (p_cbs (ps_pool ps) ! storeIndexToPoolIndex store i)))"
proof -
  obtain i where i: "resolveKeyIndex (Some store) keyID = Inr i" "\<not> e_Deleted (store ! i)"
      "callKeyRuntimeAPI E name (int (storeIndexToPoolIndex store i) + 1) ''cooldown'' c = (Inr (), c')"
    using assms(2) by (auto simp: keyCooldownCmd_def holds_after [OF assms(1)] lift_sum_after on_error_def
        split: if_splits prod.splits sum.splits)
  let ?m = "storeIndexToPoolIndex store i"
  have il: "i < length store" using i(1) by (rule resolveKeyIndex_bound)
  note same = storeIndexToPoolIndex_key [OF il i(2)]
  have call: "callKeyRuntimeAPI E name (int (Suc ?m)) ''cooldown'' c = (Inr (), c')" using i(3) by (simp add: add.commute)
  obtain q host port where q: "cl_sent c' = cl_sent c @ [q]" "CHR ''/'' \<notin> set host"
      "ac_method q = (if ''cooldown'' = ''cooldown'' then ''PUT'' else ''POST'')"
      "ac_url q = base_url host port @ key_path name (int (Suc ?m)) ''cooldown''"
      "ac_token q = c_AdminToken (ps_pc ps)" "ac_type q = ''application/json''"
    by (rule key_call_sent [OF call assms(3,4)])
  note r = key_call_received [OF q(2,4) _ q(6)]
  have "?m < length store" using same(1) by (rule order_less_le_trans) (simp add: keysFromStore_def Let_def)
  then have "int ?m < 2 ^ 62" using assms(10) by simp
  then have idx: "parseKeyIndex (Itoa (int (Suc ?m))) = Some (int ?m)"
    using parseKeyIndex_Itoa [of "int ?m"] by (simp add: in_int64_def add.commute)
  have route: "arrives_at q = KeyOp OpCooldown (Itoa (int (Suc ?m)))"
    using r(1) q(3) key_path_segments [of "''cooldown''" "Suc ?m"] Itoa_nonempty [of "Suc ?m"]
    by (simp add: arrives_at_def route_def key_route_def is_get_def)
  have token: "checkAdminToken name (received q) s"
    using r(4) q(5) assms(5) by (simp add: checkAdminToken_def CheckAdminToken_def HasAdminToken_def)
  have query: "query_get ''provider'' (received q) = name" using r(2) by (simp add: query_get_def)
  have served: "api_serve S now pt (arrives_at q) (received q) s =
      Some (Some (Reply 200 BSuccess),
        persist S name (ps\<lparr>ps_pool := update_cb ?m (ForceCooldown now (seconds (c_CooldownSec (ps_pc ps)))) (ps_pool ps)\<rparr>) s)"
    using same(1) assms(5-9) idx token query
    by (simp add: route api_serve_def keyOperationHandler_def resolveProvider_def named_provider_def answer_with_def
        key_operation_of_def cooldownKey_def pool_operation_def Cooldown_def validateIndex_wf in_range_def Len_def
        pool_wf_lengths)
  show ?thesis using i(1) q(1) same(2) assms(9) served ForceCooldown_blocks by (intro exI [of _ i] exI [of _ q]) simp
qed

section \<open>Importing keys\<close>


section \<open>Removing, restoring, purging\<close>



lemma fold_merge_new: "set (fold merge_entry ins st) \<subseteq> set st \<union> {x \<in> set ins. e_Key x \<notin> e_Key ` set st}"
proof (induction ins arbitrary: st)
  case (Cons ie ins)
  have "set (merge_entry ie st) \<subseteq> set st \<union> {x. x = ie \<and> e_Key x \<notin> e_Key ` set st}" "set st \<subseteq> set (merge_entry ie st)"
    by (auto simp: merge_entry_def list_ex_iff)
  with Cons [of "merge_entry ie st"] show ?case by fastforce
qed simp

text \<open>
  A key that was removed stays away as long as its entry is kept, but \<open>key purge\<close> can bring
  it back: when the plain file beside the encrypted one still has the key, the server has it
  among its keys after the purge and did not have it before.
\<close>

theorem purged_key_comes_back:
  assumes "cli_ready E" and "list_all valid_entry store" and "holds E name store c"
    and "keyPurgeCmd E name c = (Inr (), c')" and "loadInsecureFile name (cl_world c) = Inr (Some ins)"
    and "k \<in> e_Key ` set ins" and "\<forall>x\<in>set ins. e_Key x = k \<longrightarrow> \<not> e_Deleted x"
    and "k \<in> e_Key ` set store" and "k \<notin> set (fst (keysFromStore store))"
  shows "\<exists>kn kn'. LoadKeysFromStore (ce_codec E) (ce_fresh E) nonce name cfg (cl_store c) = (Some kn, cl_store c) \<and>
    k \<notin> set (fst kn) \<and>
    LoadKeysFromStore (ce_codec E) (ce_fresh E) nonce name cfg (cl_store c') = (Some kn', cl_store c') \<and>
    k \<in> set (fst kn')"
proof -
  let ?kept = "filter (\<lambda>e. \<not> e_Deleted e) store"
  have h: "holds E name ?kept c'" by (rule purge_effect [OF assms(1-4)])
  have plain: "loadInsecureFile name (cl_world c') = Inr (Some ins)"
    using purge_plain [OF assms(1,3,4)] assms(5) by simp
  have load: "LoadKeysFromStore (ce_codec E) (ce_fresh E) nonce name cfg (cl_store x) =
      (Some (keysFromStore (fold merge_entry ins st)), cl_store x)"
    if "holds E name st x" "loadInsecureFile name (cl_world x) = Inr (Some ins)" for st x
    using that by (simp add: LoadKeysFromStore_def holds_def mergeInsecureKeys_def)
  have before: "k \<notin> set (fst (keysFromStore (fold merge_entry ins store)))"
    using fold_merge_new [of ins store] assms(8,9) unfolding keysFromStore_deleted by blast
  have gone: "k \<notin> e_Key ` set ?kept" using assms(9) unfolding keysFromStore_deleted by auto
  have "k \<in> e_Key ` set (fold merge_entry ins ?kept)" using assms(6) by (simp add: fold_merge_keys)
  then obtain y where y: "y \<in> set (fold merge_entry ins ?kept)" "e_Key y = k" by blast
  from subsetD [OF fold_merge_new y(1)] gone y(2) have "y \<in> set ins" by blast
  with assms(7) y have after: "k \<in> set (fst (keysFromStore (fold merge_entry ins ?kept)))"
    unfolding keysFromStore_deleted by blast
  show ?thesis using load [OF assms(3,5)] load [OF h plain] before after by blast
qed

section \<open>Overwriting a store\<close>

text \<open>
  When the encrypted file of a provider does not decrypt and there is no other store,
  \<open>key add\<close> succeeds and replaces the file: all that is left is the new key.
\<close>

theorem add_overwrites_undecryptable:
  assumes "cli_ready E" and "s_master (cl_store c) = Some (Inr mk)"
    and "encryptedFilePath (cl_world c) provider = Some path"
    and "w_files (cl_world c) path = Some (Content data)" and "decrypt (ce_codec E) mk data = Inl e"
    and "unmarshal_store data = None" and "loadFromKeyring provider (cl_world c) = Inr None"
    and "loadInsecureFile provider (cl_world c) = Inr None"
    and "keyAddCmd E provider apiKey nm False c = (Inr (), c')"
  shows "holds E provider [clean_entry (zeroEntry\<lparr>e_Key := apiKey, e_Name := nm\<rparr>)] c'"
proof -
  have "load_keys E provider c = (Inr None, c)"
    by (simp add: load_keys_def LoadKeys_undecryptable [OF assms(2-8)])
  from add_effect [OF assms(1) this assms(9)] show ?thesis by simp
qed

section \<open>Witnesses\<close>

text \<open>Each command is run on the sample store.\<close>

lemma sample_loads:
  "after (load_keys (sample_cli_env answer) ''p'') f (sample_cli (saved command_store)) =
     f (Some command_store) (sample_cli (saved command_store))"
  by (rule holds_after) (rule sample_holds [OF command_store_valid])

lemma saved_edits:
  "\<exists>c1. after (save_with (sample_cli_env answer) err ''p'' store) (\<lambda>_. after (Printf fmt args) (\<lambda>_.
      done_reload (sample_cli_env answer))) (sample_cli (saved st)) = (Inr (), c1) \<and>
    writable c1 \<and> loadInsecureFile ''p'' (cl_world c1) = Inr None"
  using sample_edits [OF saved_writable [of st], of answer err store fmt args] saved_result(2) [of st] by simp



lemma sample_purges:
  "\<exists>c1. keyPurgeCmd (sample_cli_env answer) ''p'' (sample_cli (saved command_store)) = (Inr (), c1) \<and>
    writable c1 \<and> loadInsecureFile ''p'' (cl_world c1) = Inr None"
proof -
  have "length (filter e_Deleted command_store) = 1" by code_simp
  with saved_edits show ?thesis
    by (simp add: keyPurgeCmd_def sample_loads Let_def)
qed


lemma sample_cools:
  "\<exists>c1. keyCooldownCmd (sample_cli_env (Some (200, ''{}''))) ''p'' ''c'' (sample_cli (saved command_store)) = (Inr (), c1)"
proof -
  let ?E = "sample_cli_env (Some (200, ''{}''))"
  have t: "loadAdminToken ?E ''p'' w \<noteq> TokenPanic" for w
    by (simp add: loadAdminToken_def LoadTomlConfig_def sample_cli_env_def split: option.split)
  obtain client c1 where n: "NewAdminClient ?E 5 ''p'' (sample_cli (saved command_store)) = (Inr client, c1)"
    using NewAdminClient_succeeds [OF t] by blast
  obtain c2 where "Do_call ?E client (new_request client ''PUT'' (key_path ''p'' 2 ''cooldown'') ''application/json''
      (Some ''{}'')) c1 = (Inr (Some (200, ''{}'')), c2)"
    by (simp add: Do_call_def sample_cli_env_def Let_def)
  then have "callKeyRuntimeAPI ?E ''p'' 2 ''cooldown'' (sample_cli (saved command_store)) = (Inr (), c2)"
    by (simp add: callKeyRuntimeAPI_def after_def n answered_def)
  then show ?thesis
    by (auto simp: keyCooldownCmd_def sample_loads lift_sum_def command_store_facts on_error_def)
qed

lemma saved_config: "XDGConfigPath (s_world (saved store)) = Some path \<Longrightarrow> w_files (s_world (saved store)) path = None"
  by (auto simp: XDGConfigPath_def saved_def SaveKeys_def SaveEncrypted_def getMasterKey_def setup_master_def
      master_to_file_def ensureKeysDir_def write_file_def rename_file_def remove_file_def removeFromKeyring_def
      encrypt_def cipher_error_def encryptedFilePath_def masterKeyFile_def keys_path_def sample_world_def Let_def)

definition cooling_provider :: ProviderState where
  "cooling_provider = sample_provider\<lparr>ps_pool := NewKeyPool 0 [''key-a'', ''key-c''] [''a'', ''c'']\<rparr>"

theorem cooldown_command_reaches_key_witness:
  "\<exists>c1 q. keyCooldownCmd (sample_cli_env (Some (200, ''{}''))) ''p'' ''c'' (sample_cli (saved command_store)) = (Inr (), c1) \<and>
     cl_sent c1 = [q] \<and>
     map_option fst (api_serve sample_senv 7 (\<lambda>x. None) (arrives_at q) (received q)
         (sample_server cooling_provider (saved command_store))) = Some (Some (Reply 200 BSuccess))"
proof -
  let ?E = "sample_cli_env (Some (200, ''{}''))" and ?c = "sample_cli (saved command_store)"
  let ?s = "sample_server cooling_provider (saved command_store)"
  obtain c1 where c1: "keyCooldownCmd ?E ''p'' ''c'' ?c = (Inr (), c1)" using sample_cools by blast
  have host: "host_ok ?E (cl_world ?c)"
    by (simp add: host_ok_def FindServerHost_def LoadAllTomlProviders_def LoadTomlConfig_def sample_cli_env_def split: option.split)
  have token: "loadAdminToken ?E ''p'' (cl_world ?c) = Token (c_AdminToken (ps_pc cooling_provider))"
    using saved_config [of command_store]
    by (simp add: loadAdminToken_def LoadTomlConfig_def sample_cli_env_def file_exists_def cooling_provider_def
        sample_provider_facts sample_config_def DefaultConfig_def DefaultProviderConfig_def zeroProviderConfig_def
        XDGConfigPath_def saved_world read_file_def split: option.split)
  have p: "LookupProvider ''p'' (sv_pm ?s) = Some cooling_provider" "ps_name cooling_provider = ''p''" "''p'' \<noteq> ''''"
    "pool_wf (ps_pool cooling_provider)" "p_keys (ps_pool cooling_provider) = fst (keysFromStore command_store)"
    "int (length command_store) < 2 ^ 62"
    by (simp_all add: sample_server_lookup cooling_provider_def sample_provider_facts NewKeyPool_wf NewKeyPool_simps
        command_store_facts)
  from cooldown_command_reaches_key [OF sample_holds [OF command_store_valid] c1 host token p, of sample_senv 7 "\<lambda>x. None"] c1
  show ?thesis by (force simp: sample_cli_def)
qed




text \<open>A plain file beside the encrypted one still has the key that was removed.\<close>

definition leftover_cli :: cli where
  "leftover_cli = sample_cli (on_world (\<lambda>w. w\<lparr>w_files := (w_files w)
     (''/c/keys/p.json'' := Some (Content (marshal_store [zeroEntry\<lparr>e_Key := ''key-b'', e_Name := ''b''\<rparr>])))\<rparr>)
     (saved command_store))"

lemma leftover_facts:
  "writable leftover_cli" "holds (sample_cli_env answer) ''p'' command_store leftover_cli"
  "loadInsecureFile ''p'' (cl_world leftover_cli) = Inr (Some [zeroEntry\<lparr>e_Key := ''key-b'', e_Name := ''b''\<rparr>])"
proof -
  show "writable leftover_cli" using saved_writable by (simp add: leftover_cli_def writable_def sample_cli_def)
  have "encryptedFilePath (s_world (saved command_store)) ''p'' \<noteq> Some ''/c/keys/p.json''"
    by (simp add: encryptedFilePath_def keys_path_def saved_world)
  from LoadEncrypted_other_file [OF saved_world(1) this] sample_holds [OF command_store_valid]
  show "holds (sample_cli_env answer) ''p'' command_store leftover_cli"
    by (simp add: leftover_cli_def holds_def)
  show "loadInsecureFile ''p'' (cl_world leftover_cli) = Inr (Some [zeroEntry\<lparr>e_Key := ''key-b'', e_Name := ''b''\<rparr>])"
    by (simp add: leftover_cli_def loadInsecureFile_def insecureKeysPath_def keys_path_def saved_world LoadFullStore_def
        unmarshal_marshal clean_entry_def clean_ascii)
qed

theorem purged_key_comes_back_witness:
  "\<exists>c1 kn. keyPurgeCmd (sample_cli_env None) ''p'' leftover_cli = (Inr (), c1) \<and>
     LoadKeysFromStore sample_codec (replicate 32 (CHR ''k'')) [] ''p'' (cf_Provider sample_config) (cl_store c1) =
       (Some kn, cl_store c1) \<and> ''key-b'' \<in> set (fst kn)"
proof -
  let ?E = "sample_cli_env None"
  have E: "ce_codec ?E = sample_codec" "ce_fresh ?E = replicate 32 (CHR ''k'')" by (simp_all add: sample_cli_env_def)
  have "length (filter e_Deleted command_store) = 1" by code_simp
  with sample_edits [OF leftover_facts(1)]
  obtain c1 where c1: "keyPurgeCmd ?E ''p'' leftover_cli = (Inr (), c1)"
    by (fastforce simp: keyPurgeCmd_def holds_after [OF leftover_facts(2)] Let_def)
  have k: "''key-b'' \<in> e_Key ` set [zeroEntry\<lparr>e_Key := ''key-b'', e_Name := ''b''\<rparr>]"
    "\<forall>x\<in>set [zeroEntry\<lparr>e_Key := ''key-b'', e_Name := ''b''\<rparr>]. e_Key x = ''key-b'' \<longrightarrow> \<not> e_Deleted x"
    "''key-b'' \<in> e_Key ` set command_store" "''key-b'' \<notin> set (fst (keysFromStore command_store))"
    by (simp_all add: zeroEntry_def command_store_facts) (simp add: command_store_def sample_store_def)
  from purged_key_comes_back [OF sample_cli_ready command_store_valid leftover_facts(2) c1 leftover_facts(3) k,
      of "[]" "cf_Provider sample_config"] c1
  show ?thesis unfolding E by blast
qed

definition spoiled_cli :: cli where
  "spoiled_cli = sample_cli
     \<lparr>s_world = sample_world\<lparr>w_files := [''/c/keys/p.enc'' \<mapsto> Content ''garbage''], w_keyring := Some (\<lambda>k. None)\<rparr>,
      s_master = Some (Inr (replicate 32 (CHR ''k'')))\<rparr>"

lemma garbage_no_store: "unmarshal_store ''garbage'' = None"
  by code_simp

theorem add_overwrites_undecryptable_witness:
  "\<exists>c1. keyAddCmd (sample_cli_env None) ''p'' ''key-z'' ''z'' False spoiled_cli = (Inr (), c1) \<and>
     holds (sample_cli_env None) ''p'' [zeroEntry\<lparr>e_Key := ''key-z'', e_Name := ''z''\<rparr>] c1"
proof -
  let ?E = "sample_cli_env None"
  have f: "s_master (cl_store spoiled_cli) = Some (Inr (replicate 32 (CHR ''k'')))"
    "encryptedFilePath (cl_world spoiled_cli) ''p'' = Some ''/c/keys/p.enc''"
    "w_files (cl_world spoiled_cli) ''/c/keys/p.enc'' = Some (Content ''garbage'')"
    "decrypt (ce_codec ?E) (replicate 32 (CHR ''k'')) ''garbage'' = Inl ShortCiphertext"
    "unmarshal_store ''garbage'' = None" "loadFromKeyring ''p'' (cl_world spoiled_cli) = Inr None"
    "loadInsecureFile ''p'' (cl_world spoiled_cli) = Inr None" "writable spoiled_cli"
    by (simp_all add: spoiled_cli_def encryptedFilePath_def keys_path_def decrypt_def cipher_error_def sample_world_def
        loadFromKeyring_def loadInsecureFile_def insecureKeysPath_def LoadFullStore_def garbage_no_store writable_def)
  have "load_keys ?E ''p'' spoiled_cli = (Inr None, spoiled_cli)"
    by (simp add: load_keys_def LoadKeys_undecryptable [OF f(1-7)])
  note loads = after_Inr [where m = "load_keys ?E ''p''", OF this]
  obtain c1 where c1: "keyAddCmd ?E ''p'' ''key-z'' ''z'' False spoiled_cli = (Inr (), c1)"
    using sample_edits [OF f(8)]
    by (fastforce simp: keyAddCmd_def warn_insecure_def loads Let_def save_either_def save_keys_def)
  from add_overwrites_undecryptable [OF sample_cli_ready f(1-7) c1] c1 show ?thesis
    by (simp add: clean_entry_def clean_ascii)
qed

end
