(* ===== verification/FlagOrder.thy ===== *)
theory FlagOrder
  imports ProviderCommands "HOL-Library.Multiset"
begin

text \<open>
  \<open>provider update\<close> (internal/cli/provider.go) iterates over its flags in the order of a Go map, which
  differs from run to run. The fields that the flags set are distinct, so their setters commute, and
  whether the update succeeds and what it saves do not depend on the order.
\<close>

section \<open>The setters of the fields\<close>

definition int_setters :: "int \<Rightarrow> (string \<times> (ProviderConfig \<Rightarrow> ProviderConfig)) list" where
  "int_setters i =
     [(''CooldownSec'', c_CooldownSec_update (\<lambda>_. i)), (''MaxRetries'', c_MaxRetries_update (\<lambda>_. i)),
      (''BackoffCapSec'', c_BackoffCapSec_update (\<lambda>_. i)), (''CBResetSec'', c_CBResetSec_update (\<lambda>_. i)),
      (''UpstreamCBThreshold'', c_UpstreamCBThreshold_update (\<lambda>_. i)),
      (''HTTPTimeoutSec'', c_HTTPTimeoutSec_update (\<lambda>_. i)),
      (''HealthCheckIntervalSec'', c_HealthCheckIntervalSec_update (\<lambda>_. i))]"

definition string_setters :: "string \<Rightarrow> (string \<times> (ProviderConfig \<Rightarrow> ProviderConfig)) list" where
  "string_setters s =
     [(''TargetBase'', c_TargetBase_update (\<lambda>_. s)), (''LogLevel'', c_LogLevel_update (\<lambda>_. s)),
      (''AdminToken'', c_AdminToken_update (\<lambda>_. s)), (''ThinkingMode'', c_ThinkingMode_update (\<lambda>_. s)),
      (''RectifyThinkingMapTo'', c_RectifyThinkingMapTo_update (\<lambda>_. s)),
      (''GenaiModel'', c_GenaiModel_update (\<lambda>_. s)), (''KeysFile'', c_KeysFile_update (\<lambda>_. s)),
      (''KeySelection'', c_KeySelection_update (\<lambda>_. s))]"

definition setters :: "fvalue \<Rightarrow> (string \<times> (ProviderConfig \<Rightarrow> ProviderConfig)) list" where
  "setters v =
     (case v of VInt i \<Rightarrow> int_setters i | VStr s \<Rightarrow> string_setters s
      | VFloat f \<Rightarrow> [(''BackoffMultiplier'', c_BackoffMultiplier_update (\<lambda>_. f))]
      | VBool b \<Rightarrow> [(''BufferMode'', c_BufferMode_update (\<lambda>_. b))])"

lemma set_field_setters: "set_field n v pc = map_option (\<lambda>f. f pc) (map_of (setters v) n)"
  by (cases v) (simp_all add: set_field_def setters_def int_setters_def string_setters_def)

lemma setters_commute:
  "list_all (\<lambda>(n, f). list_all (\<lambda>(m, g). n \<noteq> m \<longrightarrow> f (g pc) = g (f pc)) (setters w)) (setters v)"
  by (cases v; cases w) (simp_all add: setters_def int_setters_def string_setters_def)

lemma setter_commute:
  assumes "n \<noteq> m" and "map_of (setters v) n = Some f" and "map_of (setters w) m = Some g"
  shows "f (g pc) = g (f pc)"
  using setters_commute [where pc = pc and v = v and w = w] map_of_SomeD [OF assms(2)] map_of_SomeD [OF assms(3)] assms(1)
  by (auto simp: list_all_iff)

text \<open>The flags set different fields of the provider.\<close>

lemma flag_fields:
  "list_all (\<lambda>(flag, key). map_option fd_Scope (FindField key) = Some FieldScopeProvider) flagToFieldKey"
  "distinct (map (\<lambda>(flag, key). map_option fd_StructField (FindField key)) flagToFieldKey)"
  by code_simp+

lemma flag_setting_field:
  "flag_setting args changed ff = Inr (Some (fd, v)) \<Longrightarrow> FindField (snd ff) = Some fd"
  by (auto simp: flag_setting_def Let_def split: if_splits option.splits sum.splits)

text \<open>What a flag makes of a configuration, and whether it counts.\<close>

definition flag_ok :: "string list \<Rightarrow> (string \<Rightarrow> bool) \<Rightarrow> string \<times> string \<Rightarrow> bool" where
  "flag_ok args changed ff \<longleftrightarrow> (case update_flag args changed ff (Some DefaultConfig) of Inl e \<Rightarrow> False | Inr r \<Rightarrow> True)"

definition flag_effect :: "string list \<Rightarrow> (string \<Rightarrow> bool) \<Rightarrow> string \<times> string \<Rightarrow> Config \<Rightarrow> Config" where
  "flag_effect args changed ff c =
     (case flag_setting args changed ff of
        Inr (Some (fd, v)) \<Rightarrow>
          (case map_of (setters v) (fd_StructField fd) of
             None \<Rightarrow> c | Some f \<Rightarrow> c\<lparr>cf_Provider := f (cf_Provider c)\<rparr>)
      | _ \<Rightarrow> c)"

definition flag_counts :: "string list \<Rightarrow> (string \<Rightarrow> bool) \<Rightarrow> string \<times> string \<Rightarrow> nat" where
  "flag_counts args changed ff = (case flag_setting args changed ff of Inr (Some s) \<Rightarrow> 1 | _ \<Rightarrow> 0)"

lemma update_flag_effect:
  assumes "ff \<in> set flagToFieldKey"
  shows "update_flag args changed ff (Some c) = Inr r \<longleftrightarrow>
    flag_ok args changed ff \<and> r = (Some (flag_effect args changed ff c), flag_counts args changed ff)"
proof (cases "flag_setting args changed ff")
  case (Inl e)
  then show ?thesis by (simp add: update_flag_def flag_ok_def)
next
  case (Inr s)
  show ?thesis
  proof (cases s)
    case None
    with Inr show ?thesis by (auto simp: update_flag_def flag_ok_def flag_effect_def flag_counts_def)
  next
    case (Some fv)
    obtain fd v where fv: "fv = (fd, v)" by force
    have "fd_Scope fd = FieldScopeProvider"
      using flag_fields(1) assms flag_setting_field [of args changed ff fd v] Inr Some fv by (auto simp: list_all_iff)
    then show ?thesis
      using Inr Some fv
      by (cases "map_of (setters v) (fd_StructField fd)")
        (auto simp: update_flag_def flag_ok_def flag_effect_def flag_counts_def Persist_def set_field_setters)
  qed
qed

lemma update_flags_effect:
  assumes "set order \<subseteq> set flagToFieldKey"
  shows "update_flags args changed order (Some c) = Inr r \<longleftrightarrow>
    list_all (flag_ok args changed) order \<and>
    r = (Some (fold (flag_effect args changed) order c), sum_list (map (flag_counts args changed) order))"
  using assms
proof (induction order arbitrary: c r)
  case (Cons ff order)
  have head: "ff \<in> set flagToFieldKey" and tail: "set order \<subseteq> set flagToFieldKey" using Cons.prems by simp_all
  show ?case
  proof (cases "flag_ok args changed ff")
    case True
    then have u: "update_flag args changed ff (Some c) =
        Inr (Some (flag_effect args changed ff c), flag_counts args changed ff)"
      using update_flag_effect [OF head, of args changed c] by simp
    show ?thesis
    proof (cases "update_flags args changed order (Some (flag_effect args changed ff c))")
      case (Inl e)
      with Cons.IH [OF tail, of "flag_effect args changed ff c"
          "(Some (fold (flag_effect args changed) order (flag_effect args changed ff c)),
            sum_list (map (flag_counts args changed) order))"] u
      show ?thesis by simp
    next
      case (Inr q)
      with Cons.IH [OF tail, of "flag_effect args changed ff c" q] u True show ?thesis by (cases r) auto
    qed
  next
    case False
    then obtain e where "update_flag args changed ff (Some c) = Inl e"
      using update_flag_effect [OF head, of args changed c] by (cases "update_flag args changed ff (Some c)") auto
    with False show ?thesis by simp
  qed
qed auto

lemma flag_effects_commute:
  assumes "ff \<in> set flagToFieldKey" and "gg \<in> set flagToFieldKey"
  shows "flag_effect args changed ff (flag_effect args changed gg c) = flag_effect args changed gg (flag_effect args changed ff c)"
proof (cases "ff = gg")
  case False
  have d: "fd_StructField fd \<noteq> fd_StructField gd"
    if "flag_setting args changed ff = Inr (Some (fd, v))" "flag_setting args changed gg = Inr (Some (gd, w))" for fd gd v w
  proof
    assume "fd_StructField fd = fd_StructField gd"
    with that have "map_option fd_StructField (FindField (snd ff)) = map_option fd_StructField (FindField (snd gg))"
      by (simp add: flag_setting_field)
    with flag_fields(2) assms False show False
      by (auto simp: distinct_map inj_on_def case_prod_beta)
  qed
  have e: "flag_effect args changed hh = (\<lambda>c. c) \<or> (\<exists>fd v f. flag_setting args changed hh = Inr (Some (fd, v)) \<and>
      map_of (setters v) (fd_StructField fd) = Some f \<and>
      flag_effect args changed hh = (\<lambda>c. c\<lparr>cf_Provider := f (cf_Provider c)\<rparr>))" for hh
  proof (cases "\<exists>fd v f. flag_setting args changed hh = Inr (Some (fd, v)) \<and> map_of (setters v) (fd_StructField fd) = Some f")
    case True
    then obtain fd v f where f: "flag_setting args changed hh = Inr (Some (fd, v))"
        "map_of (setters v) (fd_StructField fd) = Some f" by blast
    then have "flag_effect args changed hh = (\<lambda>c. c\<lparr>cf_Provider := f (cf_Provider c)\<rparr>)"
      by (simp add: flag_effect_def fun_eq_iff)
    with f show ?thesis by blast
  next
    case False
    then have "flag_effect args changed hh c = c" for c
      by (auto simp: flag_effect_def split: sum.split option.split)
    then show ?thesis by blast
  qed
  from e [of ff] e [of gg] show ?thesis
  proof (elim disjE exE conjE)
    fix fd v f gd w g
    assume f: "flag_setting args changed ff = Inr (Some (fd, v))" "map_of (setters v) (fd_StructField fd) = Some f"
        "flag_effect args changed ff = (\<lambda>c. c\<lparr>cf_Provider := f (cf_Provider c)\<rparr>)"
      and g: "flag_setting args changed gg = Inr (Some (gd, w))" "map_of (setters w) (fd_StructField gd) = Some g"
        "flag_effect args changed gg = (\<lambda>c. c\<lparr>cf_Provider := g (cf_Provider c)\<rparr>)"
    have "f (g (cf_Provider c)) = g (f (cf_Provider c))" by (rule setter_commute [OF d [OF f(1) g(1)] f(2) g(2)])
    then show ?thesis using f(3) g(3) by simp
  qed simp_all
qed simp

text \<open>Any two orders of the same flags succeed alike, with the same provider.\<close>

lemma update_flags_order:
  assumes "mset order = mset flagToFieldKey"
  shows "update_flags args changed order (Some c) = Inr r \<longleftrightarrow> update_flags args changed flagToFieldKey (Some c) = Inr r"
proof -
  have s: "set order = set flagToFieldKey" using assms by (rule mset_eq_setD)
  have "fold (flag_effect args changed) order = fold (flag_effect args changed) flagToFieldKey"
    using assms s by (intro fold_multiset_equiv) (auto simp: fun_eq_iff flag_effects_commute)
  moreover have "sum_list (map (flag_counts args changed) order) = sum_list (map (flag_counts args changed) flagToFieldKey)"
    using assms by (metis mset_map sum_mset_sum_list)
  ultimately show ?thesis
    using update_flags_effect [of order args changed c r] update_flags_effect [of flagToFieldKey args changed c r] s
    by (simp add: list_all_iff)
qed

end
