(* ===== verification/ConfigProperties.thy ===== *)
theory ConfigProperties
  imports FlagOrder CommandSamples
begin

text \<open>
  The properties of the commands on the configuration file: what \<open>config set\<close> writes, what it reports
  without a server, and that \<open>provider update\<close> does not depend on the order of a Go map.
\<close>

section \<open>Updating a provider\<close>

text \<open>A decoded file has no provider that is nil.\<close>

definition no_nil :: "cli_env \<Rightarrow> string \<Rightarrow> bool" where
  "no_nil E name \<longleftrightarrow> (\<forall>b tc. ce_tomlDecode E b = Some tc \<longrightarrow> map_of (t_Provider tc) name \<noteq> Some None)"

lemma loaded_config_decoded:
  assumes "loaded_config E c = (Inr (source, tc), c1)"
  shows "\<exists>b. ce_tomlDecode E b = Some tc"
  using assms
  by (auto simp: loaded_config_def or_fail_def load_toml_def LoadTomlConfig_def elim!: after_ResultE
      split: sum.splits option.splits)

lemma update_with_order:
  assumes "mset order = mset flagToFieldKey" and "mset order' = mset flagToFieldKey" and "no_nil E name"
    and "providerUpdateCmd E changed order name c = (Inr (), c')"
  shows "providerUpdateCmd E changed order' name c = (Inr (), c')"
proof -
  obtain source tc c1 where c1: "loaded_config E c = (Inr (source, tc), c1)"
    using assms(4) unfolding providerUpdateCmd_def by (rule after_ResultE) force
  obtain p where p: "map_of (t_Provider tc) name = Some (Some p)"
  proof (cases "map_of (t_Provider tc) name")
    case None
    with assms(4) c1 show ?thesis by (simp add: providerUpdateCmd_def after_def)
  next
    case (Some q)
    with loaded_config_decoded [OF c1] assms(3) that show ?thesis by (cases q) (auto simp: no_nil_def)
  qed
  have same: "update_flags (ce_args E) changed order (Some p) = Inr r \<longleftrightarrow>
      update_flags (ce_args E) changed order' (Some p) = Inr r" for r
    using update_flags_order [OF assms(1)] update_flags_order [OF assms(2)] by blast
  have run: "providerUpdateCmd E changed o' name c = (Inr (), c') \<longleftrightarrow>
      \<not> (hasCLIFlag (ce_args E) ''target'' \<and> getCLIFlagValue (ce_args E) ''target'' = '''') \<and>
      (\<exists>r. update_flags (ce_args E) changed o' (Some p) = Inr r \<and>
        (case r of (prov, changes) \<Rightarrow> after (if default_flag E then set_default_name name else ret ()) (\<lambda>_.
                if changes = 0 \<and> \<not> default_flag E
                then fail (Errorf ''no fields specified to update (use --help to see available flags)'' [])
                else
                  (let tc = put_toml_provider name prov tc;
                       tc = (if default_flag E then tc\<lparr>t_DefaultProvider := name\<rparr> else tc)
                   in after (make_dir source) (\<lambda>_.
                      after (save_toml E save_failed tc source) (\<lambda>_.
                      after (Printf (if default_flag E then ''Provider %q updated in %s (default)''
                                     else ''Provider %q updated in %s'') [PStr name, PStr source]) (\<lambda>_.
                      done_reload E))))) c1) = (Inr (), c'))" for o'
  proof -
    have "after (loaded_config E) f c = f (source, tc) c1" for f :: "string \<times> TomlConfig \<Rightarrow> unit cmd"
      by (simp add: after_def c1)
    then show ?thesis unfolding providerUpdateCmd_def
      by (simp add: p lift_sum_after case_prod_beta del: Let_def)
  qed
  from assms(4) show ?thesis unfolding run same .
qed

text \<open>
  C39 (equivalence). The order in which \<open>provider update\<close> meets its flags is irrelevant: with any order
  of the flag table it succeeds exactly when it succeeds with the order that the source writes, and
  leaves the same files, messages and requests.
\<close>

theorem update_order_irrelevant:
  assumes "mset order = mset flagToFieldKey" and "no_nil E name"
  shows "providerUpdateCmd E changed order name c = (Inr (), c') \<longleftrightarrow>
    providerUpdateCmd E changed flagToFieldKey name c = (Inr (), c')"
  using update_with_order [OF assms(1) refl assms(2)] update_with_order [OF refl assms] by blast

section \<open>Setting a value\<close>



lemma unreachable_warns:
  assumes "loadAdminToken E provider (cl_world c) \<noteq> TokenPanic" and "\<And>q w. ce_server E q w = (None, w)"
  shows "\<exists>c'. apply_or_warn E fd v provider c = (Inr (), c') \<and> cl_out c' = cl_out c \<and> cl_store c' = cl_store c"
proof -
  obtain client c1 where n: "NewAdminClient E 5 provider c = (Inr client, c1)" "quiet_step c c1"
    using NewAdminClient_succeeds [OF assms(1)] by blast
  obtain c2 where d: "Post_path E client (runtime_path provider) ''application/json'' (Some (runtime_payload fd v)) c1 =
      (Inr None, c2)" "cl_out c2 = cl_out c1" "cl_store c2 = cl_store c1"
    using assms(2) by (simp add: Post_path_def Do_call_def Let_def on_cl_world_def)
  have "applyRuntimeField E provider fd v c = (Inl NotReachable, c2)"
    by (simp add: applyRuntimeField_def after_def n(1) d(1) answered_def)
  then show ?thesis using n(2) d by (simp add: apply_or_warn_def on_error_def quiet_step_def)
qed

text \<open>
  \<open>config set --runtime-only\<close> on a field of a provider, with a server that does not answer,
  changes nothing anywhere and nevertheless succeeds, reporting the value as set.
\<close>

theorem runtime_only_without_server:
  assumes "FindField key = Some fd" and "fd_Scope fd = FieldScopeProvider" and "\<not> fd_ReadOnly fd"
    and "fd_Type fd \<noteq> FieldTypeFloat64" and "Parse fd val = Inr v" and "validateFieldRange fd val = Inr ()"
    and "XDGConfigPath (cl_world c) = Some path"
    and "LoadTomlConfig (read_file (cl_world c)) (ce_tomlDecode E) path = Inr tc"
    and "map_of (t_Provider tc) name \<noteq> None" and "name \<noteq> ''all''"
    and "loadAdminToken E name (cl_world c) \<noteq> TokenPanic" and "\<And>q w. ce_server E q w = (None, w)"
  shows "\<exists>u c'. configSetCmd E key val (Some name) False True c = (Inr (), c') \<and> cl_store c' = cl_store c \<and>
    Format fd v = Some u \<and>
    cl_out c' = cl_out c @ [(''set %s = %s'', [PStr key, PStr u]), ('' (runtime only)'', [])]"
proof -
  have "fd \<in> set reflectBuildDescriptors" using assms(1) FindField_Some by blast
  then obtain u where u: "Format fd v = Some u" using Format_Parse [OF _ assms(4,5)] by blast
  have names: "set_providers E fd name c = (Inr [name], c)"
    using assms(2,7-10) by (simp add: set_providers_def config_path_def load_toml_def or_fail_def after_def)
  obtain c' where w: "apply_or_warn E fd v name c = (Inr (), c')" "cl_out c' = cl_out c" "cl_store c' = cl_store c"
    using unreachable_warns [OF assms(11,12)] by blast
  have "(if fd_Scope fd = FieldScopeProvider \<and> fd_RuntimeEditable fd then each (apply_or_warn E fd v) [name] else ret ()) c =
      (Inr (), if fd_RuntimeEditable fd then c' else c)"
    using assms(2) w(1) by (simp add: after_def)
  then show ?thesis
    using assms(1-3,5,6) u w(2,3) names
    by (simp add: configSetCmd_def lift_sum_def set_target_def after_def)
qed

section \<open>Setting a value in the file\<close>






section \<open>Witnesses\<close>

text \<open>A TOML library that knows two files: the sample, and the sample with three retries.\<close>

definition three_retries :: TomlConfig where
  "three_retries = put_toml_provider ''p''
     (Some (sample_config\<lparr>cf_Provider := (cf_Provider sample_config)\<lparr>c_MaxRetries := 3\<rparr>\<rparr>)) sample_toml"

definition config_cli_env :: cli_env where
  "config_cli_env = (sample_cli_env None)
     \<lparr>ce_tomlDecode := (\<lambda>b. Some (if b = ''new'' then three_retries else sample_toml)),
      ce_tomlEncode := (\<lambda>t. if t = three_retries then Some ''new'' else None)\<rparr>"

theorem update_order_irrelevant_witness:
  "\<forall>changed c c'. providerUpdateCmd config_cli_env changed (rev flagToFieldKey) ''p'' c = (Inr (), c') \<longleftrightarrow>
     providerUpdateCmd config_cli_env changed flagToFieldKey ''p'' c = (Inr (), c')"
proof -
  have "no_nil config_cli_env ''p''"
    by (simp add: no_nil_def config_cli_env_def three_retries_def put_toml_provider_def sample_toml_def)
  from update_order_irrelevant [OF _ this, of "rev flagToFieldKey"] show ?thesis by simp
qed

lemma max_retries_field:
  "\<exists>fd. FindField ''max_retries'' = Some fd \<and> fd_Scope fd = FieldScopeProvider \<and> \<not> fd_ReadOnly fd \<and>
     fd_Type fd \<noteq> FieldTypeFloat64 \<and> fd_StructField fd = ''MaxRetries'' \<and> Parse fd ''3'' = Inr (VInt 3) \<and>
     validateFieldRange fd ''3'' = Inr () \<and> Format fd (VInt 3) = Some ''3''"
proof -
  have "map_option (\<lambda>fd. (fd_Scope fd, fd_ReadOnly fd, fd_Type fd, fd_StructField fd, Parse fd ''3'',
      validateFieldRange fd ''3'', Format fd (VInt 3))) (FindField ''max_retries'') =
      Some (FieldScopeProvider, False, FieldTypeInt, ''MaxRetries'', Inr (VInt 3), Inr (), Some ''3'')"
    by code_simp
  then show ?thesis by auto
qed

lemma config_sample_facts:
  "XDGConfigPath (cl_world (sample_cli launch_store)) = Some ''/c/config.toml''"
  "LoadTomlConfig (read_file (cl_world (sample_cli launch_store))) (ce_tomlDecode config_cli_env) ''/c/config.toml'' =
     Inr sample_toml"
  "map_of (t_Provider sample_toml) ''p'' = Some (Some sample_config)"
  "loadAdminToken config_cli_env ''p'' (cl_world (sample_cli launch_store)) \<noteq> TokenPanic"
  "quiet_server config_cli_env" "ce_server config_cli_env q w = (None, w)"
  by (simp_all add: XDGConfigPath_def LoadTomlConfig_def read_file_def launch_store_def config_cli_env_def
      sample_toml_def loadAdminToken_def saved_world quiet_server_def sample_cli_env_def)

theorem runtime_only_without_server_witness:
  "\<exists>c'. configSetCmd config_cli_env ''max_retries'' ''3'' (Some ''p'') False True (sample_cli launch_store) = (Inr (), c') \<and>
     cl_store c' = launch_store"
proof -
  obtain fd where fd: "FindField ''max_retries'' = Some fd" "fd_Scope fd = FieldScopeProvider" "\<not> fd_ReadOnly fd"
      "fd_Type fd \<noteq> FieldTypeFloat64" "Parse fd ''3'' = Inr (VInt 3)" "validateFieldRange fd ''3'' = Inr ()"
    using max_retries_field by blast
  show ?thesis
    using runtime_only_without_server [OF fd config_sample_facts(1,2) _ _ config_sample_facts(4,6)] config_sample_facts(3)
    by auto
qed


end
