(* ===== verification/Lifecycle.thy ===== *)
theory Lifecycle
  imports Server StopCommands
begin

text \<open>
  From \<open>akswitch start\<close> to the end of the process (internal/cli/start.go, internal/server/server_launcher.go,
  lifecycle.go, crash.go): what a launch that succeeded serves with, the wait for a signal and what
  follows it, the PID file, and the restart on a new binary, which runs beside the old process for a
  while. Signals, the clock and the processes of the operating system are arguments.
\<close>

section \<open>Starting\<close>

definition startCmd ::
    "senv \<Rightarrow> os_env \<Rightarrow> (string \<Rightarrow> int \<Rightarrow> bool) \<Rightarrow> time \<Rightarrow> string \<Rightarrow> string \<Rightarrow> bool \<Rightarrow> bool \<Rightarrow> string \<Rightarrow> string \<Rightarrow>
      store_state \<Rightarrow> self_restart \<Rightarrow> launch_result \<times> self_restart" where
  "startCmd E os listens now dash providerFilter startAll devMode logFormat logLevel st rc =
     (Launch E os listens now (NewServerLauncher dash providerFilter logFormat logLevel startAll devMode) st,
      rc\<lparr>rs_logFormat := logFormat\<rparr>)"

definition exit_code :: "launch_result \<Rightarrow> int" where
  "exit_code r = (case r of LaunchFailed e \<Rightarrow> 1 | _ \<Rightarrow> 0)"

text \<open>
  The process after the PID file has been written: it serves, with one set of tasks for every
  provider. \<open>None\<close> is a process that a task has brought down.
\<close>

definition serve_launched :: "time \<Rightarrow> dump_dir \<Rightarrow> server \<Rightarrow> process option" where
  "serve_launched now dumps s = StartBackgroundTasks now (StartWithListener (router_of s dumps))"

section \<open>Stopping\<close>

text \<open>
  After the signal: the log file is closed, the listener and the tasks are stopped, and the new binary
  is started when there is one. The result says what was started.
\<close>

definition waitForShutdown ::
    "(string \<Rightarrow> bool) \<Rightarrow> string option \<Rightarrow> self_restart \<Rightarrow> process \<Rightarrow>
      process \<times> self_restart \<times> (string \<times> string list) option" where
  "waitForShutdown exists executable rc pr =
     (let s = pr_server pr;
          pr = StopTasks (Shutdown (pr\<lparr>pr_server := s\<lparr>sv_lm := CloseFileHandler (sv_lm s)\<rparr>\<rparr>));
          (rc, cmd) = (if rs_binaryUpdated rc then ExecRestart exists executable rc else (rc, None))
      in (pr, rc, cmd))"

text \<open>The deferred end of \<open>Launch\<close>: the PID file is removed, whoever wrote it last.\<close>

definition drop_pid_file :: "bool \<Rightarrow> world \<Rightarrow> world" where
  "drop_pid_file devMode w = remove_file (PidFilePath devMode w) w"

section \<open>A crash\<close>

text \<open>
  The report of a panic, appended to a file in the home directory and written to standard error; the
  stamp and the stack come as texts. \<open>None\<close> is a home directory that is not known.
\<close>

definition defaultCrashLogPath :: "string option \<Rightarrow> string" where
  "defaultCrashLogPath home = (case home of None \<Rightarrow> ''crash.log'' | Some h \<Rightarrow> h @ ''/.akswitch/crash.log'')"

text \<open>Creating the directories is best effort and has no counterpart in a \<open>world\<close>.\<close>

definition SetupCrashLogDir :: "string option \<Rightarrow> string" where
  "SetupCrashLogDir home = defaultCrashLogPath home"

definition defaultErrorLogDir :: "string option \<Rightarrow> string" where
  "defaultErrorLogDir home = (case home of None \<Rightarrow> ''errors'' | Some h \<Rightarrow> h @ ''/.akswitch/errors'')"

definition rule_of :: "string \<Rightarrow> string" where
  "rule_of c = concat (replicate 50 c)"

definition crash_report :: "string \<Rightarrow> string \<Rightarrow> string \<Rightarrow> string \<Rightarrow> string" where
  "crash_report context stamp message stack =
     (let double = rule_of [CHR 0xE2, CHR 0x95, CHR 0x90]; single = rule_of [CHR 0xE2, CHR 0x94, CHR 0x80];
          nl = [CHR 0x0A]
      in nl @ double @ nl @ ''[CRASH] '' @ stamp @ '' '' @ long_dash @ '' '' @ context @ nl @ single @ nl @
         ''Message: '' @ message @ nl @ nl @ ''Stack:'' @ nl @ stack @ nl @ double @ nl @ nl)"

definition append_file :: "string \<Rightarrow> bytes \<Rightarrow> world \<Rightarrow> world" where
  "append_file path data w =
     (case w_files w path of
        None \<Rightarrow> snd (write_file path data w)
      | Some (Content old) \<Rightarrow> snd (write_file path (old @ data) w)
      | Some Unreadable \<Rightarrow> w)"

text \<open>The world and what is written to standard error, when there was a panic.\<close>

definition CrashRecover ::
    "string option \<Rightarrow> string \<Rightarrow> string \<Rightarrow> string \<Rightarrow> string option \<Rightarrow> world \<Rightarrow> world \<times> string list" where
  "CrashRecover home context stamp stack recovered w =
     (case recovered of
        None \<Rightarrow> (w, [])
      | Some message \<Rightarrow>
          (let report = crash_report context stamp message stack; path = defaultCrashLogPath home
           in (append_file path report w,
               (if w_canWrite w path then [] else [''[CRASH] failed to write crash log: '']) @ [report])))"

section \<open>What a launched process serves with\<close>

lemma init_provider_distinct:
  "distinct (map fst (sv_providers s)) \<Longrightarrow> distinct (map fst (sv_providers (init_provider E f nc s)))"
  by (auto simp: init_provider_def Let_def AddProvider_def put_provider_def distinct_update
      split: prod.splits option.splits)

lemma initProviders_distinct:
  "distinct (map fst (sv_providers s)) \<Longrightarrow> distinct (map fst (sv_providers (initProviders E sl f providers s)))"
proof -
  have "distinct (map fst (sv_providers s)) \<Longrightarrow> distinct (map fst (sv_providers (fold (init_provider E f) providers s)))" for s
    by (induction providers arbitrary: s) (simp_all add: init_provider_distinct)
  then show "distinct (map fst (sv_providers s)) \<Longrightarrow> distinct (map fst (sv_providers (initProviders E sl f providers s)))"
    by (simp add: initProviders_def Let_def)
qed

lemma Launch_Started:
  assumes "Launch E os listens now sl st = Started s host port"
  shows "distinct (map fst (sv_providers s))" and "\<exists>f. all_ok (started f) s" and "sv_providers s \<noteq> []"
proof -
  obtain f providers s0 where s: "sv_pm s = sv_pm (initProviders E sl f providers s0)"
      "sv_pm s0 = NewProviderManager now (sl_dashboardHTML sl)" "ProviderNames (sv_pm s) \<noteq> []"
    using assms by (auto simp: Launch_def Let_def split: prod.splits sum.splits option.splits if_splits)
  have empty: "sv_providers s0 = []" using s(2) by (simp add: NewProviderManager_def)
  then have "all_ok (started f) s0" by (simp add: all_ok_def LookupProvider_def)
  then have "all_ok (started f) (initProviders E sl f providers s0)" by (rule initProviders_started)
  then show "\<exists>f. all_ok (started f) s" using s(1) by (auto simp: all_ok_def)
  show "distinct (map fst (sv_providers s))" using initProviders_distinct [of s0] empty s(1) by simp
  show "sv_providers s \<noteq> []" using s(3) by (auto simp: ProviderNames_def)
qed

lemma validated_interval: "validateConfig c = (None, cfg) \<Longrightarrow> 5 \<le> c_HealthCheckIntervalSec (cf_Provider cfg)"
  by (auto simp: validateConfig_def validateProvider_def Let_def split: if_splits option.splits)

text \<open>The interval in nanoseconds is a 64-bit number.\<close>

lemma seconds_small: "0 \<le> i \<Longrightarrow> i \<le> 9223372036 \<Longrightarrow> seconds i = i * 1000000000"
  by (simp add: seconds_def wrap64_id in_int64_def)

lemma seconds_overflow:
  assumes "9223372036 < i" and "i \<le> 18446744073"
  shows "seconds i < 0"
proof -
  let ?r = "i * 1000000000 + 2 ^ 63 - 2 ^ 64"
  have r: "0 \<le> ?r" "?r < 2 ^ 63" using assms by simp_all
  have "(i * 1000000000 + 2 ^ 63) mod 2 ^ 64 = ?r mod 2 ^ 64" by (rule minus_mod_self2 [symmetric])
  also have "\<dots> = ?r" using r by (intro mod_pos_pos_trivial) simp_all
  finally show ?thesis using r(2) by (simp add: seconds_def wrap64_def)
qed

section \<open>Tasks after a reload\<close>

text \<open>A task of a provider that has lost the provider's pool never gets one back.\<close>

definition detached :: "string \<Rightarrow> process \<Rightarrow> bool" where
  "detached name pr \<longleftrightarrow> (\<forall>t. map_of (pr_tasks pr) name = Some t \<longrightarrow> ta_pool t \<noteq> None)"

definition starts_tasks :: "process_event \<Rightarrow> bool" where
  "starts_tasks e \<longleftrightarrow> (case e of StartTasks now \<Rightarrow> True | _ \<Rightarrow> False)"

lemma map_of_detach: "map_of (detach names s ts) name = map_option (keep_pointers names s name) (map_of ts name)"
  by (induction ts) (auto simp: detach_def)

lemma detached_put: "detached name pr \<Longrightarrow> map_of (pr_tasks pr) n = Some t \<Longrightarrow> detached name (put_task_pool n t ps p pr)"
  by (auto simp: detached_def put_task_pool_def update_conv)

lemma detached_with_task:
  "detached name pr \<Longrightarrow> (\<And>t ps. map_of (pr_tasks pr) n = Some t \<Longrightarrow> detached name (f t ps)) \<Longrightarrow>
     detached name (with_task n f pr)"
  by (simp add: with_task_def split: option.split)

lemma detached_frame: "pr_tasks pr' = pr_tasks pr \<Longrightarrow> detached name pr' = detached name pr"
  by (simp add: detached_def)

lemma detached_api:
  assumes "detached name pr"
  shows "detached name (serve_api E now pt ep r pr)"
proof (cases "api_serve E now pt ep r (pr_server pr)")
  case None
  with assms show ?thesis by (simp add: serve_api_def)
next
  case (Some a)
  let ?ns = "reloaded_names E ep r (pr_server pr)"
  have tasks: "pr_tasks (serve_api E now pt ep r pr) = detach ?ns (pr_server pr) (pr_tasks pr)"
    using Some by (simp add: serve_api_def split: prod.split)
  show ?thesis
    unfolding detached_def tasks
  proof (intro allI impI)
    fix t
    assume "map_of (detach ?ns (pr_server pr) (pr_tasks pr)) name = Some t"
    then obtain t0 where t0: "map_of (pr_tasks pr) name = Some t0" "t = keep_pointers ?ns (pr_server pr) name t0"
      by (auto simp: map_of_detach)
    from assms t0(1) have "ta_pool t0 \<noteq> None" by (simp add: detached_def)
    then show "ta_pool t \<noteq> None" by (simp add: t0(2) keep_pointers_def split: option.split)
  qed
qed

lemma detached_step:
  assumes "detached name pr" and "\<not> starts_tasks e"
  shows "detached name (process_step e pr)"
proof (cases e)
  case (ApiRequest E now pt ep r)
  with assms(1) detached_api show ?thesis by simp
next
  case (ProxyRequest L up env rq)
  have "pr_tasks (snd (proxyHandler L up env rq pr)) = pr_tasks pr"
    by (simp add: proxyHandler_def put_exec_def Let_def split: prod.split option.split)
  from detached_frame [OF this, of name] ProxyRequest assms(1) show ?thesis by simp
next
  case (HealthTick n head now)
  with assms(1) show ?thesis
    by (simp add: health_tick_def detached_def with_task_def split: option.split prod.split)
next
  case (ProbeTick n build probe)
  with assms(1) show ?thesis by (simp add: probe_tick_def detached_with_task detached_put)
next
  case (CalibrationTick n tk post now)
  have "detached name (let (cal, p) = x in (put_task_pool n t ps p pr)\<lparr>pr_cal := cal\<rparr>)"
    if "map_of (pr_tasks pr) n = Some t" for x t ps
    using detached_put [OF assms(1) that] by (simp add: detached_def split: prod.split)
  with assms(1) CalibrationTick show ?thesis
    by (simp only: process_step.simps calibration_tick_def) (intro detached_with_task, simp_all)
next
  case (GaugeTick n now)
  with assms(1) show ?thesis by (simp add: gauge_tick_def detached_def with_task_def split: option.split)
qed (use assms in \<open>simp_all add: detached_def StartWithListener_def StopTasks_def starts_tasks_def split: option.split\<close>)

lemma detached_run: "detached name pr \<Longrightarrow> \<not> list_ex starts_tasks es \<Longrightarrow> detached name (fold process_step es pr)"
  by (induction es arbitrary: pr) (simp_all add: detached_step)

lemma reload_detaches:
  assumes "api_serve E now pt ep r (pr_server pr) = Some (resp, s)" and "name \<in> set (reloaded_names E ep r (pr_server pr))"
    and "LookupProvider name (sv_pm (pr_server pr)) = Some ps"
  shows "detached name (serve_api E now pt ep r pr)"
  using assms by (auto simp: serve_api_def detached_def map_of_detach keep_pointers_def)

lemma detached_probe: "detached name pr \<Longrightarrow> pr_server (probe_tick name build probe pr) = pr_server pr"
  by (auto simp: probe_tick_def with_task_def put_task_pool_def detached_def split: option.split)

end
