(* ===== verification/LifecycleProperties.thy ===== *)
theory LifecycleProperties
  imports Lifecycle CommandSamples
begin

text \<open>
  The properties of a running process from its launch to its end: its tasks, what they work on after a
  reload, stopping it, and restarting it on a new binary.
\<close>

section \<open>Background tasks\<close>

text \<open>Whether the tasks of all providers start.\<close>

lemma serve_launched_those:
  "serve_launched start dumps s = map_option (\<lambda>ts. (StartWithListener (router_of s dumps))
     \<lparr>pr_tasks := ts, pr_uptime := Some start\<rparr>)
     (those (map (\<lambda>(name, ps). map_option (Pair name) (StartHealthCheck ps)) (sv_providers s)))"
  by (simp add: serve_launched_def StartBackgroundTasks_def StartWithListener_def router_of_def)

lemma those_started:
  "(\<exists>ts. those (map (\<lambda>(name, ps). map_option (Pair name) (f ps)) pss) = Some ts \<and> map fst ts = map fst pss) \<longleftrightarrow>
     (\<forall>ps\<in>snd ` set pss. f ps \<noteq> None)"
  "those (map (\<lambda>(name, ps). map_option (Pair name) (f ps)) pss) = None \<longleftrightarrow> (\<exists>ps\<in>snd ` set pss. f ps = None)"
  by (induction pss) (auto split: option.splits)

lemma StartHealthCheck_interval:
  "5 \<le> c_HealthCheckIntervalSec (ps_pc ps) \<Longrightarrow> c_HealthCheckIntervalSec (ps_pc ps) \<le> 9223372036 \<Longrightarrow>
     StartHealthCheck ps \<noteq> None"
  "9223372036 < c_HealthCheckIntervalSec (ps_pc ps) \<Longrightarrow> c_HealthCheckIntervalSec (ps_pc ps) \<le> 18446744073 \<Longrightarrow>
     StartHealthCheck ps = None"
  using seconds_small [of "c_HealthCheckIntervalSec (ps_pc ps)"] seconds_overflow [of "c_HealthCheckIntervalSec (ps_pc ps)"]
  by (simp_all add: StartHealthCheck_def Let_def)

text \<open>
  C18 (liveness). When a launch has succeeded, the process serves and every provider has its tasks, which
  work on the provider's own pool, provided that no health check interval exceeds 9223372036
  seconds. With one between that and 18446744073 seconds, which validation lets pass, the interval
  overflows to a negative number of nanoseconds and the ticker brings the process down.
\<close>

theorem launched_tasks_run:
  assumes "Launch E os listens now sl st = Started s host port"
  shows "((\<forall>ps\<in>snd ` set (sv_providers s). c_HealthCheckIntervalSec (ps_pc ps) \<le> 9223372036) \<longrightarrow>
      (\<exists>pr. serve_launched start dumps s = Some pr \<and> pr_serving pr \<and> process_inv pr \<and>
         map fst (pr_tasks pr) = map fst (sv_providers s) \<and> (\<forall>t\<in>snd ` set (pr_tasks pr). ta_pool t = None))) \<and>
    ((\<exists>ps\<in>snd ` set (sv_providers s).
        9223372036 < c_HealthCheckIntervalSec (ps_pc ps) \<and> c_HealthCheckIntervalSec (ps_pc ps) \<le> 18446744073) \<longrightarrow>
      serve_launched start dumps s = None)"
proof -
  obtain f where f: "all_ok (started f) s" using Launch_Started(2) [OF assms] by blast
  have valid: "5 \<le> c_HealthCheckIntervalSec (ps_pc ps)" if "(name, ps) \<in> set (sv_providers s)" for name ps
    using f map_of_is_SomeI [OF Launch_Started(1) [OF assms] that] validated_interval
    by (auto simp: all_ok_def started_def LookupProvider_def)
  have ok: "process_inv (StartWithListener (router_of s dumps))"
    using f by (auto simp: process_inv_def StartWithListener_def router_of_def cal_inv_new all_ok_def started_def)
  show ?thesis
  proof (intro conjI impI)
    assume small: "\<forall>ps\<in>snd ` set (sv_providers s). c_HealthCheckIntervalSec (ps_pc ps) \<le> 9223372036"
    have "\<forall>ps\<in>snd ` set (sv_providers s). StartHealthCheck ps \<noteq> None"
    proof
      fix ps assume mem: "ps \<in> snd ` set (sv_providers s)"
      then obtain name where "(name, ps) \<in> set (sv_providers s)" by auto
      with small mem show "StartHealthCheck ps \<noteq> None" by (intro StartHealthCheck_interval(1) valid) auto
    qed
    then obtain ts where ts: "those (map (\<lambda>(name, ps). map_option (Pair name) (StartHealthCheck ps)) (sv_providers s)) =
        Some ts" "map fst ts = map fst (sv_providers s)" using those_started(1) [THEN iffD2] by blast
    let ?pr = "(StartWithListener (router_of s dumps))\<lparr>pr_tasks := ts, pr_uptime := Some start\<rparr>"
    have r: "serve_launched start dumps s = Some ?pr" by (simp add: serve_launched_those ts(1))
    note inv = StartBackgroundTasks_inv [OF ok r [unfolded serve_launched_def]]
      and shared = started_tasks_shared [OF r [unfolded serve_launched_def]]
    show "\<exists>pr. serve_launched start dumps s = Some pr \<and> pr_serving pr \<and> process_inv pr \<and>
         map fst (pr_tasks pr) = map fst (sv_providers s) \<and> (\<forall>t\<in>snd ` set (pr_tasks pr). ta_pool t = None)"
    proof (intro exI [of _ ?pr] conjI ballI)
      show "ta_pool t = None" if "t \<in> snd ` set (pr_tasks ?pr)" for t using shared [OF that] by simp
    qed (use r inv ts(2) in \<open>simp_all add: StartWithListener_def\<close>)
  next
    assume "\<exists>ps\<in>snd ` set (sv_providers s).
        9223372036 < c_HealthCheckIntervalSec (ps_pc ps) \<and> c_HealthCheckIntervalSec (ps_pc ps) \<le> 18446744073"
    then have "\<exists>ps\<in>snd ` set (sv_providers s). StartHealthCheck ps = None"
      by (elim bexE) (metis StartHealthCheck_interval(2))
    then show "serve_launched start dumps s = None" by (simp add: serve_launched_those those_started(2))
  qed
qed

text \<open>
  C19 (liveness). A tick of the periodic probe revives a key whose quota had run out and whose probe
  answers 200. But once a reload has found the provider in the file, no later tick changes anything on
  the server, whatever happens in between: the task keeps probing the pool from before the reload, so
  that a key that runs out of quota afterwards stays disabled.
\<close>

theorem probe_loses_reloaded_pool:
  assumes "process_inv pr" and "map_of (pr_tasks pr) name = Some t" and "ta_pool t = None"
    and "LookupProvider name (sv_pm (pr_server pr)) = Some ps" and "i < length (p_keys (ps_pool ps))"
    and "probed (p_cbs (ps_pool ps) ! i)" and "probe (probe_url (ta_target t)) (p_keys (ps_pool ps) ! i) = Some 200"
    and "pr_serving pr" and "name \<in> set (reloaded_names E Reload r (pr_server pr))" and "\<not> list_ex starts_tasks es"
  shows "map_option (\<lambda>ps. IsDisabled (int i) (ps_pool ps))
      (LookupProvider name (sv_pm (pr_server (process_step (ProbeTick name True probe) pr)))) = Some False \<and>
    (let pr' = fold process_step (ApiRequest E now pt Reload r # es) pr
     in pr_server (process_step (ProbeTick name build probe') pr') = pr_server pr')"
proof (rule conjI)
  have wf: "pool_wf (ps_pool ps)" using process_inv_provider [OF assms(1,4)] by (simp add: provider_ok_def)
  have "LookupProvider name (sv_pm (pr_server (process_step (ProbeTick name True probe) pr))) =
      Some (ps\<lparr>ps_pool := PeriodicKeyProbe True probe (ta_target t) (ps_pool ps)\<rparr>)"
    using assms(2-4) by (simp add: probe_tick_def with_task_def put_task_pool_def task_pool_def set_provider_def)
  then show "map_option (\<lambda>ps. IsDisabled (int i) (ps_pool ps))
      (LookupProvider name (sv_pm (pr_server (process_step (ProbeTick name True probe) pr)))) = Some False"
    using assms(5-7) by (simp add: PeriodicKeyProbe_cbs [OF wf] IsDisabled_def Reset_def pool_wf_lengths [OF wf])
  obtain resp s where a: "api_serve E now pt Reload r (pr_server pr) = Some (resp, s)"
    by (simp add: api_serve_def) (metis surj_pair)
  have "detached name (fold process_step es (serve_api E now pt Reload r pr))"
    using reload_detaches [OF a assms(9,4)] assms(10) by (rule detached_run)
  from detached_probe [OF this]
  show "let pr' = fold process_step (ApiRequest E now pt Reload r # es) pr
     in pr_server (process_step (ProbeTick name build probe') pr') = pr_server pr'"
    using assms(8) by simp
qed

section \<open>Stopping\<close>

text \<open>
  C30 (termination). When every poll takes at least half a second, \<open>akswitch stop\<close> returns. If it reports
  success, the file named a positive process identifier, that process was seen to have ended before
  the deadline, and the PID file is gone if it can be removed; otherwise no file is touched.
\<close>

theorem stop_command_returns:
  assumes "\<And>k. sp_clock P k + 500000000 \<le> sp_clock P (Suc k)" and "sp_start P \<le> sp_clock P 0"
  shows "\<exists>r c'. stopCmd P devMode c = Some (r, c') \<and>
    (case r of
       Inr u \<Rightarrow> (\<exists>data pid j. read_file (cl_world c) (PidFilePath devMode (cl_world c)) = Some data \<and>
           Atoi (TrimSpace data) = Some pid \<and> 0 < pid \<and> sp_clock P j < sp_start P + 10 * 10 ^ 9 \<and>
           \<not> processRunning (sp_os P j) pid \<and>
           cl_world c' = remove_file (PidFilePath devMode (cl_world c)) (cl_world c))
     | Inl e \<Rightarrow> cl_world c' = cl_world c)"
proof -
  let ?file = "PidFilePath devMode (cl_world c)"
  let ?m = "after (read_pid ?file) (\<lambda>pid. after (Printf ''Stopping akswitch (PID %d)...'' [PInt pid])
      (\<lambda>_. after (signal_stop P pid) (\<lambda>_. ret pid))) c"
  note keeps = stop_signalled(1) [of ?file P c] and found = stop_signalled(2) [of ?file P c]
  show ?thesis
  proof (cases "fst ?m")
    case (Inl e)
    then have m: "?m = (Inl e, snd ?m)" by (simp add: prod_eq_iff)
    have "stopCmd P devMode c = Some (Inl e, snd ?m)" unfolding stopCmd_def Let_def by (subst m) simp
    with keeps show ?thesis by simp
  next
    case (Inr pid)
    let ?w = "wait_exit (sp_clock P) (\<lambda>k. processRunning (sp_os P k) pid) (wait_deadline P) 0"
    obtain b where b: "?w = Some b"
      using wait_exit_returns [of "sp_clock P" "sp_start P", OF assms] unfolding wait_deadline_def by blast
    have m: "?m = (Inr pid, snd ?m)" using Inr by (simp add: prod_eq_iff)
    have stop: "stopCmd P devMode c = map_option (\<lambda>exited.
               if exited
               then after (Printf ''AK Switch stopped gracefully'' []) (\<lambda>_. remove_pid_file ?file) (snd ?m)
               else after (Printf ''Timed out waiting for graceful shutdown.'' []) (\<lambda>_.
                    after (Printf ''Try: kill -9 %d'' [PInt pid]) (\<lambda>_.
                    fail (Errorf ''shutdown timed out'' []))) (snd ?m)) ?w"
      unfolding stopCmd_def Let_def by (subst m) simp
    show ?thesis
    proof (cases b)
      case True
      with b have "?w = Some True" by simp
      from wait_exit_sees [OF this] obtain j where "sp_clock P j < wait_deadline P" "\<not> processRunning (sp_os P j) pid"
        by blast
      with found [OF Inr] stop b True keeps show ?thesis
        by (fastforce simp: remove_pid_file_def wait_deadline_def)
    next
      case False
      with stop b keeps show ?thesis by simp
    qed
  qed
qed

section \<open>Restarting\<close>

text \<open>
  The restart on a new binary loses the PID file. The watch removes the file of the
  production instance, also when the one that restarts is a development instance; and when the new
  process has written its file before the old one ends, the old one removes it, after which
  \<open>akswitch stop\<close> cannot find the running server.
\<close>

theorem self_restart_loses_pid_file:
  assumes "lastMod < m" and "w_canWrite w (PidFilePath False w)" and "writePIDFile os devMode w1 = (None, w2)"
    and "cl_world c = drop_pid_file devMode w2"
  shows "w_files (snd (snd (restart_tick (Some m) lastMod (rc, w)))) (PidFilePath False w) = None \<and>
    map_option fst (stopCmd P devMode c) = Some (Inl (Errorf ''failed to read PID file: %w'' []))"
proof (rule conjI)
  show "w_files (snd (snd (restart_tick (Some m) lastMod (rc, w)))) (PidFilePath False w) = None"
    using assms(1,2) by (simp add: restart_tick_def remove_file_def)
  have same: "PidFilePath devMode w2 = PidFilePath devMode w1" "w_canWrite w2 (PidFilePath devMode w1)"
    using assms(3) by (auto simp: writePIDFile_def write_file_def PidFilePath_def Let_def split: if_splits)
  have "cl_world c = w2\<lparr>w_files := (w_files w2)(PidFilePath devMode w1 := None)\<rparr>"
    using assms(4) same by (simp add: drop_pid_file_def remove_file_def)
  then have "read_file (cl_world c) (PidFilePath devMode (cl_world c)) = None"
    using same(1) by (simp add: read_file_def PidFilePath_def Let_def)
  then show "map_option fst (stopCmd P devMode c) = Some (Inl (Errorf ''failed to read PID file: %w'' []))"
    by (simp add: stopCmd_def read_pid_def stop_hints_def Let_def after_def)
qed

section \<open>Witnesses\<close>

definition launch_senv :: senv where
  "launch_senv = sample_senv\<lparr>en_tomlDecode := (\<lambda>b. Some sample_toml)\<rparr>"

definition launch_os :: os_env where
  "launch_os = \<lparr>os_windows = False, os_tasklist = (\<lambda>p. None), os_alive = (\<lambda>p. False), os_self = 42\<rparr>"

definition launched_config :: Config where
  "launched_config = load_provider sample_toml 4000 ''127.0.0.1'' None (Some sample_config)"

lemma launched_config_valid:
  "fst (validateConfig (set_keys [''key-a'', ''key-c''] [''a'', ''c''] launched_config)) = None"
  "c_HealthCheckIntervalSec (cf_Provider (snd (validateConfig
     (set_keys [''key-a'', ''key-c''] [''a'', ''c''] launched_config)))) = 30"
  "0 < c_Port (cf_Provider launched_config)"
  by code_simp+

lemma launch_store_loads:
  "LoadEncrypted sample_codec fresh ''p'' launch_store = (Inr (Some command_store), launch_store)"
  "loadInsecureFile ''p'' (s_world launch_store) = Inr None"
proof -
  have "encryptedFilePath (s_world (saved command_store)) ''p'' \<noteq> Some ''/c/config.toml''"
    by (simp add: encryptedFilePath_def keys_path_def saved_world)
  note other = LoadEncrypted_other_file [OF saved_world(1) this]
  have "LoadEncrypted sample_codec fresh ''p'' (saved command_store) = (Inr (Some command_store), saved command_store)"
    using holds_any [OF sample_holds [OF command_store_valid]] by (simp add: sample_cli_env_def)
  with other show "LoadEncrypted sample_codec fresh ''p'' launch_store = (Inr (Some command_store), launch_store)"
    by (simp add: launch_store_def)
  show "loadInsecureFile ''p'' (s_world launch_store) = Inr None"
    using saved_result(2) [of command_store]
    by (simp add: launch_store_def loadInsecureFile_def insecureKeysPath_def keys_path_def saved_world LoadFullStore_def)
qed

lemma launch_providers:
  "LoadAllTomlProviders (read_file (s_world launch_store)) (en_tomlDecode launch_senv) ''/c/config.toml'' =
     (Inr [(''p'', launched_config)], Some ''p'')"
  by (simp add: LoadAllTomlProviders_def read_file_def launch_store_def launch_senv_def sample_toml_def default_section_def
     launched_config_def DefaultProviderConfig_def)

lemma sample_launch:
  "\<exists>s host port ps. Launch launch_senv launch_os (\<lambda>h p. True) 0
       (NewServerLauncher '''' '''' ''full'' '''' False False) launch_store = Started s host port \<and>
     sv_providers s = [(''p'', ps)] \<and> c_HealthCheckIntervalSec (ps_pc ps) = 30"
proof -
  let ?cfg = "set_keys [''key-a'', ''key-c''] [''a'', ''c''] launched_config"
  have path: "XDGConfigPath (s_world launch_store) = Some ''/c/config.toml''"
    by (simp add: XDGConfigPath_def launch_store_def saved_world)
  have codec: "en_codec launch_senv = sample_codec" and counter: "en_counter launch_senv ''p'' = 0"
    by (simp_all add: launch_senv_def sample_senv_def)
  have keys: "loadKeysForProvider launch_senv ''p'' cfg launch_store = (([''key-a'', ''key-c''], [''a'', ''c'']), launch_store)"
    for cfg
    by (simp add: loadKeysForProvider_def LoadKeysFromStore_def codec launch_store_loads mergeInsecureKeys_def
        command_store_facts)
  have names: "LoadDisabledNames sample_codec fresh ''p'' pc launch_store =
      (map e_Name (filter e_Disabled command_store), launch_store)" for fresh pc
    by (simp add: LoadDisabledNames_def loadStoreFromAnyBackend_def launch_store_loads)
  have one: "resolveProviders launch_senv (s_world launch_store) = Inr
      \<lparr>rs_providers = [(''p'', launched_config)], rs_port = c_Port (cf_Provider launched_config),
       rs_host = FindServerHost (read_file (s_world launch_store)) (en_tomlDecode launch_senv) ''/c/config.toml'',
       rs_defaultName = ''p''\<rparr>"
    by (simp add: resolveProviders_def path launch_providers FindServerPort_def launched_config_valid)
  obtain n where pid: "checkPidFile launch_os (PidFilePath False (s_world launch_store)) (s_world launch_store) = (False, n)"
    using checkPidFile_unix [of launch_os] by (metis prod.collapse launch_os_def os_env.select_convs(1))
  obtain v where v: "validateConfig ?cfg = (None, v)" "c_HealthCheckIntervalSec (cf_Provider v) = 30"
    using launched_config_valid(1,2) by (cases "validateConfig ?cfg") simp
  let ?ps = "NewProviderState ''p'' v (NewKeyPool 0 [''key-a'', ''key-c''] [''a'', ''c'']) '''' (c_KeysFile (cf_Provider v))"
  let ?ps' = "?ps\<lparr>ps_pool := restore_disabled (map e_Name (filter e_Disabled command_store)) (ps_pool ?ps)\<rparr>"
  have init: "\<exists>lm. initProviders launch_senv sl (should_start sl ''p'' [''p'']) [(''p'', launched_config)] s =
      s\<lparr>sv_lm := lm, sv_pm := put_provider ''p'' ?ps' (sv_pm s)\<rparr>"
    if "sv_store s = launch_store" "pm_dashboardHTML (sv_pm s) = ''''"
       "sl = NewServerLauncher '''' '''' ''full'' '''' False False" for s sl
    using that
    by (cases s) (simp add: v(1) initProviders_def init_provider_def Let_def keys names codec counter AddProvider_def
        should_start_def NewServerLauncher_def LookupProvider_def put_provider_def update_conv update_last)
  obtain sl where sl: "sl = NewServerLauncher '''' '''' ''full'' '''' False False" by blast
  then have sl_facts: "sl_devMode sl = False" "sl_logLevel sl = ''''" "sl_dashboardHTML sl = ''''"
    by (simp_all add: NewServerLauncher_def)
  obtain lm0 where lm0: "lm0 = InitFileHandler (c_LogFile (cf_Provider launched_config))
      (c_LogMaxSize (cf_Provider launched_config)) (c_LogMaxAge (cf_Provider launched_config)) NewLogManager" by blast
  obtain s0 where s0: "s0 = \<lparr>sv_pm = NewProviderManager 0 '''', sv_lm = lm0, sv_store = launch_store,
      sv_defaultName = ''p''\<rparr>" by blast
  then have "sv_store s0 = launch_store" "pm_dashboardHTML (sv_pm s0) = ''''" by (simp_all add: NewProviderManager_def)
  from init [OF this sl] obtain s1 where run: "initProviders launch_senv sl (should_start sl ''p'' [''p''])
      [(''p'', launched_config)] s0 = s1" "sv_pm s1 = put_provider ''p'' ?ps' (sv_pm s0)" by fastforce
  have pm: "sv_providers s1 = [(''p'', ?ps')]" unfolding run(2) s0 by (simp add: put_provider_def NewProviderManager_def)
  then have names: "ProviderNames (sv_pm s1) \<noteq> []" by (simp add: ProviderNames_def)
  have "\<exists>s host port. Launch launch_senv launch_os (\<lambda>h p. True) 0 sl launch_store = Started s host port \<and> sv_pm s = sv_pm s1"
    by (simp add: Launch_def Let_def pid one sl_facts lm0 [symmetric] s0 [symmetric] run(1) names)
  then show ?thesis using pm v(2) unfolding sl by fastforce
qed

theorem launched_tasks_run_witness:
  "\<exists>s host port pr. Launch launch_senv launch_os (\<lambda>h p. True) 0
       (NewServerLauncher '''' '''' ''full'' '''' False False) launch_store = Started s host port \<and>
     serve_launched 0 [] s = Some pr \<and> pr_serving pr \<and> map fst (pr_tasks pr) = [''p'']"
proof -
  obtain s host port ps where l: "Launch launch_senv launch_os (\<lambda>h p. True) 0
      (NewServerLauncher '''' '''' ''full'' '''' False False) launch_store = Started s host port"
      "sv_providers s = [(''p'', ps)]" "c_HealthCheckIntervalSec (ps_pc ps) = 30"
    using sample_launch by blast
  with launched_tasks_run [OF l(1), of 0 "[]"] show ?thesis by auto
qed

definition exhausted_provider :: ProviderState where
  "exhausted_provider =
     sample_provider\<lparr>ps_pool := update_cb 0 (RecordPerma ''quota_exhausted'') (ps_pool sample_provider)\<rparr>"

definition probed_process :: process where
  "probed_process = (StartWithListener (router_of (sample_server exhausted_provider launch_store) []))
     \<lparr>pr_tasks := [(''p'', \<lparr>ta_config = None, ta_pool = None, ta_target = ''http://up'', ta_model = '''',
        ta_interval = 30000000000\<rparr>)]\<rparr>"

definition reload_request :: api_request where
  "reload_request = \<lparr>aq_method = ''POST'', aq_path = ''/api/reload'', aq_query = [], aq_header = [], aq_body = []\<rparr>"

theorem probe_loses_reloaded_pool_witness:
  "let pr' = process_step (ApiRequest launch_senv 5 (\<lambda>x. None) Reload reload_request) probed_process
   in pr_server (process_step (ProbeTick ''p'' True (\<lambda>u k. Some 200)) pr') = pr_server pr'"
proof -
  let ?t = "\<lparr>ta_config = None, ta_pool = None, ta_target = ''http://up'', ta_model = '''', ta_interval = 30000000000\<rparr>"
  let ?s = "sample_server exhausted_provider launch_store"
  have "key_step (EPerma ''quota_exhausted'') = RecordPerma ''quota_exhausted''" by (rule ext) simp
  with update_cb_wf [OF sample_provider_facts(1), of 0 "EPerma ''quota_exhausted''"]
  have wf: "pool_wf (ps_pool exhausted_provider)" by (simp add: exhausted_provider_def sample_provider_facts)
  have srv: "pr_server probed_process = ?s" "pr_tasks probed_process = [(''p'', ?t)]" "pr_serving probed_process"
    "pr_cal probed_process = NewCalibrator 15"
    by (simp_all add: probed_process_def StartWithListener_def router_of_def)
  have inv: "process_inv probed_process"
    using wf by (simp add: process_inv_def srv all_ok_def sample_server_lookup provider_ok_def cal_inv_new task_ok_def)
      (simp add: exhausted_provider_def sample_provider_facts upstream_inv_new)
  have keys: "p_keys (ps_pool exhausted_provider) = [''key-a'', ''key-b'']"
    by (simp add: exhausted_provider_def update_cb_def sample_provider_facts)
  have probed: "probed (p_cbs (ps_pool exhausted_provider) ! 0)"
    by (simp add: probed_def exhausted_provider_def update_cb_def sample_provider_facts RecordPerma_def)
  have names: "''p'' \<in> set (reloaded_names launch_senv Reload reload_request ?s)"
  proof -
    have "checkAnyAdminToken reload_request ?s"
      by (simp add: checkAnyAdminToken_def sample_server_def put_provider_def NewProviderManager_def Let_def
          HasAdminToken_def exhausted_provider_def sample_provider_facts sample_config_def DefaultConfig_def
          DefaultProviderConfig_def zeroProviderConfig_def)
    moreover have "sv_store ?s = launch_store" by (simp add: sample_server_def)
    moreover have "XDGConfigPath (s_world launch_store) = Some ''/c/config.toml''"
      by (simp add: XDGConfigPath_def launch_store_def saved_world)
    ultimately show ?thesis by (simp add: reloaded_names_def launch_providers)
  qed
  show ?thesis
    using probe_loses_reloaded_pool [OF inv _ _ _ _ probed, of "''p''" ?t "\<lambda>u k. Some 200" launch_senv reload_request
        "[]" 5 "\<lambda>x. None" True "\<lambda>u k. Some 200"] names
    by (simp add: srv sample_server_lookup keys)
qed

definition sample_stop :: stop_env where
  "sample_stop = \<lparr>sp_found = (\<lambda>p. True), sp_signal = (\<lambda>p. True), sp_start = 0,
     sp_clock = (\<lambda>k. int k * 500000000), sp_os = (\<lambda>k. launch_os)\<rparr>"

theorem stop_command_returns_witness:
  "\<exists>r c'. stopCmd sample_stop False (sample_cli launch_store) = Some (r, c') \<and>
     (r = Inr () \<or> cl_world c' = s_world launch_store)"
proof -
  have t: "sp_clock sample_stop k + 500000000 \<le> sp_clock sample_stop (Suc k)"
    "sp_start sample_stop \<le> sp_clock sample_stop 0" for k
    by (simp_all add: sample_stop_def)
  obtain r c' where r: "stopCmd sample_stop False (sample_cli launch_store) = Some (r, c')"
      "case r of Inr u \<Rightarrow> True | Inl e \<Rightarrow> cl_world c' = s_world launch_store"
    using stop_command_returns [OF t, of False "sample_cli launch_store"] by (fastforce split: sum.splits)
  then show ?thesis by (cases r) auto
qed

theorem self_restart_loses_pid_file_witness:
  "map_option fst (stopCmd sample_stop True
     (sample_cli \<lparr>s_world = drop_pid_file True (snd (writePIDFile launch_os True sample_world)), s_master = None\<rparr>)) =
   Some (Inl (Errorf ''failed to read PID file: %w'' []))"
proof -
  have "w_canWrite sample_world (PidFilePath False sample_world)"
    "writePIDFile launch_os True sample_world = (None, snd (writePIDFile launch_os True sample_world))"
    by (simp_all add: sample_world_def writePIDFile_def write_file_def)
  from self_restart_loses_pid_file [OF _ this, of 1 2
      "sample_cli \<lparr>s_world = drop_pid_file True (snd (writePIDFile launch_os True sample_world)), s_master = None\<rparr>"]
  show ?thesis by simp
qed

end
