(* ===== verification/Metrics.thy ===== *)
theory Metrics
  imports Server
begin

text \<open>
  The Prometheus metrics (internal/metrics/metrics.go): the collectors and their labels, the registry,
  the samples that requests and background tasks give to them, and what is counted for a request.
\<close>

section \<open>Collectors\<close>

datatype collector_kind = CounterVec | HistogramVec | GaugeVec | Gauge

record collector =
  co_kind :: collector_kind
  co_namespace :: string
  co_name :: string
  co_help :: string
  co_buckets :: "rat list"
  co_labels :: "string list"

record Metrics =
  m_RequestsTotal :: collector
  m_RequestDuration :: collector
  m_KeyPoolKeys :: collector
  m_UpstreamErrors :: collector
  m_UpstreamCBState :: collector
  m_HealthCheckProbes :: collector
  m_HealthCheckDuration :: collector
  m_TokenUsage :: collector
  m_RetryCount :: collector
  m_UptimeSeconds :: collector

definition latency_buckets :: "rat list" where
  "latency_buckets =
     [5 / 1000, 1 / 100, 25 / 1000, 5 / 100, 1 / 10, 25 / 100, 5 / 10, 1, 5 / 2, 5, 10, 15, 30, 60, 120]"

definition app_metrics :: Metrics where
  "app_metrics =
     \<lparr>m_RequestsTotal = \<lparr>co_kind = CounterVec, co_namespace = '''', co_name = ''akswitch_requests_total'',
        co_help = ''Total number of proxy requests by method, status class, and key index.'',
        co_buckets = [], co_labels = [''method'', ''status'', ''key_index'']\<rparr>,
      m_RequestDuration = \<lparr>co_kind = HistogramVec, co_namespace = '''', co_name = ''akswitch_request_duration_seconds'',
        co_help = ''Request latency distribution by method and status class.'',
        co_buckets = latency_buckets, co_labels = [''method'', ''status'']\<rparr>,
      m_KeyPoolKeys = \<lparr>co_kind = GaugeVec, co_namespace = '''', co_name = ''akswitch_keypool_keys'',
        co_help = ''Current number of keys by provider and state (active, cooling, disabled).'',
        co_buckets = [], co_labels = [''provider'', ''state'']\<rparr>,
      m_UpstreamErrors = \<lparr>co_kind = CounterVec, co_namespace = '''', co_name = ''akswitch_upstream_errors_total'',
        co_help = ''Count of upstream errors by type (network, rate_limited, auth_rejected, server_error).'',
        co_buckets = [], co_labels = [''type'']\<rparr>,
      m_UpstreamCBState = \<lparr>co_kind = GaugeVec, co_namespace = ''akswitch'', co_name = ''upstream_cb_state'',
        co_help = ''Upstream circuit breaker state per provider: 0=CLOSED, 1=OPEN, 2=HALF_OPEN'',
        co_buckets = [], co_labels = [''provider'']\<rparr>,
      m_HealthCheckProbes = \<lparr>co_kind = CounterVec, co_namespace = ''akswitch'', co_name = ''healthcheck_probes_total'',
        co_help = ''Count of health check probes by provider and status'',
        co_buckets = [], co_labels = [''provider'', ''status'']\<rparr>,
      m_HealthCheckDuration = \<lparr>co_kind = HistogramVec, co_namespace = ''akswitch'', co_name = ''healthcheck_duration_seconds'',
        co_help = ''Duration of health check probes per provider'',
        co_buckets = latency_buckets, co_labels = [''provider'']\<rparr>,
      m_TokenUsage = \<lparr>co_kind = CounterVec, co_namespace = ''akswitch'', co_name = ''token_usage_total'',
        co_help = ''Total token usage by provider and direction (input/output).'',
        co_buckets = [], co_labels = [''provider'', ''direction'']\<rparr>,
      m_RetryCount = \<lparr>co_kind = CounterVec, co_namespace = ''akswitch'', co_name = ''retries_total'',
        co_help = ''Total number of retry attempts by provider.'',
        co_buckets = [], co_labels = [''provider'']\<rparr>,
      m_UptimeSeconds = \<lparr>co_kind = Gauge, co_namespace = ''akswitch'', co_name = ''uptime_seconds'',
        co_help = ''Server uptime in seconds.'', co_buckets = [], co_labels = []\<rparr>\<rparr>"

definition app_collectors :: "Metrics \<Rightarrow> collector list" where
  "app_collectors m =
     [m_RequestsTotal m, m_RequestDuration m, m_KeyPoolKeys m, m_UpstreamErrors m, m_UpstreamCBState m,
      m_HealthCheckProbes m, m_HealthCheckDuration m, m_TokenUsage m, m_RetryCount m, m_UptimeSeconds m]"

section \<open>The registry\<close>

datatype registered = App collector | ProcessCollector | GoCollector

text \<open>
  \<open>takes reg c\<close> is whether the registry takes another collector; \<open>promauto\<close> and \<open>MustRegister\<close> panic
  (\<open>None\<close>) when it does not.
\<close>

fun must_register :: "(registered list \<Rightarrow> registered \<Rightarrow> bool) \<Rightarrow> registered list \<Rightarrow> registered list \<Rightarrow> registered list option" where
  "must_register takes [] reg = Some reg"
| "must_register takes (c # cs) reg = (if takes reg c then must_register takes cs (reg @ [c]) else None)"

definition NewRegistry :: "(registered list \<Rightarrow> registered \<Rightarrow> bool) \<Rightarrow> (registered list \<times> Metrics) option" where
  "NewRegistry takes =
     map_option (\<lambda>reg. (reg, app_metrics))
       (must_register takes (map App (app_collectors app_metrics) @ [ProcessCollector, GoCollector]) [])"

text \<open>
  What the library documents: a full name is the parts that are not empty, joined by an underscore; a
  collector is refused when its name is taken already, when its buckets do not increase or when a label
  occurs twice. \<open>fq\<close> is the library's function for full names.
\<close>

definition name_of :: "(string \<Rightarrow> string \<Rightarrow> string) \<Rightarrow> registered \<Rightarrow> string option" where
  "name_of fq r = (case r of App c \<Rightarrow> Some (fq (co_namespace c) (co_name c)) | _ \<Rightarrow> None)"

definition registry_contract ::
    "(string \<Rightarrow> string \<Rightarrow> string) \<Rightarrow> (registered list \<Rightarrow> registered \<Rightarrow> bool) \<Rightarrow> bool" where
  "registry_contract fq takes \<longleftrightarrow>
     (\<forall>n. fq '''' n = n) \<and> (\<forall>ns n. ns \<noteq> '''' \<longrightarrow> fq ns n = ns @ ''_'' @ n) \<and>
     (\<forall>reg c. name_of fq (App c) \<notin> name_of fq ` set reg \<and> sorted_wrt (<) (co_buckets c) \<and> distinct (co_labels c)
        \<longrightarrow> takes reg (App c)) \<and>
     (\<forall>reg r. r \<in> {ProcessCollector, GoCollector} \<and> r \<notin> set reg \<longrightarrow> takes reg r)"

lemma must_register_append:
  "must_register takes (as @ bs) reg =
     (case must_register takes as reg of None \<Rightarrow> None | Some reg \<Rightarrow> must_register takes bs reg)"
  by (induction as arbitrary: reg) auto

lemma must_register_apps:
  assumes "registry_contract fq takes" and "distinct (map (\<lambda>c. fq (co_namespace c) (co_name c)) cs)"
    and "\<forall>c\<in>set cs. name_of fq (App c) \<notin> name_of fq ` set reg"
    and "\<forall>c\<in>set cs. sorted_wrt (<) (co_buckets c) \<and> distinct (co_labels c)"
  shows "must_register takes (map App cs) reg = Some (reg @ map App cs)"
  using assms(2-)
proof (induction cs arbitrary: reg)
  case (Cons c cs)
  from assms(1) Cons.prems have "takes reg (App c)" by (simp add: registry_contract_def)
  moreover have "must_register takes (map App cs) (reg @ [App c]) = Some ((reg @ [App c]) @ map App cs)"
    using Cons.prems by (intro Cons.IH) (auto simp: name_of_def image_iff)
  ultimately show ?case by simp
qed simp

lemma latency_buckets_increase: "sorted_wrt (<) latency_buckets"
  by (simp add: latency_buckets_def)

lemma app_collectors_ok: "c \<in> set (app_collectors app_metrics) \<Longrightarrow> sorted_wrt (<) (co_buckets c) \<and> distinct (co_labels c)"
  by (auto simp: app_collectors_def app_metrics_def latency_buckets_increase)

lemma app_names:
  assumes "registry_contract fq takes"
  shows "distinct (map (\<lambda>c. fq (co_namespace c) (co_name c)) (app_collectors app_metrics))"
  using assms by (simp add: registry_contract_def app_collectors_def app_metrics_def)

lemma registered_ok:
  assumes "registry_contract fq takes"
  shows "NewRegistry takes = Some (map App (app_collectors app_metrics) @ [ProcessCollector, GoCollector], app_metrics)"
proof -
  let ?reg = "map App (app_collectors app_metrics)"
  have "must_register takes ?reg [] = Some ([] @ ?reg)"
    by (rule must_register_apps [OF assms app_names [OF assms]]) (auto dest: app_collectors_ok)
  moreover have other: "takes reg r" if "r \<in> {ProcessCollector, GoCollector}" "r \<notin> set reg" for reg r
    using assms that by (auto simp: registry_contract_def)
  have "takes ?reg ProcessCollector" "takes (?reg @ [ProcessCollector]) GoCollector"
    by (rule other; auto)+
  ultimately show ?thesis by (simp add: NewRegistry_def must_register_append)
qed

section \<open>Samples\<close>

datatype change = Inc | Add int | Observe | SetTo

record metric_sample =
  sa_collector :: collector
  sa_labels :: "string list"
  sa_change :: change

text \<open>What each recorded metric stands for; \<open>recordProxyMetrics\<close> and the health check write two samples.\<close>

fun request_samples :: "Metrics \<Rightarrow> metric \<Rightarrow> metric_sample list" where
  "request_samples m (RequestsTotal method status key) =
     [\<lparr>sa_collector = m_RequestsTotal m, sa_labels = [method, status, key], sa_change = Inc\<rparr>,
      \<lparr>sa_collector = m_RequestDuration m, sa_labels = [method, status], sa_change = Observe\<rparr>]"
| "request_samples m (UpstreamErrors t) =
     [\<lparr>sa_collector = m_UpstreamErrors m, sa_labels = [t], sa_change = Inc\<rparr>]"
| "request_samples m (TokenUsage p direction n) =
     [\<lparr>sa_collector = m_TokenUsage m, sa_labels = [p, direction], sa_change = Add n\<rparr>]"
| "request_samples m (RetryCount p n) =
     [\<lparr>sa_collector = m_RetryCount m, sa_labels = [p], sa_change = Add n\<rparr>]"

fun task_samples :: "Metrics \<Rightarrow> gauge \<Rightarrow> metric_sample list" where
  "task_samples m (HealthProbe p status) =
     [\<lparr>sa_collector = m_HealthCheckDuration m, sa_labels = [p], sa_change = Observe\<rparr>,
      \<lparr>sa_collector = m_HealthCheckProbes m, sa_labels = [p, status], sa_change = Inc\<rparr>]"
| "task_samples m (UpstreamState p code) =
     [\<lparr>sa_collector = m_UpstreamCBState m, sa_labels = [p], sa_change = SetTo\<rparr>]"
| "task_samples m (PoolKeys p state n) =
     [\<lparr>sa_collector = m_KeyPoolKeys m, sa_labels = [p, state], sa_change = SetTo\<rparr>]"
| "task_samples m (Uptime d) =
     [\<lparr>sa_collector = m_UptimeSeconds m, sa_labels = [], sa_change = SetTo\<rparr>]"

definition process_samples :: "Metrics \<Rightarrow> process \<Rightarrow> metric_sample list" where
  "process_samples m pr =
     concat (map (request_samples m) (pr_metrics pr)) @ concat (map (task_samples m) (pr_gauges pr))"

text \<open>
  A sample that does not make the library panic: its collector is registered, it has one value for
  each label, the change is one of the collector's kind, and nothing negative is added to a counter.
\<close>

definition taken :: "registered list \<Rightarrow> metric_sample \<Rightarrow> bool" where
  "taken reg s \<longleftrightarrow>
     App (sa_collector s) \<in> set reg \<and> length (sa_labels s) = length (co_labels (sa_collector s)) \<and>
     (case sa_change s of
        Inc \<Rightarrow> co_kind (sa_collector s) = CounterVec
      | Add n \<Rightarrow> co_kind (sa_collector s) = CounterVec \<and> 0 \<le> n
      | Observe \<Rightarrow> co_kind (sa_collector s) = HistogramVec
      | SetTo \<Rightarrow> co_kind (sa_collector s) \<in> {GaugeVec, Gauge})"

definition counter_value :: "collector \<Rightarrow> string list \<Rightarrow> metric_sample list \<Rightarrow> int" where
  "counter_value c ls ss =
     sum_list (map (\<lambda>s. if sa_collector s = c \<and> sa_labels s = ls
       then (case sa_change s of Inc \<Rightarrow> 1 | Add n \<Rightarrow> n | _ \<Rightarrow> 0) else 0) ss)"

lemma taken_values: "list_all (taken reg) ss \<Longrightarrow> 0 \<le> counter_value c ls ss"
  by (induction ss) (auto simp: counter_value_def taken_def split: change.split)

lemma counter_value_append: "counter_value c ls (ss @ ts) = counter_value c ls ss + counter_value c ls ts"
  by (simp add: counter_value_def)

abbreviation all_registered :: "registered list \<Rightarrow> bool" where
  "all_registered reg \<equiv> App ` set (app_collectors app_metrics) \<subseteq> set reg"

lemma request_samples_taken:
  assumes "all_registered reg" and "documented m"
  shows "list_all (taken reg) (request_samples app_metrics m)"
proof -
  have "list_all (\<lambda>s. sa_collector s \<in> set (app_collectors app_metrics)) (request_samples app_metrics m)"
    by (cases m) (simp_all add: app_collectors_def)
  moreover have "list_all (\<lambda>s. length (sa_labels s) = length (co_labels (sa_collector s)) \<and>
      (case sa_change s of Inc \<Rightarrow> co_kind (sa_collector s) = CounterVec
        | Add n \<Rightarrow> co_kind (sa_collector s) = CounterVec \<and> 0 \<le> n
        | Observe \<Rightarrow> co_kind (sa_collector s) = HistogramVec
        | SetTo \<Rightarrow> co_kind (sa_collector s) \<in> {GaugeVec, Gauge})) (request_samples app_metrics m)"
    using assms(2) by (cases m) (auto simp: app_metrics_def documented_def)
  ultimately show ?thesis using assms(1) by (auto simp: list_all_iff taken_def)
qed

lemma task_samples_taken:
  assumes "all_registered reg"
  shows "list_all (taken reg) (task_samples app_metrics g)"
proof -
  have "list_all (\<lambda>s. sa_collector s \<in> set (app_collectors app_metrics)) (task_samples app_metrics g)"
    by (cases g) (simp_all add: app_collectors_def)
  moreover have "list_all (\<lambda>s. length (sa_labels s) = length (co_labels (sa_collector s)) \<and>
      (case sa_change s of Inc \<Rightarrow> co_kind (sa_collector s) = CounterVec
        | Add n \<Rightarrow> co_kind (sa_collector s) = CounterVec \<and> 0 \<le> n
        | Observe \<Rightarrow> co_kind (sa_collector s) = HistogramVec
        | SetTo \<Rightarrow> co_kind (sa_collector s) \<in> {GaugeVec, Gauge})) (task_samples app_metrics g)"
    by (cases g) (simp_all add: app_metrics_def)
  ultimately show ?thesis using assms by (auto simp: list_all_iff taken_def)
qed

section \<open>What a run of the process records\<close>

definition records :: "exec \<Rightarrow> exec \<Rightarrow> bool" where
  "records x y \<longleftrightarrow> (\<exists>ms. x_metrics y = x_metrics x @ ms \<and> list_all documented ms)"

lemma records_trans: "records x y \<Longrightarrow> records y z \<Longrightarrow> records x z"
  unfolding records_def by force

interpretation recording: request_steps records "\<lambda>ev. True" documented "\<lambda>key q. True"
proof
  show "records x x" for x by (simp add: records_def)
  show "records x y \<Longrightarrow> records y z \<Longrightarrow> records x z" for x y z by (rule records_trans)
  show "documented m \<Longrightarrow> records x (record_metric m x)" for m x by (simp add: records_def record_metric_def)
qed (simp_all add: records_def step_defs)

text \<open>Every library that a request is served with keeps the contract of \<open>Add\<close>.\<close>

definition honest :: "process_event \<Rightarrow> bool" where
  "honest e \<longleftrightarrow> (case e of ProxyRequest L up env rq \<Rightarrow> \<forall>n<0. \<not> lb_counterAdd L n | _ \<Rightarrow> True)"

definition extends :: "process \<Rightarrow> process \<Rightarrow> bool" where
  "extends pr pr' \<longleftrightarrow> (\<exists>ms gs. pr_metrics pr' = pr_metrics pr @ ms \<and> pr_gauges pr' = pr_gauges pr @ gs \<and>
     list_all documented ms)"

lemma extends_refl: "extends pr pr"
  by (simp add: extends_def)

lemma extends_trans: "extends a b \<Longrightarrow> extends b c \<Longrightarrow> extends a c"
  unfolding extends_def by force

lemma extends_same: "pr_metrics b = pr_metrics a \<Longrightarrow> pr_gauges b = pr_gauges a \<Longrightarrow> extends a b"
  by (simp add: extends_def)

lemma proxyHandler_extends:
  assumes "\<forall>n<0. \<not> lb_counterAdd L n"
  shows "extends pr (snd (proxyHandler L up env rq pr))"
proof -
  have "records (exec_of ps pr) (final (Execute L up env rq (exec_of ps pr)))" for ps rq
    by (rule recording.R_Execute) (use assms in \<open>simp_all add: not_less [symmetric], blast\<close>)
  then show ?thesis
    by (auto simp: proxyHandler_def records_def extends_def put_exec_def exec_of_def Let_def
        split: prod.split option.split)
qed

lemma with_task_extends: "(\<And>t ps. extends pr (f t ps)) \<Longrightarrow> extends pr (with_task name f pr)"
  by (auto simp: with_task_def extends_refl split: option.split)

lemma process_step_extends:
  assumes "honest e"
  shows "extends pr (process_step e pr)"
proof -
  note defs = StartWithListener_def StopTasks_def Shutdown_def StartBackgroundTasks_def serve_api_def
  show ?thesis
  proof (cases e)
    case (ProxyRequest L up env rq)
    with assms proxyHandler_extends show ?thesis by (simp add: honest_def extends_refl)
  next
    case (HealthTick name head now)
    then show ?thesis
      by (simp add: health_tick_def) (rule with_task_extends, simp add: extends_def split_beta)
  next
    case (ProbeTick name build probe)
    then show ?thesis
      by (auto simp: probe_tick_def put_task_pool_def intro!: with_task_extends extends_same)
  next
    case (CalibrationTick name tk post now)
    then show ?thesis
      by (auto simp: calibration_tick_def put_task_pool_def split_beta Let_def intro!: with_task_extends extends_same)
  next
    case (GaugeTick name now)
    then show ?thesis by (simp add: gauge_tick_def) (rule with_task_extends, simp add: extends_def)
  next
    case (UptimeTick now)
    then show ?thesis by (auto simp: extends_def split: option.split)
  qed (auto intro!: extends_same simp: defs split: option.split)
qed

lemma process_run_extends: "list_all honest es \<Longrightarrow> extends pr (fold process_step es pr)"
proof (induction es arbitrary: pr)
  case (Cons e es)
  then have "extends pr (process_step e pr)" "extends (process_step e pr) (fold process_step (e # es) pr)"
    by (simp_all add: process_step_extends)
  then show ?case by (rule extends_trans)
qed (simp add: extends_refl)

section \<open>What is counted for a request\<close>

fun is_total :: "metric \<Rightarrow> bool" where
  "is_total (RequestsTotal method status key) = True"
| "is_total _ = False"

definition totals :: "exec \<Rightarrow> metric list" where
  "totals x = filter is_total (x_metrics x)"

text \<open>
  The status class under which an answer is counted: all answers of the upstream from 400 on are 4xx,
  also the 501 that is passed on; the 429 of the proxy is a class of its own.
\<close>

definition counted_as :: "response \<Rightarrow> string" where
  "counted_as r =
     (case r of ProxyError s c \<Rightarrow> if s = 429 then ''429'' else StatusLabel s
      | Forwarded s h body \<Rightarrow> if 400 \<le> s then ''4xx'' else StatusLabel s)"

definition counted :: "string \<Rightarrow> bool \<Rightarrow> exec \<Rightarrow> exec \<Rightarrow> bool" where
  "counted method over x y \<longleftrightarrow>
     (if over then (\<exists>r key. x_resp y = Some r \<and> totals y = totals x @ [RequestsTotal method (counted_as r) key])
      else totals y = totals x \<and> x_resp y = x_resp x)"

lemmas count_simps = counted_def totals_def counted_as_def StatusLabel_def

lemma totals_frame [simp]:
  "totals (on_pool f x) = totals x" "totals (on_up g x) = totals x" "totals (respond r x) = totals x"
  "totals (x\<lparr>x_sent := ss\<rparr>) = totals x" "totals (x\<lparr>x_cal := c\<rparr>) = totals x"
  by (simp_all add: totals_def step_defs)

lemma resp_frame [simp]:
  "x_resp (on_pool f x) = x_resp x" "x_resp (on_up g x) = x_resp x"
  by (simp_all add: step_defs)

lemma rate_limited_counted:
  "handleRateLimited e idx resp method x = Returned b y \<Longrightarrow> counted method b x y"
  by (auto simp: handleRateLimited_def Let_def result_simps count_simps split: prod.splits option.splits if_splits)

lemma auth_rejected_counted:
  "handleAuthRejected L e idx resp method x = Returned b y \<Longrightarrow> counted method b x y"
  by (auto simp: handleAuthRejected_def Let_def result_simps count_simps split: prod.splits option.splits if_splits)

lemma server_error_counted: "handleServerError e resp x = Returned b y \<Longrightarrow> \<not> b \<and> counted method b x y"
  by (auto simp: handleServerError_def result_simps count_simps)

lemma non_retryable_counted:
  "handleNonRetryable e idx resp method target bb att rect x = Returned u y \<Longrightarrow> 400 \<le> a_status resp \<Longrightarrow>
     counted method True x y"
  by (auto simp: handleNonRetryable_def Let_def result_simps count_simps split: if_splits)

lemma commit_counted:
  assumes "commit_success e idx resp method i out att x = Returned b y" and "totals x = totals z"
    and "x_resp x = Some (Forwarded (a_status resp) h body)" and "a_status resp < 400"
  shows "counted method b z y"
proof -
  have t: "totals (recordMetricsAndLog idx resp method i out att u) =
      totals u @ [RequestsTotal method (StatusLabel (a_status resp)) (Itoa (int idx))]" for u
    by (simp add: recordMetricsAndLog_def Let_def step_defs recordProxyMetrics_def totals_def)
  obtain p where "b" and y: "y = recordMetricsAndLog idx resp method i out att (on_pool (\<lambda>_. p) x)"
    using assms(1) by (auto simp: commit_success_def split: option.splits)
  then show ?thesis using assms(2-) by (simp add: counted_def t y counted_as_def)
qed

lemma success_counted:
  assumes "handleSuccess L e idx resp method bb att x = Returned b y" and "a_status resp < 400"
  shows "counted method b x y"
proof -
  have f: "totals (forward resp out z) = totals z" "x_resp (forward resp out z) =
      Some (Forwarded (a_status resp) (copyHeaders [] (a_header resp)) out)" for out z
    by (simp_all add: forward_def) (simp add: respond_def)
  have r: "totals (record_success idx z) = totals z" for z by (simp add: record_success_def)
  show ?thesis
    using assms by (auto simp: handleSuccess_def Let_def f r counted_def [of _ False]
        split: prod.splits if_splits elim!: commit_counted)
qed

lemma dispatch_counted:
  assumes "dispatch L e idx resp method target bb rnd rect x = Returned b y"
  shows "counted method b x y"
proof (cases "400 \<le> a_status resp")
  case True
  then have "categorizeError (a_status resp) None = CatNonRetryable \<longrightarrow> 400 \<le> a_status resp" by simp
  with True assms show ?thesis
    by (auto simp: dispatch_def Let_def and_then_Returned
        dest!: rate_limited_counted auth_rejected_counted non_retryable_counted server_error_counted
        split: if_splits)
next
  case False
  then have "dispatch L e idx resp method target bb rnd rect x = handleSuccess L e idx resp method bb rnd x"
    by (simp add: dispatch_def Let_def categorizeError_def)
  with assms False success_counted show ?thesis by simp
qed

text \<open>A client that goes away is neither answered nor counted.\<close>

definition accounted :: "string \<Rightarrow> bool \<Rightarrow> exec \<Rightarrow> exec \<Rightarrow> bool" where
  "accounted method over x y \<longleftrightarrow> counted method over x y \<or> over \<and> totals y = totals x \<and> x_resp y = x_resp x"

lemma accounted_chain:
  "counted method False x y \<Longrightarrow> accounted method b y z \<Longrightarrow> accounted method b x z"
  by (auto simp: accounted_def counted_def)

lemma one_round_counted:
  assumes "one_round L up env rq target bb rect rnd x = Returned b y"
  shows "accounted (rq_method rq) b x y"
proof -
  let ?e = "env rnd"
  obtain al cb where u: "U_Allow (re_allowAt ?e) (ps_upCB (x_ps x)) = (al, cb)" by force
  obtain sel p where s: "SelectKey (re_selectAt ?e) (x_pool (on_up (\<lambda>_. cb) x)) = (sel, p)" by force
  show ?thesis
  proof (cases "\<exists>idx key. sel = Some (idx, key) \<and> al \<and> re_buildOk ?e")
    case False
    with u s assms show ?thesis
      by (auto simp: one_round_def Let_def result_simps accounted_def count_simps split: option.splits if_splits)
  next
    case True
    then obtain idx key where sel: "sel = Some (idx, key)" "al" "re_buildOk ?e" by blast
    let ?q = "upstream_request rq target bb key"
    define z where "z = on_up (fold upstream_step (re_up ?e)) (on_pool (fold pool_step (re_pool ?e))
        ((on_pool (\<lambda>_. p) (on_up (\<lambda>_. cb) x))\<lparr>x_sent := x_sent (on_pool (\<lambda>_. p) (on_up (\<lambda>_. cb) x)) @ [(idx, key, ?q)]\<rparr>))"
    have z: "totals z = totals x" "x_resp z = x_resp x" by (simp_all add: z_def)
    show ?thesis
    proof (cases "up rnd ?q")
      case (NetworkError c)
      with u s sel assms show ?thesis
        by (auto simp: one_round_def Let_def accounted_def count_simps step_defs split: if_splits)
    next
      case (Answer a)
      with u s sel assms have "dispatch L ?e idx a (rq_method rq) target bb rnd rect z = Returned b y"
        by (simp add: one_round_def Let_def z_def)
      with z show ?thesis by (auto simp: accounted_def counted_def [of _ _ x] counted_def [of _ _ z] dest!: dispatch_counted)
    qed
  qed
qed

lemma rounds_counted:
  "rounds L up env rq target bb rect n rnd x = Returned () y \<Longrightarrow> accounted (rq_method rq) True x y"
proof (induction n arbitrary: rnd x)
  case 0
  then show ?case by (auto simp: Let_def result_simps accounted_def count_simps split: if_splits)
next
  case (Suc n)
  then obtain b z where r: "one_round L up env rq target bb rect rnd x = Returned b z"
      "(if b then Returned () z else rounds L up env rq target bb rect n (Suc rnd) z) = Returned () y"
    by (auto simp: and_then_Returned)
  note o = one_round_counted [OF r(1)]
  show ?case
  proof (cases b)
    case True
    with o r(2) show ?thesis by simp
  next
    case False
    with o have "counted (rq_method rq) False x z" by (simp add: accounted_def)
    moreover have "accounted (rq_method rq) True z y" using False r(2) by (intro Suc.IH) simp
    ultimately show ?thesis by (rule accounted_chain)
  qed
qed

lemma Execute_counted:
  assumes "Execute L up env rq x = Returned () y"
  shows "accounted (rq_method rq) True x y"
proof (cases rule: Execute_cases [of rq x L up env, case_names bad_body hung runs])
  case bad_body
  with assms show ?thesis by (auto simp: step_defs recordProxyMetrics_def accounted_def count_simps)
next
  case (runs b rect)
  with assms rounds_counted show ?thesis by simp
qed (use assms in simp)

end
