(* ===== verification/CommandTree.thy ===== *)
theory CommandTree
  imports Lifecycle KeyCommands ConfigCommands ProviderCommands UsageCommands StopCommands
begin

text \<open>
  The tree of commands (the \<open>init\<close> functions and command variables of internal/cli): which commands
  there are, how many arguments and which flags each takes, and how the function of a command reads
  them. Parsing a command line is the library's: it hands over the arguments, once their number has
  been checked, and the values of the flags.
\<close>

section \<open>Declarations\<close>

datatype flag_data = FString string | FInt int | FBool bool | FFloat float64

record flag =
  fl_name :: string
  fl_short :: string
  fl_default :: flag_data

datatype arity = ExactArgs nat | MinimumNArgs nat | MaximumNArgs nat | RangeArgs nat nat | NoArgs | AnyArgs

record command =
  cm_path :: "string list"
  cm_args :: arity
  cm_flags :: "flag list"

definition command :: "string list \<Rightarrow> arity \<Rightarrow> flag list \<Rightarrow> command" where
  "command path n fs = \<lparr>cm_path = path, cm_args = n, cm_flags = fs\<rparr>"

definition StringP :: "string \<Rightarrow> string \<Rightarrow> flag" where
  "StringP name short = \<lparr>fl_name = name, fl_short = short, fl_default = FString ''''\<rparr>"

definition IntP :: "string \<Rightarrow> string \<Rightarrow> int \<Rightarrow> flag" where
  "IntP name short n = \<lparr>fl_name = name, fl_short = short, fl_default = FInt n\<rparr>"

definition BoolF :: "string \<Rightarrow> flag" where
  "BoolF name = \<lparr>fl_name = name, fl_short = '''', fl_default = FBool False\<rparr>"

definition Float64F :: "string \<Rightarrow> float64 \<Rightarrow> flag" where
  "Float64F name x = \<lparr>fl_name = name, fl_short = '''', fl_default = FFloat x\<rparr>"

definition key_commands :: "command list" where
  "key_commands =
     [command [''key'', ''add''] (ExactArgs 2) [StringP ''name'' ''n'', BoolF ''insecure-storage''],
      command [''key'', ''list''] (ExactArgs 1) [BoolF ''runtime'', BoolF ''all''],
      command [''key'', ''remove''] (ExactArgs 2) [],
      command [''key'', ''disable''] (ExactArgs 2) [],
      command [''key'', ''enable''] (ExactArgs 2) [],
      command [''key'', ''update''] (RangeArgs 2 3) [StringP ''name'' ''n''],
      command [''key'', ''import''] (MinimumNArgs 1)
        [StringP ''file'' ''f'', StringP ''name'' ''n'', BoolF ''insecure-storage'', StringP ''target'' ''t'', BoolF ''create''],
      command [''key'', ''cooldown''] (ExactArgs 2) [],
      command [''key'', ''export''] (ExactArgs 1) [StringP ''output'' ''o''],
      command [''key'', ''upstream-cb-reset''] (ExactArgs 1) [],
      command [''key'', ''restore''] (ExactArgs 2) [],
      command [''key'', ''purge''] (ExactArgs 1) []]"

definition provider_add_flags :: "flag list" where
  "provider_add_flags =
     [StringP ''target'' ''t'', IntP ''port'' ''p'' 0, IntP ''cooldown-sec'' ''c'' 60, IntP ''max-retries'' ''r'' 3,
      BoolF ''default'']"

definition provider_update_flags :: "flag list" where
  "provider_update_flags =
     [StringP ''target'' ''t'', IntP ''cooldown-sec'' ''c'' (- 1), IntP ''max-retries'' ''r'' (- 1),
      IntP ''backoff-cap-sec'' '''' (- 1), Float64F ''backoff-multiplier'' (Fin (- 1)),
      IntP ''cb-reset-sec'' '''' (- 1), IntP ''upstream-cb-threshold'' '''' (- 1), IntP ''http-timeout-sec'' '''' (- 1),
      IntP ''health-check-interval-sec'' '''' (- 1), StringP ''admin-token'' '''', StringP ''genai-model'' '''',
      StringP ''log-level'' '''', StringP ''keys-file'' '''', BoolF ''default'']"

definition provider_commands :: "command list" where
  "provider_commands =
     [command [''provider'', ''add''] (ExactArgs 1) provider_add_flags,
      command [''provider'', ''list''] AnyArgs [],
      command [''provider'', ''remove''] (ExactArgs 1) [],
      command [''provider'', ''default''] (ExactArgs 1) [],
      command [''provider'', ''info''] (ExactArgs 1) [],
      command [''provider'', ''update''] (ExactArgs 1) provider_update_flags,
      command [''provider'', ''upstream-cb-reset''] (ExactArgs 1) []]"

definition config_commands :: "command list" where
  "config_commands =
     [command [''config'', ''init''] AnyArgs [StringP ''path'' ''p''],
      command [''config'', ''view''] AnyArgs [],
      command [''config'', ''list''] (MaximumNArgs 1) [BoolF ''all''],
      command [''config'', ''get''] (RangeArgs 1 2) [BoolF ''all''],
      command [''config'', ''set''] (RangeArgs 2 3) [BoolF ''runtime-only'', BoolF ''all'']]"

definition usage_command :: command where
  "usage_command = command [''usage''] NoArgs [StringP ''key'' ''k'', StringP ''provider'' ''p'', StringP ''credentials-dir'' '''']"

definition start_command :: command where
  "start_command = command [''start''] AnyArgs
     [StringP ''provider'' '''', BoolF ''all'', (StringP ''log-format'' '''')\<lparr>fl_default := FString ''compact''\<rparr>,
      StringP ''log-level'' '''', BoolF ''dev'']"

definition stop_command :: command where
  "stop_command = command [''stop''] AnyArgs [BoolF ''dev'']"

definition status_command :: command where
  "status_command = command [''status''] (MaximumNArgs 1) []"

definition log_level_command :: command where
  "log_level_command = command [''log-level''] (MaximumNArgs 1) []"

definition reload_command :: command where
  "reload_command = command [''reload''] AnyArgs []"

definition version_command :: command where
  "version_command = command [''version''] AnyArgs []"

text \<open>All commands that have a function, those below \<open>rootCmd\<close>.\<close>

definition rootCmd :: "command list" where
  "rootCmd = config_commands @ key_commands @
     [log_level_command] @ provider_commands @ [reload_command, version_command, start_command, status_command,
      stop_command, usage_command]"

lemmas command_defs = rootCmd_def key_commands_def provider_commands_def provider_add_flags_def
  provider_update_flags_def config_commands_def usage_command_def start_command_def stop_command_def
  status_command_def log_level_command_def reload_command_def version_command_def command_def
  StringP_def IntP_def BoolF_def Float64F_def

section \<open>Reading arguments and flags\<close>

record parsed =
  pa_value :: "string \<Rightarrow> flag_data option"
  pa_changed :: "string \<Rightarrow> bool"

text \<open>The error of a flag that was not declared, or not with that type, is ignored in the source.\<close>

definition GetString :: "parsed \<Rightarrow> string \<Rightarrow> string" where
  "GetString p name = (case pa_value p name of Some (FString s) \<Rightarrow> s | _ \<Rightarrow> '''')"

definition GetInt :: "parsed \<Rightarrow> string \<Rightarrow> int" where
  "GetInt p name = (case pa_value p name of Some (FInt n) \<Rightarrow> n | _ \<Rightarrow> 0)"

definition GetBool :: "parsed \<Rightarrow> string \<Rightarrow> bool" where
  "GetBool p name = (case pa_value p name of Some (FBool b) \<Rightarrow> b | _ \<Rightarrow> False)"

text \<open>An argument; an index out of range is a panic, \<open>None\<close>.\<close>

definition arg :: "string list \<Rightarrow> nat \<Rightarrow> (string \<Rightarrow> 'a option) \<Rightarrow> 'a option" where
  "arg args n f = (if n < length args then f (args ! n) else None)"

definition opt_arg :: "string list \<Rightarrow> nat \<Rightarrow> string option" where
  "opt_arg args n = (if n < length args then Some (args ! n) else None)"

datatype action =
    Run "unit cmd"
  | StopServer bool
  | StartServer string bool bool string string
  | ShowVersion

text \<open>What the commands use beside the command line: \<open>order\<close> is an order of iteration over a map.\<close>

record run_context =
  cx_env :: cli_env
  cx_portal :: "portal_call \<Rightarrow> portal_answer"
  cx_order :: "(string \<times> string) list"

type_synonym runner = "run_context \<Rightarrow> string list \<Rightarrow> parsed \<Rightarrow> action option"

definition key_runners :: "(string list \<times> runner) list" where
  "key_runners =
     [([''key'', ''add''], \<lambda>x args p. arg args 0 (\<lambda>provider. arg args 1 (\<lambda>key.
         Some (Run (keyAddCmd (cx_env x) provider key (GetString p ''name'') (GetBool p ''insecure-storage'')))))),
      ([''key'', ''list''], \<lambda>x args p. arg args 0 (\<lambda>provider.
         Some (Run (keyListCmd (cx_env x) provider (GetBool p ''runtime'') (GetBool p ''all''))))),
      ([''key'', ''remove''], \<lambda>x args p. arg args 0 (\<lambda>provider. arg args 1 (\<lambda>keyID.
         Some (Run (keyRemoveCmd (cx_env x) provider keyID))))),
      ([''key'', ''disable''], \<lambda>x args p. arg args 0 (\<lambda>provider. arg args 1 (\<lambda>keyID.
         Some (Run (keyDisableCmd (cx_env x) provider keyID))))),
      ([''key'', ''enable''], \<lambda>x args p. arg args 0 (\<lambda>provider. arg args 1 (\<lambda>keyID.
         Some (Run (keyEnableCmd (cx_env x) provider keyID))))),
      ([''key'', ''update''], \<lambda>x args p. arg args 0 (\<lambda>provider. arg args 1 (\<lambda>keyID.
         Some (Run (keyUpdateCmd (cx_env x) provider keyID (if length args = 3 then Some (args ! 2) else None)
           (if pa_changed p ''name'' then Some (GetString p ''name'') else None)))))),
      ([''key'', ''import''], \<lambda>x args p. arg args 0 (\<lambda>provider.
         Some (Run (keyImportCmd (cx_env x) provider (drop 1 args) (GetString p ''file'') (GetString p ''name'')
           (GetBool p ''insecure-storage'') (GetString p ''target'') (GetBool p ''create''))))),
      ([''key'', ''cooldown''], \<lambda>x args p. arg args 0 (\<lambda>provider. arg args 1 (\<lambda>keyID.
         Some (Run (keyCooldownCmd (cx_env x) provider keyID))))),
      ([''key'', ''export''], \<lambda>x args p. arg args 0 (\<lambda>provider.
         Some (Run (keyExportCmd (cx_env x) provider (GetString p ''output''))))),
      ([''key'', ''upstream-cb-reset''], \<lambda>x args p. arg args 0 (\<lambda>provider.
         Some (Run (keyUpstreamCBResetCmd (cx_env x) provider)))),
      ([''key'', ''restore''], \<lambda>x args p. arg args 0 (\<lambda>provider. arg args 1 (\<lambda>keyID.
         Some (Run (keyRestoreCmd (cx_env x) provider keyID))))),
      ([''key'', ''purge''], \<lambda>x args p. arg args 0 (\<lambda>provider.
         Some (Run (keyPurgeCmd (cx_env x) provider))))]"

definition provider_runners :: "(string list \<times> runner) list" where
  "provider_runners =
     [([''provider'', ''add''], \<lambda>x args p. arg args 0 (\<lambda>name.
         Some (Run (providerAddCmd (cx_env x) name (GetString p ''target'') (GetInt p ''port'')
           (GetInt p ''cooldown-sec'') (GetInt p ''max-retries''))))),
      ([''provider'', ''list''], \<lambda>x args p. Some (Run (providerListCmd (cx_env x)))),
      ([''provider'', ''remove''], \<lambda>x args p. arg args 0 (\<lambda>name. Some (Run (providerRemoveCmd (cx_env x) name)))),
      ([''provider'', ''default''], \<lambda>x args p. arg args 0 (\<lambda>name. Some (Run (providerDefaultCmd (cx_env x) name)))),
      ([''provider'', ''info''], \<lambda>x args p. arg args 0 (\<lambda>name. Some (Run (providerInfoCmd (cx_env x) name)))),
      ([''provider'', ''update''], \<lambda>x args p. arg args 0 (\<lambda>name.
         Some (Run (providerUpdateCmd (cx_env x) (pa_changed p) (cx_order x) name)))),
      ([''provider'', ''upstream-cb-reset''], \<lambda>x args p. arg args 0 (\<lambda>name.
         Some (Run (providerUpstreamCBResetCmd (cx_env x) name))))]"

definition config_runners :: "(string list \<times> runner) list" where
  "config_runners =
     [([''config'', ''init''], \<lambda>x args p. Some (Run (configInitCmd (cx_env x) (GetString p ''path'')))),
      ([''config'', ''view''], \<lambda>x args p. Some (Run (configViewCmd (cx_env x)))),
      ([''config'', ''list''], \<lambda>x args p. Some (Run (configListCmd (cx_env x) (opt_arg args 0) (GetBool p ''all'')))),
      ([''config'', ''get''], \<lambda>x args p. arg args 0 (\<lambda>key.
         Some (Run (configGetCmd (cx_env x) key (opt_arg args 1) (GetBool p ''all''))))),
      ([''config'', ''set''], \<lambda>x args p. arg args 0 (\<lambda>key. arg args 1 (\<lambda>value.
         Some (Run (configSetCmd (cx_env x) key value (opt_arg args 2) (GetBool p ''all'') (GetBool p ''runtime-only''))))))]"

definition other_runners :: "(string list \<times> runner) list" where
  "other_runners =
     [([''log-level''], \<lambda>x args p. Some (Run (logLevelCmd (cx_env x) (opt_arg args 0)))),
      ([''reload''], \<lambda>x args p. Some (Run (reloadCmd (cx_env x)))),
      ([''version''], \<lambda>x args p. Some ShowVersion),
      ([''start''], \<lambda>x args p. Some (StartServer (GetString p ''provider'') (GetBool p ''all'') (GetBool p ''dev'')
         (GetString p ''log-format'') (GetString p ''log-level''))),
      ([''status''], \<lambda>x args p. Some (Run (statusCmd (cx_env x) (case opt_arg args 0 of None \<Rightarrow> '''' | Some s \<Rightarrow> s)))),
      ([''stop''], \<lambda>x args p. Some (StopServer (GetBool p ''dev''))),
      ([''usage''], \<lambda>x args p. Some (Run (usageCmd (cx_env x) (cx_portal x) (GetString p ''key'')
         (GetString p ''provider'') (GetString p ''credentials-dir''))))]"

definition run_command :: "string list \<Rightarrow> runner" where
  "run_command path x args p =
     (case map_of (key_runners @ provider_runners @ config_runners @ other_runners) path of
        None \<Rightarrow> None | Some r \<Rightarrow> r x args p)"

section \<open>The declarations are sound\<close>

text \<open>What the library documents of its checks on the number of arguments.\<close>

definition arity_contract :: "(arity \<Rightarrow> nat \<Rightarrow> bool) \<Rightarrow> bool" where
  "arity_contract ok \<longleftrightarrow>
     (\<forall>n k. ok (ExactArgs n) k \<longrightarrow> k = n) \<and> (\<forall>n k. ok (MinimumNArgs n) k \<longrightarrow> n \<le> k) \<and>
     (\<forall>n k. ok (MaximumNArgs n) k \<longrightarrow> k \<le> n) \<and> (\<forall>m n k. ok (RangeArgs m n) k \<longrightarrow> m \<le> k \<and> k \<le> n) \<and>
     (\<forall>k. ok NoArgs k \<longrightarrow> k = 0)"

definition same_kind :: "flag_data \<Rightarrow> flag_data \<Rightarrow> bool" where
  "same_kind v w \<longleftrightarrow>
     (case (v, w) of (FString s, FString t) \<Rightarrow> True | (FInt m, FInt n) \<Rightarrow> True | (FBool a, FBool b) \<Rightarrow> True
      | (FFloat x, FFloat y) \<Rightarrow> True | _ \<Rightarrow> False)"

text \<open>The values of declared flags, and of their declared types only.\<close>

definition declared_only :: "flag list \<Rightarrow> parsed \<Rightarrow> parsed" where
  "declared_only fs p = p\<lparr>pa_value := (\<lambda>name.
     case find (\<lambda>f. fl_name f = name) fs of
       None \<Rightarrow> None
     | Some f \<Rightarrow> (case pa_value p name of None \<Rightarrow> None
                  | Some v \<Rightarrow> if same_kind v (fl_default f) then Some v else None))\<rparr>"

lemma same_kind_simps [simp]:
  "same_kind (FString s) (FString t)" "same_kind (FInt m) (FInt n)" "same_kind (FBool a) (FBool b)"
  by (simp_all add: same_kind_def)

definition declares :: "flag list \<Rightarrow> string \<Rightarrow> flag_data \<Rightarrow> bool" where
  "declares fs name v \<longleftrightarrow> (case find (\<lambda>f. fl_name f = name) fs of None \<Rightarrow> False | Some f \<Rightarrow> same_kind v (fl_default f))"

lemma declared_flag:
  "declares fs name (FString s) \<Longrightarrow> GetString (declared_only fs p) name = GetString p name"
  "declares fs name (FInt n) \<Longrightarrow> GetInt (declared_only fs p) name = GetInt p name"
  "declares fs name (FBool b) \<Longrightarrow> GetBool (declared_only fs p) name = GetBool p name"
  by (auto simp: GetString_def GetInt_def GetBool_def declared_only_def declares_def same_kind_def
      split: option.splits flag_data.splits)

lemma declared_changed [simp]: "pa_changed (declared_only fs p) = pa_changed p"
  by (simp add: declared_only_def)

text \<open>
  A command is sound when every number of arguments that is let through suffices for its function, and
  the function reads no flag but those declared for it, with their types.
\<close>

definition sound_call :: "string list \<Rightarrow> flag list \<Rightarrow> string list \<Rightarrow> bool" where
  "sound_call path fs args \<longleftrightarrow> (\<forall>x p. run_command path x args p \<noteq> None \<and>
     run_command path x args (declared_only fs p) = run_command path x args p)"

definition sound_command :: "command \<Rightarrow> bool" where
  "sound_command c \<longleftrightarrow> (\<forall>ok args. arity_contract ok \<longrightarrow> ok (cm_args c) (length args) \<longrightarrow>
     sound_call (cm_path c) (cm_flags c) args)"

lemma sound_intros:
  "(\<And>args. length args = n \<Longrightarrow> sound_call path fs args) \<Longrightarrow> sound_command (command path (ExactArgs n) fs)"
  "(\<And>args. n \<le> length args \<Longrightarrow> sound_call path fs args) \<Longrightarrow> sound_command (command path (MinimumNArgs n) fs)"
  "(\<And>args. length args \<le> n \<Longrightarrow> sound_call path fs args) \<Longrightarrow> sound_command (command path (MaximumNArgs n) fs)"
  "(\<And>args. m \<le> length args \<Longrightarrow> length args \<le> n \<Longrightarrow> sound_call path fs args) \<Longrightarrow>
     sound_command (command path (RangeArgs m n) fs)"
  "sound_call path fs [] \<Longrightarrow> sound_command (command path NoArgs fs)"
  "(\<And>args. sound_call path fs args) \<Longrightarrow> sound_command (command path AnyArgs fs)"
  by (auto simp: sound_command_def command_def arity_contract_def)

lemmas runner_defs = key_runners_def provider_runners_def config_runners_def other_runners_def
lemmas sound_simps = sound_call_def run_command_def runner_defs arg_def declared_flag declares_def
  StringP_def IntP_def BoolF_def

lemma key_commands_sound: "list_all sound_command key_commands"
  unfolding key_commands_def list.pred_inject by (intro conjI sound_intros TrueI; simp add: sound_simps del: length_greater_0_conv)

lemma provider_commands_sound: "list_all sound_command provider_commands"
  unfolding provider_commands_def list.pred_inject
  by (intro conjI sound_intros TrueI; simp add: sound_simps provider_add_flags_def del: length_greater_0_conv)

lemma config_commands_sound: "list_all sound_command config_commands"
  unfolding config_commands_def list.pred_inject by (intro conjI sound_intros TrueI; simp add: sound_simps del: length_greater_0_conv)

lemma rootCmd_sound: "list_all sound_command rootCmd"
proof -
  have "list_all sound_command [log_level_command, reload_command, version_command, start_command, status_command,
      stop_command, usage_command]"
    unfolding log_level_command_def reload_command_def version_command_def start_command_def status_command_def
      stop_command_def usage_command_def list.pred_inject
    by (intro conjI sound_intros TrueI; simp add: sound_simps del: length_greater_0_conv)
  then show ?thesis
    by (simp add: rootCmd_def key_commands_sound provider_commands_sound config_commands_sound)
qed

text \<open>No command is registered twice, and no command has two flags of one name or one short name.\<close>

lemma rootCmd_distinct:
  "distinct (map cm_path rootCmd)"
  "list_all (\<lambda>c. distinct (map fl_name (cm_flags c)) \<and>
     distinct (filter (\<lambda>s. s \<noteq> '''') (map fl_short (cm_flags c)))) rootCmd"
  by (simp_all add: command_defs)

text \<open>The flags that \<open>provider update\<close> looks for are those that it declares, with the same short names.\<close>

lemma update_flags_declared:
  "set (map fl_name provider_update_flags) = insert ''default'' (fst ` set flagToFieldKey)"
  "list_all (\<lambda>f. flagShortName (fl_name f) = fl_short f) provider_update_flags"
  by (auto simp: provider_update_flags_def flagToFieldKey_def StringP_def IntP_def BoolF_def Float64F_def flagShortName_def)

section \<open>Dispatching\<close>

text \<open>
  C36 (safety). Once the library has checked the number of arguments of a command, the command runs: its
  function indexes no argument that is not there, and it reads no flag but those that are declared for
  it, with the types they are declared with.
\<close>

theorem accepted_command_runs:
  assumes "arity_contract ok" and "c \<in> set rootCmd" and "ok (cm_args c) (length args)"
  shows "\<exists>a. run_command (cm_path c) x args p = Some a \<and>
    run_command (cm_path c) x args (declared_only (cm_flags c) p) = Some a"
  using rootCmd_sound assms by (auto simp: list_all_iff sound_command_def sound_call_def)

fun plain_arity :: "arity \<Rightarrow> nat \<Rightarrow> bool" where
  "plain_arity (ExactArgs n) k = (k = n)"
| "plain_arity (MinimumNArgs n) k = (n \<le> k)"
| "plain_arity (MaximumNArgs n) k = (k \<le> n)"
| "plain_arity (RangeArgs m n) k = (m \<le> k \<and> k \<le> n)"
| "plain_arity NoArgs k = (k = 0)"
| "plain_arity AnyArgs k = True"

theorem accepted_command_runs_witness:
  "\<exists>x p a. run_command [''stop''] x [''now''] p = Some a"
proof -
  have "arity_contract plain_arity" by (simp add: arity_contract_def)
  moreover have "stop_command \<in> set rootCmd" "cm_path stop_command = [''stop'']" "cm_args stop_command = AnyArgs"
    by (simp_all add: rootCmd_def) (simp_all add: stop_command_def command_def)
  ultimately show ?thesis using accepted_command_runs [of plain_arity stop_command "[''now'']"] by fastforce
qed

end
