(* ===== verification/Keyring.thy ===== *)
theory Keyring
  imports KeyStore
begin

text \<open>
  Opening the keyring (internal/keypool/keyring.go): the system keyring first, then a file backend whose
  password is generated on first use. \<open>w_keyring\<close> of a \<open>world\<close> is what the backend found here holds, and
  \<open>None\<close> when none is found. The keyring library, the temporary directory and random bytes are arguments.
\<close>

section \<open>The password of the file backend\<close>

text \<open>\<open>hex.EncodeToString\<close> of the standard library.\<close>

definition hex_digit :: "nat \<Rightarrow> char" where
  "hex_digit n = (if n < 10 then char_of (48 + n) else char_of (87 + n))"

definition hex_encode :: "bytes \<Rightarrow> string" where
  "hex_encode bs = concat (map (\<lambda>b. [hex_digit (of_char b div 16), hex_digit (of_char b mod 16)]) bs)"

datatype password_error = PasswordRead | PasswordRandom | PasswordWrite

text \<open>\<open>rand\<close> is \<open>None\<close> when the system has no random bytes.\<close>

definition fallbackPasswordFunc ::
    "bytes option \<Rightarrow> string \<Rightarrow> world \<Rightarrow> (password_error + string) \<times> world" where
  "fallbackPasswordFunc rand passwordFile w =
     (case w_files w passwordFile of
        Some (Content data) \<Rightarrow> (Inr data, w)
      | Some Unreadable \<Rightarrow> (Inl PasswordRead, w)
      | None \<Rightarrow>
          (case rand of
             None \<Rightarrow> (Inl PasswordRandom, w)
           | Some pw \<Rightarrow>
               (let pwHex = hex_encode pw
                in case write_file passwordFile pwHex w of
                     (Some e, w) \<Rightarrow> (Inl PasswordWrite, w)
                   | (None, w) \<Rightarrow> (Inr pwHex, w))))"

section \<open>The backend\<close>

text \<open>The backend with its directory and password file, and the package variables.\<close>

datatype keyring_backend = SystemBackend | FileBackend string string | TestBackend

record keyring_state =
  kr_backend :: "keyring_backend option"
  kr_initConfig :: string
  kr_test :: bool

datatype probe_result = ProbeFound | ProbeNotFound | ProbeError string

datatype tier_error = OpenError | NoFileDir | ProbeFailed string

datatype keyring_error = NoFallbackDir tier_error | NoFallback tier_error

definition keyringFallbackDir :: "string \<Rightarrow> world \<Rightarrow> string" where
  "keyringFallbackDir tmp w =
     (case w_configDir w of None \<Rightarrow> tmp @ ''/akswitch-keyring'' | Some dir \<Rightarrow> dir @ ''/keyring-fallback'')"

text \<open>
  \<open>system\<close> is \<open>None\<close> when the system keyring cannot be opened, else the answer to the probe; \<open>fallback\<close>
  is whether the file backend opens in a directory with a password file.
\<close>

definition tier_failure :: "probe_result option \<Rightarrow> tier_error" where
  "tier_failure system =
     (case system of
        None \<Rightarrow> OpenError
      | Some (ProbeError e) \<Rightarrow> (if Contains e ''No directory provided'' then NoFileDir else ProbeFailed e)
      | Some _ \<Rightarrow> OpenError)"

definition initKeyring ::
    "string \<Rightarrow> probe_result option \<Rightarrow> (string \<Rightarrow> string \<Rightarrow> bool) \<Rightarrow> world \<Rightarrow> keyring_state \<Rightarrow>
      keyring_error option \<times> keyring_state" where
  "initKeyring tmp system fallback w s =
     (let dir = keyringFallbackDir tmp w
      in if kr_backend s \<noteq> None \<and> (kr_test s \<or> kr_initConfig s = dir) then (None, s)
         else if system = Some ProbeFound \<or> system = Some ProbeNotFound
         then (None, s\<lparr>kr_backend := Some SystemBackend, kr_initConfig := dir\<rparr>)
         else if \<not> w_canMkdir w then (Some (NoFallbackDir (tier_failure system)), s)
         else (let password = dir @ ''/password''
               in if fallback dir password
                  then (None, s\<lparr>kr_backend := Some (FileBackend dir password), kr_initConfig := dir\<rparr>)
                  else (Some (NoFallback (tier_failure system)), s)))"

definition setTestKeyring :: "keyring_state \<Rightarrow> keyring_state" where
  "setTestKeyring s = s\<lparr>kr_backend := Some TestBackend, kr_test := True\<rparr>"

definition resetTestKeyring :: "keyring_state \<Rightarrow> keyring_state" where
  "resetTestKeyring s = s\<lparr>kr_backend := None, kr_test := False\<rparr>"

section \<open>What is promised\<close>

text \<open>The text of the bytes can be read back, so a password is as hard to guess as its random bytes.\<close>

fun hex_value :: "char \<Rightarrow> nat" where
  "hex_value c = (let n = of_char c in if n < 58 then n - 48 else n - 87)"

fun hex_decode :: "string \<Rightarrow> bytes" where
  "hex_decode (a # b # cs) = char_of (16 * hex_value a + hex_value b) # hex_decode cs"
| "hex_decode _ = []"

lemma hex_value_digit: "n < 16 \<Longrightarrow> hex_value (hex_digit n) = n"
  by (simp add: hex_digit_def)

lemma hex_decode_encode: "hex_decode (hex_encode bs) = bs"
proof (induction bs)
  case (Cons b bs)
  have "of_char b < (256 :: nat)" by simp
  then have "hex_value (hex_digit (of_char b div 16)) = of_char b div 16"
    by (intro hex_value_digit) (simp add: less_mult_imp_div_less)
  moreover have "hex_value (hex_digit (of_char b mod 16)) = of_char b mod 16" by (intro hex_value_digit) simp
  ultimately show ?case using Cons by (simp add: hex_encode_def)
qed (simp add: hex_encode_def)

lemma hex_encode_length: "length (hex_encode bs) = 2 * length bs"
  by (induction bs) (simp_all add: hex_encode_def)

text \<open>The first call makes the password; later ones find the same, whatever random bytes they get.\<close>

lemma password_stays:
  assumes "fallbackPasswordFunc rand file1 w = (Inr pw, w')"
  shows "fallbackPasswordFunc rand' file1 w' = (Inr pw, w')"
    and "w_files w file1 = None \<Longrightarrow> \<exists>bs. rand = Some bs \<and> pw = hex_encode bs \<and> hex_decode pw = bs"
  using assms
  by (auto simp: fallbackPasswordFunc_def write_file_def Let_def hex_decode_encode
      split: option.splits node.splits if_splits)

text \<open>A successful opening is final: the same configuration directory never opens a second backend.\<close>

lemma initKeyring_once:
  assumes "initKeyring tmp system fallback w s = (None, s')" and "w_configDir w' = w_configDir w"
  shows "initKeyring tmp system' fallback' w' s' = (None, s')" and "kr_backend s' \<noteq> None"
proof -
  have dir: "keyringFallbackDir tmp w' = keyringFallbackDir tmp w" using assms(2) by (simp add: keyringFallbackDir_def)
  show "kr_backend s' \<noteq> None" using assms(1) by (auto simp: initKeyring_def Let_def split: if_splits)
  moreover have "kr_test s' \<or> kr_initConfig s' = keyringFallbackDir tmp w"
    using assms(1) by (auto simp: initKeyring_def Let_def split: if_splits)
  ultimately show "initKeyring tmp system' fallback' w' s' = (None, s')" by (simp add: initKeyring_def dir)
qed

text \<open>An error leaves the variables alone, so that the next call tries again.\<close>

lemma initKeyring_retries:
  assumes "initKeyring tmp system fallback w s = (Some e, s')"
  shows "s' = s" and "system \<noteq> Some ProbeFound" and "system \<noteq> Some ProbeNotFound"
  using assms by (auto simp: initKeyring_def Let_def split: if_splits)

end
