(* ===== verification/Spec2Isabelle.thy ===== *)
theory Spec2Isabelle
  imports Masking RequestProperties StoreProperties SettingsProperties AdminProperties CommandProperties
    ConfigProperties LifecycleProperties MetricProperties CommandTree Keyring
begin

text \<open>
  A verification development of ak-switch, a proxy that rotates API keys between LLM providers
  (\<open>src/internal\<close>). A client sends a request for a provider; the proxy picks a usable key from the
  provider's pool, forwards the request with that key, and on a failure books it on the breaker that
  is to blame and tries the next key. Providers are configured in a TOML file, their keys are kept in
  an encrypted store, a management API changes both at run time, and a command line edits the files
  and signals the server.

  \<^bold>\<open>The parts, from the bottom up, and their theories.\<close>

  \<^item> Shared: Prelude (64-bit wrap-around, lists updated by index, the locale \<open>event_machine\<close> of a
    state machine driven by events), GoStrings and GoFloat (what is used of Go's strings, strconv and
    float64), Json and JsonPrint (encoding/json, with the proof that written text is read back).
  \<^item> Breakers: CircuitBreaker (states, and the locale \<open>breaker\<close> that both keep), KeyBreaker
    (circuitbreaker/key.go: \<open>RecordFailure\<close>, \<open>ForceCooldown\<close>, \<open>Allow\<close>, ...), UpstreamBreaker
    (circuitbreaker/upstream.go), which refines a machine of three phases.
  \<^item> Key pool: KeyPool (keypool/keypool.go, the record \<open>KeyPool\<close> of parallel slices and one function
    per method), KeySelection (the locale \<open>key_selector\<close>, round robin, no starvation), PoolInvariant
    (slices stay aligned; the pool refines a plain list of entries), PoolReadings (counts, waiting
    times, the one-minute window).
  \<^item> Configuration: Config (config.go, config_loader.go, config_toml.go), FieldDescriptors
    (field_descriptor.go, the tag table and its parsers), ProviderState (server/router.go, one
    provider at run time, its setters and persisting), Providers (provider_manager.go, reloading).
  \<^item> Keys on disk: KeyStore (keypool/store.go, encrypted_store.go, keyring.go over a \<open>world\<close> of files
    and keyring items with fault switches), Keyring (keyring.go: which backend is opened).
  \<^item> Requests: Proxy and Rectifier and ErrorDump (proxy.go, headers.go, proxy_handler.go, helpers.go,
    rectifier.go, error_dump.go, crash.go), Calibrator (tracker, tokenestimator), ProxyExecutor
    (proxy_executor.go: the rounds of one request), RequestSteps (the locales \<open>handler_steps\<close> and
    \<open>request_steps\<close>: a property of the small steps holds of a whole request), RequestSafety and
    Failover (their instances: what a request sends, keeps, answers; when it returns; failing over),
    DisabledKeys (the locale \<open>lasting\<close> of what only enabling a key ends, followed through the pool, a
    request, the API, the tasks and the process), Metrics (metrics.go: the collectors, the registry,
    the samples, what is counted for a request).
  \<^item> Server: Logging, LogView, Masking (log output and what it hides), Admin (every handler of the
    management API and the routes), AdminSafety (the locales \<open>gentle_predicate\<close> and
    \<open>provider_predicate\<close>; what a request without a token can change), Background (ticks of the periodic tasks), Server (all of it as one
    process whose steps are starting, API calls, proxied requests, ticks and stopping), Launcher
    (server_launcher.go up to listening), Lifecycle (what a launched process serves with, the wait for
    a signal, the PID file, crash.go).
  \<^item> Command line: Commands (the state of a command, its errors, the client of the API, the locale
    \<open>command_relation\<close> of what commands keep), KeyImport and KeyCommands (cli/key.go), ConfigCommands
    (cli/config.go), ProviderCommands (cli/provider.go), UsageCommands (cli/usage.go, status.go),
    StopCommands (cli/stop.go, selfrestart.go), CommandEffects (what the key commands leave in the
    store), FlagOrder (the flags of \<open>provider update\<close> commute), Wire (how a request of the command line
    arrives at the server's handlers), CommandTree (which commands, arguments and flags there are, and
    how the functions of the commands read them).
  \<^item> Properties: RequestProperties, StoreProperties, SettingsProperties, AdminProperties,
    CommandProperties, ConfigProperties, LifecycleProperties, MetricProperties and this theory; Samples and
    CommandSamples hold the concrete inputs of the witnesses.

  \<^bold>\<open>How the parts interact.\<close> The launcher reads the file and the stores, registers the providers and
  starts their tasks; from then on the router is one state. The command line is a process of its own:
  it shares the files with the server (\<open>cl_store\<close> and \<open>sv_store\<close> are states of the same world) and sends
  it requests, which \<open>received\<close> and \<open>arrives_at\<close> turn into requests of the API; so C12 and C13 follow
  a command through the store and the wire into the server's pool.

  \<^bold>\<open>How the code is modelled.\<close> A struct is a record, a method a function from the state to the result
  and the state; an operation that runs under a mutex is one atomic step, with its clock reading and
  its random draw as arguments. Machine integers are \<open>int\<close> with \<open>wrap64\<close> where they can overflow, the
  rotation counter a 64-bit word; strings are byte strings; a Go map is a list of pairs with distinct
  keys in some order of iteration. An error is a value of a sum type with one constructor per
  message; a panic is the result \<open>None\<close> (\<open>Panicked\<close> in commands). What the sources only call
  (AES-GCM, the TOML library, tiktoken, the keyring, url.Parse, HTTP, Prometheus, cobra) is an argument;
  the predicates \<open>codec_ok\<close>, \<open>registry_contract\<close> and \<open>arity_contract\<close> are what is relied on of
  encryption, of the registry of metrics and of the checks on arguments. While a request waits for its upstream, other requests
  and the API may do any sequence of operations on the pool and the upstream breaker: \<open>re_pool\<close> and
  \<open>re_up\<close> are these sequences, and all statements on requests hold for every choice of them.

  \<^bold>\<open>Fuel and loops.\<close> The search of \<open>MaskSensitiveData\<close> may not end in the code, so it has fuel and \<open>None\<close>
  for running out; C32 says exactly when some fuel suffices. A request has \<open>c_MaxRetries\<close> rounds; C3
  shows that it neither hangs nor panics when that number is not negative. The polls of \<open>akswitch stop\<close> are a partial function without
  fuel; C30 shows that it returns when time passes. The JSON parser has the fuel \<open>2 * length s + 2\<close>,
  enough since each level of its recursion consumes a byte or closes a list; the round trip C33 covers
  it. All other loops are structural recursions or folds.

  \<^bold>\<open>What the lemmas show.\<close> Invariants of breakers, pool, calibrator, providers and process (C1 and its
  parts); refinement of the pool by a list of entries and of the upstream breaker by phases (C8, C16);
  what a request sends, answers and books (C2 to C7, C24, C25); disabled keys (C9, C10); selection and
  waiting (C20, C21); backoff, cooldowns and windows (C22, C23, C38); the store (C14, C15, C33);
  settings (C17, C26, C37, C39, C40); the API without a token and what it shows (C11, C31, C32);
  commands and what the server makes of them (C12, C13, C27, C28, C36); starting, the tasks and
  stopping (C18, C19, C29, C30); what is counted and that counting never panics (C34, C35). Some of them state behaviour that is surely not intended; these are
  listed as findings.

  \<^bold>\<open>Not modelled.\<close> Parsing a command line and printing help (cobra), the encoding of the metrics page,
  rendering formats to a terminal, rotating log files, the goroutines behind \<open>http.Server\<close>, directories
  of the file system, and the support for tests. They are calls of libraries and of the operating system, without state of the program's own.
\<close>

section \<open>Properties of the key pool\<close>

text \<open>
  C8 (refinement). Started on any keys and driven by any sequence of its operations, the pool keeps
  its parallel slices aligned and behaves, on keys, names and breakers, as a plain list of entries.
\<close>

theorem pool_refines_entries:
  "pool_wf (fold pool_step es (NewKeyPool r keys names)) \<and>
   entries (fold pool_step es (NewKeyPool r keys names)) =
     fold entry_step es (entries (NewKeyPool r keys names))"
  by (simp add: pool_machine.run_inv entries_run NewKeyPool_wf)


definition sample_pool :: KeyPool where
  "sample_pool = NewKeyPool 7 [''key-a'', ''key-b'', ''key-c''] [''a'', ''b'']"

lemma sample_pool_facts:
  "pool_wf sample_pool" "length (p_keys sample_pool) = 3"
  "p_keys sample_pool = [''key-a'', ''key-b'', ''key-c'']"
  "p_cbs sample_pool = [zeroBreaker, zeroBreaker, zeroBreaker]"
  "p_requestHistory sample_pool = [[], [], []]"
  by (simp_all add: sample_pool_def NewKeyPool_wf)
     (simp_all add: NewKeyPool_def numeral_3_eq_3)



text \<open>
  Without a release, no two reservations made by \<open>Next\<close> return the same key, and none
  returns a key that was already reserved.
\<close>

theorem next_reserves_distinct:
  assumes "pool_wf p"
  shows "distinct (reserving.reservations (reserving.select_all ts p)) \<and>
    set (reserving.reservations (reserving.select_all ts p)) \<inter>
      {i. i < length (p_inUse p) \<and> p_inUse p ! i} = {}"
  by (rule reserving.reservations_fresh) (rule assms)

theorem next_reserves_distinct_witness:
  "distinct (reserving.reservations (reserving.select_all [1, 2, 3, 4] sample_pool))"
  using next_reserves_distinct [OF sample_pool_facts(1), of "[1, 2, 3, 4]"] by (rule conjunct1)

text \<open>
  A key that is permanently disabled stays disabled, at its index, through every
  sequence of operations on the pool, reconfiguration included, that neither enables it nor removes
  a key at or before it.
\<close>

theorem disabled_key_stays_disabled:
  assumes "pool_wf p" and "i < length (p_keys p)" and "k_state (p_cbs p ! i) = Permanent"
    and "list_all (spares i) es"
  shows "i < length (p_keys (fold pool_step es p)) \<and> p_keys (fold pool_step es p) ! i = p_keys p ! i \<and>
    k_state (p_cbs (fold pool_step es p) ! i) = Permanent"
  using disabling.entry_run_lasts [of "p_keys p ! i" i "entries p" es] assms
  by (simp add: entry_at_pool [OF pool_machine.run_inv] entries_run [symmetric])
     (simp add: entry_at_pool permanent_def)

theorem disabled_key_stays_disabled_witness:
  "k_state (p_cbs (fold pool_step [PSuccess 1, PConfigure 10 40 (Fin 2), PEnable 0, PRemove 2]
      (snd (Disable 1 sample_pool))) ! 1) = Permanent"
proof -
  let ?p = "snd (Disable 1 sample_pool)"
  have wf: "pool_wf ?p" using pool_step_wf [OF sample_pool_facts(1), of "PDisable 1"] by simp
  have p: "p_keys ?p = p_keys sample_pool" "k_state (p_cbs ?p ! 1) = Permanent"
    by (simp_all add: Disable_def validateIndex_wf sample_pool_facts in_range_def update_cb_def RecordPerma_def)
  show ?thesis
    using disabled_key_stays_disabled [OF wf _ p(2),
        of "[PSuccess 1, PConfigure 10 40 (Fin 2), PEnable 0, PRemove 2]"]
    by (simp add: p(1) sample_pool_facts spares_def del: pool_step.simps fold_simps)
qed

text \<open>
  C21 (liveness). \<open>TimeUntilAvailable\<close> is 0 exactly when a key is usable now; when it is positive,
  some key is usable as soon as that time has passed.
\<close>

theorem wait_for_key:
  assumes "pool_wf p"
  shows "(TimeUntilAvailable now p = 0 \<longleftrightarrow> (\<exists>i<length (p_keys p). Allow now (p_cbs p ! i))) \<and>
    (0 < TimeUntilAvailable now p \<and> TimeUntilAvailable now p < 2 ^ 63 - 1 \<longrightarrow>
       (\<exists>i<length (p_keys p). Allow (now + TimeUntilAvailable now p + 1) (p_cbs p ! i)))"
  using TimeUntilAvailable_ready [OF assms] TimeUntilAvailable_sleep [OF assms] by blast

definition cooled_pool :: KeyPool where
  "cooled_pool = snd (Cooldown 5 0 100 (NewKeyPool 0 [''k''] []))"

lemma cooled_pool_facts: "pool_wf cooled_pool" "TimeUntilAvailable 5 cooled_pool = 100"
  using pool_step_wf [OF NewKeyPool_wf, of "PCooldown 5 0 100" 0 "[''k'']" "[]"]
  by (simp_all add: cooled_pool_def)
     (simp add: NewKeyPool_def zeroBreaker_def TimeUntilAvailable_def Allow_def
        CooldownRemaining_def time_Until_def pool_defs breaker_defs)

theorem wait_for_key_witness:
  "\<exists>i<length (p_keys cooled_pool). Allow 106 (p_cbs cooled_pool ! i)"
  using wait_for_key [OF cooled_pool_facts(1), of 5] by (simp add: cooled_pool_facts)

text \<open>
  The request rate read after any increments is the number of all requests of the
  last minute, although every increment drops the older ones.
\<close>

theorem request_window:
  assumes "pool_wf p" and "i < length (p_keys p)" and "list_all (\<lambda>t. t \<le> now) ts"
  shows "requests_at now (increments i ts p) i =
    length (filter (\<lambda>t. now - 60 * 1000000000 < t) (p_requestHistory p ! i @ ts))"
  using assms by (rule requests_increments)

theorem request_window_witness:
  "requests_at 100000000000 (increments 1 [1, 50000000000, 90000000000] sample_pool) 1 = 2"
  using request_window [OF sample_pool_facts(1), of 1 100000000000 "[1, 50000000000, 90000000000]"]
  by (simp add: sample_pool_facts)

text \<open>
  A key added at run time carries a breaker with base cooldown and cap 0: its first 429
  disables it for good, whereas the same failure only cools a key whose breaker was configured.
\<close>

theorem added_key_first_429:
  assumes "pool_wf p" and "1 \<le> b" and "b < cap" and "cap \<le> 2 ^ 62" and "AddKey key name p = (i, q)"
  shows "IsDisabled i (snd (P_RecordFailure now draw i q)) \<and>
    \<not> IsDisabled i (snd (P_RecordFailure now draw i (ConfigureCBs b cap (Fin 2) q)))"
proof -
  have i: "i = int (length (p_keys p))" "length (p_keys q) = Suc (length (p_keys p))"
    "k_state (p_cbs q ! length (p_keys p)) = Closed"
    using assms(1,5) by (auto simp: AddKey_def Let_def nth_append pool_wf_lengths NewKeyCircuitBreaker_def)
  have "pool_wf q" using pool_step_wf [OF assms(1), of "PAdd key name"] assms(5) by simp
  then show ?thesis
    using AddKey_first_failure [OF assms(1,5)] configured_failure [of q "length (p_keys p)"] i assms(2-4)
    by simp
qed

theorem added_key_first_429_witness:
  "IsDisabled 3 (snd (P_RecordFailure 9 1 3 (snd (AddKey ''key-d'' ''d'' sample_pool))))"
  using added_key_first_429 [OF sample_pool_facts(1), of 30 600 "''key-d''" "''d''" 3 _ 9 1]
  by (simp add: AddKey_def Let_def sample_pool_facts)

section \<open>Properties of the breakers\<close>

text \<open>
  C22 (functional). With the default multiplier 2, consecutive rate-limit failures disable a key
  permanently exactly when one of the backoff terms base * 2^i reaches the cap.
\<close>

theorem backoff_disables:
  assumes "k_multiplier k = Fin 2" "1 \<le> k_base k" "k_base k < 2 ^ 63" "k_backoffCap k \<le> 2 ^ 62"
    "k_jitterFn k = None" "k_state k \<noteq> Permanent" "k_attempt k = 0"
  shows "k_state (fail_run fs k) = Permanent \<longleftrightarrow>
           (\<exists>i<length fs. k_backoffCap k \<le> k_base k * 2 ^ i)"
  using fail_run_two [of k 0 fs] assms by simp

theorem backoff_disables_witness:
  "k_state (fail_run [(1, 0), (2, 5), (3, 9)] (NewKeyCircuitBreaker 10 40 (Fin 2) [])) = Permanent"
proof -
  have "\<exists>i<3. (40::int) \<le> 10 * 2 ^ i" by (rule exI [of _ 2]) simp
  then show ?thesis
    using backoff_disables [of "NewKeyCircuitBreaker 10 40 (Fin 2) []" "[(1, 0), (2, 5), (3, 9)]"]
    by (simp add: NewKeyCircuitBreaker_def numeral_3_eq_3)
qed



text \<open>
  C16 (refinement). Started closed and driven by any events except reconfigurations, the upstream
  breaker is the abstract machine that counts consecutive failures, refuses from a point in time,
  and waits for the outcome of its probe; it lets a request through exactly when that machine does.
\<close>

theorem upstream_refines_phases:
  assumes "\<not> list_ex reconfigures es"
  shows "let u = fold upstream_step es (NewUpstreamCircuitBreaker thr tmo);
             ph = fold (phase_step thr tmo) es (Counting 0)
         in upstream_inv u \<and> phase_of u = ph \<and> fst (U_Allow now u) = phase_allows tmo now ph"
proof -
  let ?new = "NewUpstreamCircuitBreaker thr tmo" and ?u = "fold upstream_step es (NewUpstreamCircuitBreaker thr tmo)"
  have inv: "upstream_inv ?u" by (rule upstream_machine.run_inv) simp
  have u0: "u_threshold ?new = thr" "u_resetTimeout ?new = tmo" "phase_of ?new = Counting 0"
    by (simp_all add: NewUpstreamCircuitBreaker_def phase_of_def)
  have "u_resetTimeout ?u = tmo"
    using upstream_run_config [OF assms, of ?new] u0 by simp
  then show ?thesis
    using inv phase_run [of ?new es] phase_allows_simulation [OF inv, of now] assms u0 by (simp add: Let_def)
qed

theorem upstream_refines_phases_witness:
  "fst (U_Allow 500 (fold upstream_step [UFailure 1, USuccess, UFailure 2, UFailure 3]
      (NewUpstreamCircuitBreaker 2 100)))"
  using upstream_refines_phases [of "[UFailure 1, USuccess, UFailure 2, UFailure 3]" 2 100 500]
  by (simp add: reconfigures_def Let_def)

text \<open>
  Consecutive failures open a closed upstream breaker exactly when there are at
  least the threshold of them, and then it refuses until the reset timeout after the failure that
  reached the threshold.
\<close>

theorem upstream_opens_at_threshold:
  assumes "ts \<noteq> []"
  shows "phase_of (fold upstream_step (map UFailure ts) (NewUpstreamCircuitBreaker thr tmo)) =
    (if thr \<le> int (length ts) then Refusing (ts ! nat (max 0 (thr - 1))) else Counting (int (length ts)))"
proof -
  have "\<not> list_ex reconfigures (map UFailure ts)"
    by (simp add: list_ex_iff reconfigures_def)
  then show ?thesis
    using phase_run [of "NewUpstreamCircuitBreaker thr tmo" "map UFailure ts"] counting_failures [OF assms, of thr tmo 0]
    by (simp add: phase_of_def NewUpstreamCircuitBreaker_def upstream_inv_def)
qed

theorem upstream_opens_at_threshold_witness:
  "phase_of (fold upstream_step (map UFailure [10, 20, 30]) (NewUpstreamCircuitBreaker 2 100)) = Refusing 20"
  using upstream_opens_at_threshold [of "[10, 20, 30]" 2 100] by simp

text \<open>
  Once the half-open probe is out, the upstream breaker refuses every request at every
  time, however often it is asked or reconfigured, until a success, a failure or a reset is recorded:
  a probe whose outcome is never reported closes the provider to all traffic.
\<close>

theorem lost_probe_refuses:
  assumes "upstream_inv u" and "u_state u = HalfOpen" and "\<not> list_ex reports_outcome es"
  shows "\<not> fst (U_Allow now (fold upstream_step es u))"
  by (rule half_open_refuses [OF upstream_machine.run_inv [OF assms(1)] half_open_run [OF assms]])

theorem lost_probe_refuses_witness:
  "\<not> fst (U_Allow (10 ^ 18) (fold upstream_step [UAllow 900, USetResetTimeout 1]
      (snd (U_Allow 500 (fold upstream_step [UFailure 3] (NewUpstreamCircuitBreaker 1 100))))))"
  by (rule lost_probe_refuses)
     (simp_all add: breaker_defs upstream_inv_def reports_outcome_def Let_def)

section \<open>Properties of masking\<close>

text \<open>
  Whatever \<open>MaskSensitiveData\<close> returns for an ASCII text contains neither key prefix
  any more, in any case.
\<close>

theorem masked_has_no_prefix:
  assumes "list_all (\<lambda>c. of_char c < (128::nat)) data" and "MaskSensitiveData data maxLen = Some r"
  shows "\<not> occurs ''sk-'' r \<and> \<not> occurs ''nvapi-'' r"
  using assms(2) by (rule MaskSensitiveData_masks)



theorem masked_has_no_prefix_witness:
  "MaskSensitiveData ''use Sk-a_1 now'' 20 = Some ''use *** now'' \<and> \<not> occurs ''sk-'' ''use *** now''"
proof -
  have [simp]: "char_of (115::nat) = CHR ''s''" by code_simp
  have "MaskSensitiveData ''use Sk-a_1 now'' 20 = Some ''use *** now''"
    by (simp add: MaskSensitiveData_def keyPrefixes_def ToLower_def lower_char_def token_end_def
        mask_loop.simps HasPrefix_def mask_at_def token_char_def isAlphaNum_def)
  then show ?thesis using masked_has_no_prefix [of "''use Sk-a_1 now''" 20] by simp
qed

end
